(* ===== verification/Prelude.thy ===== *)
theory Prelude
  imports Main "HOL-Library.Word"
begin

text \<open>
  What every component shares: the proof collections of the development, Go's time and
  duration values, the functions of Go's package \<open>strings\<close> that the program calls, and
  generic lemmas on lists.

  A Go string is a sequence of bytes, so \<open>string\<close> (a list of 8-bit characters) is its
  model and \<open>length\<close> is Go's \<open>len\<close>. The case and space functions below are those of
  \<open>strings\<close> on ASCII text; on the multi-byte encodings of other code points they leave
  the bytes as they are.
\<close>

section \<open>Proof collections\<close>

named_theorems table_simps \<open>primary-key tables: rows after an insert, an update or an upsert\<close>
named_theorems keeps \<open>an operation keeps the invariant of its component\<close>
named_theorems frame \<open>an operation leaves a part of the state alone\<close>

section \<open>Time\<close>

text \<open>
  \<open>time.Time\<close> is a number of nanoseconds since the Unix epoch (Go's wall clock has a range
  of hundreds of billions of years, so it is an \<open>int\<close>); \<open>time.Duration\<close> is an
  \<open>int64\<close>, an \<open>int\<close> here whose arithmetic writes out the saturation of
  \<open>Time.Sub\<close> and the wrap-around of \<open>*\<close>.
\<close>

type_synonym gotime = int
type_synonym duration = int

definition second :: duration where "second = 1000000000"
definition minute :: duration where "minute = 60 * second"
definition hour :: duration where "hour = 60 * minute"

lemmas units = second_def minute_def hour_def

definition max_duration :: duration where "max_duration = 2 ^ 63 - 1"
definition min_duration :: duration where "min_duration = - (2 ^ 63)"

text \<open>The zero \<open>time.Time\<close>, January 1 of year 1; \<open>IsZero\<close> recognises it.\<close>

definition zero_time :: gotime where "zero_time = - 62135596800 * 1000000000"

definition is_zero :: "gotime \<Rightarrow> bool" where "is_zero t \<longleftrightarrow> t = zero_time"

text \<open>\<open>t.Sub(u)\<close> saturates at the ends of \<open>int64\<close>.\<close>

definition time_sub :: "gotime \<Rightarrow> gotime \<Rightarrow> duration" where
  "time_sub t u = max min_duration (min max_duration (t - u))"

text \<open>\<open>int64\<close> multiplication wraps around.\<close>

definition wrap64 :: "int \<Rightarrow> int" where
  "wrap64 x = (x + 2 ^ 63) mod 2 ^ 64 - 2 ^ 63"

lemma wrap64_id: "- (2 ^ 63) \<le> x \<Longrightarrow> x < 2 ^ 63 \<Longrightarrow> wrap64 x = x"
  by (simp add: wrap64_def)

lemma wrap64_range: "- (2 ^ 63) \<le> wrap64 x \<and> wrap64 x < 2 ^ 63"
proof -
  have "0 \<le> (x + 2 ^ 63) mod 2 ^ 64" and "(x + 2 ^ 63) mod 2 ^ 64 < 2 ^ 64"
    by (rule pos_mod_sign pos_mod_bound; simp)+
  then show ?thesis by (simp add: wrap64_def)
qed

lemma time_sub_le_iff:
  "min_duration < d \<Longrightarrow> d < max_duration \<Longrightarrow> (time_sub t u \<le> d) = (t - u \<le> d)"
  by (auto simp: time_sub_def)

lemma time_sub_less_iff:
  "min_duration < d \<Longrightarrow> d < max_duration \<Longrightarrow> (d < time_sub t u) = (d < t - u)"
  by (auto simp: time_sub_def)

text \<open>Go's \<open>/\<close> and \<open>%\<close> truncate towards zero.\<close>

definition quot :: "int \<Rightarrow> int \<Rightarrow> int" where
  "quot a b = sgn a * sgn b * (\<bar>a\<bar> div \<bar>b\<bar>)"

lemma quot_nonneg: "0 \<le> a \<Longrightarrow> 0 < b \<Longrightarrow> quot a b = a div b"
  by (cases "a = 0") (simp_all add: quot_def)

section \<open>Strings\<close>

definition code :: "char \<Rightarrow> nat" where "code c = of_char c"

definition is_space :: "char \<Rightarrow> bool" where
  "is_space c \<longleftrightarrow> code c = 32 \<or> (9 \<le> code c \<and> code c \<le> 13)"

definition lower_char :: "char \<Rightarrow> char" where
  "lower_char c = (if 65 \<le> code c \<and> code c \<le> 90 then char_of (code c + 32) else c)"

definition upper_char :: "char \<Rightarrow> char" where
  "upper_char c = (if 97 \<le> code c \<and> code c \<le> 122 then char_of (code c - 32) else c)"

definition to_lower :: "string \<Rightarrow> string" where "to_lower s = map lower_char s"
definition to_upper :: "string \<Rightarrow> string" where "to_upper s = map upper_char s"

definition equal_fold :: "string \<Rightarrow> string \<Rightarrow> bool" where
  "equal_fold s t \<longleftrightarrow> to_lower s = to_lower t"

definition trim_left :: "string \<Rightarrow> string" where "trim_left s = dropWhile is_space s"

definition trim_space :: "string \<Rightarrow> string" where
  "trim_space s = rev (dropWhile is_space (rev (dropWhile is_space s)))"

fun has_prefix :: "string \<Rightarrow> string \<Rightarrow> bool" where
  "has_prefix s [] = True"
| "has_prefix [] (p # ps) = False"
| "has_prefix (c # cs) (p # ps) = (c = p \<and> has_prefix cs ps)"

definition has_suffix :: "string \<Rightarrow> string \<Rightarrow> bool" where
  "has_suffix s p = has_prefix (rev s) (rev p)"

definition trim_prefix :: "string \<Rightarrow> string \<Rightarrow> string" where
  "trim_prefix s p = (if has_prefix s p then drop (length p) s else s)"

definition trim_suffix :: "string \<Rightarrow> string \<Rightarrow> string" where
  "trim_suffix s p = (if has_suffix s p then take (length s - length p) s else s)"

fun contains :: "string \<Rightarrow> string \<Rightarrow> bool" where
  "contains [] p = (p = [])"
| "contains (c # cs) p = (has_prefix (c # cs) p \<or> contains cs p)"

text \<open>\<open>strings.Split\<close> at a one-character separator, and \<open>strings.Join\<close>.\<close>

fun split_on :: "char \<Rightarrow> string \<Rightarrow> string list" where
  "split_on sep [] = [[]]"
| "split_on sep (c # cs) =
     (if c = sep then [] # split_on sep cs
      else (case split_on sep cs of [] \<Rightarrow> [[c]] | p # ps \<Rightarrow> (c # p) # ps))"

fun join :: "string \<Rightarrow> string list \<Rightarrow> string" where
  "join sep [] = []"
| "join sep [s] = s"
| "join sep (s # t # ts) = s @ sep @ join sep (t # ts)"

text \<open>Lines, each ended by a newline.\<close>

definition text_lines :: "string list \<Rightarrow> string" where
  "text_lines ls = concat (map (\<lambda>l. l @ [CHR 0x0A]) ls)"

text \<open>\<open>strings.Cut\<close> at a one-character separator: the parts before and after, if it occurs.\<close>

fun cut :: "char \<Rightarrow> string \<Rightarrow> (string \<times> string) option" where
  "cut sep [] = None"
| "cut sep (c # cs) =
     (if c = sep then Some ([], cs)
      else (case cut sep cs of None \<Rightarrow> None | Some (a, b) \<Rightarrow> Some (c # a, b)))"

lemma has_prefix_append: "has_prefix s p = (\<exists>t. s = p @ t)"
  by (induction s p rule: has_prefix.induct) auto

lemma has_prefix_self [simp]: "has_prefix (p @ t) p"
  by (simp add: has_prefix_append)

lemma contains_append: "contains s p = (\<exists>a b. s = a @ p @ b)"
proof (induction s p rule: contains.induct)
  case (1 p)
  show ?case by auto
next
  case (2 c cs p)
  show ?case
  proof
    assume "contains (c # cs) p"
    then consider "has_prefix (c # cs) p" | "contains cs p" by auto
    then show "\<exists>a b. c # cs = a @ p @ b"
    proof cases
      case 1
      then show ?thesis by (metis has_prefix_append append_Nil)
    next
      case 2
      with "2.IH" obtain a b where "cs = a @ p @ b" by blast
      then have "c # cs = (c # a) @ p @ b" by simp
      then show ?thesis by blast
    qed
  next
    assume "\<exists>a b. c # cs = a @ p @ b"
    then obtain a b where ab: "c # cs = a @ p @ b" by blast
    show "contains (c # cs) p"
    proof (cases a)
      case Nil
      with ab have "c # cs = p @ b" by simp
      then have "has_prefix (c # cs) p" unfolding has_prefix_append by blast
      then show ?thesis by simp
    next
      case (Cons x a')
      with ab have "cs = a' @ p @ b" by simp
      with "2.IH" have "contains cs p" by blast
      then show ?thesis by simp
    qed
  qed
qed

lemma split_on_nonempty [simp]: "split_on sep s \<noteq> []"
  by (cases s) (auto split: list.splits)

lemma join_cons: "ps \<noteq> [] \<Longrightarrow> join sep (p # ps) = p @ sep @ join sep ps"
  by (cases ps) auto

lemma join_split_on: "join [sep] (split_on sep s) = s"
proof (induction s)
  case Nil
  show ?case by simp
next
  case (Cons c cs)
  obtain p ps where p: "split_on sep cs = p # ps"
    by (cases "split_on sep cs") auto
  with Cons show ?case by (cases ps) auto
qed

lemma split_on_no_sep: "sep \<notin> set s \<Longrightarrow> split_on sep s = [s]"
  by (induction s) auto

lemma split_on_append_sep:
  "sep \<notin> set s \<Longrightarrow> split_on sep (s @ sep # t) = s # split_on sep t"
  by (induction s) auto

lemma split_on_join:
  "xs \<noteq> [] \<Longrightarrow> (\<And>x. x \<in> set xs \<Longrightarrow> sep \<notin> set x) \<Longrightarrow> split_on sep (join [sep] xs) = xs"
proof (induction "[sep]" xs rule: join.induct)
  case (3 s t ts)
  then show ?case by (simp add: split_on_append_sep)
qed (auto simp: split_on_no_sep)

lemma cut_Some: "cut sep s = Some (a, b) \<Longrightarrow> s = a @ sep # b \<and> sep \<notin> set a"
  by (induction s arbitrary: a) (auto split: if_splits option.splits)

lemma cut_append: "sep \<notin> set a \<Longrightarrow> cut sep (a @ sep # b) = Some (a, b)"
  by (induction a) auto

lemma trim_space_Nil [simp]: "trim_space [] = []"
  by (simp add: trim_space_def)

lemma dropWhile_rev_hd:
  "xs \<noteq> [] \<Longrightarrow> \<not> P (hd xs) \<Longrightarrow> rev (dropWhile P (rev xs)) \<noteq> [] \<and> hd (rev (dropWhile P (rev xs))) = hd xs"
  by (cases xs) (auto simp: dropWhile_append hd_append split: if_splits)

lemma trim_space_idem [simp]: "trim_space (trim_space s) = trim_space s"
proof -
  let ?u = "dropWhile is_space s"
  let ?v = "rev (dropWhile is_space (rev ?u))"
  have v: "trim_space s = ?v" by (simp add: trim_space_def)
  have "dropWhile is_space ?v = ?v"
  proof (cases "?u = []")
    case True
    then show ?thesis by (simp only: rev.simps dropWhile.simps)
  next
    case False
    then have "\<not> is_space (hd ?u)" by (rule hd_dropWhile)
    with False have "?v \<noteq> []" and "hd ?v = hd ?u"
      using dropWhile_rev_hd [of ?u is_space] by auto
    with \<open>\<not> is_space (hd ?u)\<close> show ?thesis by (metis dropWhile_eq_self_iff)
  qed
  then show ?thesis unfolding v trim_space_def by simp
qed

lemma trim_space_no_space:
  "(\<And>c. c \<in> set s \<Longrightarrow> \<not> is_space c) \<Longrightarrow> trim_space s = s"
proof -
  assume s: "\<And>c. c \<in> set s \<Longrightarrow> \<not> is_space c"
  have "dropWhile is_space xs = xs" if "set xs \<subseteq> set s" for xs
    using that s by (cases xs) auto
  then show ?thesis by (simp add: trim_space_def)
qed

lemma trim_space_subset: "set (trim_space s) \<subseteq> set s"
  unfolding trim_space_def by (auto dest!: set_dropWhileD)

lemma equal_fold_refl [simp]: "equal_fold s s"
  by (simp add: equal_fold_def)

text \<open>For the evaluation of the case functions on literals.\<close>

lemmas char_eval = to_lower_def to_upper_def lower_char_def upper_char_def code_def char_of_def bit_iff_odd

section \<open>Hexadecimal\<close>

text \<open>\<open>encoding/hex\<close>: two lower-case digits for each byte.\<close>

definition hex_digit :: "nat \<Rightarrow> char" where
  "hex_digit n = (if n < 10 then char_of (48 + n) else char_of (87 + n))"

fun hex_encode :: "char list \<Rightarrow> string" where
  "hex_encode [] = []"
| "hex_encode (b # bs) = hex_digit (code b div 16) # hex_digit (code b mod 16) # hex_encode bs"

definition hex_value :: "char \<Rightarrow> nat option" where
  "hex_value c =
     (if 48 \<le> code c \<and> code c \<le> 57 then Some (code c - 48)
      else if 97 \<le> code c \<and> code c \<le> 102 then Some (code c - 87)
      else if 65 \<le> code c \<and> code c \<le> 70 then Some (code c - 55)
      else None)"

fun hex_decode :: "string \<Rightarrow> char list option" where
  "hex_decode [] = Some []"
| "hex_decode [c] = None"
| "hex_decode (c # d # cs) =
     (case (hex_value c, hex_value d, hex_decode cs) of
        (Some x, Some y, Some bs) \<Rightarrow> Some (char_of (16 * x + y) # bs)
      | _ \<Rightarrow> None)"

lemma code_char_of: "n < 256 \<Longrightarrow> code (char_of n) = n"
  by (simp add: code_def)

lemma code_bound: "code c < 256"
  by (simp add: code_def)

lemma hex_value_digit: "n < 16 \<Longrightarrow> hex_value (hex_digit n) = Some n"
  by (auto simp: hex_value_def hex_digit_def code_char_of)

lemma length_hex_encode [simp]: "length (hex_encode bs) = 2 * length bs"
  by (induction bs) auto

lemma hex_decode_encode: "hex_decode (hex_encode bs) = Some bs"
proof (induction bs)
  case Nil
  show ?case by simp
next
  case (Cons b bs)
  have lt: "code b div 16 < 16" and lt': "code b mod 16 < 16"
    using code_bound [of b] by auto
  have "char_of (16 * (code b div 16) + code b mod 16) = b"
    by (simp only: mult_div_mod_eq) (simp add: code_def)
  with Cons lt lt' show ?case by (simp add: hex_value_digit)
qed

lemma hex_encode_inject: "hex_encode xs = hex_encode ys \<Longrightarrow> xs = ys"
  by (metis hex_decode_encode option.inject)

section \<open>Results\<close>

text \<open>Sequencing of Go's \<open>(value, error)\<close> results: an error returns at once.\<close>

definition bindE :: "('e + 'a) \<Rightarrow> ('a \<Rightarrow> 'e + 'b) \<Rightarrow> 'e + 'b" where
  "bindE r f = (case r of Inl e \<Rightarrow> Inl e | Inr x \<Rightarrow> f x)"

lemma bindE_simps [simp]: "bindE (Inl e) f = Inl e" "bindE (Inr x) f = f x"
  by (simp_all add: bindE_def)

lemma bindE_eq_Inr: "bindE r f = Inr y \<longleftrightarrow> (\<exists>x. r = Inr x \<and> f x = Inr y)"
  by (cases r) auto

section \<open>Sorting as \<open>ORDER BY\<close>\<close>

text \<open>
  \<open>ORDER BY k DESC\<close> of a query: a stable sort, so rows of equal keys come in the order of
  insertion (the order SQLite's sorter gives them; SQL itself leaves it open).
\<close>

definition order_desc :: "('r \<Rightarrow> 'k::linorder) \<Rightarrow> 'r list \<Rightarrow> 'r list" where
  "order_desc k rows = rev (sort_key k (rev rows))"

lemma set_order_desc [simp]: "set (order_desc k rows) = set rows"
  by (simp add: order_desc_def)

lemma length_order_desc [simp]: "length (order_desc k rows) = length rows"
  by (simp add: order_desc_def)

lemma order_desc_Nil [simp]: "order_desc k [] = []"
  by (simp add: order_desc_def)

lemma order_desc_sorted: "sorted (map k (rev (order_desc k rows)))"
  by (simp add: order_desc_def)

lemma insort_key_append_max:
  "(\<And>y. y \<in> set xs \<Longrightarrow> k y < k x) \<Longrightarrow> insort_key k x xs = xs @ [x]"
proof (induction xs)
  case (Cons a xs)
  then have "k a < k x" and "insort_key k x xs = xs @ [x]" by auto
  then show ?case by (auto dest: leD)
qed simp

lemma sorted_map_rev_lt:
  "sorted_wrt (\<lambda>x y. k x < k y) rows \<Longrightarrow> sort_key k (rev rows) = rows"
proof (induction rows rule: rev_induct)
  case Nil
  show ?case by simp
next
  case (snoc x xs)
  then have "sort_key k (rev xs) = xs" and "\<And>y. y \<in> set xs \<Longrightarrow> k y < k x"
    by (auto simp: sorted_wrt_append)
  then show ?case by (simp add: insort_key_append_max)
qed

text \<open>Rows inserted with increasing keys come back in reverse order of insertion.\<close>

lemma order_desc_increasing:
  "sorted_wrt (\<lambda>x y. k x < k y) rows \<Longrightarrow> order_desc k rows = rev rows"
  by (simp add: order_desc_def sorted_map_rev_lt)

lemma order_desc_hd_max:
  assumes "rows \<noteq> []" and "r \<in> set rows"
  shows "k r \<le> k (hd (order_desc k rows))"
proof -
  let ?s = "sort_key k (rev rows)"
  have ne: "?s \<noteq> []" using assms(1) by (metis set_empty set_rev set_sort)
  have "hd (order_desc k rows) = last ?s" using ne by (simp add: order_desc_def hd_rev)
  moreover have "r \<in> set ?s" using assms(2) by simp
  then obtain i where i: "i < length ?s" "?s ! i = r" by (meson in_set_conv_nth)
  have "sorted (map k ?s)" by (rule sorted_sort_key)
  then have "map k ?s ! i \<le> map k ?s ! (length ?s - 1)"
    by (rule sorted_nth_mono) (use i in auto)
  then have "k r \<le> k (last ?s)" using i ne by (simp add: last_conv_nth)
  ultimately show ?thesis by simp
qed

end
