(* ===== verification/Tables.thy ===== *)
theory Tables
  imports Prelude
begin

text \<open>
  Tables with a primary key, as the SQL statements of \<open>internal/db\<close> use them: the rows in
  order of insertion, a \<open>SELECT ... WHERE key = ?\<close>, an \<open>UPDATE\<close>, an \<open>INSERT\<close> and an
  \<open>INSERT ... ON CONFLICT DO UPDATE\<close>. The locale \<open>keyed_table\<close> states what a table
  promises (it behaves as a finite map from keys to rows, and keys stay distinct) and
  \<open>unique_table\<close> adds a second \<open>UNIQUE\<close> column; both are interpreted on every table of
  the store.
\<close>

definition row_find :: "('r \<Rightarrow> 'k) \<Rightarrow> 'r list \<Rightarrow> 'k \<Rightarrow> 'r option" where
  "row_find key rows k = find (\<lambda>r. key r = k) rows"

definition row_exists :: "('r \<Rightarrow> 'k) \<Rightarrow> 'k \<Rightarrow> 'r list \<Rightarrow> bool" where
  "row_exists key k rows = list_ex (\<lambda>r. key r = k) rows"

definition row_update :: "('r \<Rightarrow> 'k) \<Rightarrow> 'k \<Rightarrow> ('r \<Rightarrow> 'r) \<Rightarrow> 'r list \<Rightarrow> 'r list" where
  "row_update key k f rows = map (\<lambda>r. if key r = k then f r else r) rows"

definition row_upsert :: "('r \<Rightarrow> 'k) \<Rightarrow> ('r \<Rightarrow> 'r \<Rightarrow> 'r) \<Rightarrow> 'r \<Rightarrow> 'r list \<Rightarrow> 'r list" where
  "row_upsert key merge n rows =
     (if row_exists key (key n) rows then row_update key (key n) (\<lambda>old. merge old n) rows
      else rows @ [n])"

lemma row_exists_iff: "row_exists key k rows \<longleftrightarrow> k \<in> key ` set rows"
  by (auto simp: row_exists_def list_ex_iff)

lemma row_find_None: "row_find key rows k = None \<longleftrightarrow> \<not> row_exists key k rows"
  by (auto simp: row_find_def row_exists_def find_None_iff list_ex_iff)

lemma row_find_Some_iff: "(\<exists>r. row_find key rows k = Some r) \<longleftrightarrow> row_exists key k rows"
  by (metis not_None_eq row_find_None)

lemma row_find_SomeD: "row_find key rows k = Some r \<Longrightarrow> r \<in> set rows \<and> key r = k"
  by (auto simp: row_find_def find_Some_iff)

lemma row_find_distinct:
  "distinct (map key rows) \<Longrightarrow> r \<in> set rows \<Longrightarrow> row_find key rows (key r) = Some r"
  by (induction rows) (auto simp: row_find_def)

lemma row_find_append [table_simps]:
  "\<not> row_exists key (key n) rows \<Longrightarrow> row_find key (rows @ [n]) = (row_find key rows)(key n \<mapsto> n)"
  by (rule ext, induction rows) (auto simp: row_find_def row_exists_def)

lemma row_exists_append [table_simps]:
  "row_exists key k (rows @ [n]) \<longleftrightarrow> k = key n \<or> row_exists key k rows"
  by (auto simp: row_exists_iff)

lemma distinct_append_row [table_simps]:
  "\<not> row_exists key (key n) rows \<Longrightarrow> distinct (map key (rows @ [n])) = distinct (map key rows)"
  by (auto simp: row_exists_iff)

lemma row_update_keys:
  "(\<And>r. key (f r) = key r) \<Longrightarrow> map key (row_update key k f rows) = map key rows"
  by (simp add: row_update_def)

lemma row_exists_update [table_simps]:
  "(\<And>r. key (f r) = key r) \<Longrightarrow> row_exists key k' (row_update key k f rows) = row_exists key k' rows"
  unfolding row_exists_def row_update_def by (induction rows) auto

lemma row_find_update [table_simps]:
  "(\<And>r. key (f r) = key r) \<Longrightarrow>
    row_find key (row_update key k f rows) k' =
      (if k' = k then map_option f (row_find key rows k) else row_find key rows k')"
  unfolding row_find_def row_update_def by (induction rows) auto

lemma row_update_absent: "\<not> row_exists key k rows \<Longrightarrow> row_update key k f rows = rows"
  unfolding row_exists_def row_update_def by (induction rows) auto

lemma length_row_update [simp]: "length (row_update key k f rows) = length rows"
  by (simp add: row_update_def)

section \<open>Tables with a primary key\<close>

locale keyed_table =
  fixes key :: "'r \<Rightarrow> 'k"
    and merge :: "'r \<Rightarrow> 'r \<Rightarrow> 'r"
  assumes key_merge: "key (merge old n) = key old"
begin

lemma find_upsert:
  "row_find key (row_upsert key merge n rows) =
     (row_find key rows)(key n \<mapsto> (case row_find key rows (key n) of None \<Rightarrow> n | Some old \<Rightarrow> merge old n))"
proof (cases "row_exists key (key n) rows")
  case True
  then obtain old where "row_find key rows (key n) = Some old"
    using row_find_Some_iff [of key rows "key n"] by blast
  with True show ?thesis
    by (auto simp: row_upsert_def row_find_update key_merge)
next
  case False
  then have "row_find key rows (key n) = None" by (simp add: row_find_None)
  with False show ?thesis by (simp add: row_upsert_def row_find_append)
qed

lemma exists_upsert:
  "row_exists key k (row_upsert key merge n rows) \<longleftrightarrow> k = key n \<or> row_exists key k rows"
  by (auto simp: row_upsert_def row_exists_append row_exists_update key_merge)

lemma distinct_upsert:
  "distinct (map key rows) \<Longrightarrow> distinct (map key (row_upsert key merge n rows))"
  by (cases "row_exists key (key n) rows")
    (simp_all add: row_upsert_def distinct_append_row row_update_keys key_merge del: map_append)

lemma length_upsert:
  "length (row_upsert key merge n rows) =
     (if row_exists key (key n) rows then length rows else Suc (length rows))"
  by (simp add: row_upsert_def)

lemma set_upsert: "set (row_upsert key merge n rows) \<subseteq> set rows \<union> {n} \<union> {merge old n |old. old \<in> set rows \<and> key old = key n}"
  by (auto simp: row_upsert_def row_update_def)

end

section \<open>Tables with a second unique column\<close>

locale unique_table = keyed_table key merge
  for key :: "'r \<Rightarrow> 'k" and merge :: "'r \<Rightarrow> 'r \<Rightarrow> 'r" +
  fixes uniq :: "'r \<Rightarrow> 'u"
  assumes uniq_merge: "uniq (merge old n) = uniq n"
begin

lemma distinct_uniq_update:
  assumes "distinct (map key rows)" and "distinct (map uniq rows)"
    and "\<And>r. r \<in> set rows \<Longrightarrow> key r \<noteq> key n \<Longrightarrow> uniq r \<noteq> uniq n"
  shows "distinct (map uniq (row_update key (key n) (\<lambda>old. merge old n) rows))"
  using assms
proof (induction rows)
  case Nil
  then show ?case by (simp add: row_update_def)
next
  case (Cons r rows)
  have IH: "distinct (map uniq (row_update key (key n) (\<lambda>old. merge old n) rows))"
    using Cons by auto
  show ?case
  proof (cases "key r = key n")
    case True
    then have "key n \<notin> key ` set rows" using Cons.prems(1) by auto
    then have "row_update key (key n) (\<lambda>old. merge old n) rows = rows"
      by (intro row_update_absent) (simp add: row_exists_iff)
    moreover have "uniq n \<notin> uniq ` set rows"
    proof
      assume "uniq n \<in> uniq ` set rows"
      then obtain r' where r': "r' \<in> set rows" "uniq r' = uniq n" by auto
      with \<open>key n \<notin> key ` set rows\<close> have "key r' \<noteq> key n" by (metis imageI)
      with Cons.prems(3) r' show False by auto
    qed
    ultimately show ?thesis using True Cons.prems by (auto simp: row_update_def uniq_merge)
  next
    case False
    then have "uniq r \<noteq> uniq n" using Cons.prems(3) by auto
    moreover have "uniq r \<notin> uniq ` set rows" using Cons.prems(2) by auto
    ultimately have "uniq r \<notin> uniq ` set (row_update key (key n) (\<lambda>old. merge old n) rows)"
      by (auto simp: row_update_def uniq_merge)
    with IH False show ?thesis by (auto simp: row_update_def)
  qed
qed

lemma distinct_uniq_upsert:
  assumes "distinct (map key rows)" and "distinct (map uniq rows)"
    and "\<not> list_ex (\<lambda>r. key r \<noteq> key n \<and> uniq r = uniq n) rows"
  shows "distinct (map uniq (row_upsert key merge n rows))"
proof (cases "row_exists key (key n) rows")
  case True
  with assms show ?thesis
    by (auto simp: row_upsert_def list_ex_iff intro!: distinct_uniq_update)
next
  case False
  have "uniq n \<notin> uniq ` set rows"
  proof
    assume "uniq n \<in> uniq ` set rows"
    then obtain r where r: "r \<in> set rows" "uniq r = uniq n" by auto
    with False have "key r \<noteq> key n" by (metis row_exists_iff imageI)
    with r assms(3) show False by (auto simp: list_ex_iff)
  qed
  with False assms(2) show ?thesis by (simp add: row_upsert_def)
qed

end

end
