(* ===== verification/Clock.thy ===== *)
theory Clock
  imports Prelude
begin

text \<open>
  The functions of Go's package \<open>time\<close> that the program calls, on UTC times:
  \<open>Format(time.RFC3339)\<close>, the start of a day, \<open>Duration.String\<close> and
  \<open>time.ParseDuration\<close>. The calendar is the proleptic Gregorian one. A fraction in a
  duration (\<open>1.5h\<close>) is computed exactly here and in \<open>float64\<close> by Go, so a parsed
  fraction can differ in the last nanosecond; durations without a fraction are exact.
\<close>

section \<open>Decimal numbers\<close>

fun show_nat :: "nat \<Rightarrow> string" where
  "show_nat n = (if n < 10 then [char_of (48 + n)] else show_nat (n div 10) @ [char_of (48 + n mod 10)])"

declare show_nat.simps [simp del]

definition show_int :: "int \<Rightarrow> string" where
  "show_int i = (if i < 0 then CHR ''-'' # show_nat (nat (- i)) else show_nat (nat i))"

definition pad0 :: "nat \<Rightarrow> string \<Rightarrow> string" where
  "pad0 w s = replicate (w - length s) CHR ''0'' @ s"

definition is_digit :: "char \<Rightarrow> bool" where
  "is_digit c \<longleftrightarrow> 48 \<le> code c \<and> code c \<le> 57"

definition digits_value :: "string \<Rightarrow> int" where
  "digits_value ds = fold (\<lambda>c v. 10 * v + int (code c - 48)) ds 0"

text \<open>\<open>strconv.Atoi\<close>: an optional sign and decimal digits, within \<open>int64\<close>.\<close>

definition atoi :: "string \<Rightarrow> int option" where
  "atoi s =
     (let neg = (s \<noteq> [] \<and> hd s = CHR ''-'');
          ds = (if s \<noteq> [] \<and> (hd s = CHR ''-'' \<or> hd s = CHR ''+'') then tl s else s);
          v = (if neg then - digits_value ds else digits_value ds)
      in if ds = [] \<or> \<not> list_all is_digit ds then None
         else if - (2 ^ 63) \<le> v \<and> v < 2 ^ 63 then Some v else None)"

lemma digits_value_snoc: "digits_value (ds @ [c]) = 10 * digits_value ds + int (code c - 48)"
  by (simp add: digits_value_def)

lemma digits_value_show_nat: "digits_value (show_nat n) = int n"
proof (induction n rule: show_nat.induct)
  case (1 n)
  show ?case
  proof (cases "n < 10")
    case True
    then show ?thesis by (simp add: show_nat.simps [of n] digits_value_def code_char_of)
  next
    case False
    have "int n = 10 * int (n div 10) + int (n mod 10)" by presburger
    with 1 False show ?thesis
      by (simp add: show_nat.simps [of n] digits_value_snoc code_char_of)
  qed
qed

lemma show_nat_digits: "show_nat n \<noteq> [] \<and> list_all is_digit (show_nat n)"
proof (induction n rule: show_nat.induct)
  case (1 n)
  have "n mod 10 \<le> 9" by presburger
  with 1 show ?case by (simp add: show_nat.simps [of n] is_digit_def code_char_of)
qed

lemma show_nat_inject: "show_nat m = show_nat n \<Longrightarrow> m = n"
  by (metis digits_value_show_nat of_nat_eq_iff)

lemma atoi_show_int: "- (2 ^ 63) \<le> i \<Longrightarrow> i < 2 ^ 63 \<Longrightarrow> atoi (show_int i) = Some i"
proof -
  assume i: "- (2 ^ 63) \<le> i" "i < 2 ^ 63"
  show ?thesis
  proof (cases "i < 0")
    case True
    with i show ?thesis
      by (simp add: atoi_def show_int_def digits_value_show_nat show_nat_digits)
  next
    case False
    have "is_digit (hd (show_nat (nat i)))"
      using show_nat_digits [of "nat i"] by (cases "show_nat (nat i)") auto
    then have "hd (show_nat (nat i)) \<noteq> CHR ''-''" and "hd (show_nat (nat i)) \<noteq> CHR ''+''"
      by (auto simp: is_digit_def code_def)
    with i False show ?thesis
      by (simp add: atoi_def show_int_def digits_value_show_nat show_nat_digits)
  qed
qed

section \<open>Calendar\<close>

definition day_ns :: int where "day_ns = 24 * hour"

text \<open>The civil date (year, month, day) of a number of days since 1970-01-01.\<close>

definition civil :: "int \<Rightarrow> int \<times> int \<times> int" where
  "civil days =
     (let z = days + 719468;
          era = z div 146097;
          doe = z mod 146097;
          yoe = (doe - doe div 1460 + doe div 36524 - doe div 146096) div 365;
          doy = doe - (365 * yoe + yoe div 4 - yoe div 100);
          mp = (5 * doy + 2) div 153;
          d = doy - (153 * mp + 2) div 5 + 1;
          m = (if mp < 10 then mp + 3 else mp - 9);
          y = yoe + 400 * era + (if m \<le> 2 then 1 else 0)
      in (y, m, d))"

definition rfc3339_seconds :: "int \<Rightarrow> string" where
  "rfc3339_seconds secs =
     (let (y, m, d) = civil (secs div 86400); r = secs mod 86400;
          two = (\<lambda>n. pad0 2 (show_int n))
      in pad0 4 (show_int y) @ ''-'' @ two m @ ''-'' @ two d @ ''T'' @
         two (r div 3600) @ '':'' @ two (r mod 3600 div 60) @ '':'' @ two (r mod 60) @ ''Z'')"

definition rfc3339 :: "gotime \<Rightarrow> string" where
  "rfc3339 t = rfc3339_seconds (t div second)"

text \<open>The format has a resolution of one second.\<close>

lemma rfc3339_same_second: "t div second = u div second \<Longrightarrow> rfc3339 t = rfc3339 u"
  by (simp add: rfc3339_def)

definition start_of_day :: "gotime \<Rightarrow> gotime" where
  "start_of_day t = t - t mod day_ns"

lemma start_of_day_le: "start_of_day t \<le> t"
  by (simp add: start_of_day_def day_ns_def units)

lemma start_of_day_within: "t < start_of_day t + day_ns"
proof -
  have "t mod day_ns < day_ns" by (rule pos_mod_bound) (simp add: day_ns_def units)
  then show ?thesis by (simp add: start_of_day_def)
qed

section \<open>Durations as text\<close>

definition strip0 :: "string \<Rightarrow> string" where
  "strip0 s = rev (dropWhile (\<lambda>c. c = CHR ''0'') (rev s))"

text \<open>A number of units of \<open>10 ^ k\<close> nanoseconds with its fraction, trailing zeros dropped.\<close>

definition show_frac :: "nat \<Rightarrow> nat \<Rightarrow> string" where
  "show_frac v k =
     (let f = strip0 (pad0 k (show_nat (v mod 10 ^ k)))
      in show_nat (v div 10 ^ k) @ (if f = [] \<or> k = 0 then [] else CHR ''.'' # f))"

definition show_duration :: "duration \<Rightarrow> string" where
  "show_duration d =
     (let u = nat \<bar>d\<bar>;
          body =
            (if u = 0 then ''0s''
             else if u < 1000 then show_nat u @ ''ns''
             else if u < 1000000 then show_frac u 3 @ [char_of (194::nat), char_of (181::nat)] @ ''s''
             else if u < 1000000000 then show_frac u 6 @ ''ms''
             else (let s = u div 1000000000; m = s div 60; h = m div 60;
                       secs = show_frac (u mod 60000000000) 9 @ ''s''
                   in if m = 0 then secs
                      else if h = 0 then show_nat m @ ''m'' @ secs
                      else show_nat h @ ''h'' @ show_nat (m mod 60) @ ''m'' @ secs))
      in if d < 0 then CHR ''-'' # body else body)"

section \<open>Durations from text\<close>

definition unit_of :: "string \<Rightarrow> int option" where
  "unit_of u =
     (if u = ''ns'' then Some 1
      else if u = ''us'' \<or> u = [char_of (194::nat), char_of (181::nat), CHR ''s'']
            \<or> u = [char_of (206::nat), char_of (188::nat), CHR ''s''] then Some 1000
      else if u = ''ms'' then Some 1000000
      else if u = ''s'' then Some second
      else if u = ''m'' then Some minute
      else if u = ''h'' then Some hour
      else None)"

definition two63 :: int where "two63 = 2 ^ 63"

text \<open>One number with its unit: its value in nanoseconds and the text after it.\<close>

definition parse_one :: "string \<Rightarrow> (int \<times> string) option" where
  "parse_one s =
     (let ds = takeWhile is_digit s;
          s1 = dropWhile is_digit s;
          dot = (s1 \<noteq> [] \<and> hd s1 = CHR ''.'');
          s2 = (if dot then tl s1 else s1);
          fs = (if dot then takeWhile is_digit s2 else []);
          s3 = (if dot then dropWhile is_digit s2 else s2);
          v = digits_value ds;
          u = takeWhile (\<lambda>c. c \<noteq> CHR ''.'' \<and> \<not> is_digit c) s3;
          s4 = dropWhile (\<lambda>c. c \<noteq> CHR ''.'' \<and> \<not> is_digit c) s3
      in if ds = [] \<and> fs = [] then None
         else if v > two63 then None
         else (case unit_of u of
                 None \<Rightarrow> None
               | Some n \<Rightarrow>
                   (let w = v * n + digits_value fs * n div 10 ^ length fs
                    in if v > two63 div n \<or> w > two63 then None else Some (w, s4))))"

lemma parse_one_shorter: "parse_one s = Some (v, s') \<Longrightarrow> length s' < length s"
proof -
  assume a: "parse_one s = Some (v, s')"
  define ds s1 where d: "ds = takeWhile is_digit s" "s1 = dropWhile is_digit s"
  define dot where "dot = (s1 \<noteq> [] \<and> hd s1 = CHR ''.'')"
  define s2 where "s2 = (if dot then tl s1 else s1)"
  define fs where "fs = (if dot then takeWhile is_digit s2 else [])"
  define s3 where "s3 = (if dot then dropWhile is_digit s2 else s2)"
  define s4 where "s4 = dropWhile (\<lambda>c. c \<noteq> CHR ''.'' \<and> \<not> is_digit c) s3"
  have ne: "ds \<noteq> [] \<or> fs \<noteq> []" and s': "s' = s4"
    using a unfolding parse_one_def Let_def d dot_def s2_def fs_def s3_def s4_def
    by (auto split: if_splits option.splits)
  have l: "length s = length ds + length s1"
    unfolding d by (metis length_append takeWhile_dropWhile_id)
  have "length s4 \<le> length s3" unfolding s4_def by (rule length_dropWhile_le)
  moreover have "length s3 \<le> length s2" unfolding s3_def by (simp add: length_dropWhile_le)
  moreover have "length s2 \<le> length s1" unfolding s2_def by simp
  moreover have "dot \<Longrightarrow> length s2 < length s1"
    unfolding s2_def dot_def by (cases s1) auto
  moreover have "fs \<noteq> [] \<Longrightarrow> dot" unfolding fs_def by (simp split: if_splits)
  ultimately show ?thesis using ne l s' by (cases "ds = []") (auto, cases ds, auto)
qed

function parse_units :: "string \<Rightarrow> int \<Rightarrow> int option" where
  "parse_units s d =
     (if s = [] then Some d
      else (case parse_one s of
              None \<Rightarrow> None
            | Some (v, s') \<Rightarrow> if d + v > two63 then None else parse_units s' (d + v)))"
  by pat_completeness auto
termination
  by (relation "measure (\<lambda>(s, d). length s)") (auto dest: parse_one_shorter)

declare parse_units.simps [simp del]

definition parse_duration :: "string \<Rightarrow> duration option" where
  "parse_duration s =
     (let neg = (s \<noteq> [] \<and> hd s = CHR ''-'');
          s1 = (if s \<noteq> [] \<and> (hd s = CHR ''-'' \<or> hd s = CHR ''+'') then tl s else s)
      in if s1 = ''0'' then Some 0
         else if s1 = [] then None
         else (case parse_units s1 0 of
                 None \<Rightarrow> None
               | Some d \<Rightarrow>
                   if neg then Some (- d) else if d > two63 - 1 then None else Some d))"

lemma digits_value_nonneg: "0 \<le> digits_value ds"
proof -
  have "0 \<le> v \<Longrightarrow> 0 \<le> fold (\<lambda>c v. 10 * v + int (code c - 48)) ds v" for v
    by (induction ds arbitrary: v) auto
  then show ?thesis by (simp add: digits_value_def)
qed

lemma unit_of_pos: "unit_of u = Some n \<Longrightarrow> 0 < n"
  by (auto simp: unit_of_def units split: if_splits)

lemma parse_one_bounds: "parse_one s = Some (v, s') \<Longrightarrow> 0 \<le> v \<and> v \<le> two63"
  using digits_value_nonneg
  by (auto simp: parse_one_def Let_def dest!: unit_of_pos split: if_splits option.splits
      intro!: add_nonneg_nonneg mult_nonneg_nonneg pos_imp_zdiv_nonneg_iff [THEN iffD2])

lemma parse_units_bounds:
  "0 \<le> d \<Longrightarrow> parse_units s d = Some r \<Longrightarrow> d \<le> two63 \<Longrightarrow> 0 \<le> r \<and> r \<le> two63"
proof (induction s d rule: parse_units.induct)
  case (1 s d)
  show ?case
  proof (cases "s = []")
    case True
    with "1.prems" show ?thesis by (simp add: parse_units.simps)
  next
    case False
    with "1.prems" obtain v s' where p: "parse_one s = Some (v, s')"
      and le: "d + v \<le> two63" and r: "parse_units s' (d + v) = Some r"
      by (auto simp: parse_units.simps [of s d] split: option.splits if_splits)
    have "0 \<le> v" using parse_one_bounds [OF p] by simp
    with "1.IH" [OF False p refl] le r "1.prems" show ?thesis by auto
  qed
qed

text \<open>A parsed duration is an \<open>int64\<close>.\<close>

lemma parse_duration_range:
  "parse_duration s = Some d \<Longrightarrow> min_duration \<le> d \<and> d \<le> max_duration"
  using parse_units_bounds [of 0]
  by (fastforce simp: parse_duration_def Let_def min_duration_def max_duration_def two63_def
      split: if_splits option.splits)

end
