(* ===== verification/Store.thy ===== *)
theory Store
  imports Tables Clock "HOL-Library.Char_ord" "HOL-Library.List_Lexorder" "HOL-Library.Product_Lexorder"
begin

text \<open>
  The SQL store: \<open>internal/db/store.go\<close> (the rows), \<open>migrations.go\<close> (the tables and
  their constraints) and \<open>repositories.go\<close> (one definition for each repository method).

  A table is the list of its rows in order of insertion. An operation first needs its table
  (\<open>NoSuchTable\<close> before the migrations have run); an \<open>INSERT\<close> is refused by its
  \<open>CHECK\<close>, \<open>UNIQUE\<close> and \<open>FOREIGN KEY\<close> constraints in this order, the last only when the
  connection enforces foreign keys (\<open>_foreign_keys=on\<close> in the DSN, \<open>st_fk\<close> here). The
  spans and metrics that every method records have no effect on the store and are not part
  of the model; neither are failures of the disk or the driver.
\<close>

section \<open>Rows\<close>

record bootstrap_token =
  bt_id :: string
  bt_token_hash :: string
  bt_hostname :: string
  bt_expires_at :: gotime
  bt_revoked_at :: "gotime option"
  bt_created_at :: gotime

record token_usage =
  tu_count :: nat
  tu_last_used_at :: "gotime option"
  tu_enrollment_id :: string
  tu_enrollment_host :: string

record enrollment =
  en_id :: string
  en_hostname :: string
  en_machine_id :: string
  en_mac :: string
  en_token_id :: string
  en_created_at :: gotime

record issued_certificate =
  ic_serial :: string
  ic_ca_id :: string
  ic_enrollment_id :: string
  ic_subject :: string
  ic_dns_names :: string
  ic_pem :: string
  ic_not_before :: gotime
  ic_not_after :: gotime
  ic_revoked_at :: "gotime option"
  ic_created_at :: gotime

record revoked_certificate =
  rc_serial :: string
  rc_reason :: string
  rc_revoked_at :: gotime

record audit_log =
  al_id :: string
  al_action :: string
  al_actor :: string
  al_target :: string
  al_metadata :: string
  al_trace_id :: string
  al_prev_hash :: string
  al_hash :: string
  al_created_at :: gotime

record ca_config =
  cc_id :: string
  cc_name :: string
  cc_root_fingerprint :: string
  cc_intermediate_fingerprint :: string
  cc_status :: string
  cc_created_at :: gotime
  cc_not_before :: gotime
  cc_not_after :: gotime

record root_ca =
  rt_id :: string
  rt_name :: string
  rt_environment :: string
  rt_fingerprint :: string
  rt_status :: string
  rt_trust_domain :: string
  rt_created_at :: gotime
  rt_not_before :: gotime
  rt_not_after :: gotime

record intermediate_ca =
  im_id :: string
  im_root_id :: string
  im_name :: string
  im_environment :: string
  im_owner :: string
  im_namespace :: string
  im_fingerprint :: string
  im_status :: string
  im_max_ttl :: duration
  im_allowed_dns :: string
  im_allowed_usages :: string
  im_require_approval :: bool
  im_issuance_limit :: int
  im_renewal_allowed :: bool
  im_created_at :: gotime
  im_not_before :: gotime
  im_not_after :: gotime

record ca_role =
  ro_id :: string
  ro_name :: string
  ro_subject :: string
  ro_intermediate_id :: string
  ro_permissions :: string
  ro_created_at :: gotime

record ca_token_policy =
  tp_id :: string
  tp_name :: string
  tp_intermediate_id :: string
  tp_certificate_types :: string
  tp_allowed_dns :: string
  tp_max_ttl :: duration
  tp_issuance_limit :: int
  tp_renewal_allowed :: bool
  tp_require_approval :: bool
  tp_created_at :: gotime
  tp_expires_at :: gotime

record store =
  st_tables :: "string list"
  st_fk :: bool
  st_roots :: "root_ca list"
  st_intermediates :: "intermediate_ca list"
  st_roles :: "ca_role list"
  st_policies :: "ca_token_policy list"
  st_ca_configs :: "ca_config list"
  st_tokens :: "bootstrap_token list"
  st_enrollments :: "enrollment list"
  st_certs :: "issued_certificate list"
  st_revoked :: "revoked_certificate list"
  st_audit :: "audit_log list"

datatype db_error =
    ErrNotFound
  | StoreUninitialized
  | NoSuchTable string
  | CheckViolation string
  | UniqueViolation string
  | ForeignKeyViolation
  | ScanError

section \<open>Schema\<close>

definition schema_tables :: "string list" where
  "schema_tables =
     [''root_cas'', ''intermediate_cas'', ''ca_roles'', ''ca_token_policies'', ''ca_config'',
      ''bootstrap_tokens'', ''enrollments'', ''issued_certificates'', ''revoked_certificates'',
      ''audit_logs'']"

definition root_status_ok :: "string \<Rightarrow> bool" where
  "root_status_ok x \<longleftrightarrow> x \<in> set [''active'', ''disabled'', ''retired'', ''testing'']"

definition intermediate_status_ok :: "string \<Rightarrow> bool" where
  "intermediate_status_ok x \<longleftrightarrow> x \<in> set [''active'', ''disabled'', ''retired'', ''pending'', ''testing'']"

definition ca_config_status_ok :: "string \<Rightarrow> bool" where
  "ca_config_status_ok x \<longleftrightarrow> x \<in> set [''active'', ''disabled'', ''retired'']"

text \<open>A fresh database: no table yet.\<close>

definition empty_store :: "bool \<Rightarrow> store" where
  "empty_store fk = \<lparr>st_tables = [], st_fk = fk, st_roots = [], st_intermediates = [], st_roles = [],
     st_policies = [], st_ca_configs = [], st_tokens = [], st_enrollments = [], st_certs = [],
     st_revoked = [], st_audit = []\<rparr>"

text \<open>\<open>CREATE TABLE IF NOT EXISTS\<close> for every table; existing rows stay.\<close>

definition migrate :: "store \<Rightarrow> store" where
  "migrate s = s\<lparr>st_tables := st_tables s @ filter (\<lambda>t. t \<notin> set (st_tables s)) schema_tables\<rparr>"

definition need :: "string \<Rightarrow> store \<Rightarrow> (db_error + 'a) \<Rightarrow> db_error + 'a" where
  "need t s r = (if t \<in> set (st_tables s) then r else Inl (NoSuchTable t))"

lemma need_Inr [simp]: "need t s r = Inr x \<longleftrightarrow> t \<in> set (st_tables s) \<and> r = Inr x"
  by (simp add: need_def)

lemma need_migrate [simp]: "t \<in> set schema_tables \<Longrightarrow> need t (migrate s) r = r"
  by (auto simp: need_def migrate_def)

section \<open>Bootstrap tokens\<close>

definition create_bootstrap_token :: "store \<Rightarrow> bootstrap_token \<Rightarrow> db_error + store" where
  "create_bootstrap_token s t = need ''bootstrap_tokens'' s
     (if row_exists bt_id (bt_id t) (st_tokens s) then Inl (UniqueViolation ''bootstrap_tokens.id'')
      else if row_exists bt_token_hash (bt_token_hash t) (st_tokens s)
        then Inl (UniqueViolation ''bootstrap_tokens.token_hash'')
      else Inr (s\<lparr>st_tokens := st_tokens s @ [t]\<rparr>))"

definition get_bootstrap_token_by_hash :: "store \<Rightarrow> string \<Rightarrow> db_error + bootstrap_token" where
  "get_bootstrap_token_by_hash s h = need ''bootstrap_tokens'' s
     (case row_find bt_token_hash (st_tokens s) h of None \<Rightarrow> Inl ErrNotFound | Some t \<Rightarrow> Inr t)"

definition list_bootstrap_tokens :: "store \<Rightarrow> db_error + bootstrap_token list" where
  "list_bootstrap_tokens s = need ''bootstrap_tokens'' s (Inr (order_desc bt_created_at (st_tokens s)))"

definition get_bootstrap_token :: "store \<Rightarrow> string \<Rightarrow> db_error + bootstrap_token" where
  "get_bootstrap_token s i = need ''bootstrap_tokens'' s
     (case row_find bt_id (st_tokens s) i of None \<Rightarrow> Inl ErrNotFound | Some t \<Rightarrow> Inr t)"

definition no_usage :: token_usage where
  "no_usage = \<lparr>tu_count = 0, tu_last_used_at = None, tu_enrollment_id = [], tu_enrollment_host = []\<rparr>"

definition token_enrollments :: "store \<Rightarrow> string \<Rightarrow> enrollment list" where
  "token_enrollments s i = filter (\<lambda>e. en_token_id e = i) (st_enrollments s)"

text \<open>
  The method returns what it has filled in so far together with its error. \<open>scan\<close> stands for
  the driver's conversion of the aggregate \<open>MAX(created_at)\<close> into a time: \<open>None\<close> when it
  cannot convert the column, and then the count has already been read.
\<close>

definition bootstrap_token_usage ::
  "(gotime \<Rightarrow> gotime option) \<Rightarrow> store \<Rightarrow> string \<Rightarrow> token_usage \<times> db_error option" where
  "bootstrap_token_usage scan s i =
     (if ''enrollments'' \<notin> set (st_tables s) then (no_usage, Some (NoSuchTable ''enrollments''))
      else (case order_desc en_created_at (token_enrollments s i) of
              [] \<Rightarrow> (no_usage, None)
            | e # es \<Rightarrow>
                (case scan (en_created_at e) of
                   None \<Rightarrow> (no_usage\<lparr>tu_count := Suc (length es)\<rparr>, Some ScanError)
                 | Some t \<Rightarrow>
                     (\<lparr>tu_count = Suc (length es), tu_last_used_at = Some t,
                       tu_enrollment_id = en_id e, tu_enrollment_host = en_hostname e\<rparr>, None))))"

text \<open>\<open>CURRENT_TIMESTAMP\<close> is the time in whole seconds.\<close>

definition current_timestamp :: "gotime \<Rightarrow> gotime" where
  "current_timestamp now = now - now mod second"

definition revoke_bootstrap_token :: "gotime \<Rightarrow> store \<Rightarrow> string \<Rightarrow> db_error + store" where
  "revoke_bootstrap_token now s i = need ''bootstrap_tokens'' s
     (if row_exists bt_id i (st_tokens s)
      then Inr (s\<lparr>st_tokens := row_update bt_id i
                   (\<lambda>t. t\<lparr>bt_revoked_at := Some (current_timestamp now)\<rparr>) (st_tokens s)\<rparr>)
      else Inl ErrNotFound)"

section \<open>Enrollments\<close>

definition fk_ok :: "store \<Rightarrow> bool \<Rightarrow> bool" where
  "fk_ok s parent \<longleftrightarrow> (st_fk s \<longrightarrow> parent)"

definition create_enrollment :: "store \<Rightarrow> enrollment \<Rightarrow> db_error + store" where
  "create_enrollment s e = need ''enrollments'' s
     (if row_exists en_id (en_id e) (st_enrollments s) then Inl (UniqueViolation ''enrollments.id'')
      else if \<not> fk_ok s (row_exists bt_id (en_token_id e) (st_tokens s)) then Inl ForeignKeyViolation
      else Inr (s\<lparr>st_enrollments := st_enrollments s @ [e]\<rparr>))"

definition get_enrollment :: "store \<Rightarrow> string \<Rightarrow> db_error + enrollment" where
  "get_enrollment s i = need ''enrollments'' s
     (case row_find en_id (st_enrollments s) i of None \<Rightarrow> Inl ErrNotFound | Some e \<Rightarrow> Inr e)"

definition list_enrollments :: "store \<Rightarrow> db_error + enrollment list" where
  "list_enrollments s = need ''enrollments'' s (Inr (order_desc en_created_at (st_enrollments s)))"

section \<open>Certificates\<close>

definition store_issued_certificate :: "store \<Rightarrow> issued_certificate \<Rightarrow> db_error + store" where
  "store_issued_certificate s c = need ''issued_certificates'' s
     (if row_exists ic_serial (ic_serial c) (st_certs s) then Inl (UniqueViolation ''issued_certificates.serial'')
      else if \<not> fk_ok s (row_exists cc_id (ic_ca_id c) (st_ca_configs s)) then Inl ForeignKeyViolation
      else Inr (s\<lparr>st_certs := st_certs s @ [c]\<rparr>))"

definition get_issued_certificate :: "store \<Rightarrow> string \<Rightarrow> db_error + issued_certificate" where
  "get_issued_certificate s n = need ''issued_certificates'' s
     (case row_find ic_serial (st_certs s) n of None \<Rightarrow> Inl ErrNotFound | Some c \<Rightarrow> Inr c)"

definition list_issued_certificates :: "store \<Rightarrow> db_error + issued_certificate list" where
  "list_issued_certificates s = need ''issued_certificates'' s (Inr (order_desc ic_created_at (st_certs s)))"

text \<open>
  Two statements without a transaction: the \<open>UPDATE\<close> of the certificate, then the
  \<open>INSERT OR REPLACE\<close> of the revocation, which drops an earlier row of the same serial.
  The result is the store and the error, because the first statement stays when the second
  fails.
\<close>

definition revoke_certificate :: "store \<Rightarrow> revoked_certificate \<Rightarrow> store \<times> db_error option" where
  "revoke_certificate s r =
     (if ''issued_certificates'' \<notin> set (st_tables s) then (s, Some (NoSuchTable ''issued_certificates''))
      else
        (let s1 = s\<lparr>st_certs := row_update ic_serial (rc_serial r)
                     (\<lambda>c. c\<lparr>ic_revoked_at := Some (rc_revoked_at r)\<rparr>) (st_certs s)\<rparr>
         in if ''revoked_certificates'' \<notin> set (st_tables s) then (s1, Some (NoSuchTable ''revoked_certificates''))
            else if \<not> fk_ok s (row_exists ic_serial (rc_serial r) (st_certs s)) then (s1, Some ForeignKeyViolation)
            else (s1\<lparr>st_revoked := filter (\<lambda>x. rc_serial x \<noteq> rc_serial r) (st_revoked s) @ [r]\<rparr>, None)))"

section \<open>Audit log\<close>

text \<open>
  The text that is hashed, fields one after the other, and the hash as hexadecimal digits.
  \<open>sha\<close> is SHA-256, the only thing the model assumes of the cryptographic library.
\<close>

definition audit_preimage :: "audit_log \<Rightarrow> string" where
  "audit_preimage a = al_prev_hash a @ al_action a @ al_actor a @ al_target a @ al_metadata a @
     al_trace_id a @ rfc3339 (al_created_at a)"

definition audit_hash :: "(string \<Rightarrow> char list) \<Rightarrow> audit_log \<Rightarrow> string" where
  "audit_hash sha a = hex_encode (sha (audit_preimage a))"

text \<open>\<open>SELECT hash ... ORDER BY created_at DESC, id DESC LIMIT 1\<close>; no row leaves \<open>""\<close>.\<close>

definition latest_audit_hash :: "audit_log list \<Rightarrow> string" where
  "latest_audit_hash rows =
     (case order_desc (\<lambda>a. (al_created_at a, al_id a)) rows of [] \<Rightarrow> [] | a # _ \<Rightarrow> al_hash a)"

text \<open>\<open>None\<close> for the store is the nil pointer the method guards against.\<close>

definition create_audit_log ::
  "(string \<Rightarrow> char list) \<Rightarrow> store option \<Rightarrow> audit_log \<Rightarrow> db_error + store" where
  "create_audit_log sha os a =
     (case os of
        None \<Rightarrow> Inl StoreUninitialized
      | Some s \<Rightarrow> need ''audit_logs'' s
          (let a1 = a\<lparr>al_prev_hash := latest_audit_hash (st_audit s)\<rparr>;
               a2 = a1\<lparr>al_hash := audit_hash sha a1\<rparr>
           in if row_exists al_id (al_id a2) (st_audit s) then Inl (UniqueViolation ''audit_logs.id'')
              else Inr (s\<lparr>st_audit := st_audit s @ [a2]\<rparr>)))"

definition list_limit :: "int \<Rightarrow> nat" where
  "list_limit n = (if n \<le> 0 \<or> n > 500 then 100 else nat n)"

definition list_audit_logs :: "store option \<Rightarrow> int \<Rightarrow> db_error + audit_log list" where
  "list_audit_logs os limit =
     (case os of
        None \<Rightarrow> Inl StoreUninitialized
      | Some s \<Rightarrow> need ''audit_logs'' s
          (Inr (take (list_limit limit) (order_desc al_created_at (st_audit s)))))"

section \<open>Certificate authorities, roles and policies\<close>

text \<open>\<open>ON CONFLICT DO UPDATE\<close> sets every column but the key and \<open>created_at\<close>.\<close>

definition merge_ca_config :: "ca_config \<Rightarrow> ca_config \<Rightarrow> ca_config" where
  "merge_ca_config old n = n\<lparr>cc_id := cc_id old, cc_created_at := cc_created_at old\<rparr>"

definition merge_root :: "root_ca \<Rightarrow> root_ca \<Rightarrow> root_ca" where
  "merge_root old n = n\<lparr>rt_id := rt_id old, rt_created_at := rt_created_at old\<rparr>"

definition merge_intermediate :: "intermediate_ca \<Rightarrow> intermediate_ca \<Rightarrow> intermediate_ca" where
  "merge_intermediate old n = n\<lparr>im_id := im_id old, im_created_at := im_created_at old\<rparr>"

definition merge_role :: "ca_role \<Rightarrow> ca_role \<Rightarrow> ca_role" where
  "merge_role old n = n\<lparr>ro_id := ro_id old, ro_created_at := ro_created_at old\<rparr>"

definition merge_policy :: "ca_token_policy \<Rightarrow> ca_token_policy \<Rightarrow> ca_token_policy" where
  "merge_policy old n = n\<lparr>tp_id := tp_id old, tp_created_at := tp_created_at old\<rparr>"

definition upsert_ca_config :: "store \<Rightarrow> ca_config \<Rightarrow> db_error + store" where
  "upsert_ca_config s c = need ''ca_config'' s
     (if \<not> ca_config_status_ok (cc_status c) then Inl (CheckViolation ''ca_config'')
      else Inr (s\<lparr>st_ca_configs := row_upsert cc_id merge_ca_config c (st_ca_configs s)\<rparr>))"

definition list_ca_configs :: "store \<Rightarrow> db_error + ca_config list" where
  "list_ca_configs s = need ''ca_config'' s (Inr (order_desc cc_created_at (st_ca_configs s)))"

definition upsert_root_ca :: "store \<Rightarrow> root_ca \<Rightarrow> db_error + store" where
  "upsert_root_ca s c = need ''root_cas'' s
     (if \<not> root_status_ok (rt_status c) then Inl (CheckViolation ''root_cas'')
      else if list_ex (\<lambda>r. rt_id r \<noteq> rt_id c \<and> rt_fingerprint r = rt_fingerprint c) (st_roots s)
        then Inl (UniqueViolation ''root_cas.fingerprint'')
      else Inr (s\<lparr>st_roots := row_upsert rt_id merge_root c (st_roots s)\<rparr>))"

definition list_root_cas :: "store \<Rightarrow> db_error + root_ca list" where
  "list_root_cas s = need ''root_cas'' s
     (Inr (sort_key (\<lambda>c. (rt_environment c, rt_name c)) (st_roots s)))"

text \<open>\<open>int64(MaxTTL.Seconds())\<close> goes into the table and whole seconds come back.\<close>

definition ttl_seconds :: "duration \<Rightarrow> int" where "ttl_seconds d = quot d second"
definition ttl_of_seconds :: "int \<Rightarrow> duration" where "ttl_of_seconds n = wrap64 (n * second)"

definition upsert_intermediate_ca :: "store \<Rightarrow> intermediate_ca \<Rightarrow> db_error + store" where
  "upsert_intermediate_ca s c = need ''intermediate_cas'' s
     (let n = c\<lparr>im_max_ttl := ttl_of_seconds (ttl_seconds (im_max_ttl c))\<rparr>
      in if \<not> intermediate_status_ok (im_status n) then Inl (CheckViolation ''intermediate_cas'')
         else if list_ex (\<lambda>r. im_id r \<noteq> im_id n \<and> im_fingerprint r = im_fingerprint n) (st_intermediates s)
           then Inl (UniqueViolation ''intermediate_cas.fingerprint'')
         else if \<not> fk_ok s (row_exists rt_id (im_root_id n) (st_roots s)) then Inl ForeignKeyViolation
         else Inr (s\<lparr>st_intermediates := row_upsert im_id merge_intermediate n (st_intermediates s)\<rparr>))"

definition list_intermediate_cas :: "store \<Rightarrow> db_error + intermediate_ca list" where
  "list_intermediate_cas s = need ''intermediate_cas'' s
     (Inr (sort_key (\<lambda>c. (im_environment c, im_name c)) (st_intermediates s)))"

definition upsert_ca_role :: "store \<Rightarrow> ca_role \<Rightarrow> db_error + store" where
  "upsert_ca_role s r = need ''ca_roles'' s
     (if \<not> fk_ok s (row_exists im_id (ro_intermediate_id r) (st_intermediates s)) then Inl ForeignKeyViolation
      else Inr (s\<lparr>st_roles := row_upsert ro_id merge_role r (st_roles s)\<rparr>))"

definition list_ca_roles :: "store \<Rightarrow> db_error + ca_role list" where
  "list_ca_roles s = need ''ca_roles'' s (Inr (sort_key ro_name (st_roles s)))"

definition upsert_ca_token_policy :: "store \<Rightarrow> ca_token_policy \<Rightarrow> db_error + store" where
  "upsert_ca_token_policy s p = need ''ca_token_policies'' s
     (let n = p\<lparr>tp_max_ttl := ttl_of_seconds (ttl_seconds (tp_max_ttl p))\<rparr>
      in if \<not> fk_ok s (row_exists im_id (tp_intermediate_id n) (st_intermediates s)) then Inl ForeignKeyViolation
         else Inr (s\<lparr>st_policies := row_upsert tp_id merge_policy n (st_policies s)\<rparr>))"

definition list_ca_token_policies :: "store \<Rightarrow> db_error + ca_token_policy list" where
  "list_ca_token_policies s = need ''ca_token_policies'' s (Inr (sort_key tp_name (st_policies s)))"

section \<open>Every table keeps its contract\<close>

interpretation ca_rows: keyed_table cc_id merge_ca_config
  by unfold_locales (simp add: merge_ca_config_def)

interpretation root_rows: unique_table rt_id merge_root rt_fingerprint
  by unfold_locales (simp_all add: merge_root_def)

interpretation intermediate_rows: unique_table im_id merge_intermediate im_fingerprint
  by unfold_locales (simp_all add: merge_intermediate_def)

interpretation role_rows: keyed_table ro_id merge_role
  by unfold_locales (simp add: merge_role_def)

interpretation policy_rows: keyed_table tp_id merge_policy
  by unfold_locales (simp add: merge_policy_def)

end
