(* ===== verification/Store_Invariant.thy ===== *)
theory Store_Invariant
  imports Store
begin

text \<open>
  What the constraints of \<open>internal/db/migrations.go\<close> promise about a store whatever the
  program runs on it: primary keys and unique columns stay distinct, status columns hold
  allowed values, and references resolve when foreign keys are enforced. The write methods
  of the \<open>Store\<close> interface become the commands of a machine; the invariant holds in every
  state that a sequence of commands, some of them refused, can reach.
\<close>

section \<open>The invariant\<close>

definition keys_ok :: "store \<Rightarrow> bool" where
  "keys_ok s \<longleftrightarrow>
     distinct (map rt_id (st_roots s)) \<and> distinct (map rt_fingerprint (st_roots s)) \<and>
     distinct (map im_id (st_intermediates s)) \<and> distinct (map im_fingerprint (st_intermediates s)) \<and>
     distinct (map ro_id (st_roles s)) \<and> distinct (map tp_id (st_policies s)) \<and>
     distinct (map cc_id (st_ca_configs s)) \<and>
     distinct (map bt_id (st_tokens s)) \<and> distinct (map bt_token_hash (st_tokens s)) \<and>
     distinct (map en_id (st_enrollments s)) \<and> distinct (map ic_serial (st_certs s)) \<and>
     distinct (map rc_serial (st_revoked s)) \<and> distinct (map al_id (st_audit s))"

definition checks_ok :: "store \<Rightarrow> bool" where
  "checks_ok s \<longleftrightarrow>
     list_all (\<lambda>c. root_status_ok (rt_status c)) (st_roots s) \<and>
     list_all (\<lambda>c. intermediate_status_ok (im_status c)) (st_intermediates s) \<and>
     list_all (\<lambda>c. ca_config_status_ok (cc_status c)) (st_ca_configs s)"

definition refs_ok :: "store \<Rightarrow> bool" where
  "refs_ok s \<longleftrightarrow>
     list_all (\<lambda>c. row_exists rt_id (im_root_id c) (st_roots s)) (st_intermediates s) \<and>
     list_all (\<lambda>r. row_exists im_id (ro_intermediate_id r) (st_intermediates s)) (st_roles s) \<and>
     list_all (\<lambda>p. row_exists im_id (tp_intermediate_id p) (st_intermediates s)) (st_policies s) \<and>
     list_all (\<lambda>e. row_exists bt_id (en_token_id e) (st_tokens s)) (st_enrollments s) \<and>
     list_all (\<lambda>c. row_exists cc_id (ic_ca_id c) (st_ca_configs s)) (st_certs s) \<and>
     list_all (\<lambda>r. row_exists ic_serial (rc_serial r) (st_certs s)) (st_revoked s)"

definition store_inv :: "store \<Rightarrow> bool" where
  "store_inv s \<longleftrightarrow> keys_ok s \<and> checks_ok s \<and> (st_fk s \<longrightarrow> refs_ok s)"

section \<open>Commands\<close>

datatype command =
    Migrate
  | CreateBootstrapToken bootstrap_token
  | RevokeBootstrapToken gotime string
  | CreateEnrollment enrollment
  | StoreIssuedCertificate issued_certificate
  | RevokeCertificate revoked_certificate
  | CreateAuditLog audit_log
  | UpsertCAConfig ca_config
  | UpsertRootCA root_ca
  | UpsertIntermediateCA intermediate_ca
  | UpsertCARole ca_role
  | UpsertCATokenPolicy ca_token_policy

text \<open>The store after a method that returns its new state or an error.\<close>

definition committed :: "store \<Rightarrow> (db_error + store) \<Rightarrow> store" where
  "committed s r = (case r of Inl _ \<Rightarrow> s | Inr s' \<Rightarrow> s')"

lemma committed_simps [simp]: "committed s (Inl e) = s" "committed s (Inr s') = s'"
  by (simp_all add: committed_def)

fun exec :: "(string \<Rightarrow> char list) \<Rightarrow> store \<Rightarrow> command \<Rightarrow> store" where
  "exec sha s Migrate = migrate s"
| "exec sha s (CreateBootstrapToken t) = committed s (create_bootstrap_token s t)"
| "exec sha s (RevokeBootstrapToken now i) = committed s (revoke_bootstrap_token now s i)"
| "exec sha s (CreateEnrollment e) = committed s (create_enrollment s e)"
| "exec sha s (StoreIssuedCertificate c) = committed s (store_issued_certificate s c)"
| "exec sha s (RevokeCertificate r) = fst (revoke_certificate s r)"
| "exec sha s (CreateAuditLog a) = committed s (create_audit_log sha (Some s) a)"
| "exec sha s (UpsertCAConfig c) = committed s (upsert_ca_config s c)"
| "exec sha s (UpsertRootCA c) = committed s (upsert_root_ca s c)"
| "exec sha s (UpsertIntermediateCA c) = committed s (upsert_intermediate_ca s c)"
| "exec sha s (UpsertCARole r) = committed s (upsert_ca_role s r)"
| "exec sha s (UpsertCATokenPolicy p) = committed s (upsert_ca_token_policy s p)"

definition run :: "(string \<Rightarrow> char list) \<Rightarrow> store \<Rightarrow> command list \<Rightarrow> store" where
  "run sha s cs = fold (\<lambda>c s. exec sha s c) cs s"

lemma run_simps [simp]: "run sha s [] = s" "run sha s (c # cs) = run sha (exec sha s c) cs"
  by (simp_all add: run_def)

section \<open>Every command keeps the invariant\<close>

lemma store_inv_empty [simp]: "store_inv (empty_store fk)"
  by (simp add: store_inv_def keys_ok_def checks_ok_def refs_ok_def empty_store_def)

lemmas inv_defs = store_inv_def keys_ok_def checks_ok_def refs_ok_def

lemma inv_migrate [keeps]: "store_inv s \<Longrightarrow> store_inv (migrate s)"
  by (simp add: inv_defs migrate_def)

lemma committed_keeps:
  "store_inv s \<Longrightarrow> (\<And>s'. r = Inr s' \<Longrightarrow> store_inv s') \<Longrightarrow> store_inv (committed s r)"
  by (cases r) auto

lemma list_all_mono: "list_all P xs \<Longrightarrow> (\<And>x. x \<in> set xs \<Longrightarrow> P x \<Longrightarrow> Q x) \<Longrightarrow> list_all Q xs"
  by (auto simp: list_all_iff)

lemma row_exists_self [simp]: "row_exists key (key n) (rows @ [n])"
  by (simp add: row_exists_append)

lemma refs_append_token:
  "refs_ok s \<Longrightarrow> refs_ok (s\<lparr>st_tokens := st_tokens s @ [t]\<rparr>)"
  by (auto simp: refs_ok_def row_exists_append list_all_iff)

lemma create_bootstrap_token_inv [keeps]:
  "store_inv s \<Longrightarrow> create_bootstrap_token s t = Inr s' \<Longrightarrow> store_inv s'"
  by (auto simp: create_bootstrap_token_def store_inv_def keys_ok_def checks_ok_def
      refs_append_token row_exists_iff split: if_splits)

lemma row_update_other:
  "(\<And>r. g (f r) = g r) \<Longrightarrow> map g (row_update key k f rows) = map g rows"
  by (simp add: row_update_def)

lemma revoke_bootstrap_token_inv [keeps]:
  "store_inv s \<Longrightarrow> revoke_bootstrap_token now s i = Inr s' \<Longrightarrow> store_inv s'"
  by (auto simp: revoke_bootstrap_token_def inv_defs row_update_keys row_exists_update
      row_update_other split: if_splits)

lemma create_enrollment_inv [keeps]:
  "store_inv s \<Longrightarrow> create_enrollment s e = Inr s' \<Longrightarrow> store_inv s'"
  by (auto simp: create_enrollment_def inv_defs fk_ok_def row_exists_iff split: if_splits)

lemma store_issued_certificate_inv [keeps]:
  "store_inv s \<Longrightarrow> store_issued_certificate s c = Inr s' \<Longrightarrow> store_inv s'"
  by (auto simp: store_issued_certificate_def inv_defs fk_ok_def row_exists_iff list_all_iff
      split: if_splits)

lemma distinct_replace:
  "distinct (map key rows) \<Longrightarrow> distinct (map key (filter (\<lambda>x. key x \<noteq> key r) rows @ [r]))"
  by (auto simp: distinct_map inj_on_def)

lemma list_all_update:
  "(\<And>r. P (f r) = P r) \<Longrightarrow> list_all P (row_update key k f rows) = list_all P rows"
  unfolding row_update_def by (induction rows) auto

lemma certs_revoked_keys:
  "map ic_serial (row_update ic_serial n (\<lambda>c. c\<lparr>ic_revoked_at := d\<rparr>) rows) = map ic_serial rows"
  by (simp add: row_update_keys)

lemma revoke_certificate_inv [keeps]:
  assumes "store_inv s"
  shows "store_inv (fst (revoke_certificate s r))"
proof -
  define s1 where "s1 = s\<lparr>st_certs := row_update ic_serial (rc_serial r)
      (\<lambda>c. c\<lparr>ic_revoked_at := Some (rc_revoked_at r)\<rparr>) (st_certs s)\<rparr>"
  have inv1: "store_inv s1"
    using assms
    by (auto simp: s1_def inv_defs certs_revoked_keys row_exists_update list_all_update)
  have inv2: "store_inv (s1\<lparr>st_revoked := filter (\<lambda>x. rc_serial x \<noteq> rc_serial r) (st_revoked s) @ [r]\<rparr>)"
    if "fk_ok s (row_exists ic_serial (rc_serial r) (st_certs s))"
    using inv1 that distinct_replace [of rc_serial "st_revoked s" r]
    by (auto simp: s1_def inv_defs fk_ok_def row_exists_update list_all_iff)
  show ?thesis
    using assms inv1 inv2 by (auto simp: revoke_certificate_def Let_def s1_def)
qed

lemma create_audit_log_inv [keeps]:
  "store_inv s \<Longrightarrow> create_audit_log sha (Some s) a = Inr s' \<Longrightarrow> store_inv s'"
  by (auto simp: create_audit_log_def Let_def inv_defs row_exists_iff split: if_splits)

lemma upsert_ca_config_inv [keeps]:
  assumes "store_inv s" and "upsert_ca_config s c = Inr s'"
  shows "store_inv s'"
proof -
  have s': "s' = s\<lparr>st_ca_configs := row_upsert cc_id merge_ca_config c (st_ca_configs s)\<rparr>"
    and ok: "ca_config_status_ok (cc_status c)"
    using assms(2) by (auto simp: upsert_ca_config_def split: if_splits)
  have "list_all (\<lambda>c. ca_config_status_ok (cc_status c)) (row_upsert cc_id merge_ca_config c (st_ca_configs s))"
    using ca_rows.set_upsert [of c "st_ca_configs s"] assms(1) ok
    by (fastforce simp: inv_defs list_all_iff merge_ca_config_def)
  then show ?thesis
    using assms(1) by (auto simp: s' inv_defs ca_rows.distinct_upsert ca_rows.exists_upsert list_all_iff)
qed

lemma upsert_root_ca_inv [keeps]:
  assumes "store_inv s" and "upsert_root_ca s c = Inr s'"
  shows "store_inv s'"
proof -
  have s': "s' = s\<lparr>st_roots := row_upsert rt_id merge_root c (st_roots s)\<rparr>"
    and ok: "root_status_ok (rt_status c)"
    and u: "\<not> list_ex (\<lambda>r. rt_id r \<noteq> rt_id c \<and> rt_fingerprint r = rt_fingerprint c) (st_roots s)"
    using assms(2) by (auto simp: upsert_root_ca_def split: if_splits)
  have "list_all (\<lambda>c. root_status_ok (rt_status c)) (row_upsert rt_id merge_root c (st_roots s))"
    using root_rows.set_upsert [of c "st_roots s"] assms(1) ok
    by (fastforce simp: inv_defs list_all_iff merge_root_def)
  then show ?thesis
    using assms(1) u root_rows.distinct_uniq_upsert [of "st_roots s" c]
    by (auto simp: s' inv_defs root_rows.distinct_upsert root_rows.exists_upsert list_all_iff)
qed

lemma upsert_intermediate_ca_inv [keeps]:
  assumes "store_inv s" and "upsert_intermediate_ca s c0 = Inr s'"
  shows "store_inv s'"
proof -
  define c where "c = c0\<lparr>im_max_ttl := ttl_of_seconds (ttl_seconds (im_max_ttl c0))\<rparr>"
  have s': "s' = s\<lparr>st_intermediates := row_upsert im_id merge_intermediate c (st_intermediates s)\<rparr>"
    and ok: "intermediate_status_ok (im_status c)"
    and u: "\<not> list_ex (\<lambda>r. im_id r \<noteq> im_id c \<and> im_fingerprint r = im_fingerprint c) (st_intermediates s)"
    and fk: "fk_ok s (row_exists rt_id (im_root_id c) (st_roots s))"
    using assms(2) by (auto simp: upsert_intermediate_ca_def Let_def c_def split: if_splits)
  let ?rows = "row_upsert im_id merge_intermediate c (st_intermediates s)"
  have m: "x \<in> set (st_intermediates s) \<or> x = c \<or> (\<exists>old. x = merge_intermediate old c)" if "x \<in> set ?rows" for x
    using that intermediate_rows.set_upsert [of c "st_intermediates s"] by blast
  have "list_all (\<lambda>c. intermediate_status_ok (im_status c)) ?rows"
    and "st_fk s \<Longrightarrow> list_all (\<lambda>c. row_exists rt_id (im_root_id c) (st_roots s)) ?rows"
    using m assms(1) ok fk by (fastforce simp: inv_defs fk_ok_def list_all_iff merge_intermediate_def)+
  then show ?thesis
    using assms(1) u intermediate_rows.distinct_uniq_upsert [of "st_intermediates s" c]
    by (auto simp: s' inv_defs intermediate_rows.distinct_upsert intermediate_rows.exists_upsert list_all_iff)
qed

lemma upsert_ca_role_inv [keeps]:
  assumes "store_inv s" and "upsert_ca_role s r = Inr s'"
  shows "store_inv s'"
proof -
  have s': "s' = s\<lparr>st_roles := row_upsert ro_id merge_role r (st_roles s)\<rparr>"
    and fk: "fk_ok s (row_exists im_id (ro_intermediate_id r) (st_intermediates s))"
    using assms(2) by (auto simp: upsert_ca_role_def split: if_splits)
  have "st_fk s \<Longrightarrow> list_all (\<lambda>r. row_exists im_id (ro_intermediate_id r) (st_intermediates s))
      (row_upsert ro_id merge_role r (st_roles s))"
    using role_rows.set_upsert [of r "st_roles s"] assms(1) fk
    by (fastforce simp: inv_defs fk_ok_def list_all_iff merge_role_def)
  then show ?thesis
    using assms(1) by (auto simp: s' inv_defs role_rows.distinct_upsert)
qed

lemma upsert_ca_token_policy_inv [keeps]:
  assumes "store_inv s" and "upsert_ca_token_policy s p0 = Inr s'"
  shows "store_inv s'"
proof -
  define p where "p = p0\<lparr>tp_max_ttl := ttl_of_seconds (ttl_seconds (tp_max_ttl p0))\<rparr>"
  have s': "s' = s\<lparr>st_policies := row_upsert tp_id merge_policy p (st_policies s)\<rparr>"
    and fk: "fk_ok s (row_exists im_id (tp_intermediate_id p) (st_intermediates s))"
    using assms(2) by (auto simp: upsert_ca_token_policy_def Let_def p_def split: if_splits)
  have "st_fk s \<Longrightarrow> list_all (\<lambda>p. row_exists im_id (tp_intermediate_id p) (st_intermediates s))
      (row_upsert tp_id merge_policy p (st_policies s))"
    using policy_rows.set_upsert [of p "st_policies s"] assms(1) fk
    by (fastforce simp: inv_defs fk_ok_def list_all_iff merge_policy_def)
  then show ?thesis
    using assms(1) by (auto simp: s' inv_defs policy_rows.distinct_upsert)
qed

lemma exec_inv: "store_inv s \<Longrightarrow> store_inv (exec sha s c)"
  by (cases c) (auto intro: keeps intro!: committed_keeps)

lemma run_inv: "store_inv s \<Longrightarrow> store_inv (run sha s cs)"
  by (induction cs arbitrary: s) (auto intro: exec_inv)

text \<open>No command drops a table.\<close>

lemma exec_tables: "t \<in> set (st_tables s) \<Longrightarrow> t \<in> set (st_tables (exec sha s c))"
  by (cases c)
    (auto simp: committed_def migrate_def create_bootstrap_token_def revoke_bootstrap_token_def create_enrollment_def
      store_issued_certificate_def revoke_certificate_def create_audit_log_def upsert_ca_config_def
      upsert_root_ca_def upsert_intermediate_ca_def upsert_ca_role_def upsert_ca_token_policy_def Let_def need_def
      split: sum.splits)

lemma run_tables: "t \<in> set (st_tables s) \<Longrightarrow> t \<in> set (st_tables (run sha s cs))"
  by (induction cs arbitrary: s) (auto intro: exec_tables)

section \<open>Properties\<close>

text \<open>
  C14. Whatever sequence of write methods runs on a new database, in whatever order and with
  whatever arguments (migrations included, refused methods included), primary keys and unique
  columns stay distinct, status columns hold allowed values, and with foreign keys enforced
  every enrollment has its token, every certificate its CA configuration, every revocation its
  certificate, and every role, policy and intermediate its parent.
\<close>

theorem reachable_store_inv: "store_inv (run sha (empty_store fk) cs)"
  by (simp add: run_inv)

text \<open>
  The abstract token store: a finite map from hashes, with a lookup that fails, an insertion that
  is refused when the hash or the id is taken, and a revocation by id.
\<close>

definition token_map :: "store \<Rightarrow> string \<rightharpoonup> bootstrap_token" where
  "token_map s = map_of (map (\<lambda>t. (bt_token_hash t, t)) (st_tokens s))"

definition found_token :: "(string \<rightharpoonup> bootstrap_token) \<Rightarrow> string \<Rightarrow> db_error + bootstrap_token" where
  "found_token m h = (case m h of None \<Rightarrow> Inl ErrNotFound | Some t \<Rightarrow> Inr t)"

definition id_taken :: "(string \<rightharpoonup> bootstrap_token) \<Rightarrow> string \<Rightarrow> bool" where
  "id_taken m i \<longleftrightarrow> (\<exists>t \<in> ran m. bt_id t = i)"

definition revoked_in :: "gotime \<Rightarrow> string \<Rightarrow> (string \<rightharpoonup> bootstrap_token) \<Rightarrow> string \<rightharpoonup> bootstrap_token" where
  "revoked_in now i m =
     map_option (\<lambda>t. if bt_id t = i then t\<lparr>bt_revoked_at := Some (current_timestamp now)\<rparr> else t) \<circ> m"

lemma token_map_find: "token_map s = row_find bt_token_hash (st_tokens s)"
proof -
  have "map_of (map (\<lambda>t. (bt_token_hash t, t)) ts) h = row_find bt_token_hash ts h" for ts h
    by (induction ts) (auto simp: row_find_def)
  then show ?thesis by (auto simp: token_map_def)
qed

lemma by_hash_found:
  "''bootstrap_tokens'' \<in> set (st_tables s) \<Longrightarrow> get_bootstrap_token_by_hash s h = found_token (token_map s) h"
  by (simp add: get_bootstrap_token_by_hash_def need_def token_map_find found_token_def)

lemma id_taken_exists: "keys_ok s \<Longrightarrow> id_taken (token_map s) i \<longleftrightarrow> row_exists bt_id i (st_tokens s)"
proof -
  assume "keys_ok s"
  then have "distinct (map bt_token_hash (st_tokens s))" by (simp add: keys_ok_def)
  then have "ran (token_map s) = set (st_tokens s)"
    unfolding token_map_find ran_def by (auto dest: row_find_SomeD intro: row_find_distinct)
  then show ?thesis by (auto simp: id_taken_def row_exists_def list_ex_iff)
qed

lemma token_map_revoked:
  "token_map (s\<lparr>st_tokens := row_update bt_id i (\<lambda>t. t\<lparr>bt_revoked_at := Some (current_timestamp now)\<rparr>) (st_tokens s)\<rparr>) =
     revoked_in now i (token_map s)"
proof -
  have "row_find bt_token_hash (row_update bt_id i (\<lambda>t. t\<lparr>bt_revoked_at := Some (current_timestamp now)\<rparr>) ts) h =
      revoked_in now i (row_find bt_token_hash ts) h" for ts h
    by (induction ts) (auto simp: row_find_def row_update_def revoked_in_def)
  then show ?thesis by (auto simp: token_map_find)
qed

text \<open>
  C19. The token table refines a finite map from hashes to tokens: in a store that keeps its
  constraints the lookup by hash is the lookup in the map, creating a token succeeds exactly when
  neither its hash nor its id is taken and then adds one entry, and revoking succeeds exactly when
  the id is taken and then sets the revocation time of that token under its hash and touches no
  other entry; lookups after either read the new map.
\<close>

theorem token_table_refines_map:
  assumes "store_inv s" and "''bootstrap_tokens'' \<in> set (st_tables s)"
  shows "get_bootstrap_token_by_hash s h = found_token (token_map s) h \<and>
    (case create_bootstrap_token s t of
       Inl e \<Rightarrow> token_map s (bt_token_hash t) \<noteq> None \<or> id_taken (token_map s) (bt_id t)
     | Inr s' \<Rightarrow> token_map s (bt_token_hash t) = None \<and> \<not> id_taken (token_map s) (bt_id t) \<and>
         token_map s' = (token_map s)(bt_token_hash t \<mapsto> t) \<and>
         get_bootstrap_token_by_hash s' h = found_token ((token_map s)(bt_token_hash t \<mapsto> t)) h) \<and>
    (case revoke_bootstrap_token now s i of
       Inl e \<Rightarrow> e = ErrNotFound \<and> \<not> id_taken (token_map s) i
     | Inr s' \<Rightarrow> id_taken (token_map s) i \<and> token_map s' = revoked_in now i (token_map s) \<and>
         get_bootstrap_token_by_hash s' h = found_token (revoked_in now i (token_map s)) h)"
proof -
  have taken: "id_taken (token_map s) x \<longleftrightarrow> row_exists bt_id x (st_tokens s)" for x
    using assms(1) by (intro id_taken_exists) (simp add: store_inv_def)
  have hash: "token_map s x = None \<longleftrightarrow> \<not> row_exists bt_token_hash x (st_tokens s)" for x
    by (simp add: token_map_find row_find_None)
  have added: "token_map (s\<lparr>st_tokens := st_tokens s @ [t]\<rparr>) = (token_map s)(bt_token_hash t \<mapsto> t)"
    if "\<not> row_exists bt_token_hash (bt_token_hash t) (st_tokens s)"
    using that by (simp add: token_map_find row_find_append)
  show ?thesis
    using assms(2) added
    by (auto simp: by_hash_found create_bootstrap_token_def revoke_bootstrap_token_def need_def taken hash token_map_revoked)
qed

definition demo_token :: bootstrap_token where
  "demo_token = \<lparr>bt_id = ''tok'', bt_token_hash = ''h'', bt_hostname = ''node'', bt_expires_at = 1000,
     bt_revoked_at = None, bt_created_at = 0\<rparr>"

lemma demo_create:
  "create_bootstrap_token (migrate (empty_store True)) demo_token =
     Inr ((migrate (empty_store True))\<lparr>st_tokens := [demo_token]\<rparr>)"
  by (simp add: create_bootstrap_token_def schema_tables_def row_exists_def)
    (simp add: migrate_def empty_store_def)

theorem token_table_refines_map_witness:
  "get_bootstrap_token_by_hash ((migrate (empty_store True))\<lparr>st_tokens := [demo_token]\<rparr>) ''h'' = Inr demo_token \<and>
   get_bootstrap_token_by_hash (migrate (empty_store True)) ''h'' = Inl ErrNotFound"
proof -
  let ?s = "migrate (empty_store True)"
  have inv: "store_inv ?s" "''bootstrap_tokens'' \<in> set (st_tables ?s)"
    by (simp_all add: inv_migrate) (simp add: migrate_def schema_tables_def)
  have none: "token_map ?s = Map.empty" by (simp add: token_map_def migrate_def empty_store_def)
  note r = token_table_refines_map [OF inv, of "''h''" demo_token, unfolded demo_create sum.case none]
  have "found_token [bt_token_hash demo_token \<mapsto> demo_token] ''h'' = Inr demo_token" "found_token Map.empty ''h'' = Inl ErrNotFound"
    by (simp_all add: found_token_def demo_token_def)
  then show ?thesis using r by (simp only:)
qed

text \<open>
  Revoking a certificate is all or nothing although it runs two statements without a
  transaction: on a migrated store that enforces foreign keys, an error leaves the store as it
  was, and success marks exactly the certificate of that serial and records the reason.
\<close>

theorem revoke_certificate_atomic:
  assumes "set schema_tables \<subseteq> set (st_tables s)" and "st_fk s"
  shows "case revoke_certificate s r of
      (s', Some e) \<Rightarrow> s' = s \<and> e = ForeignKeyViolation \<and> \<not> row_exists ic_serial (rc_serial r) (st_certs s)
    | (s', None) \<Rightarrow> row_exists ic_serial (rc_serial r) (st_certs s) \<and>
        row_find ic_serial (st_certs s') = (row_find ic_serial (st_certs s))(rc_serial r :=
          map_option (\<lambda>c. c\<lparr>ic_revoked_at := Some (rc_revoked_at r)\<rparr>) (row_find ic_serial (st_certs s) (rc_serial r))) \<and>
        filter (\<lambda>x. rc_serial x = rc_serial r) (st_revoked s') = [r]"
proof -
  have t: "''issued_certificates'' \<in> set (st_tables s)" "''revoked_certificates'' \<in> set (st_tables s)"
    using assms(1) by (auto simp: schema_tables_def)
  show ?thesis
  proof (cases "row_exists ic_serial (rc_serial r) (st_certs s)")
    case True
    with assms t show ?thesis
      by (auto simp: revoke_certificate_def fk_ok_def row_find_update Let_def intro: filter_False)
  next
    case False
    with assms t show ?thesis
      by (simp add: revoke_certificate_def fk_ok_def row_update_absent Let_def)
  qed
qed

definition demo_cert :: issued_certificate where
  "demo_cert = \<lparr>ic_serial = ''1f'', ic_ca_id = ''ca'', ic_enrollment_id = ''e'', ic_subject = ''node'',
     ic_dns_names = ''node.local'', ic_pem = ''pem'', ic_not_before = 0, ic_not_after = 1000,
     ic_revoked_at = None, ic_created_at = 5\<rparr>"

theorem revoke_certificate_atomic_witness:
  "ic_revoked_at (hd (st_certs (fst (revoke_certificate ((migrate (empty_store True))\<lparr>st_certs := [demo_cert]\<rparr>)
     \<lparr>rc_serial = ''1f'', rc_reason = ''lost'', rc_revoked_at = 7\<rparr>)))) = Some 7 \<and>
   row_exists ic_serial ''1f'' [demo_cert]"
  using revoke_certificate_atomic [of "(migrate (empty_store True))\<lparr>st_certs := [demo_cert]\<rparr>"
      "\<lparr>rc_serial = ''1f'', rc_reason = ''lost'', rc_revoked_at = 7\<rparr>"]
  by (simp add: schema_tables_def migrate_def empty_store_def revoke_certificate_def fk_ok_def Let_def
      row_exists_def row_update_def demo_cert_def)

text \<open>
  Registering a root CA again under its id replaces its description and keeps its first
  creation time, and no other root changes; the same id never makes a second row.
\<close>

theorem upsert_root_keeps_created_at:
  assumes "upsert_root_ca s c = Inr s1" and "upsert_root_ca s1 (c\<lparr>rt_name := nm, rt_created_at := later\<rparr>) = Inr s2"
  shows "row_find rt_id (st_roots s2) = (row_find rt_id (st_roots s))
      (rt_id c \<mapsto> c\<lparr>rt_name := nm, rt_created_at :=
        (case row_find rt_id (st_roots s) (rt_id c) of None \<Rightarrow> rt_created_at c | Some old \<Rightarrow> rt_created_at old)\<rparr>) \<and>
    length (st_roots s2) = length (st_roots s1)"
proof -
  have s1: "s1 = s\<lparr>st_roots := row_upsert rt_id merge_root c (st_roots s)\<rparr>"
    using assms(1) by (auto simp: upsert_root_ca_def split: if_splits)
  have s2: "s2 = s1\<lparr>st_roots := row_upsert rt_id merge_root (c\<lparr>rt_name := nm, rt_created_at := later\<rparr>) (st_roots s1)\<rparr>"
    using assms(2) by (auto simp: upsert_root_ca_def split: if_splits)
  have "row_find rt_id (st_roots s2) = (row_find rt_id (st_roots s))
      (rt_id c \<mapsto> c\<lparr>rt_name := nm, rt_created_at :=
        (case row_find rt_id (st_roots s) (rt_id c) of None \<Rightarrow> rt_created_at c | Some old \<Rightarrow> rt_created_at old)\<rparr>)"
    by (cases c) (auto simp: s2 s1 root_rows.find_upsert merge_root_def fun_eq_iff
        row_exists_iff dest!: row_find_SomeD split: option.splits)
  moreover have "length (st_roots s2) = length (st_roots s1)"
    by (simp add: s2 s1 root_rows.length_upsert root_rows.exists_upsert)
  ultimately show ?thesis by blast
qed

definition demo_root :: root_ca where
  "demo_root = \<lparr>rt_id = ''r'', rt_name = ''Root'', rt_environment = ''prod'', rt_fingerprint = ''fp'',
     rt_status = ''active'', rt_trust_domain = [], rt_created_at = 10, rt_not_before = 10, rt_not_after = 20\<rparr>"

theorem upsert_root_keeps_created_at_witness:
  "\<exists>s1 s2. upsert_root_ca (migrate (empty_store True)) demo_root = Inr s1 \<and>
     upsert_root_ca s1 (demo_root\<lparr>rt_name := ''New'', rt_created_at := 99\<rparr>) = Inr s2 \<and>
     row_find rt_id (st_roots s2) ''r'' = Some (demo_root\<lparr>rt_name := ''New'', rt_created_at := 10\<rparr>)"
proof -
  let ?s = "migrate (empty_store True)"
  have a: "upsert_root_ca ?s demo_root = Inr (?s\<lparr>st_roots := [demo_root]\<rparr>)"
    by (simp add: upsert_root_ca_def need_def schema_tables_def migrate_def empty_store_def row_upsert_def
        row_exists_def root_status_ok_def demo_root_def)
  have b: "upsert_root_ca (?s\<lparr>st_roots := [demo_root]\<rparr>) (demo_root\<lparr>rt_name := ''New'', rt_created_at := 99\<rparr>) =
      Inr (?s\<lparr>st_roots := [demo_root\<lparr>rt_name := ''New''\<rparr>]\<rparr>)"
    by (simp add: upsert_root_ca_def need_def schema_tables_def migrate_def empty_store_def row_upsert_def
        row_exists_def row_update_def merge_root_def root_status_ok_def demo_root_def)
  show ?thesis
    using a b upsert_root_keeps_created_at [OF a b]
    by (simp add: demo_root_def row_find_def migrate_def empty_store_def)
qed

end
