(* ===== verification/Crypto.thy ===== *)
theory Crypto
  imports Clock
begin

text \<open>
  The program's own cryptographic helpers: \<open>internal/crypto/tokens.go\<close> (bootstrap tokens and
  their hashes) and \<open>internal/crypto/pem.go\<close> (password-protected private keys). SHA-256,
  PBKDF2 and AES-GCM are library functions, parameters of the definitions; encodings (base64url,
  hexadecimal, decimal) are the program's calls into Go's standard library and are written out.
\<close>

section \<open>What an operation reads of the world\<close>

text \<open>
  The \<open>n\<close>-th reading of the clock, the \<open>n\<close>-th random UUID, the outcome of reading random bytes
  or a random number, and the id of the trace an operation runs in.
\<close>

record env =
  clk :: "nat \<Rightarrow> gotime"
  uuid :: "nat \<Rightarrow> string"
  draw :: "string + nat"
  trace :: string

section \<open>Bootstrap tokens\<close>

definition hash_token :: "(string \<Rightarrow> char list) \<Rightarrow> string \<Rightarrow> string" where
  "hash_token sha t = hex_encode (sha t)"

definition b64_char :: "nat \<Rightarrow> char" where
  "b64_char n =
     (if n < 26 then char_of (65 + n) else if n < 52 then char_of (71 + n)
      else if n < 62 then char_of (n - 4) else if n = 62 then CHR ''-'' else CHR ''_'')"

text \<open>\<open>base64.RawURLEncoding.EncodeToString\<close>.\<close>

fun b64url :: "char list \<Rightarrow> string" where
  "b64url [] = []"
| "b64url [a] = [b64_char (code a div 4), b64_char (code a mod 4 * 16)]"
| "b64url [a, b] =
     [b64_char (code a div 4), b64_char (code a mod 4 * 16 + code b div 16), b64_char (code b mod 16 * 4)]"
| "b64url (a # b # c # cs) =
     b64_char (code a div 4) # b64_char (code a mod 4 * 16 + code b div 16) #
     b64_char (code b mod 16 * 4 + code c div 64) # b64_char (code c mod 64) # b64url cs"

text \<open>\<open>rnd\<close> is the outcome of \<open>rand.Read\<close> on 32 bytes.\<close>

definition new_bootstrap_token :: "(string + char list) \<Rightarrow> string + string" where
  "new_bootstrap_token rnd = bindE rnd (\<lambda>b. Inr (b64url b))"

lemma b64_char_inject: "m < 64 \<Longrightarrow> n < 64 \<Longrightarrow> b64_char m = b64_char n \<Longrightarrow> m = n"
proof -
  have c: "code (b64_char n) = (if n < 26 then 65 + n else if n < 52 then 71 + n else if n < 62 then n - 4
      else if n = 62 then 45 else 95)" if "n < 64" for n
    using that by (auto simp: b64_char_def code_char_of) (simp_all add: code_def)
  assume "m < 64" "n < 64" "b64_char m = b64_char n"
  then have "code (b64_char m) = code (b64_char n)" by simp
  then show "m = n" using c [OF \<open>m < 64\<close>] c [OF \<open>n < 64\<close>] \<open>m < 64\<close> \<open>n < 64\<close>
    by (auto split: if_splits)
qed

lemma code_inject: "code a = code b \<Longrightarrow> a = b"
  by (simp add: code_def)

lemma digit_pair: "(k::nat) * x + y = k * x' + y' \<Longrightarrow> y < k \<Longrightarrow> y' < k \<Longrightarrow> x = x' \<and> y = y'"
proof -
  assume e: "k * x + y = k * x' + y'" and y: "y < k" "y' < k"
  have "(k * x + y) div k = x" and "(k * x' + y') div k = x'" using y by auto
  with arg_cong [OF e, of "\<lambda>z. z div k"] have x: "x = x'" by (simp only:)
  from e have "y = y'" unfolding x by (rule add_left_imp_eq)
  with x show ?thesis by (rule conjI)
qed

lemma code_parts:
  "code a div 4 < 64" "code a mod 4 * 16 < 64" "code a mod 4 * 16 + code b div 16 < 64" "code b mod 16 * 4 < 64"
  "code b mod 16 * 4 + code c div 64 < 64" "code c mod 64 < 64" "code b div 16 < 16" "code c div 64 < 4"
proof -
  have a: "code x mod 4 < 4" "code x mod 16 < 16" "code x div 4 < 64" "code x div 16 < 16" "code x div 64 < 4" for x
    using code_bound [of x] by (auto intro!: less_mult_imp_div_less)
  show "code a div 4 < 64" "code a mod 4 * 16 < 64" "code a mod 4 * 16 + code b div 16 < 64"
    "code b mod 16 * 4 < 64" "code b mod 16 * 4 + code c div 64 < 64" "code c mod 64 < 64"
    "code b div 16 < 16" "code c div 64 < 4"
    using a(1,3,4) [of a] a(2,4) [of b] a(5) [of c] by auto
qed

lemma b64_eq [simp]: "m < 64 \<Longrightarrow> n < 64 \<Longrightarrow> (b64_char m = b64_char n) = (m = n)"
  by (auto dest: b64_char_inject)

lemma code_eq_parts:
  "code a div k = code b div k \<Longrightarrow> code a mod k = code b mod k \<Longrightarrow> a = b"
  by (rule code_inject) (metis div_mult_mod_eq)

lemma b64url_inject: "b64url xs = b64url ys \<Longrightarrow> length xs = length ys \<Longrightarrow> xs = ys"
proof (induction xs arbitrary: ys rule: b64url.induct)
  case 1
  then show ?case by simp
next
  case (2 a)
  then obtain a' where ys: "ys = [a']" by (auto simp: Suc_length_conv)
  have "code a div 4 = code a' div 4" and "code a mod 4 * 16 = code a' mod 4 * 16"
    using 2 unfolding ys by (simp_all add: code_parts)
  then show ?case unfolding ys by (auto intro: code_eq_parts [of _ 4])
next
  case (3 a b)
  then obtain a' b' where ys: "ys = [a', b']" by (cases ys; cases "tl ys") auto
  have "code a div 4 = code a' div 4" and s: "code a mod 4 * 16 + code b div 16 = code a' mod 4 * 16 + code b' div 16"
    and "code b mod 16 * 4 = code b' mod 16 * 4"
    using 3 unfolding ys by (simp_all add: code_parts)
  moreover have "code a mod 4 = code a' mod 4 \<and> code b div 16 = code b' div 16"
    using digit_pair [of 16 "code a mod 4" "code b div 16"] s code_parts by (simp add: mult.commute)
  ultimately show ?case unfolding ys by (auto intro: code_eq_parts [of _ 4] code_eq_parts [of _ 16])
next
  case (4 a b c cs)
  then obtain a' b' c' cs' where ys: "ys = a' # b' # c' # cs'"
    by (cases ys; cases "tl ys"; cases "tl (tl ys)") auto
  have "code a div 4 = code a' div 4" and s: "code a mod 4 * 16 + code b div 16 = code a' mod 4 * 16 + code b' div 16"
    and t: "code b mod 16 * 4 + code c div 64 = code b' mod 16 * 4 + code c' div 64"
    and "code c mod 64 = code c' mod 64" and cs: "b64url cs = b64url cs'" "length cs = length cs'"
    using 4 unfolding ys by (simp_all add: code_parts)
  moreover have "code a mod 4 = code a' mod 4 \<and> code b div 16 = code b' div 16"
    using digit_pair [of 16 "code a mod 4" "code b div 16"] s code_parts by (simp add: mult.commute)
  moreover have "code b mod 16 = code b' mod 16 \<and> code c div 64 = code c' div 64"
    using digit_pair [of 4 "code b mod 16" "code c div 64"] t code_parts by (simp add: mult.commute)
  ultimately show ?case
    using "4.IH" [OF cs] unfolding ys
    by (auto intro: code_eq_parts [of _ 4] code_eq_parts [of _ 16] code_eq_parts [of _ 64])
qed

lemma length_b64url: "length (b64url bs) = (4 * length bs + 2) div 3"
  by (induction bs rule: b64url.induct) auto

section \<open>Password-protected keys\<close>

record pem_block =
  pb_type :: string
  pb_headers :: "(string \<times> string) list"
  pb_bytes :: "char list"

text \<open>Reading a Go map gives the empty string for a missing key.\<close>

definition header :: "pem_block \<Rightarrow> string \<Rightarrow> string" where
  "header b k = (case map_of (pb_headers b) k of None \<Rightarrow> [] | Some v \<Rightarrow> v)"

datatype key_error =
    KeyRandom string
  | MissingHeaders
  | BadSalt
  | BadIterations
  | BadNonce
  | NoncePanic \<comment> \<open>\<open>gcm.Open\<close> panics on a nonce of another length than \<open>NonceSize\<close>\<close>
  | WrongPassword

text \<open>
  The library: \<open>pbkdf2.Key\<close> with 32 bytes of output and SHA-256, and AES-256-GCM with its
  nonces of 12 bytes.
\<close>

record cipher_suite =
  kdf :: "string \<Rightarrow> char list \<Rightarrow> int \<Rightarrow> char list"
  gcm_seal :: "char list \<Rightarrow> char list \<Rightarrow> char list \<Rightarrow> char list"
  gcm_open :: "char list \<Rightarrow> char list \<Rightarrow> char list \<Rightarrow> char list option"

definition pbkdf2_iterations :: int where "pbkdf2_iterations = 100000"
definition nonce_size :: nat where "nonce_size = 12"

text \<open>\<open>salt\<close> and \<open>nonce\<close> are the outcomes of the two reads of random bytes.\<close>

definition encrypt_private_key ::
  "cipher_suite \<Rightarrow> (string + char list) \<Rightarrow> (string + char list) \<Rightarrow> char list \<Rightarrow> string \<Rightarrow> key_error + pem_block" where
  "encrypt_private_key lib salt nonce der password =
     (case salt of Inl e \<Rightarrow> Inl (KeyRandom e)
      | Inr sa \<Rightarrow>
          (case nonce of Inl e \<Rightarrow> Inl (KeyRandom e)
           | Inr no \<Rightarrow>
               Inr \<lparr>pb_type = ''ENCRYPTED PRIVATE KEY'',
                    pb_headers = [(''Salt'', hex_encode sa), (''Iter'', show_int pbkdf2_iterations),
                                  (''Nonce'', hex_encode no)],
                    pb_bytes = gcm_seal lib (kdf lib password sa pbkdf2_iterations) no der\<rparr>))"

definition decrypt_private_key :: "cipher_suite \<Rightarrow> pem_block \<Rightarrow> string \<Rightarrow> key_error + char list" where
  "decrypt_private_key lib b password =
     (let salt_hex = header b ''Salt''; iter_str = header b ''Iter''; nonce_hex = header b ''Nonce''
      in if salt_hex = [] \<or> iter_str = [] \<or> nonce_hex = [] then Inl MissingHeaders
         else (case hex_decode salt_hex of None \<Rightarrow> Inl BadSalt
               | Some salt \<Rightarrow>
           (case atoi iter_str of None \<Rightarrow> Inl BadIterations
            | Some iter \<Rightarrow>
           (case hex_decode nonce_hex of None \<Rightarrow> Inl BadNonce
            | Some nonce \<Rightarrow>
                if length nonce \<noteq> nonce_size then Inl NoncePanic
                else (case gcm_open lib (kdf lib password salt iter) nonce (pb_bytes b) of
                        None \<Rightarrow> Inl WrongPassword
                      | Some der \<Rightarrow> Inr der)))))"

definition is_encrypted_block :: "pem_block \<Rightarrow> bool" where
  "is_encrypted_block b \<longleftrightarrow> pb_type b = ''ENCRYPTED PRIVATE KEY'' \<and> header b ''Salt'' \<noteq> []"

lemma hex_encode_eq_Nil [simp]: "hex_encode bs = [] \<longleftrightarrow> bs = []"
  by (cases bs) auto

lemma atoi_iterations: "atoi (show_int pbkdf2_iterations) = Some pbkdf2_iterations"
  by (rule atoi_show_int) (simp_all add: pbkdf2_iterations_def)

lemma show_int_nonempty [simp]: "show_int i \<noteq> []"
  using show_nat_digits by (auto simp: show_int_def)

lemma encrypted_headers:
  assumes "encrypt_private_key lib (Inr salt) (Inr nonce) der pw = Inr b"
  shows "header b ''Salt'' = hex_encode salt" "header b ''Iter'' = show_int pbkdf2_iterations"
    "header b ''Nonce'' = hex_encode nonce" "pb_type b = ''ENCRYPTED PRIVATE KEY''"
    "pb_bytes b = gcm_seal lib (kdf lib pw salt pbkdf2_iterations) nonce der"
  using assms by (auto simp: encrypt_private_key_def header_def)

section \<open>Properties\<close>

text \<open>
  C16. A private key that was encrypted with a password is recognised as encrypted and
  decrypts, with the same password, to the same bytes. The cipher is assumed to open what it
  sealed under the same key and nonce; salt and nonce are the 16 and 12 random bytes.
\<close>

theorem private_key_roundtrip:
  assumes "\<And>k n x. gcm_open lib k n (gcm_seal lib k n x) = Some x"
    and "length salt = 16" and "length nonce = 12"
  shows "\<exists>b. encrypt_private_key lib (Inr salt) (Inr nonce) der pw = Inr b \<and>
    is_encrypted_block b \<and> decrypt_private_key lib b pw = Inr der"
proof -
  obtain b where b: "encrypt_private_key lib (Inr salt) (Inr nonce) der pw = Inr b"
    by (simp add: encrypt_private_key_def)
  have "salt \<noteq> []" and "nonce \<noteq> []" using assms(2,3) by auto
  then have "is_encrypted_block b \<and> decrypt_private_key lib b pw = Inr der"
    using assms(1,3) by (simp add: is_encrypted_block_def decrypt_private_key_def Let_def encrypted_headers [OF b]
        hex_decode_encode atoi_iterations nonce_size_def)
  with b show ?thesis by blast
qed

definition demo_suite :: cipher_suite where
  "demo_suite = \<lparr>kdf = (\<lambda>p s i. p @ s), gcm_seal = (\<lambda>k n x. k @ n @ x),
     gcm_open = (\<lambda>k n c. if has_prefix c (k @ n) then Some (drop (length (k @ n)) c) else None)\<rparr>"

theorem private_key_roundtrip_witness:
  "\<exists>b. encrypt_private_key demo_suite (Inr (replicate 16 CHR ''s'')) (Inr (replicate 12 CHR ''n'')) ''key'' ''pw'' = Inr b \<and>
     is_encrypted_block b \<and> decrypt_private_key demo_suite b ''pw'' = Inr ''key''"
proof (rule private_key_roundtrip)
  show "gcm_open demo_suite k n (gcm_seal demo_suite k n x) = Some x" for k n x
    using has_prefix_self [of "k @ n" x] by (simp add: demo_suite_def)
qed simp_all

text \<open>
  A key file whose nonce header is valid hexadecimal of another length than 12 bytes does
  not produce an error but stops the program: \<open>gcm.Open\<close> panics. The password is irrelevant.
\<close>

theorem short_nonce_panics:
  assumes "header b ''Salt'' = hex_encode salt" and "salt \<noteq> []" and "header b ''Iter'' = show_int i"
    and "0 \<le> i" and "i < 2 ^ 63" and "header b ''Nonce'' = hex_encode nonce" and "nonce \<noteq> []"
  shows "(decrypt_private_key lib b pw = Inl NoncePanic) = (length nonce \<noteq> 12)"
proof -
  have "atoi (show_int i) = Some i" using assms(4,5) by (intro atoi_show_int) auto
  then show ?thesis
    using assms by (auto simp: decrypt_private_key_def hex_decode_encode nonce_size_def split: option.splits)
qed

theorem short_nonce_panics_witness:
  "decrypt_private_key demo_suite
     \<lparr>pb_type = ''ENCRYPTED PRIVATE KEY'',
      pb_headers = [(''Salt'', hex_encode ''salt''), (''Iter'', show_int 5), (''Nonce'', hex_encode ''n'')],
      pb_bytes = ''x''\<rparr> ''pw'' = Inl NoncePanic"
  by (subst short_nonce_panics [where salt = "''salt''" and i = 5 and nonce = "''n''"]) (simp_all add: header_def)

text \<open>
  Two bootstrap tokens made from different random bytes are different, a token has 43
  characters, and tokens stored under the same hash are equal unless SHA-256 collides on them.
\<close>

theorem bootstrap_tokens_distinct:
  assumes "new_bootstrap_token (Inr xs) = Inr t" and "new_bootstrap_token (Inr ys) = Inr u"
    and "length xs = 32" and "length ys = 32" and "inj_on sha {t, u}"
  shows "length t = 43 \<and> (hash_token sha t = hash_token sha u) = (xs = ys)"
  using assms b64url_inject [of xs ys]
  by (auto simp: new_bootstrap_token_def length_b64url hash_token_def dest: hex_encode_inject inj_onD)

theorem bootstrap_tokens_distinct_witness:
  "hash_token rev (b64url (replicate 32 CHR ''a'')) \<noteq> hash_token rev (b64url (replicate 32 CHR ''b''))"
  using bootstrap_tokens_distinct [of "replicate 32 CHR ''a''" _ "replicate 32 CHR ''b''" _ rev]
  by (simp add: new_bootstrap_token_def inj_on_def)

end
