(* ===== verification/Enrollment.thy ===== *)
theory Enrollment
  imports Store_Invariant Crypto
begin

text \<open>
  Enrollment with a bootstrap token: \<open>internal/enrollment/enrollment.go\<close>. The lemmas follow a token through the life of the store: which
  requests it admits, that a revoked token admits none ever again, and that a valid one admits
  any number.
\<close>

record enroll_request =
  er_token :: string
  er_hostname :: string
  er_machine_id :: string
  er_mac :: string

datatype enroll_error = FieldsRequired | ErrInvalidToken | EnrollStore db_error

text \<open>The condition of the code's token check, negated: the token admits the request.\<close>

definition token_admits :: "gotime \<Rightarrow> bootstrap_token \<Rightarrow> enroll_request \<Rightarrow> bool" where
  "token_admits now t req \<longleftrightarrow>
     bt_revoked_at t = None \<and> \<not> now > bt_expires_at t \<and> equal_fold (bt_hostname t) (er_hostname req)"

definition enrollment_of :: "env \<Rightarrow> bootstrap_token \<Rightarrow> enroll_request \<Rightarrow> enrollment" where
  "enrollment_of e t req =
     \<lparr>en_id = uuid e 0, en_hostname = er_hostname req, en_machine_id = er_machine_id req,
      en_mac = er_mac req, en_token_id = bt_id t, en_created_at = clk e 1\<rparr>"

definition validate_and_enroll ::
  "(string \<Rightarrow> char list) \<Rightarrow> env \<Rightarrow> store \<Rightarrow> enroll_request \<Rightarrow> enroll_error + (store \<times> string)" where
  "validate_and_enroll sha e s req =
     (if trim_space (er_hostname req) = [] \<or> trim_space (er_machine_id req) = [] then Inl FieldsRequired
      else (case get_bootstrap_token_by_hash s (hash_token sha (er_token req)) of
              Inl err \<Rightarrow> Inl ErrInvalidToken
            | Inr t \<Rightarrow>
                if \<not> token_admits (clk e 0) t req then Inl ErrInvalidToken
                else (case create_enrollment s (enrollment_of e t req) of
                        Inl err \<Rightarrow> Inl (EnrollStore err)
                      | Inr s' \<Rightarrow> Inr (s', uuid e 0))))"

lemma get_by_hash_Inr:
  "get_bootstrap_token_by_hash s h = Inr t \<longleftrightarrow>
     ''bootstrap_tokens'' \<in> set (st_tables s) \<and> row_find bt_token_hash (st_tokens s) h = Some t"
  by (auto simp: get_bootstrap_token_by_hash_def split: option.splits)

lemma create_enrollment_Inr:
  "create_enrollment s en = Inr s' \<longleftrightarrow>
     ''enrollments'' \<in> set (st_tables s) \<and> \<not> row_exists en_id (en_id en) (st_enrollments s) \<and>
     fk_ok s (row_exists bt_id (en_token_id en) (st_tokens s)) \<and>
     s' = s\<lparr>st_enrollments := st_enrollments s @ [en]\<rparr>"
  by (auto simp: create_enrollment_def)

lemma validate_and_enroll_Inr:
  "validate_and_enroll sha e s req = Inr (s', i) \<longleftrightarrow>
     trim_space (er_hostname req) \<noteq> [] \<and> trim_space (er_machine_id req) \<noteq> [] \<and>
     (\<exists>t. get_bootstrap_token_by_hash s (hash_token sha (er_token req)) = Inr t \<and>
          token_admits (clk e 0) t req \<and> create_enrollment s (enrollment_of e t req) = Inr s') \<and>
     i = uuid e 0"
  by (auto simp: validate_and_enroll_def split: sum.splits)

section \<open>A token keeps its identity\<close>

text \<open>
  No command removes a token or changes anything of it but its revocation time, which is never
  cleared.
\<close>

definition token_le :: "bootstrap_token \<Rightarrow> bootstrap_token \<Rightarrow> bool" where
  "token_le t t' \<longleftrightarrow> t' = t\<lparr>bt_revoked_at := bt_revoked_at t'\<rparr> \<and> (bt_revoked_at t \<noteq> None \<longrightarrow> bt_revoked_at t' \<noteq> None)"

lemma token_le_refl [simp]: "token_le t t"
  by (simp add: token_le_def)

lemma token_le_trans: "token_le t u \<Longrightarrow> token_le u v \<Longrightarrow> token_le t v"
  by (cases t; cases u; cases v) (auto simp: token_le_def)

lemma token_le_hash: "token_le t t' \<Longrightarrow> bt_token_hash t' = bt_token_hash t"
  unfolding token_le_def by (metis bootstrap_token.select_convs(2) bootstrap_token.surjective bootstrap_token.update_convs(5))

lemma committed_tokens:
  "(\<And>s'. r = Inr s' \<Longrightarrow> st_tokens s' = st_tokens s) \<Longrightarrow> st_tokens (committed s r) = st_tokens s"
  by (cases r) auto

lemma tokens_frame [frame]:
  "create_enrollment s e = Inr s' \<Longrightarrow> st_tokens s' = st_tokens s"
  "store_issued_certificate s c = Inr s' \<Longrightarrow> st_tokens s' = st_tokens s"
  "create_audit_log sha (Some s) a = Inr s' \<Longrightarrow> st_tokens s' = st_tokens s"
  "upsert_ca_config s cc = Inr s' \<Longrightarrow> st_tokens s' = st_tokens s"
  "upsert_root_ca s rt = Inr s' \<Longrightarrow> st_tokens s' = st_tokens s"
  "upsert_intermediate_ca s im = Inr s' \<Longrightarrow> st_tokens s' = st_tokens s"
  "upsert_ca_role s ro = Inr s' \<Longrightarrow> st_tokens s' = st_tokens s"
  "upsert_ca_token_policy s tp = Inr s' \<Longrightarrow> st_tokens s' = st_tokens s"
  by (auto simp: create_enrollment_def store_issued_certificate_def create_audit_log_def upsert_ca_config_def
      upsert_root_ca_def upsert_intermediate_ca_def upsert_ca_role_def upsert_ca_token_policy_def Let_def
      split: if_splits)

lemma exec_token_le:
  assumes "t \<in> set (st_tokens s)"
  shows "\<exists>t' \<in> set (st_tokens (exec sha s c)). token_le t t'"
proof (cases c)
  case (CreateBootstrapToken u)
  with assms show ?thesis
    by (auto simp: committed_def create_bootstrap_token_def need_def split: sum.splits if_splits intro!: bexI [of _ t])
next
  case (RevokeBootstrapToken now i)
  show ?thesis
  proof (cases "revoke_bootstrap_token now s i")
    case (Inl e)
    with assms RevokeBootstrapToken show ?thesis by (auto intro!: bexI [of _ t])
  next
    case (Inr s')
    then have "st_tokens s' = row_update bt_id i (\<lambda>t. t\<lparr>bt_revoked_at := Some (current_timestamp now)\<rparr>) (st_tokens s)"
      by (auto simp: revoke_bootstrap_token_def split: if_splits)
    moreover have "token_le t (if bt_id t = i then t\<lparr>bt_revoked_at := Some (current_timestamp now)\<rparr> else t)"
      by (cases t) (simp add: token_le_def)
    moreover have "(if bt_id t = i then t\<lparr>bt_revoked_at := Some (current_timestamp now)\<rparr> else t)
        \<in> set (row_update bt_id i (\<lambda>t. t\<lparr>bt_revoked_at := Some (current_timestamp now)\<rparr>) (st_tokens s))"
      using assms by (auto simp: row_update_def)
    ultimately show ?thesis
      using Inr RevokeBootstrapToken by auto
  qed
next
  case (RevokeCertificate r)
  with assms show ?thesis
    by (auto simp: revoke_certificate_def Let_def intro!: bexI [of _ t])
qed (use assms in \<open>auto simp: migrate_def committed_def intro!: bexI [of _ t] dest: frame split: sum.splits\<close>)

lemma run_token_le:
  "t \<in> set (st_tokens s) \<Longrightarrow> \<exists>t' \<in> set (st_tokens (run sha s cs)). token_le t t'"
proof (induction cs arbitrary: s t)
  case Nil
  then show ?case by (auto intro!: bexI [of _ t])
next
  case (Cons c cs)
  from exec_token_le [OF Cons.prems, of sha c] obtain u
    where u: "u \<in> set (st_tokens (exec sha s c))" "token_le t u" by blast
  from Cons.IH [OF u(1)] show ?case using u(2) by (auto intro: token_le_trans)
qed

section \<open>Properties\<close>

text \<open>
  C5. A request enrolls a host exactly when both its names are non-blank and its token is
  known by its hash, not revoked, not past its expiry and issued for this hostname up to case;
  the only change is then one new enrollment, of that token, with the new id the answer
  carries. Any refusal leaves the store alone, having no new store to return.
\<close>

theorem enroll_iff_token_admits:
  assumes "store_inv s" and "set schema_tables \<subseteq> set (st_tables s)"
    and "\<not> row_exists en_id (uuid e 0) (st_enrollments s)"
  shows "validate_and_enroll sha e s req = Inr (s', i) \<longleftrightarrow>
    trim_space (er_hostname req) \<noteq> [] \<and> trim_space (er_machine_id req) \<noteq> [] \<and>
    (\<exists>t \<in> set (st_tokens s). bt_token_hash t = hash_token sha (er_token req) \<and>
       bt_revoked_at t = None \<and> clk e 0 \<le> bt_expires_at t \<and> equal_fold (bt_hostname t) (er_hostname req) \<and>
       s' = s\<lparr>st_enrollments := st_enrollments s @ [enrollment_of e t req]\<rparr>) \<and>
    i = uuid e 0"
proof -
  have dist: "distinct (map bt_token_hash (st_tokens s))"
    using assms(1) by (simp add: store_inv_def keys_ok_def)
  have tabs: "''bootstrap_tokens'' \<in> set (st_tables s)" "''enrollments'' \<in> set (st_tables s)"
    using assms(2) by (auto simp: schema_tables_def)
  have get: "get_bootstrap_token_by_hash s h = Inr t \<longleftrightarrow> t \<in> set (st_tokens s) \<and> bt_token_hash t = h" for h t
    using tabs row_find_distinct [OF dist] row_find_SomeD [of bt_token_hash "st_tokens s" h t]
    by (auto simp: get_by_hash_Inr)
  show ?thesis
    using tabs assms(3)
    by (auto simp: validate_and_enroll_Inr get create_enrollment_Inr token_admits_def enrollment_of_def
        fk_ok_def row_exists_iff)
qed

definition demo_sha :: "string \<Rightarrow> char list" where "demo_sha x = rev x"

definition demo_env :: env where
  "demo_env = \<lparr>clk = (\<lambda>n. 100 + int n), uuid = (\<lambda>n. replicate (Suc n) CHR ''u''),
     draw = Inr 255, trace = ''t''\<rparr>"

definition demo_store :: store where
  "demo_store = (migrate (empty_store True))\<lparr>st_tokens :=
     [demo_token\<lparr>bt_token_hash := hex_encode ''terces''\<rparr>]\<rparr>"

definition demo_request :: enroll_request where
  "demo_request = \<lparr>er_token = ''secret'', er_hostname = ''NODE'', er_machine_id = ''m'', er_mac = []\<rparr>"

lemma demo_store_tables [simp]: "set schema_tables \<subseteq> set (st_tables demo_store)"
  by (auto simp: demo_store_def migrate_def)

lemma demo_store_inv [simp]: "store_inv demo_store"
  by (simp add: demo_store_def inv_defs migrate_def empty_store_def)

lemma demo_request_nonblank [simp]:
  "trim_space (er_hostname demo_request) \<noteq> []" "trim_space (er_machine_id demo_request) \<noteq> []"
  by (simp_all add: demo_request_def trim_space_def is_space_def code_def)

theorem enroll_iff_token_admits_witness:
  "\<exists>s'. validate_and_enroll demo_sha demo_env demo_store demo_request = Inr (s', ''u'')"
proof -
  have n: "\<not> row_exists en_id (uuid demo_env 0) (st_enrollments demo_store)"
    by (simp add: demo_store_def migrate_def empty_store_def row_exists_def)
  show ?thesis
    using enroll_iff_token_admits [OF demo_store_inv demo_store_tables n, of demo_sha demo_request _ "''u''"]
    by (auto simp: demo_store_def demo_token_def demo_env_def demo_sha_def hash_token_def)
      (auto simp: demo_request_def trim_space_def is_space_def code_def equal_fold_def char_eval)
qed

text \<open>The token a revocation hit is refused from then on.\<close>

lemma revoked_token_refused:
  assumes "store_inv s" and "revoke_bootstrap_token now s i = Inr s1"
    and "row_find bt_id (st_tokens s) i = Some t" and "hash_token sha (er_token req) = bt_token_hash t"
    and "trim_space (er_hostname req) \<noteq> []" and "trim_space (er_machine_id req) \<noteq> []"
  shows "validate_and_enroll sha e (run sha s1 cs) req = Inl ErrInvalidToken"
proof -
  let ?r = "t\<lparr>bt_revoked_at := Some (current_timestamp now)\<rparr>"
  let ?s = "run sha s1 cs"
  have t: "t \<in> set (st_tokens s)" "bt_id t = i" using row_find_SomeD [OF assms(3)] by auto
  have "st_tokens s1 = row_update bt_id i (\<lambda>t. t\<lparr>bt_revoked_at := Some (current_timestamp now)\<rparr>) (st_tokens s)"
    using assms(2) by (auto simp: revoke_bootstrap_token_def split: if_splits)
  with t have "?r \<in> set (st_tokens s1)" by (auto simp: row_update_def)
  then obtain u where u: "u \<in> set (st_tokens ?s)" "token_le ?r u" using run_token_le by blast
  have "store_inv ?s" using assms(1,2) by (intro run_inv) (rule revoke_bootstrap_token_inv)
  then have dist: "distinct (map bt_token_hash (st_tokens ?s))" by (simp add: store_inv_def keys_ok_def)
  have h: "bt_token_hash u = hash_token sha (er_token req)" using token_le_hash [OF u(2)] assms(4) by simp
  have "bt_revoked_at u \<noteq> None" using u(2) by (simp add: token_le_def)
  moreover have "get_bootstrap_token_by_hash ?s (hash_token sha (er_token req)) = Inr v \<Longrightarrow> v = u" for v
    using row_find_distinct [OF dist u(1)] h by (simp add: get_by_hash_Inr)
  ultimately show ?thesis
    using assms(5,6) by (auto simp: validate_and_enroll_def token_admits_def split: sum.splits)
qed

text \<open>
  Revocation of a token is final: whatever methods run on the store afterwards, a request
  that presents the token is refused as an invalid token. (Expiry and hostname play no part.)
\<close>

theorem revoked_token_never_enrolls:
  assumes "store_inv s" and "revoke_bootstrap_token now s i = Inr s1"
    and "row_find bt_id (st_tokens s) i = Some t" and "hash_token sha (er_token req) = bt_token_hash t"
    and "trim_space (er_hostname req) \<noteq> []" and "trim_space (er_machine_id req) \<noteq> []"
  shows "validate_and_enroll sha e (run sha s1 cs) req = Inl ErrInvalidToken"
  by (rule revoked_token_refused [OF assms])

theorem revoked_token_never_enrolls_witness:
  "\<exists>s1. revoke_bootstrap_token 500 demo_store ''tok'' = Inr s1 \<and>
     validate_and_enroll demo_sha demo_env (run demo_sha s1 [Migrate, CreateBootstrapToken demo_token]) demo_request
       = Inl ErrInvalidToken"
proof -
  let ?t = "demo_token\<lparr>bt_token_hash := hex_encode ''terces''\<rparr>"
  obtain s1 where s1: "revoke_bootstrap_token 500 demo_store ''tok'' = Inr s1"
    by (simp add: revoke_bootstrap_token_def demo_store_def row_exists_def demo_token_def need_def
        migrate_def empty_store_def schema_tables_def)
  have f: "row_find bt_id (st_tokens demo_store) ''tok'' = Some ?t"
    by (simp add: demo_store_def row_find_def demo_token_def)
  have h: "hash_token demo_sha (er_token demo_request) = bt_token_hash ?t"
    by (simp add: hash_token_def demo_sha_def demo_request_def)
  show ?thesis
    using s1 revoked_token_never_enrolls [OF demo_store_inv s1 f h demo_request_nonblank,
        of demo_env "[Migrate, CreateBootstrapToken demo_token]"] by auto
qed

text \<open>
  A token is not used up: after it has admitted a host, the same token admits a second
  request, from a machine with another id, as long as it is within its expiry.
\<close>

theorem token_enrolls_again:
  assumes "store_inv s" and "set schema_tables \<subseteq> set (st_tables s)"
    and "validate_and_enroll sha e s req = Inr (s1, i)"
    and "trim_space machine \<noteq> []" and "clk e' 0 \<le> clk e 0" and "\<not> row_exists en_id (uuid e' 0) (st_enrollments s1)"
  shows "\<exists>s2. validate_and_enroll sha e' s1 (req\<lparr>er_machine_id := machine\<rparr>) = Inr (s2, uuid e' 0)"
proof -
  from assms(3) obtain t where t: "get_bootstrap_token_by_hash s (hash_token sha (er_token req)) = Inr t"
      "token_admits (clk e 0) t req" "create_enrollment s (enrollment_of e t req) = Inr s1"
    and host: "trim_space (er_hostname req) \<noteq> []"
    by (auto simp: validate_and_enroll_Inr)
  from t(3) have s1: "s1 = s\<lparr>st_enrollments := st_enrollments s @ [enrollment_of e t req]\<rparr>"
    and fk: "fk_ok s (row_exists bt_id (bt_id t) (st_tokens s))"
    and tab: "''enrollments'' \<in> set (st_tables s)"
    by (auto simp: create_enrollment_Inr enrollment_of_def)
  have "get_bootstrap_token_by_hash s1 (hash_token sha (er_token req)) = Inr t"
    using t(1) by (simp add: get_by_hash_Inr s1)
  moreover have "token_admits (clk e' 0) t (req\<lparr>er_machine_id := machine\<rparr>)"
    using t(2) assms(5) by (simp add: token_admits_def)
  moreover have "\<exists>s2. create_enrollment s1 (enrollment_of e' t (req\<lparr>er_machine_id := machine\<rparr>)) = Inr s2"
    using fk tab assms(6) by (simp add: create_enrollment_Inr enrollment_of_def s1 fk_ok_def)
  ultimately show ?thesis
    using host assms(4) by (auto simp: validate_and_enroll_Inr)
qed

theorem token_enrolls_again_witness:
  "\<exists>s1 s2. validate_and_enroll demo_sha demo_env demo_store demo_request = Inr (s1, ''u'') \<and>
     validate_and_enroll demo_sha (demo_env\<lparr>uuid := \<lambda>n. ''v''\<rparr>) s1 (demo_request\<lparr>er_machine_id := ''other''\<rparr>)
       = Inr (s2, ''v'')"
proof -
  let ?t = "demo_token\<lparr>bt_token_hash := hex_encode ''terces''\<rparr>"
  let ?s1 = "demo_store\<lparr>st_enrollments := [enrollment_of demo_env ?t demo_request]\<rparr>"
  have one: "validate_and_enroll demo_sha demo_env demo_store demo_request = Inr (?s1, ''u'')"
    by (simp add: validate_and_enroll_Inr get_by_hash_Inr create_enrollment_Inr token_admits_def)
      (simp add: demo_store_def migrate_def empty_store_def schema_tables_def row_find_def row_exists_def
        demo_token_def demo_request_def demo_sha_def hash_token_def demo_env_def fk_ok_def enrollment_of_def
        equal_fold_def char_eval trim_space_def is_space_def)
  have "trim_space ''other'' \<noteq> []" by (simp add: trim_space_def is_space_def code_def)
  moreover have "\<not> row_exists en_id (uuid (demo_env\<lparr>uuid := \<lambda>n. ''v''\<rparr>) 0) (st_enrollments ?s1)"
    by (simp add: row_exists_def enrollment_of_def demo_env_def)
  ultimately have "\<exists>s2. validate_and_enroll demo_sha (demo_env\<lparr>uuid := \<lambda>n. ''v''\<rparr>) ?s1
      (demo_request\<lparr>er_machine_id := ''other''\<rparr>) = Inr (s2, uuid (demo_env\<lparr>uuid := \<lambda>n. ''v''\<rparr>) 0)"
    by (intro token_enrolls_again [OF demo_store_inv demo_store_tables one]) (simp_all add: demo_env_def)
  then show ?thesis using one by auto
qed

end
