(* ===== verification/Ledger.thy ===== *)
theory Ledger
  imports Store
begin

text \<open>
  The audit ledger: \<open>internal/audit\<close> writes an entry, \<open>CreateAuditLog\<close> links it to the newest
  one by its hash, and the loop of \<open>AuditChainCheck\<close> (\<open>internal/securitycheck/checks.go\<close>)
  walks the links from the oldest listed entry to the newest. The locale \<open>hash_chain\<close> is the
  contract between the writer, which seals an entry over the hash of its predecessor, and the
  checker; its lemmas are about sealed chains in general and it is interpreted on the audit
  entries of the store.
\<close>

section \<open>Hash chains\<close>

fun linked :: "('e \<Rightarrow> string) \<Rightarrow> ('e \<Rightarrow> string) \<Rightarrow> ('e \<Rightarrow> string) \<Rightarrow> string \<Rightarrow> 'e list \<Rightarrow> bool" where
  "linked prev stored digest h [] = True"
| "linked prev stored digest h (e # es) \<longleftrightarrow>
     prev e = h \<and> stored e = digest e \<and> linked prev stored digest (stored e) es"

text \<open>The hash the next entry has to refer to.\<close>

fun tip :: "('e \<Rightarrow> string) \<Rightarrow> string \<Rightarrow> 'e list \<Rightarrow> string" where
  "tip stored h [] = h"
| "tip stored h (e # es) = tip stored (stored e) es"

lemma linked_append:
  "linked prev stored digest h (es @ fs) \<longleftrightarrow>
     linked prev stored digest h es \<and> linked prev stored digest (tip stored h es) fs"
  by (induction es arbitrary: h) auto

lemma tip_append [simp]: "tip stored h (es @ fs) = tip stored (tip stored h es) fs"
  by (induction es arbitrary: h) auto

lemma linked_map:
  "(\<And>e. e \<in> set es \<Longrightarrow> prev (f e) = prev e \<and> stored (f e) = stored e \<and> digest (f e) = digest e) \<Longrightarrow>
    linked prev stored digest h (map f es) = linked prev stored digest h es"
  by (induction es arbitrary: h) auto

locale hash_chain =
  fixes prev :: "'e \<Rightarrow> string"
    and stored :: "'e \<Rightarrow> string"
    and digest :: "'e \<Rightarrow> string"
    and seal :: "string \<Rightarrow> 'e \<Rightarrow> 'e"
  assumes prev_seal: "prev (seal h e) = h"
    and stored_seal: "stored (seal h e) = digest (seal h e)"
begin

lemma linked_snoc_seal:
  "linked prev stored digest h es \<Longrightarrow> linked prev stored digest h (es @ [seal (tip stored h es) e])"
  by (simp add: linked_append prev_seal stored_seal)

text \<open>A chain with its first entries cut off does not start at the hash of its predecessor.\<close>

lemma linked_suffix_prev:
  "linked prev stored digest h (es @ f # fs) \<Longrightarrow> prev f = tip stored h es"
  by (simp add: linked_append)

end

section \<open>Audit entries\<close>

definition seal_audit :: "(string \<Rightarrow> char list) \<Rightarrow> string \<Rightarrow> audit_log \<Rightarrow> audit_log" where
  "seal_audit sha h a =
     (let a1 = a\<lparr>al_prev_hash := h\<rparr> in a1\<lparr>al_hash := audit_hash sha a1\<rparr>)"

lemma audit_preimage_hash [simp]: "audit_preimage (a\<lparr>al_hash := h\<rparr>) = audit_preimage a"
  by (simp add: audit_preimage_def)

lemma audit_hash_hash [simp]: "audit_hash sha (a\<lparr>al_hash := h\<rparr>) = audit_hash sha a"
  by (simp add: audit_hash_def)

interpretation audit_chain: hash_chain al_prev_hash al_hash "audit_hash sha" "seal_audit sha" for sha
  by unfold_locales (simp_all add: seal_audit_def Let_def)

lemma seal_audit_fields [simp]:
  "al_id (seal_audit sha h a) = al_id a" "al_created_at (seal_audit sha h a) = al_created_at a"
  "al_prev_hash (seal_audit sha h a) = h"
  by (simp_all add: seal_audit_def Let_def)

abbreviation audit_linked :: "(string \<Rightarrow> char list) \<Rightarrow> string \<Rightarrow> audit_log list \<Rightarrow> bool" where
  "audit_linked sha \<equiv> linked al_prev_hash al_hash (audit_hash sha)"

lemma create_audit_log_seal:
  "create_audit_log sha (Some s) a = need ''audit_logs'' s
     (if row_exists al_id (al_id a) (st_audit s) then Inl (UniqueViolation ''audit_logs.id'')
      else Inr (s\<lparr>st_audit := st_audit s @ [seal_audit sha (latest_audit_hash (st_audit s)) a]\<rparr>))"
  by (simp add: create_audit_log_def seal_audit_def Let_def)

text \<open>The entry that \<open>audit.Logger.Record\<close> hands to the store; a failed write is dropped.\<close>

definition audit_entry ::
  "string \<Rightarrow> gotime \<Rightarrow> string \<Rightarrow> string \<Rightarrow> string \<Rightarrow> string \<Rightarrow> string \<Rightarrow> audit_log" where
  "audit_entry uuid now trace action actor target meta =
     \<lparr>al_id = uuid, al_action = action, al_actor = actor, al_target = target, al_metadata = meta,
      al_trace_id = trace, al_prev_hash = [], al_hash = [], al_created_at = now\<rparr>"

definition audit_record :: "(string \<Rightarrow> char list) \<Rightarrow> store \<Rightarrow> audit_log \<Rightarrow> store" where
  "audit_record sha s a = (case create_audit_log sha (Some s) a of Inl e \<Rightarrow> s | Inr s' \<Rightarrow> s')"

fun audit_records :: "(string \<Rightarrow> char list) \<Rightarrow> store \<Rightarrow> audit_log list \<Rightarrow> store" where
  "audit_records sha s [] = s"
| "audit_records sha s (a # as) = audit_records sha (audit_record sha s a) as"

section \<open>The check\<close>

datatype chain_verdict =
    ChainValid
  | BrokenLink string string string \<comment> \<open>entry, expected previous hash, hash found\<close>
  | BadHash string

fun verify_entries :: "(string \<Rightarrow> char list) \<Rightarrow> string \<Rightarrow> audit_log list \<Rightarrow> chain_verdict" where
  "verify_entries sha last_hash [] = ChainValid"
| "verify_entries sha last_hash (log # logs) =
     (if al_prev_hash log \<noteq> last_hash then BrokenLink (al_id log) last_hash (al_prev_hash log)
      else if al_hash log \<noteq> audit_hash sha log then BadHash (al_id log)
      else verify_entries sha (al_hash log) logs)"

text \<open>\<open>logs\<close> is the result of \<open>ListAuditLogs\<close>, newest first; the loop runs from its end.\<close>

definition verify_ledger :: "(string \<Rightarrow> char list) \<Rightarrow> audit_log list \<Rightarrow> chain_verdict" where
  "verify_ledger sha logs = verify_entries sha [] (rev logs)"

lemma verify_entries_iff: "verify_entries sha h es = ChainValid \<longleftrightarrow> audit_linked sha h es"
  by (induction es arbitrary: h) auto

section \<open>Ledgers the program writes\<close>

definition increasing :: "audit_log list \<Rightarrow> bool" where
  "increasing as \<longleftrightarrow> sorted_wrt (\<lambda>a b. al_created_at a < al_created_at b) as"

lemma order_desc_audit: "increasing as \<Longrightarrow> order_desc al_created_at as = rev as"
  by (simp add: increasing_def order_desc_increasing)

lemma latest_audit_hash_tip:
  assumes "increasing as"
  shows "latest_audit_hash as = tip al_hash [] as"
proof -
  have "sorted_wrt (\<lambda>a b. (al_created_at a, al_id a) < (al_created_at b, al_id b)) as"
    using assms by (auto simp: increasing_def less_prod_def elim!: sorted_wrt_mono_rel [rotated])
  then have "order_desc (\<lambda>a. (al_created_at a, al_id a)) as = rev as"
    by (rule order_desc_increasing)
  then show ?thesis
    by (cases as rule: rev_exhaust) (simp_all add: latest_audit_hash_def)
qed

text \<open>
  Recording entries with fresh ids and a clock that moves forward appends them, sealed, in
  order; the whole ledger is linked.
\<close>

definition ledger_ok :: "(string \<Rightarrow> char list) \<Rightarrow> store \<Rightarrow> bool" where
  "ledger_ok sha s \<longleftrightarrow> ''audit_logs'' \<in> set (st_tables s) \<and> increasing (st_audit s) \<and> audit_linked sha [] (st_audit s)"

definition fresh_entries :: "store \<Rightarrow> audit_log list \<Rightarrow> bool" where
  "fresh_entries s as \<longleftrightarrow> distinct (map al_id as) \<and> set (map al_id as) \<inter> set (map al_id (st_audit s)) = {} \<and>
     increasing (st_audit s @ as)"

lemma increasing_append:
  "increasing (as @ bs) \<longleftrightarrow> increasing as \<and> increasing bs \<and>
     (\<forall>a \<in> set as. \<forall>b \<in> set bs. al_created_at a < al_created_at b)"
  by (simp add: increasing_def sorted_wrt_append)

lemma increasing_simps [simp]: "increasing []" "increasing [a]"
  "increasing (a # as) \<longleftrightarrow> (\<forall>b \<in> set as. al_created_at a < al_created_at b) \<and> increasing as"
  by (auto simp: increasing_def)

lemma audit_record_ok:
  assumes "ledger_ok sha s" and "fresh_entries s (a # as)"
  shows "ledger_ok sha (audit_record sha s a)" and "fresh_entries (audit_record sha s a) as"
    and "st_audit (audit_record sha s a) = st_audit s @ [seal_audit sha (tip al_hash [] (st_audit s)) a]"
proof -
  have nex: "\<not> row_exists al_id (al_id a) (st_audit s)"
    using assms(2) by (auto simp: fresh_entries_def row_exists_iff)
  have inc: "increasing (st_audit s)" and tab: "''audit_logs'' \<in> set (st_tables s)"
    using assms(1) by (simp_all add: ledger_ok_def)
  have r: "audit_record sha s a =
      s\<lparr>st_audit := st_audit s @ [seal_audit sha (tip al_hash [] (st_audit s)) a]\<rparr>"
    using nex tab by (simp add: audit_record_def create_audit_log_seal need_def latest_audit_hash_tip [OF inc])
  then show "st_audit (audit_record sha s a) = st_audit s @ [seal_audit sha (tip al_hash [] (st_audit s)) a]"
    by simp
  show "ledger_ok sha (audit_record sha s a)"
    using assms unfolding r
    by (auto simp: ledger_ok_def fresh_entries_def increasing_append
        intro!: audit_chain.linked_snoc_seal)
  show "fresh_entries (audit_record sha s a) as"
    using assms(2) unfolding r
    by (auto simp: fresh_entries_def increasing_append)
qed

lemma audit_records_ok:
  assumes "ledger_ok sha s" and "fresh_entries s as"
  shows "ledger_ok sha (audit_records sha s as) \<and>
    map al_id (st_audit (audit_records sha s as)) = map al_id (st_audit s) @ map al_id as"
  using assms
proof (induction as arbitrary: s)
  case Nil
  then show ?case by simp
next
  case (Cons a as)
  note r = audit_record_ok [OF Cons.prems]
  from Cons.IH [OF r(1,2)] show ?case by (simp add: r(3))
qed

lemma ledger_ok_empty: "ledger_ok sha (migrate (empty_store fk))"
  by (auto simp: ledger_ok_def migrate_def empty_store_def schema_tables_def increasing_def)

section \<open>Properties\<close>

text \<open>
  C3. A ledger that the program wrote itself, on a migrated store, with fresh ids and a clock
  that moves forward, passes the integrity check as long as it has at most 500 entries, the
  number the check reads.
\<close>

theorem honest_ledger_verifies:
  assumes "fresh_entries (migrate (empty_store fk)) as" and "length as \<le> 500"
  shows "\<exists>logs. list_audit_logs (Some (audit_records sha (migrate (empty_store fk)) as)) 500 = Inr logs \<and>
    map al_id logs = rev (map al_id as) \<and> verify_ledger sha logs = ChainValid"
proof -
  let ?s = "audit_records sha (migrate (empty_store fk)) as"
  have ok: "ledger_ok sha ?s" and ids: "map al_id (st_audit ?s) = map al_id as"
    using audit_records_ok [OF ledger_ok_empty assms(1), of sha]
    by (simp_all add: migrate_def empty_store_def)
  have len: "length (st_audit ?s) \<le> 500"
    using arg_cong [OF ids, of length] assms(2) by simp
  have "list_audit_logs (Some ?s) 500 = Inr (rev (st_audit ?s))"
    using ok len by (simp add: list_audit_logs_def ledger_ok_def need_def list_limit_def order_desc_audit)
  moreover have "verify_ledger sha (rev (st_audit ?s)) = ChainValid"
    using ok by (simp add: verify_ledger_def verify_entries_iff ledger_ok_def)
  ultimately show ?thesis using ids by (auto simp flip: rev_map)
qed

definition numbered_entry :: "nat \<Rightarrow> audit_log" where
  "numbered_entry n = audit_entry (replicate n CHR ''i'') (int n) ''trace'' ''enrollment.created'' ''node'' ''id'' []"

lemma numbered_entries_fresh: "fresh_entries (migrate (empty_store fk)) (map numbered_entry [0..<n])"
  by (auto simp: fresh_entries_def migrate_def empty_store_def increasing_def numbered_entry_def
      audit_entry_def sorted_wrt_map distinct_map inj_on_def sorted_wrt_upt)

theorem honest_ledger_verifies_witness:
  "\<exists>logs. list_audit_logs (Some (audit_records (\<lambda>x. rev x) (migrate (empty_store True)) (map numbered_entry [0..<3]))) 500
     = Inr logs \<and> verify_ledger (\<lambda>x. rev x) logs = ChainValid"
  using honest_ledger_verifies [OF numbered_entries_fresh [of True 3], of "\<lambda>x. rev x"] by auto

text \<open>
  C12. The check reads at most 500 entries and starts from the empty hash, so the same honest
  ledger with more than 500 entries is reported as broken: the oldest entry it reads refers to
  one it did not read. The only assumption on SHA-256 is that a digest has 32 bytes.
\<close>

theorem honest_long_ledger_rejected:
  assumes "fresh_entries (migrate (empty_store fk)) as" and "500 < length as"
    and sha32: "\<And>x. length (sha x) = 32"
  shows "\<exists>logs. list_audit_logs (Some (audit_records sha (migrate (empty_store fk)) as)) 500 = Inr logs \<and>
    (\<exists>i h. verify_ledger sha logs = BrokenLink i [] h)"
proof -
  let ?s = "audit_records sha (migrate (empty_store fk)) as"
  let ?rows = "st_audit ?s"
  have ok: "ledger_ok sha ?s" and ids: "map al_id ?rows = map al_id as"
    using audit_records_ok [OF ledger_ok_empty assms(1), of sha]
    by (simp_all add: migrate_def empty_store_def)
  let ?n = "length ?rows - 500"
  have len: "length ?rows > 500"
    using arg_cong [OF ids, of length] assms(2) by simp
  obtain f fs where fs: "drop ?n ?rows = f # fs"
    using len by (cases "drop ?n ?rows") auto
  have rows: "?rows = take ?n ?rows @ f # fs" using fs by (metis append_take_drop_id)
  obtain es e where es: "take ?n ?rows = es @ [e]"
    using len by (cases "take ?n ?rows" rule: rev_exhaust) auto
  have link: "audit_linked sha [] (es @ [e] @ f # fs)"
    using ok rows unfolding es ledger_ok_def by simp
  then have "al_prev_hash f = al_hash e" and "al_hash e = audit_hash sha e"
    by (auto simp: linked_append)
  then have ne: "al_prev_hash f \<noteq> []"
    using sha32 by (simp add: audit_hash_def flip: length_0_conv)
  have "list_audit_logs (Some ?s) 500 = Inr (rev (f # fs))"
    using ok len fs [symmetric]
    by (simp add: list_audit_logs_def ledger_ok_def need_def list_limit_def order_desc_audit take_rev)
  moreover have "verify_ledger sha (rev (f # fs)) = BrokenLink (al_id f) [] (al_prev_hash f)"
    using ne by (simp add: verify_ledger_def)
  ultimately show ?thesis by blast
qed

theorem honest_long_ledger_rejected_witness:
  "\<exists>logs. list_audit_logs (Some (audit_records (\<lambda>x. replicate 32 CHR ''s'') (migrate (empty_store True))
       (map numbered_entry [0..<501]))) 500 = Inr logs \<and>
     (\<exists>i h. verify_ledger (\<lambda>x. replicate 32 CHR ''s'') logs = BrokenLink i [] h)"
  by (rule honest_long_ledger_rejected [OF numbered_entries_fresh]) simp_all

lemma tip_length:
  "audit_linked sha h es \<Longrightarrow> es \<noteq> [] \<Longrightarrow> (\<And>x. length (sha x) = 32) \<Longrightarrow> length (tip al_hash h es) = 64"
  by (cases es rule: rev_exhaust) (auto simp: linked_append audit_hash_def)

lemma linked_same_tip:
  assumes "audit_linked sha h es" and "audit_linked sha h fs" and "length es = length fs"
    and "tip al_hash h es = tip al_hash h fs"
    and inj: "inj_on sha (audit_preimage ` (set es \<union> set fs))" and sha32: "\<And>x. length (sha x) = 32"
  shows "map audit_preimage es = map audit_preimage fs"
  using assms(1-5)
proof (induction es arbitrary: fs rule: rev_induct)
  case Nil
  then show ?case by simp
next
  case (snoc x xs)
  obtain ys y where fs: "fs = ys @ [y]" using snoc.prems(3) by (cases fs rule: rev_exhaust) auto
  have hx: "al_hash x = audit_hash sha x" "al_prev_hash x = tip al_hash h xs" "audit_linked sha h xs"
    and hy: "al_hash y = audit_hash sha y" "al_prev_hash y = tip al_hash h ys" "audit_linked sha h ys"
    and eq: "al_hash x = al_hash y" and len: "length xs = length ys"
    using snoc.prems unfolding fs by (simp_all add: linked_append)
  have "sha (audit_preimage x) = sha (audit_preimage y)"
    using eq hx hy by (auto simp: audit_hash_def dest: hex_encode_inject)
  then have pre: "audit_preimage x = audit_preimage y"
    by (rule inj_onD [OF snoc.prems(5)]) (auto simp: fs)
  have "length (tip al_hash h xs) = length (tip al_hash h ys)"
    using len tip_length [OF hx(3) _ sha32] tip_length [OF hy(3) _ sha32] by (cases xs; cases ys) auto
  then have "tip al_hash h xs = tip al_hash h ys"
    using pre hx(2) hy(2) by (auto simp: audit_preimage_def)
  moreover have "inj_on sha (audit_preimage ` (set xs \<union> set ys))"
    by (rule inj_on_subset [OF snoc.prems(5)]) (auto simp: fs)
  ultimately have "map audit_preimage xs = map audit_preimage ys"
    using snoc.IH [OF hx(3) hy(3) len] by blast
  with pre show ?case by (simp add: fs)
qed

text \<open>
  C15. Two ledgers of the same length that both pass the check and end in the same hash hash
  the same texts entry by entry, unless the two ledgers themselves contain a collision of
  SHA-256: nobody can rewrite history below a hash that was kept elsewhere.
\<close>

theorem ledger_fixed_by_last_hash:
  assumes "verify_ledger sha (l # ls) = ChainValid" and "verify_ledger sha (m # ms) = ChainValid"
    and "length ls = length ms" and "al_hash l = al_hash m"
    and "inj_on sha (audit_preimage ` (set (l # ls) \<union> set (m # ms)))" and "\<And>x. length (sha x) = 32"
  shows "map audit_preimage (l # ls) = map audit_preimage (m # ms)"
proof -
  have "map audit_preimage (rev (l # ls)) = map audit_preimage (rev (m # ms))"
    using assms by (intro linked_same_tip [of sha "[]"]) (auto simp: verify_ledger_def verify_entries_iff)
  then show ?thesis by (simp only: rev_map [symmetric] rev_is_rev_conv)
qed

definition shifted :: "string \<Rightarrow> string \<Rightarrow> audit_log" where
  "shifted action actor =
     seal_audit (\<lambda>x. replicate 32 CHR ''s'') [] (audit_entry ''i'' 0 [] action actor ''t'' [])"

theorem ledger_fixed_by_last_hash_witness:
  "audit_preimage (shifted ''ab'' ''c'') = audit_preimage (shifted ''a'' ''bc'')"
  using ledger_fixed_by_last_hash [of "\<lambda>x. replicate 32 CHR ''s''" "shifted ''ab'' ''c''" "[]" "shifted ''a'' ''bc''" "[]"]
  by (simp add: verify_ledger_def shifted_def seal_audit_def Let_def audit_entry_def audit_hash_def audit_preimage_def)

text \<open>
  The hashed text has no separators, so the check does not see bytes moved from the end of
  one field to the start of the next: changing who did what, from action \<open>x @ y\<close> by \<open>z\<close> to
  action \<open>x\<close> by \<open>y @ z\<close>, leaves the verdict of every ledger as it was.
\<close>

theorem field_shift_undetected:
  assumes "al_action e = x @ y" and "al_actor e = z"
  shows "verify_ledger sha (ls @ e\<lparr>al_action := x, al_actor := y @ z\<rparr> # ms) = verify_ledger sha (ls @ e # ms)"
proof -
  let ?e = "e\<lparr>al_action := x, al_actor := y @ z\<rparr>"
  have "audit_hash sha ?e = audit_hash sha e"
    using assms by (simp add: audit_hash_def audit_preimage_def)
  then have "verify_entries sha h (as @ ?e # bs) = verify_entries sha h (as @ e # bs)" for h as bs
    by (induction as arbitrary: h) simp_all
  then show ?thesis by (simp add: verify_ledger_def)
qed

theorem field_shift_undetected_witness:
  "verify_ledger (\<lambda>x. x) [shifted ''a'' ''bc''] = verify_ledger (\<lambda>x. x) [shifted ''ab'' ''c'']"
proof -
  have e: "shifted ''a'' ''bc'' = (shifted ''ab'' ''c'')\<lparr>al_action := ''a'', al_actor := ''b'' @ ''c''\<rparr>"
    by (simp add: shifted_def seal_audit_def audit_entry_def Let_def audit_hash_def audit_preimage_def)
  show ?thesis
    using field_shift_undetected [of "shifted ''ab'' ''c''" "''a''" "''b''" "''c''" "\<lambda>x. x" "[]" "[]"]
    unfolding e by (simp add: shifted_def seal_audit_def audit_entry_def Let_def)
qed

text \<open>
  Removing the newest entries of a ledger is not detected: if the check accepts a ledger it
  accepts what is left of it.
\<close>

theorem truncation_undetected:
  assumes "verify_ledger sha (ls @ ms) = ChainValid"
  shows "verify_ledger sha ms = ChainValid"
  using assms by (simp add: verify_ledger_def verify_entries_iff linked_append)

theorem truncation_undetected_witness:
  "verify_ledger (\<lambda>x. replicate 32 CHR ''s'') [shifted ''ab'' ''c''] = ChainValid"
  by (rule truncation_undetected [of _ "[seal_audit (\<lambda>x. replicate 32 CHR ''s'')
      (al_hash (shifted ''ab'' ''c'')) (audit_entry ''j'' 1 [] ''b'' ''c'' ''t'' [])]"])
    (simp add: verify_ledger_def shifted_def seal_audit_def Let_def audit_entry_def audit_hash_def audit_preimage_def)

text \<open>
  The newest entry is found by time and not by order of insertion: when the clock steps
  back between two entries, both written by the program, the check reports a broken chain.
\<close>

theorem clock_step_back_rejected:
  assumes "al_id a \<noteq> al_id b" and "al_created_at b < al_created_at a" and sha32: "\<And>x. length (sha x) = 32"
  shows "\<exists>logs h. list_audit_logs (Some (audit_records sha (migrate (empty_store fk)) [a, b])) 500 = Inr logs \<and>
    verify_ledger sha logs = BrokenLink (al_id b) [] h"
proof -
  let ?s = "migrate (empty_store fk)"
  let ?a = "seal_audit sha [] a"
  let ?b = "seal_audit sha (al_hash ?a) b"
  have tab: "''audit_logs'' \<in> set (st_tables ?s)" by (simp add: migrate_def schema_tables_def)
  have s1: "audit_record sha ?s a = ?s\<lparr>st_audit := [?a]\<rparr>"
    using tab by (simp add: audit_record_def create_audit_log_seal need_def row_exists_def latest_audit_hash_def)
      (simp add: migrate_def empty_store_def row_exists_def latest_audit_hash_def)
  have s2: "audit_record sha (?s\<lparr>st_audit := [?a]\<rparr>) b = ?s\<lparr>st_audit := [?a, ?b]\<rparr>"
    using tab assms(1) by (simp add: audit_record_def create_audit_log_seal need_def row_exists_def
        latest_audit_hash_def order_desc_def)
  have l: "list_audit_logs (Some (?s\<lparr>st_audit := [?a, ?b]\<rparr>)) 500 = Inr [?a, ?b]"
    using tab assms(2) by (simp add: list_audit_logs_def need_def list_limit_def order_desc_def)
  have "al_hash ?a \<noteq> []"
    using sha32 by (simp add: seal_audit_def Let_def audit_hash_def flip: length_0_conv)
  then have "verify_ledger sha [?a, ?b] = BrokenLink (al_id b) [] (al_hash ?a)"
    by (simp add: verify_ledger_def)
  with l show ?thesis by (auto simp: s1 s2)
qed

theorem clock_step_back_rejected_witness:
  "\<exists>logs h. list_audit_logs (Some (audit_records (\<lambda>x. replicate 32 CHR ''s'') (migrate (empty_store True))
     [numbered_entry 2, numbered_entry 1])) 500 = Inr logs \<and>
   verify_ledger (\<lambda>x. replicate 32 CHR ''s'') logs = BrokenLink ''i'' [] h"
  using clock_step_back_rejected [of "numbered_entry 2" "numbered_entry 1" "\<lambda>x. replicate 32 CHR ''s''" True]
  by (simp add: numbered_entry_def audit_entry_def numeral_2_eq_2)

end
