(* ===== verification/Authority.thy ===== *)
theory Authority
  imports Crypto
begin

text \<open>
  The signing authority: \<open>internal/ca/authority.go\<close>. The X.509, PEM and key functions of Go's
  \<open>crypto\<close> packages are a record of parameters, \<open>x509_lib\<close>; the model has what the program puts
  into a certificate and in which order it checks a request. The Go interface \<open>Authority\<close> is the
  record \<open>authority\<close>, and its contract (what every issued certificate satisfies, whichever
  implementation issued it) is the locale \<open>signing_authority\<close>, interpreted on both
  implementations.
\<close>

section \<open>Certificates and the library\<close>

record dist_name =
  dn_common_name :: string
  dn_organization :: "string list"
  dn_unit :: "string list"
  dn_country :: "string list"
  dn_province :: "string list"
  dn_locality :: "string list"

datatype curve = P256 | P384 | P521 | OtherCurve int

datatype public_key = RsaPublic int string | EcdsaPublic curve string | OtherPublic string

text \<open>A parsed private key; only some kinds of key implement \<open>crypto.Signer\<close>.\<close>

datatype private_key = SignerKey string | NonSignerKey string

datatype ext_usage =
    ServerAuth | ClientAuth | CodeSigning | EmailProtection | TimeStamping | OCSPSigning | OtherUsage int

type_synonym key_usage = "64 word"

definition digital_signature :: key_usage where "digital_signature = 1"
definition content_commitment :: key_usage where "content_commitment = 2"
definition key_encipherment :: key_usage where "key_encipherment = 4"
definition data_encipherment :: key_usage where "data_encipherment = 8"
definition key_agreement :: key_usage where "key_agreement = 16"
definition cert_sign :: key_usage where "cert_sign = 32"
definition crl_sign :: key_usage where "crl_sign = 64"
definition encipher_only :: key_usage where "encipher_only = 128"
definition decipher_only :: key_usage where "decipher_only = 256"

lemmas usage_bits = digital_signature_def content_commitment_def key_encipherment_def data_encipherment_def
  key_agreement_def cert_sign_def crl_sign_def encipher_only_def decipher_only_def

record cert_template =
  tpl_serial :: nat
  tpl_subject :: dist_name
  tpl_dns :: "string list"
  tpl_not_before :: gotime
  tpl_not_after :: gotime
  tpl_key_usage :: key_usage
  tpl_ext_usage :: "ext_usage list"
  tpl_basic :: bool
  tpl_is_ca :: bool
  tpl_max_path :: int
  tpl_max_path_zero :: bool
  tpl_permitted_dns :: "string list"
  tpl_permitted_email :: "string list"
  tpl_permitted_ip :: "string list"

record certificate =
  ct_raw :: "char list"
  ct_subject :: string
  ct_issuer :: string
  ct_public :: public_key
  ct_not_before :: gotime
  ct_not_after :: gotime
  ct_is_ca :: bool
  ct_max_path :: int
  ct_key_usage :: key_usage
  ct_ext_usage :: "ext_usage list"
  ct_skid :: "char list"
  ct_akid :: "char list"
  ct_dns :: "string list"

record csr =
  cr_subject :: dist_name
  cr_dns :: "string list"
  cr_public :: public_key

text \<open>The parent argument of \<open>x509.CreateCertificate\<close>: a certificate, or the template itself.\<close>

datatype parent = SelfSigned | SignedBy certificate

record x509_lib =
  pem_decode :: "string \<Rightarrow> pem_block option"
  pem_encode :: "pem_block \<Rightarrow> string"
  parse_csr :: "char list \<Rightarrow> string + csr"
  csr_signature :: "csr \<Rightarrow> string option"
  parse_certificate :: "char list \<Rightarrow> string + certificate"
  parse_pkcs8 :: "char list \<Rightarrow> string + private_key"
  parse_pkcs1 :: "char list \<Rightarrow> string + private_key"
  create_certificate :: "cert_template \<Rightarrow> parent \<Rightarrow> public_key \<Rightarrow> private_key \<Rightarrow> string + char list"

section \<open>The interface\<close>

record issued =
  is_serial :: string
  is_cert_pem :: string
  is_not_before :: gotime
  is_not_after :: gotime

datatype authority_error =
    NotConfigured
  | InvalidCSRPEM
  | CSRParse string
  | CSRSignature string
  | EmptyDNSName
  | SerialRandom string
  | CreateCert string

record authority =
  au_sign :: "gotime \<Rightarrow> (string + nat) \<Rightarrow> string \<Rightarrow> string list \<Rightarrow> duration \<Rightarrow> authority_error + issued"
  au_chain :: string
  au_root :: string
  au_ca_id :: string

text \<open>\<open>big.Int.Text(16)\<close>: lower-case digits without leading zeros.\<close>

fun show_hex :: "nat \<Rightarrow> string" where
  "show_hex n = (if n < 16 then [hex_digit n] else show_hex (n div 16) @ [hex_digit (n mod 16)])"

declare show_hex.simps [simp del]

lemma hex_digit_inject: "m < 16 \<Longrightarrow> n < 16 \<Longrightarrow> hex_digit m = hex_digit n \<Longrightarrow> m = n"
  by (metis hex_value_digit option.inject)

lemma show_hex_nonempty [simp]: "show_hex n \<noteq> []"
  by (subst show_hex.simps) simp

lemmas show_hex_nonempty' [simp] = show_hex_nonempty [THEN not_sym]

lemma show_hex_inject: "show_hex m = show_hex n \<Longrightarrow> m = n"
proof (induction m arbitrary: n rule: show_hex.induct)
  case (1 m)
  show ?case
  proof (cases "m < 16"; cases "n < 16")
    assume "m < 16" "n < 16"
    with "1.prems" show ?thesis by (simp add: show_hex.simps [of m] show_hex.simps [of n] hex_digit_inject)
  next
    assume "m < 16" "\<not> n < 16"
    with "1.prems" show ?thesis by (simp add: show_hex.simps [of m] show_hex.simps [of n])
  next
    assume "\<not> m < 16" "n < 16"
    with "1.prems" show ?thesis by (simp add: show_hex.simps [of m] show_hex.simps [of n])
  next
    assume b: "\<not> m < 16" "\<not> n < 16"
    with "1.prems" have "show_hex (m div 16) = show_hex (n div 16)" and d: "hex_digit (m mod 16) = hex_digit (n mod 16)"
      by (simp_all add: show_hex.simps [of m] show_hex.simps [of n])
    then have "m div 16 = n div 16" using "1.IH" [OF b(1)] by blast
    moreover have "m mod 16 = n mod 16" using d by (rule hex_digit_inject [rotated 2]) simp_all
    ultimately show ?thesis by (metis div_mult_mod_eq)
  qed
qed

section \<open>The two authorities\<close>

definition disabled_authority :: authority where
  "disabled_authority = \<lparr>au_sign = (\<lambda>now serial csr dns life. Inl NotConfigured),
     au_chain = [], au_root = [], au_ca_id = ''unconfigured''\<rparr>"

record file_authority =
  fa_cert :: certificate
  fa_key :: private_key
  fa_chain :: string
  fa_root :: string
  fa_ca_id :: string

definition leaf_template :: "nat \<Rightarrow> csr \<Rightarrow> string list \<Rightarrow> gotime \<Rightarrow> duration \<Rightarrow> cert_template" where
  "leaf_template serial c names not_before life =
     \<lparr>tpl_serial = serial, tpl_subject = cr_subject c, tpl_dns = names,
      tpl_not_before = not_before, tpl_not_after = not_before + life,
      tpl_key_usage = or digital_signature key_encipherment,
      tpl_ext_usage = [ServerAuth, ClientAuth], tpl_basic = False, tpl_is_ca = False,
      tpl_max_path = 0, tpl_max_path_zero = False, tpl_permitted_dns = [], tpl_permitted_email = [],
      tpl_permitted_ip = []\<rparr>"

text \<open>\<open>now\<close> and \<open>serial\<close> are the clock and the random number below \<open>2 ^ 128\<close> of this call.\<close>

definition sign_csr ::
  "x509_lib \<Rightarrow> file_authority \<Rightarrow> gotime \<Rightarrow> (string + nat) \<Rightarrow> string \<Rightarrow> string list \<Rightarrow> duration \<Rightarrow>
     authority_error + issued" where
  "sign_csr lib a now serial csr_pem dns_names life =
     (case pem_decode lib csr_pem of
        None \<Rightarrow> Inl InvalidCSRPEM
      | Some b \<Rightarrow>
     (case parse_csr lib (pb_bytes b) of
        Inl e \<Rightarrow> Inl (CSRParse e)
      | Inr c \<Rightarrow>
     (case csr_signature lib c of
        Some e \<Rightarrow> Inl (CSRSignature e)
      | None \<Rightarrow>
     (let names = (if dns_names = [] then cr_dns c else dns_names)
      in if list_ex (\<lambda>n. trim_space n = []) names then Inl EmptyDNSName
         else (case serial of
                 Inl e \<Rightarrow> Inl (SerialRandom e)
               | Inr n \<Rightarrow>
                   (let tpl = leaf_template n c names (now - minute) life
                    in case create_certificate lib tpl (SignedBy (fa_cert a)) (cr_public c) (fa_key a) of
                         Inl e \<Rightarrow> Inl (CreateCert e)
                       | Inr der \<Rightarrow>
                           Inr \<lparr>is_serial = show_hex n,
                                is_cert_pem = pem_encode lib \<lparr>pb_type = ''CERTIFICATE'', pb_headers = [], pb_bytes = der\<rparr>,
                                is_not_before = tpl_not_before tpl, is_not_after = tpl_not_after tpl\<rparr>))))))"

definition file_signer :: "x509_lib \<Rightarrow> file_authority \<Rightarrow> authority" where
  "file_signer lib a = \<lparr>au_sign = sign_csr lib a, au_chain = fa_chain a, au_root = fa_root a, au_ca_id = fa_ca_id a\<rparr>"

section \<open>Loading the authority\<close>

record pki_files =
  pf_cert :: string
  pf_key :: string
  pf_key_pass :: string
  pf_chain :: string
  pf_root :: string

datatype load_error =
    ReadFailed string
  | InvalidPEMMaterial
  | ParseFailed string
  | PassphraseRequired
  | DecryptFailed key_error
  | NotASigner

definition parse_private_key :: "x509_lib \<Rightarrow> char list \<Rightarrow> string + private_key" where
  "parse_private_key lib der = (case parse_pkcs8 lib der of Inr k \<Rightarrow> Inr k | Inl _ \<Rightarrow> parse_pkcs1 lib der)"

definition load_key :: "x509_lib \<Rightarrow> cipher_suite \<Rightarrow> pem_block \<Rightarrow> string \<Rightarrow> load_error + private_key" where
  "load_key lib cs b pass =
     (if is_encrypted_block b then
        if pass = [] then Inl PassphraseRequired
        else (case decrypt_private_key cs b pass of
                Inl e \<Rightarrow> Inl (DecryptFailed e)
              | Inr der \<Rightarrow> (case parse_pkcs8 lib der of Inl e \<Rightarrow> Inl (ParseFailed e) | Inr k \<Rightarrow> Inr k))
      else (case parse_private_key lib (pb_bytes b) of Inl e \<Rightarrow> Inl (ParseFailed e) | Inr k \<Rightarrow> Inr k))"

definition contents_or_empty :: "(string \<Rightarrow> string + string) \<Rightarrow> string \<Rightarrow> string" where
  "contents_or_empty read p = (case read p of Inl _ \<Rightarrow> [] | Inr body \<Rightarrow> body)"

definition load_authority ::
  "(string \<Rightarrow> char list) \<Rightarrow> x509_lib \<Rightarrow> cipher_suite \<Rightarrow> (string \<Rightarrow> string + string) \<Rightarrow> pki_files \<Rightarrow>
     load_error + file_authority" where
  "load_authority sha lib cs read cfg =
     (case read (pf_cert cfg) of
        Inl e \<Rightarrow> Inl (ReadFailed e)
      | Inr cert_pem \<Rightarrow>
     (case read (pf_key cfg) of
        Inl e \<Rightarrow> Inl (ReadFailed e)
      | Inr key_pem \<Rightarrow>
     (case (pem_decode lib cert_pem, pem_decode lib key_pem) of
        (Some cb, Some kb) \<Rightarrow>
          (case parse_certificate lib (pb_bytes cb) of
             Inl e \<Rightarrow> Inl (ParseFailed e)
           | Inr cert \<Rightarrow>
          (case load_key lib cs kb (pf_key_pass cfg) of
             Inl e \<Rightarrow> Inl e
           | Inr (NonSignerKey _) \<Rightarrow> Inl NotASigner
           | Inr (SignerKey k) \<Rightarrow>
               Inr \<lparr>fa_cert = cert, fa_key = SignerKey k, fa_chain = contents_or_empty read (pf_chain cfg),
                    fa_root = contents_or_empty read (pf_root cfg), fa_ca_id = hex_encode (sha (ct_raw cert))\<rparr>))
      | _ \<Rightarrow> Inl InvalidPEMMaterial)))"

section \<open>The contract\<close>

text \<open>
  Whatever implements the interface: a certificate is valid from one minute ago for the
  lifetime it was asked for, none is issued for a blank name, and its serial is the random
  number of the call in hexadecimal.
\<close>

locale signing_authority =
  fixes a :: authority
  assumes sign_window: "au_sign a now serial csr dns life = Inr i \<Longrightarrow>
      is_not_before i = now - minute \<and> is_not_after i = now - minute + life"
    and sign_names: "au_sign a now serial csr dns life = Inr i \<Longrightarrow> n \<in> set dns \<Longrightarrow> trim_space n \<noteq> []"
    and sign_serial: "au_sign a now serial csr dns life = Inr i \<Longrightarrow> \<exists>n. serial = Inr n \<and> is_serial i = show_hex n"
begin

lemma signed_duration: "au_sign a now serial csr dns life = Inr i \<Longrightarrow> is_not_after i - is_not_before i = life"
  by (drule sign_window) simp

lemma signed_serials_differ:
  "au_sign a now (Inr m) csr dns life = Inr i \<Longrightarrow> au_sign a now' (Inr n) csr' dns' life' = Inr j \<Longrightarrow>
    m \<noteq> n \<Longrightarrow> is_serial i \<noteq> is_serial j"
  by (auto dest!: sign_serial show_hex_inject)

lemma signed_expires_after:
  "au_sign a now serial csr dns life = Inr i \<Longrightarrow> minute < life \<Longrightarrow> now < is_not_after i"
  by (drule sign_window) simp

end

lemma sign_csr_Inr:
  "sign_csr lib a now serial csr_pem dns life = Inr i \<longleftrightarrow>
     (\<exists>b c n der. pem_decode lib csr_pem = Some b \<and> parse_csr lib (pb_bytes b) = Inr c \<and>
        csr_signature lib c = None \<and> serial = Inr n \<and>
        (\<forall>x \<in> set (if dns = [] then cr_dns c else dns). trim_space x \<noteq> []) \<and>
        create_certificate lib (leaf_template n c (if dns = [] then cr_dns c else dns) (now - minute) life)
          (SignedBy (fa_cert a)) (cr_public c) (fa_key a) = Inr der \<and>
        i = \<lparr>is_serial = show_hex n,
             is_cert_pem = pem_encode lib \<lparr>pb_type = ''CERTIFICATE'', pb_headers = [], pb_bytes = der\<rparr>,
             is_not_before = now - minute, is_not_after = now - minute + life\<rparr>)"
  by (auto simp: sign_csr_def Let_def list_ex_iff leaf_template_def split: option.splits sum.splits if_splits)

interpretation disabled: signing_authority disabled_authority
  by unfold_locales (simp_all add: disabled_authority_def)

interpretation signer: signing_authority "file_signer lib fa" for lib fa
  by unfold_locales (auto simp: file_signer_def sign_csr_Inr split: if_splits)

section \<open>Properties\<close>

text \<open>
  What \<open>x509.CreateCertificate\<close> and \<open>encoding/pem\<close> document: a created certificate parses back with
  the fields of the template and the public key it was created for, its times cut to whole seconds,
  and a certificate block is decoded as it was encoded. \<open>serial_of\<close> reads the serial number of a
  certificate.
\<close>

definition whole_second :: "gotime \<Rightarrow> gotime" where
  "whole_second t = t - t mod second"

definition x509_lawful :: "x509_lib \<Rightarrow> (char list \<Rightarrow> nat) \<Rightarrow> bool" where
  "x509_lawful lib serial_of \<longleftrightarrow>
     (\<forall>tpl p pub key der. create_certificate lib tpl p pub key = Inr der \<longrightarrow>
        serial_of der = tpl_serial tpl \<and>
        (\<exists>crt. parse_certificate lib der = Inr crt \<and> ct_public crt = pub \<and> ct_dns crt = tpl_dns tpl \<and>
           ct_not_before crt = whole_second (tpl_not_before tpl) \<and> ct_not_after crt = whole_second (tpl_not_after tpl) \<and>
           ct_is_ca crt = (tpl_basic tpl \<and> tpl_is_ca tpl) \<and>
           ct_key_usage crt = tpl_key_usage tpl \<and> ct_ext_usage crt = tpl_ext_usage tpl)) \<and>
     (\<forall>der. pem_decode lib (pem_encode lib \<lparr>pb_type = ''CERTIFICATE'', pb_headers = [], pb_bytes = der\<rparr>) =
        Some \<lparr>pb_type = ''CERTIFICATE'', pb_headers = [], pb_bytes = der\<rparr>)"

lemma whole_second_near: "whole_second t \<le> t" "t < whole_second t + second"
  by (simp_all add: whole_second_def units pos_mod_bound)

text \<open>
  C11. What a client gets from the file authority. The text in the answer of \<open>SignCSR\<close> is a
  certificate for the key of a CSR that carries a valid signature, for the names asked for (those
  of the CSR if none were), none of them blank; it is no CA certificate, has no usage to sign
  certificates or CRLs, and serves as server and client certificate. The serial in the answer is
  the one in the certificate, and the times in the answer are those of the certificate to the
  second. A request fails only if it is malformed, unsigned or names a blank name, or if random
  numbers or the library fail.
\<close>

theorem sign_csr_certifies:
  assumes "x509_lawful lib serial_of"
  shows "case sign_csr lib a now serial csr_pem dns life of
      Inr i \<Rightarrow> \<exists>b c blk crt. pem_decode lib csr_pem = Some b \<and> parse_csr lib (pb_bytes b) = Inr c \<and> csr_signature lib c = None \<and>
        pem_decode lib (is_cert_pem i) = Some blk \<and> pb_type blk = ''CERTIFICATE'' \<and> parse_certificate lib (pb_bytes blk) = Inr crt \<and>
        is_serial i = show_hex (serial_of (pb_bytes blk)) \<and> ct_public crt = cr_public c \<and>
        ct_dns crt = (if dns = [] then cr_dns c else dns) \<and> (\<forall>x \<in> set (ct_dns crt). trim_space x \<noteq> []) \<and>
        ct_not_before crt \<le> is_not_before i \<and> is_not_before i < ct_not_before crt + second \<and>
        ct_not_after crt \<le> is_not_after i \<and> is_not_after i < ct_not_after crt + second \<and>
        \<not> ct_is_ca crt \<and> and (ct_key_usage crt) (or cert_sign crl_sign) = 0 \<and> ct_ext_usage crt = [ServerAuth, ClientAuth]
    | Inl e \<Rightarrow> pem_decode lib csr_pem = None \<or>
        (\<exists>b. pem_decode lib csr_pem = Some b \<and> (\<forall>c. parse_csr lib (pb_bytes b) = Inr c \<longrightarrow>
           csr_signature lib c \<noteq> None \<or> (\<exists>x \<in> set (if dns = [] then cr_dns c else dns). trim_space x = []) \<or>
           (\<exists>x. serial = Inl x) \<or> (\<exists>n x. serial = Inr n \<and> create_certificate lib (leaf_template n c (if dns = [] then cr_dns c else dns) (now - minute) life)
              (SignedBy (fa_cert a)) (cr_public c) (fa_key a) = Inl x)))"
proof (cases "sign_csr lib a now serial csr_pem dns life")
  case (Inl e)
  then show ?thesis
    by (auto simp: sign_csr_def Let_def list_ex_iff split: option.splits sum.splits if_splits)
next
  case (Inr i)
  then obtain b c n der where req: "pem_decode lib csr_pem = Some b" "parse_csr lib (pb_bytes b) = Inr c"
      "csr_signature lib c = None" "\<forall>x \<in> set (if dns = [] then cr_dns c else dns). trim_space x \<noteq> []"
    and der: "create_certificate lib (leaf_template n c (if dns = [] then cr_dns c else dns) (now - minute) life)
       (SignedBy (fa_cert a)) (cr_public c) (fa_key a) = Inr der"
    and i: "i = \<lparr>is_serial = show_hex n,
       is_cert_pem = pem_encode lib \<lparr>pb_type = ''CERTIFICATE'', pb_headers = [], pb_bytes = der\<rparr>,
       is_not_before = now - minute, is_not_after = now - minute + life\<rparr>"
    unfolding sign_csr_Inr by blast
  from assms [unfolded x509_lawful_def, THEN conjunct1, rule_format, OF der] obtain crt
    where "serial_of der = n" and crt: "parse_certificate lib der = Inr crt" "ct_public crt = cr_public c"
      "ct_dns crt = (if dns = [] then cr_dns c else dns)" "ct_not_before crt = whole_second (now - minute)"
      "ct_not_after crt = whole_second (now - minute + life)" "\<not> ct_is_ca crt"
      "ct_key_usage crt = or digital_signature key_encipherment" "ct_ext_usage crt = [ServerAuth, ClientAuth]"
    by (auto simp: leaf_template_def)
  moreover have "and (ct_key_usage crt) (or cert_sign crl_sign) = 0" by (simp add: crt(7) usage_bits)
  moreover have "pem_decode lib (is_cert_pem i) = Some \<lparr>pb_type = ''CERTIFICATE'', pb_headers = [], pb_bytes = der\<rparr>"
    using assms by (simp add: x509_lawful_def i)
  ultimately show ?thesis using req Inr whole_second_near by (simp add: i)
qed

text \<open>
  A blank DNS name in a request is refused, whoever the authority is and whatever the rest of
  the request looks like; the file authority refuses it before it draws a serial number.
\<close>

theorem blank_name_never_signed:
  assumes "n \<in> set dns" and "trim_space n = []"
  shows "(\<exists>e. au_sign disabled_authority now serial csr dns life = Inl e) \<and>
    (\<exists>e. au_sign (file_signer lib fa) now serial csr dns life = Inl e \<and> (\<forall>x. e \<noteq> SerialRandom x \<and> e \<noteq> CreateCert x))"
proof -
  have "list_ex (\<lambda>n. trim_space n = []) dns" and "dns \<noteq> []" using assms by (auto simp: list_ex_iff)
  then show ?thesis
    by (auto simp: disabled_authority_def file_signer_def sign_csr_def split: option.splits sum.splits)
qed

definition demo_name :: dist_name where
  "demo_name = \<lparr>dn_common_name = ''node'', dn_organization = [], dn_unit = [], dn_country = [],
     dn_province = [], dn_locality = []\<rparr>"

definition demo_csr :: csr where
  "demo_csr = \<lparr>cr_subject = demo_name, cr_dns = [''node.local''], cr_public = OtherPublic ''pub''\<rparr>"

definition demo_ca_cert :: certificate where
  "demo_ca_cert = \<lparr>ct_raw = ''ca'', ct_subject = ''ca'', ct_issuer = ''root'', ct_public = OtherPublic ''capub'',
     ct_not_before = 0, ct_not_after = 100, ct_is_ca = True, ct_max_path = 0, ct_key_usage = or cert_sign crl_sign,
     ct_ext_usage = [], ct_skid = [], ct_akid = [], ct_dns = []\<rparr>"

definition demo_lib :: x509_lib where
  "demo_lib = \<lparr>pem_decode = (\<lambda>s. if s = [] then None else Some \<lparr>pb_type = ''CERTIFICATE'', pb_headers = [], pb_bytes = s\<rparr>),
     pem_encode = pb_bytes, parse_csr = (\<lambda>b. Inr demo_csr), csr_signature = (\<lambda>c. None),
     parse_certificate = (\<lambda>b. Inr (demo_ca_cert\<lparr>ct_raw := b\<rparr>)),
     parse_pkcs8 = (\<lambda>b. Inr (SignerKey b)), parse_pkcs1 = (\<lambda>b. Inr (SignerKey b)),
     create_certificate = (\<lambda>tpl p pub key. Inr (show_hex (tpl_serial tpl)))\<rparr>"

definition demo_authority :: file_authority where
  "demo_authority = \<lparr>fa_cert = demo_ca_cert, fa_key = SignerKey ''k'', fa_chain = ''chain'', fa_root = ''root'', fa_ca_id = ''ca''\<rparr>"

theorem blank_name_never_signed_witness:
  "\<exists>e. au_sign (file_signer demo_lib demo_authority) 0 (Inr 7) ''csr'' [''a'', '' ''] hour = Inl e"
proof -
  have "trim_space '' '' = []" by code_simp
  then show ?thesis
    using blank_name_never_signed [of "'' ''" "[''a'', '' '']" 0 "Inr 7" "''csr''" hour demo_lib demo_authority]
    by auto
qed

lemma show_hex_length: "n < 16 ^ k \<Longrightarrow> 0 < k \<Longrightarrow> length (show_hex n) \<le> k"
proof (induction k arbitrary: n)
  case (Suc k)
  show ?case
  proof (cases "n < 16")
    case True
    then show ?thesis by (simp add: show_hex.simps [of n])
  next
    case False
    with Suc.prems have "n div 16 < 16 ^ k" "0 < k" by (auto simp: less_mult_imp_div_less mult.commute intro: gr0I)
    with Suc.IH [of "n div 16"] False show ?thesis by (simp add: show_hex.simps [of n])
  qed
qed simp

text \<open>
  C18. Two certificates that the file authority issues from different random numbers below
  \<open>2 ^ 128\<close> have different serials of at most 32 hexadecimal digits, and each is valid from one
  minute before the call, for exactly the lifetime asked for; one asked for more than a minute has
  not expired when it is issued.
\<close>

theorem issued_serials_and_windows:
  assumes "au_sign (file_signer lib fa) now (Inr m) csr dns life = Inr i"
    and "au_sign (file_signer lib fa) now' (Inr n) csr' dns' life' = Inr j" and "m \<noteq> n" and "m < 2 ^ 128"
  shows "is_serial i \<noteq> is_serial j \<and> length (is_serial i) \<le> 32 \<and>
    is_not_before i = now - minute \<and> is_not_after i = now - minute + life \<and> (minute < life \<longleftrightarrow> now < is_not_after i)"
proof -
  have "length (show_hex m) \<le> 32" by (rule show_hex_length) (use assms(4) in simp_all)
  moreover have "is_serial i = show_hex m" using signer.sign_serial [OF assms(1)] by auto
  ultimately show ?thesis
    using signer.signed_serials_differ [OF assms(1-3)] signer.sign_window [OF assms(1)] by auto
qed

theorem issued_serials_and_windows_witness:
  "\<exists>i j. au_sign (file_signer demo_lib demo_authority) 0 (Inr 7) ''csr'' [] hour = Inr i \<and>
     au_sign (file_signer demo_lib demo_authority) 0 (Inr 8) ''csr'' [] hour = Inr j \<and> is_serial i \<noteq> is_serial j"
proof -
  have ne: "trim_space ''node.local'' \<noteq> []" by code_simp
  obtain i j where ij: "au_sign (file_signer demo_lib demo_authority) 0 (Inr 7) ''csr'' [] hour = Inr i"
      "au_sign (file_signer demo_lib demo_authority) 0 (Inr 8) ''csr'' [] hour = Inr j"
    using ne by (simp add: file_signer_def sign_csr_def Let_def demo_lib_def demo_csr_def)
  then show ?thesis
    using issued_serials_and_windows [OF ij] by auto
qed

text \<open>A library that creates one certificate and reads it back.\<close>

definition demo_leaf_template :: cert_template where
  "demo_leaf_template = leaf_template 255 demo_csr [''node.local''] (0 - minute) hour"

definition demo_leaf :: certificate where
  "demo_leaf = demo_ca_cert\<lparr>ct_public := cr_public demo_csr, ct_dns := [''node.local''],
     ct_not_before := whole_second (0 - minute), ct_not_after := whole_second (0 - minute + hour), ct_is_ca := False,
     ct_key_usage := or digital_signature key_encipherment, ct_ext_usage := [ServerAuth, ClientAuth]\<rparr>"

definition demo_issuer_lib :: x509_lib where
  "demo_issuer_lib = demo_lib\<lparr>pem_decode := (\<lambda>s. Some \<lparr>pb_type = ''CERTIFICATE'', pb_headers = [], pb_bytes = s\<rparr>),
     parse_certificate := (\<lambda>b. Inr demo_leaf),
     create_certificate := (\<lambda>tpl p pub key. if tpl = demo_leaf_template \<and> pub = cr_public demo_csr then Inr ''ff'' else Inl ''refused'')\<rparr>"

lemma demo_issuer_lawful: "x509_lawful demo_issuer_lib (\<lambda>der. 255)"
  by (simp add: x509_lawful_def demo_issuer_lib_def demo_lib_def demo_leaf_template_def demo_leaf_def leaf_template_def)

theorem sign_csr_certifies_witness:
  "\<exists>i. sign_csr demo_issuer_lib demo_authority 0 (Inr 255) ''csr'' [] hour = Inr i \<and> is_serial i = show_hex 255 \<and>
     \<not> ct_is_ca demo_leaf \<and> ct_not_before demo_leaf \<le> is_not_before i"
proof -
  have ne: "trim_space ''node.local'' \<noteq> []" by code_simp
  obtain i where i: "sign_csr demo_issuer_lib demo_authority 0 (Inr 255) ''csr'' [] hour = Inr i"
    using ne by (simp add: sign_csr_def Let_def demo_issuer_lib_def demo_lib_def demo_leaf_template_def demo_csr_def)
  have "parse_certificate demo_issuer_lib x = Inr demo_leaf" for x by (simp add: demo_issuer_lib_def)
  then show ?thesis
    using sign_csr_certifies [OF demo_issuer_lawful, where a = demo_authority and now = 0 and serial = "Inr 255" and
        csr_pem = "''csr''" and dns = "[]" and life = hour] i by auto
qed

text \<open>
  An authority loads only with a key that can sign, and its identity is the SHA-256 of the
  certificate in hexadecimal; a missing chain or root file is no error, the authority then
  serves an empty chain or root. An encrypted key without a passphrase is refused.
\<close>

theorem load_authority_result:
  "(case load_authority sha lib cs read cfg of
      Inr fa \<Rightarrow> (\<exists>k. fa_key fa = SignerKey k) \<and> fa_ca_id fa = hex_encode (sha (ct_raw (fa_cert fa))) \<and>
        (read (pf_chain cfg) = Inl e \<longrightarrow> fa_chain fa = []) \<and> (read (pf_root cfg) = Inl e \<longrightarrow> fa_root fa = []) \<and>
        (\<exists>body b. read (pf_key cfg) = Inr body \<and> pem_decode lib body = Some b \<and>
           (is_encrypted_block b \<longrightarrow> pf_key_pass cfg \<noteq> []))
    | Inl _ \<Rightarrow> True)"
  by (auto simp: load_authority_def load_key_def contents_or_empty_def
      split: sum.splits option.splits private_key.splits if_splits)

theorem load_authority_result_witness:
  "case load_authority rev demo_lib demo_suite (\<lambda>p. if p = ''chain'' then Inl ''missing'' else Inr p)
       \<lparr>pf_cert = ''c'', pf_key = ''k'', pf_key_pass = [], pf_chain = ''chain'', pf_root = ''root''\<rparr> of
     Inr fa \<Rightarrow> fa_chain fa = [] \<and> fa_root fa = ''root'' | Inl _ \<Rightarrow> False"
  using load_authority_result [where sha = rev and lib = demo_lib and cs = demo_suite and e = "''missing''" and
      read = "\<lambda>p. if p = ''chain'' then Inl ''missing'' else Inr p" and
      cfg = "\<lparr>pf_cert = ''c'', pf_key = ''k'', pf_key_pass = [], pf_chain = ''chain'', pf_root = ''root''\<rparr>"]
  by (simp add: load_authority_def load_key_def demo_lib_def is_encrypted_block_def parse_private_key_def
      contents_or_empty_def demo_ca_cert_def)

end
