(* ===== verification/Config.thy ===== *)
theory Config
  imports Prelude Complex_Main
begin

text \<open>
  The server's configuration: \<open>internal/config/config.go\<close> (defaults and the normalisation of
  the telemetry section after the file and the environment have been read) and the decisions
  of \<open>internal/telemetry\<close> that depend on it. Reading and merging of the YAML file is
  viper's; a sampling ratio is a rational number for Go's \<open>float64\<close>, and
  \<open>strconv.ParseFloat\<close> is a parameter.
\<close>

section \<open>Records\<close>

record tls_config =
  tls_cert_file :: string
  tls_key_file :: string

record server_config =
  srv_address :: string
  srv_tls :: tls_config

record database_config =
  db_driver :: string
  db_dsn :: string

record pki_config =
  pki_root_file :: string
  pki_chain_file :: string
  pki_cert_file :: string
  pki_key_file :: string
  pki_key_pass :: string
  pki_default_lifetime :: duration
  pki_renew_before :: duration

record rbac_config =
  rb_enabled :: bool
  rb_mode :: string
  rb_paths :: "string list"

record exporter_config =
  ex_protocol :: string
  ex_endpoint :: string
  ex_insecure :: bool

record prometheus_config =
  pm_enabled :: bool
  pm_path :: string

record telemetry_config =
  tel_enabled :: bool
  tel_service_name :: string
  tel_service_version :: string
  tel_environment :: string
  tel_otlp_endpoint :: string
  tel_otlp_protocol :: string
  tel_sampling_ratio :: rat
  tel_traces :: bool
  tel_metrics :: bool
  tel_logs :: bool
  tel_exporter :: exporter_config
  tel_sampling :: rat \<comment> \<open>\<open>sampling.ratio\<close>\<close>
  tel_prometheus :: prometheus_config

record config =
  cf_server :: server_config
  cf_database :: database_config
  cf_pki :: pki_config
  cf_rbac :: rbac_config
  cf_telemetry :: telemetry_config
  cf_log_level :: string

definition default_telemetry :: telemetry_config where
  "default_telemetry =
     \<lparr>tel_enabled = False, tel_service_name = ''ironroot-server'', tel_service_version = ''0.1.0'',
      tel_environment = ''dev'', tel_otlp_endpoint = ''localhost:4317'', tel_otlp_protocol = ''grpc'',
      tel_sampling_ratio = 1, tel_traces = True, tel_metrics = True, tel_logs = True,
      tel_exporter = \<lparr>ex_protocol = ''grpc'', ex_endpoint = ''localhost:4317'', ex_insecure = True\<rparr>,
      tel_sampling = 1, tel_prometheus = \<lparr>pm_enabled = True, pm_path = ''/metrics''\<rparr>\<rparr>"

definition default_config :: config where
  "default_config =
     \<lparr>cf_server = \<lparr>srv_address = '':8443'', srv_tls = \<lparr>tls_cert_file = [], tls_key_file = []\<rparr>\<rparr>,
      cf_database = \<lparr>db_driver = ''sqlite'', db_dsn = ''file:/data/ironroot.db?_foreign_keys=on''\<rparr>,
      cf_pki = \<lparr>pki_root_file = ''/pki/root-ca.crt'', pki_chain_file = ''/pki/ca-chain.crt'',
        pki_cert_file = ''/pki/intermediate.crt'', pki_key_file = ''/pki/intermediate.key.enc'', pki_key_pass = [],
        pki_default_lifetime = 90 * 24 * hour, pki_renew_before = 30 * 24 * hour\<rparr>,
      cf_rbac = \<lparr>rb_enabled = False, rb_mode = ''file'', rb_paths = []\<rparr>,
      cf_telemetry = default_telemetry, cf_log_level = ''info''\<rparr>"

section \<open>Normalisation of the telemetry section\<close>

text \<open>The environment variables are read by a function that gives \<open>""\<close> for an unset one.\<close>

definition env_otlp :: "(string \<Rightarrow> string) \<Rightarrow> telemetry_config \<Rightarrow> telemetry_config" where
  "env_otlp getenv t =
     (let v = getenv ''OTEL_EXPORTER_OTLP_ENDPOINT'';
          t1 = (if v \<noteq> [] then t\<lparr>tel_exporter := (tel_exporter t)\<lparr>ex_endpoint := v\<rparr>, tel_otlp_endpoint := v\<rparr> else t);
          p = getenv ''OTEL_EXPORTER_OTLP_PROTOCOL'';
          t2 = (if p \<noteq> [] then t1\<lparr>tel_exporter := (tel_exporter t1)\<lparr>ex_protocol := p\<rparr>, tel_otlp_protocol := p\<rparr> else t1);
          n = getenv ''OTEL_SERVICE_NAME''
      in if n \<noteq> [] then t2\<lparr>tel_service_name := n\<rparr> else t2)"

definition resource_attribute :: "string \<Rightarrow> telemetry_config \<Rightarrow> telemetry_config" where
  "resource_attribute pair t =
     (case cut (CHR ''='') (trim_space pair) of
        None \<Rightarrow> t
      | Some (k, v) \<Rightarrow>
          if trim_space k = ''service.name'' then t\<lparr>tel_service_name := trim_space v\<rparr>
          else if trim_space k = ''deployment.environment'' \<or> trim_space k = ''deployment.environment.name''
            then t\<lparr>tel_environment := trim_space v\<rparr>
          else t)"

definition env_attributes :: "(string \<Rightarrow> string) \<Rightarrow> telemetry_config \<Rightarrow> telemetry_config" where
  "env_attributes getenv t =
     (let v = getenv ''OTEL_RESOURCE_ATTRIBUTES''
      in if v \<noteq> [] then fold resource_attribute (split_on (CHR '','') v) t else t)"

definition env_sampling ::
  "(string \<Rightarrow> rat option) \<Rightarrow> (string \<Rightarrow> string) \<Rightarrow> telemetry_config \<Rightarrow> telemetry_config" where
  "env_sampling parse_float getenv t =
     (let v = to_lower (getenv ''OTEL_TRACES_SAMPLER'');
          t1 = (if v = ''always_on'' then t\<lparr>tel_sampling := 1, tel_sampling_ratio := 1\<rparr>
                else if v = ''always_off'' then t\<lparr>tel_sampling := 0, tel_sampling_ratio := 0\<rparr> else t);
          a = getenv ''OTEL_TRACES_SAMPLER_ARG''
      in if a \<noteq> [] then (case parse_float a of None \<Rightarrow> t1 | Some r \<Rightarrow> t1\<lparr>tel_sampling := r, tel_sampling_ratio := r\<rparr>)
         else t1)"

definition fill_defaults :: "telemetry_config \<Rightarrow> telemetry_config" where
  "fill_defaults t =
     (let t1 = (if ex_endpoint (tel_exporter t) = []
                then t\<lparr>tel_exporter := (tel_exporter t)\<lparr>ex_endpoint := tel_otlp_endpoint t\<rparr>\<rparr> else t);
          t2 = (if ex_protocol (tel_exporter t1) = []
                then t1\<lparr>tel_exporter := (tel_exporter t1)\<lparr>ex_protocol := tel_otlp_protocol t1\<rparr>\<rparr> else t1);
          t3 = (if tel_sampling t2 = 0 \<and> tel_sampling_ratio t2 \<noteq> 0
                then t2\<lparr>tel_sampling := tel_sampling_ratio t2\<rparr> else t2);
          t4 = (if tel_otlp_endpoint t3 = [] then t3\<lparr>tel_otlp_endpoint := ex_endpoint (tel_exporter t3)\<rparr> else t3);
          t5 = (if tel_otlp_protocol t4 = [] then t4\<lparr>tel_otlp_protocol := ex_protocol (tel_exporter t4)\<rparr> else t4);
          t6 = (if tel_sampling_ratio t5 = 0 then t5\<lparr>tel_sampling_ratio := tel_sampling t5\<rparr> else t5)
      in if pm_path (tel_prometheus t6) = []
         then t6\<lparr>tel_prometheus := (tel_prometheus t6)\<lparr>pm_path := ''/metrics''\<rparr>\<rparr> else t6)"

definition normalize_telemetry ::
  "(string \<Rightarrow> rat option) \<Rightarrow> (string \<Rightarrow> string) \<Rightarrow> telemetry_config \<Rightarrow> telemetry_config" where
  "normalize_telemetry parse_float getenv t =
     fill_defaults (env_sampling parse_float getenv (env_attributes getenv (env_otlp getenv t)))"

section \<open>Loading\<close>

text \<open>The values viper holds, and the defaults that \<open>flatten\<close> registers under their keys.\<close>

datatype setting =
    TextSetting string
  | FlagSetting bool
  | DurationSetting duration
  | RatioSetting rat
  | ListSetting "string list"

definition flatten :: "config \<Rightarrow> (string \<times> setting) list" where
  "flatten c =
     [(''server.address'', TextSetting (srv_address (cf_server c))),
      (''server.tls.cert_file'', TextSetting (tls_cert_file (srv_tls (cf_server c)))),
      (''server.tls.key_file'', TextSetting (tls_key_file (srv_tls (cf_server c)))),
      (''database.driver'', TextSetting (db_driver (cf_database c))),
      (''database.dsn'', TextSetting (db_dsn (cf_database c))),
      (''pki.root_file'', TextSetting (pki_root_file (cf_pki c))),
      (''pki.chain_file'', TextSetting (pki_chain_file (cf_pki c))),
      (''pki.intermediate_cert_file'', TextSetting (pki_cert_file (cf_pki c))),
      (''pki.intermediate_key_file'', TextSetting (pki_key_file (cf_pki c))),
      (''pki.intermediate_key_pass'', TextSetting (pki_key_pass (cf_pki c))),
      (''pki.default_lifetime'', DurationSetting (pki_default_lifetime (cf_pki c))),
      (''pki.renew_before'', DurationSetting (pki_renew_before (cf_pki c))),
      (''rbac.enabled'', FlagSetting (rb_enabled (cf_rbac c))),
      (''rbac.mode'', TextSetting (rb_mode (cf_rbac c))),
      (''rbac.paths'', ListSetting (rb_paths (cf_rbac c))),
      (''telemetry.enabled'', FlagSetting (tel_enabled (cf_telemetry c))),
      (''telemetry.service_name'', TextSetting (tel_service_name (cf_telemetry c))),
      (''telemetry.service_version'', TextSetting (tel_service_version (cf_telemetry c))),
      (''telemetry.deployment_environment'', TextSetting (tel_environment (cf_telemetry c))),
      (''telemetry.otlp_endpoint'', TextSetting (tel_otlp_endpoint (cf_telemetry c))),
      (''telemetry.otlp_protocol'', TextSetting (tel_otlp_protocol (cf_telemetry c))),
      (''telemetry.sampling_ratio'', RatioSetting (tel_sampling_ratio (cf_telemetry c))),
      (''telemetry.traces.enabled'', FlagSetting (tel_traces (cf_telemetry c))),
      (''telemetry.metrics.enabled'', FlagSetting (tel_metrics (cf_telemetry c))),
      (''telemetry.logs.enabled'', FlagSetting (tel_logs (cf_telemetry c))),
      (''telemetry.exporter.endpoint'', TextSetting (ex_endpoint (tel_exporter (cf_telemetry c)))),
      (''telemetry.exporter.protocol'', TextSetting (ex_protocol (tel_exporter (cf_telemetry c)))),
      (''telemetry.exporter.insecure'', FlagSetting (ex_insecure (tel_exporter (cf_telemetry c)))),
      (''telemetry.sampling.ratio'', RatioSetting (tel_sampling (cf_telemetry c))),
      (''telemetry.prometheus.enabled'', FlagSetting (pm_enabled (tel_prometheus (cf_telemetry c)))),
      (''telemetry.prometheus.path'', TextSetting (pm_path (tel_prometheus (cf_telemetry c)))),
      (''log.level'', TextSetting (cf_log_level c)),
      (''otel.exporter.otlp.endpoint'', TextSetting (tel_otlp_endpoint (cf_telemetry c))),
      (''otel.exporter.otlp.protocol'', TextSetting (tel_otlp_protocol (cf_telemetry c))),
      (''otel.resource.attributes.service.name'', TextSetting (tel_service_name (cf_telemetry c)))]"

text \<open>
  The fields of \<open>Config\<close> under the keys of their \<open>mapstructure\<close> tags, section by section; viper's
  \<open>Unmarshal\<close> looks a field up under this key, and consults the environment for known keys only.
\<close>

definition under :: "string \<Rightarrow> (string \<times> setting) list \<Rightarrow> (string \<times> setting) list" where
  "under prefix fs = map (\<lambda>(k, v). (prefix @ ''.'' @ k, v)) fs"

definition tagged_fields :: "config \<Rightarrow> (string \<times> setting) list" where
  "tagged_fields c =
     under ''server''
      [(''address'', TextSetting (srv_address (cf_server c))),
       (''tls.cert_file'', TextSetting (tls_cert_file (srv_tls (cf_server c)))),
       (''tls.key_file'', TextSetting (tls_key_file (srv_tls (cf_server c))))] @
     under ''database''
      [(''driver'', TextSetting (db_driver (cf_database c))),
       (''dsn'', TextSetting (db_dsn (cf_database c)))] @
     under ''pki''
      [(''root_file'', TextSetting (pki_root_file (cf_pki c))),
       (''chain_file'', TextSetting (pki_chain_file (cf_pki c))),
       (''intermediate_cert_file'', TextSetting (pki_cert_file (cf_pki c))),
       (''intermediate_key_file'', TextSetting (pki_key_file (cf_pki c))),
       (''intermediate_key_pass'', TextSetting (pki_key_pass (cf_pki c))),
       (''default_lifetime'', DurationSetting (pki_default_lifetime (cf_pki c))),
       (''renew_before'', DurationSetting (pki_renew_before (cf_pki c)))] @
     under ''rbac''
      [(''enabled'', FlagSetting (rb_enabled (cf_rbac c))),
       (''mode'', TextSetting (rb_mode (cf_rbac c))),
       (''paths'', ListSetting (rb_paths (cf_rbac c)))] @
     under ''telemetry''
      [(''enabled'', FlagSetting (tel_enabled (cf_telemetry c))),
       (''service_name'', TextSetting (tel_service_name (cf_telemetry c))),
       (''service_version'', TextSetting (tel_service_version (cf_telemetry c))),
       (''deployment_environment'', TextSetting (tel_environment (cf_telemetry c))),
       (''otlp_endpoint'', TextSetting (tel_otlp_endpoint (cf_telemetry c))),
       (''otlp_protocol'', TextSetting (tel_otlp_protocol (cf_telemetry c))),
       (''sampling_ratio'', RatioSetting (tel_sampling_ratio (cf_telemetry c))),
       (''traces.enabled'', FlagSetting (tel_traces (cf_telemetry c))),
       (''metrics.enabled'', FlagSetting (tel_metrics (cf_telemetry c))),
       (''logs.enabled'', FlagSetting (tel_logs (cf_telemetry c))),
       (''exporter.endpoint'', TextSetting (ex_endpoint (tel_exporter (cf_telemetry c)))),
       (''exporter.protocol'', TextSetting (ex_protocol (tel_exporter (cf_telemetry c)))),
       (''exporter.insecure'', FlagSetting (ex_insecure (tel_exporter (cf_telemetry c)))),
       (''sampling.ratio'', RatioSetting (tel_sampling (cf_telemetry c))),
       (''prometheus.enabled'', FlagSetting (pm_enabled (tel_prometheus (cf_telemetry c)))),
       (''prometheus.path'', TextSetting (pm_path (tel_prometheus (cf_telemetry c))))] @
     under ''log''
      [(''level'', TextSetting (cf_log_level c))]"

text \<open>
  viper: whether the file exists, the error of reading it, and \<open>Unmarshal\<close> of the defaults, the
  file and the environment into a configuration.
\<close>

record viper =
  vp_exists :: "string \<Rightarrow> bool"
  vp_read :: "string \<Rightarrow> string option"
  vp_unmarshal :: "(string \<times> setting) list \<Rightarrow> string option \<Rightarrow> config \<Rightarrow> string + config"

text \<open>\<open>Load\<close>; its callers drop the configuration that comes with an error.\<close>

definition load_config ::
  "viper \<Rightarrow> (string \<Rightarrow> rat option) \<Rightarrow> (string \<Rightarrow> string) \<Rightarrow> string \<Rightarrow> string + config" where
  "load_config vp parse_float getenv path =
     (let file = (if path = [] then ''configs/server.yaml'' else path);
          there = vp_exists vp file
      in case (if there then vp_read vp file else None) of
           Some e \<Rightarrow> Inl e
         | None \<Rightarrow>
             bindE (vp_unmarshal vp (flatten default_config) (if there then Some file else None) default_config) (\<lambda>c.
             Inr (c\<lparr>cf_telemetry := normalize_telemetry parse_float getenv (cf_telemetry c)\<rparr>)))"

section \<open>What telemetry starts\<close>

datatype otlp_transport = OtlpHttp | OtlpGrpc

text \<open>\<open>telemetry.Configure\<close>: the settings it uses and the providers it installs.\<close>

definition configure_settings :: "telemetry_config \<Rightarrow> telemetry_config" where
  "configure_settings t =
     (let t1 = (if tel_sampling t \<noteq> 0 then t\<lparr>tel_sampling_ratio := tel_sampling t\<rparr> else t);
          t2 = (if ex_endpoint (tel_exporter t1) \<noteq> [] then t1\<lparr>tel_otlp_endpoint := ex_endpoint (tel_exporter t1)\<rparr> else t1)
      in if ex_protocol (tel_exporter t2) \<noteq> [] then t2\<lparr>tel_otlp_protocol := ex_protocol (tel_exporter t2)\<rparr> else t2)"

definition transport :: "string \<Rightarrow> otlp_transport" where
  "transport p = (if to_lower p \<in> set [''http'', ''http/protobuf''] then OtlpHttp else OtlpGrpc)"

text \<open>
  The OpenTelemetry constructors are parameters: each may fail. A provider that has been
  installed stays installed when a later step fails.
\<close>

record otel_lib =
  ot_resource :: "string \<Rightarrow> string \<Rightarrow> string \<Rightarrow> string option"
  ot_trace_exporter :: "otlp_transport \<Rightarrow> string \<Rightarrow> bool \<Rightarrow> string option"
  ot_metric_exporter :: "otlp_transport \<Rightarrow> string \<Rightarrow> bool \<Rightarrow> string option"
  ot_prometheus :: "string option"

datatype reader = OtlpReader otlp_transport string bool | PrometheusReader
datatype otel_provider = TracerProvider otlp_transport string bool rat | MeterProvider "reader list"

definition service_name :: "telemetry_config \<Rightarrow> string \<Rightarrow> string" where
  "service_name t fallback = (if tel_service_name t = [] then fallback else tel_service_name t)"

definition configure_traces :: "otel_lib \<Rightarrow> telemetry_config \<Rightarrow> string + otel_provider list" where
  "configure_traces lib t =
     (if tel_enabled t \<and> tel_traces t then
        (let tr = transport (tel_otlp_protocol t); ep = tel_otlp_endpoint t; ins = ex_insecure (tel_exporter t)
         in case ot_trace_exporter lib tr ep ins of
              Some e \<Rightarrow> Inl e | None \<Rightarrow> Inr [TracerProvider tr ep ins (tel_sampling_ratio t)])
      else Inr [])"

definition configure_metrics :: "otel_lib \<Rightarrow> telemetry_config \<Rightarrow> string + otel_provider list" where
  "configure_metrics lib t =
     bindE (if tel_enabled t \<and> tel_metrics t then
              (let tr = transport (tel_otlp_protocol t); ep = tel_otlp_endpoint t; ins = ex_insecure (tel_exporter t)
               in case ot_metric_exporter lib tr ep ins of Some e \<Rightarrow> Inl e | None \<Rightarrow> Inr [OtlpReader tr ep ins])
            else Inr []) (\<lambda>rs.
     bindE (if pm_enabled (tel_prometheus t) then
              (case ot_prometheus lib of Some e \<Rightarrow> Inl e | None \<Rightarrow> Inr (rs @ [PrometheusReader]))
            else Inr rs) (\<lambda>rs'.
     Inr (if rs' = [] then [] else [MeterProvider rs'])))"

text \<open>The providers installed, and the error or the providers the shutdown function stops.\<close>

definition configure_telemetry ::
  "otel_lib \<Rightarrow> telemetry_config \<Rightarrow> string \<Rightarrow> otel_provider list \<times> (string + otel_provider list)" where
  "configure_telemetry lib cfg fallback =
     (let t = configure_settings cfg
      in if \<not> tel_enabled t \<and> \<not> pm_enabled (tel_prometheus t) then ([], Inr [])
         else case ot_resource lib (service_name t fallback) (tel_service_version t) (tel_environment t) of
           Some e \<Rightarrow> ([], Inl e)
         | None \<Rightarrow>
             (case configure_traces lib t of
                Inl e \<Rightarrow> ([], Inl e)
              | Inr ps \<Rightarrow>
                  (case configure_metrics lib t of Inl e \<Rightarrow> (ps, Inl e) | Inr qs \<Rightarrow> (ps @ qs, Inr (ps @ qs)))))"

text \<open>The shutdown function stops every provider and joins the errors.\<close>

definition shutdown_all :: "(otel_provider \<Rightarrow> string option) \<Rightarrow> otel_provider list \<Rightarrow> string list" where
  "shutdown_all stop ps = concat (map (\<lambda>p. case stop p of None \<Rightarrow> [] | Some e \<Rightarrow> [e]) ps)"

datatype log_level = LevelDebug | LevelInfo | LevelWarn | LevelError

definition log_level_of :: "string \<Rightarrow> log_level" where
  "log_level_of s =
     (let l = to_lower s
      in if l = ''debug'' then LevelDebug else if l = ''warn'' then LevelWarn
         else if l = ''error'' then LevelError else LevelInfo)"

text \<open>
  \<open>SanitizeLabel\<close> bounds the cardinality and the alphabet of metric labels (the names that
  the program gives it are ASCII; Go replaces a multi-byte character by one underscore).
\<close>

definition label_char :: "char \<Rightarrow> bool" where
  "label_char c \<longleftrightarrow>
     (97 \<le> code c \<and> code c \<le> 122) \<or> (65 \<le> code c \<and> code c \<le> 90) \<or> (48 \<le> code c \<and> code c \<le> 57) \<or>
     c = CHR ''-'' \<or> c = CHR ''_'' \<or> c = CHR ''/'' \<or> c = CHR ''.''"

definition sanitize_label :: "string \<Rightarrow> string" where
  "sanitize_label v =
     (if v = [] then ''unknown'' else take 80 (map (\<lambda>c. if label_char c then c else CHR ''_'') v))"

section \<open>Lemmas\<close>

lemma sanitize_label_ok:
  "sanitize_label v \<noteq> [] \<and> length (sanitize_label v) \<le> 80 \<and> list_all label_char (sanitize_label v) \<and>
   sanitize_label (sanitize_label v) = sanitize_label v"
proof -
  have u: "list_all label_char ''unknown''" and us: "label_char (CHR ''_'')"
    by code_simp+
  let ?w = "map (\<lambda>c. if label_char c then c else CHR ''_'') v"
  have ok: "list_all label_char ?w" using us by (auto simp: list_all_iff)
  have t: "list_all label_char (take 80 ?w)"
    using ok set_take_subset [of 80 ?w] unfolding list_all_iff by blast
  have idem: "map (\<lambda>c. if label_char c then c else CHR ''_'') xs = xs" if "list_all label_char xs" for xs
    using that by (induction xs) auto
  show ?thesis
  proof (cases "v = []")
    case True
    have e: "sanitize_label v = ''unknown''" using True by (simp add: sanitize_label_def)
    have "sanitize_label ''unknown'' = take 80 ''unknown''"
      unfolding sanitize_label_def idem [OF u] by simp
    then show ?thesis unfolding e using u by simp
  next
    case False
    have e: "sanitize_label v = take 80 ?w" using False by (simp add: sanitize_label_def)
    have ne: "take 80 ?w \<noteq> []" using False by simp
    have "sanitize_label (take 80 ?w) = take 80 (take 80 ?w)"
      using ne unfolding sanitize_label_def idem [OF t] by (simp only: if_False)
    then show ?thesis unfolding e using t ne by simp
  qed
qed

text \<open>The ratio a tracer gets: \<open>sampling.ratio\<close> unless it is zero, else \<open>sampling_ratio\<close>.\<close>

lemma sampling_filled:
  "tel_sampling (fill_defaults t) = (if tel_sampling t = 0 then tel_sampling_ratio t else tel_sampling t)"
  "tel_sampling_ratio (fill_defaults t) =
     (if tel_sampling_ratio t = 0 then tel_sampling t else tel_sampling_ratio t)"
  by (simp_all add: fill_defaults_def Let_def)

lemma configured_ratio:
  "tel_sampling_ratio (configure_settings t) = (if tel_sampling t \<noteq> 0 then tel_sampling t else tel_sampling_ratio t)"
  by (simp add: configure_settings_def Let_def)

lemma sampling_env_unset:
  "getenv ''OTEL_TRACES_SAMPLER'' = [] \<Longrightarrow> getenv ''OTEL_TRACES_SAMPLER_ARG'' = [] \<Longrightarrow>
    env_sampling parse_float getenv t = t"
  by (simp add: env_sampling_def to_lower_def)

lemma resource_attribute_sampling [simp]:
  "tel_sampling (resource_attribute p t) = tel_sampling t"
  "tel_sampling_ratio (resource_attribute p t) = tel_sampling_ratio t"
  by (simp_all add: resource_attribute_def split: option.splits prod.splits)

lemma fold_attribute_sampling [simp]:
  "tel_sampling (fold resource_attribute ps t) = tel_sampling t"
  "tel_sampling_ratio (fold resource_attribute ps t) = tel_sampling_ratio t"
  by (induction ps arbitrary: t) auto

lemma env_sampling_frame [simp]:
  "tel_sampling (env_attributes getenv (env_otlp getenv t)) = tel_sampling t"
  "tel_sampling_ratio (env_attributes getenv (env_otlp getenv t)) = tel_sampling_ratio t"
  by (simp_all add: env_attributes_def env_otlp_def Let_def)

lemma configure_settings_frame [simp]:
  "tel_enabled (configure_settings t) = tel_enabled t" "tel_traces (configure_settings t) = tel_traces t"
  "tel_metrics (configure_settings t) = tel_metrics t" "tel_prometheus (configure_settings t) = tel_prometheus t"
  by (simp_all add: configure_settings_def Let_def)

section \<open>Properties\<close>

text \<open>
  The ratio traces are sampled with, when the environment says nothing of sampling: the
  value of \<open>sampling.ratio\<close>, unless it is zero, and then that of the older \<open>sampling_ratio\<close>. So
  turning sampling off in the newer key alone has no effect while the older one has its
  default, and the older one has no effect while the newer one has its default.
\<close>

theorem sampling_precedence:
  assumes "getenv ''OTEL_TRACES_SAMPLER'' = []" and "getenv ''OTEL_TRACES_SAMPLER_ARG'' = []"
  shows "tel_sampling_ratio (configure_settings (normalize_telemetry parse_float getenv t)) =
      (if tel_sampling t \<noteq> 0 then tel_sampling t else tel_sampling_ratio t)"
  using assms by (auto simp: configured_ratio normalize_telemetry_def sampling_filled sampling_env_unset)

theorem sampling_precedence_witness:
  "tel_sampling_ratio (configure_settings (normalize_telemetry (\<lambda>s. None) (\<lambda>k. [])
     (default_telemetry\<lparr>tel_sampling := 0\<rparr>))) = 1"
  by (subst sampling_precedence) (simp_all add: default_telemetry_def)

text \<open>
  Labels given to metrics are never empty, have at most 80 characters of a fixed alphabet, and
  cleaning a clean label changes nothing.
\<close>

theorem label_bounded:
  "sanitize_label v \<noteq> [] \<and> length (sanitize_label v) \<le> 80 \<and> list_all label_char (sanitize_label v) \<and>
   sanitize_label (sanitize_label v) = sanitize_label v"
  by (rule sanitize_label_ok)

text \<open>
  Telemetry is only exported when asked for: with telemetry switched off, whatever the rest of
  the configuration and the environment say, no tracer and no OTLP reader is installed, at most
  the local Prometheus reader.
\<close>

theorem disabled_telemetry_stays_local:
  assumes "\<not> tel_enabled t"
  shows "set (fst (configure_telemetry lib t fallback)) \<subseteq> {MeterProvider [PrometheusReader]}"
  using assms
  by (auto simp: configure_telemetry_def Let_def configure_traces_def configure_metrics_def bindE_def
      split: option.splits sum.splits if_splits)

theorem disabled_telemetry_stays_local_witness:
  "set (fst (configure_telemetry \<lparr>ot_resource = (\<lambda>_ _ _. None), ot_trace_exporter = (\<lambda>_ _ _. None),
      ot_metric_exporter = (\<lambda>_ _ _. None), ot_prometheus = None\<rparr>
      (default_telemetry\<lparr>tel_enabled := False\<rparr>) ''x'')) \<subseteq> {MeterProvider [PrometheusReader]}"
  by (rule disabled_telemetry_stays_local) simp


text \<open>
  Every field of the configuration has a default registered under its own key, with its own
  value, and no key is registered twice; so each can be set from the environment, and loading
  with neither file nor environment gives the defaults.
\<close>

theorem every_field_has_default:
  "set (tagged_fields c) \<subseteq> set (flatten c) \<and> distinct (map fst (flatten c)) \<and> distinct (map fst (tagged_fields c)) \<and>
   length (tagged_fields c) = 32"
proof -
  have "take 32 (flatten c) = tagged_fields c"
    by (simp add: flatten_def tagged_fields_def under_def)
  then have "set (tagged_fields c) \<subseteq> set (flatten c)" and "tagged_fields c = take 32 (flatten c)"
    by (metis set_take_subset, simp)
  moreover have "map fst (flatten c) = map fst (flatten default_config)" by (simp add: flatten_def)
  moreover have "distinct (map fst (flatten default_config))" by code_simp
  moreover have "length (flatten c) = 35" by (simp add: flatten_def)
  ultimately show ?thesis by (simp add: take_map [symmetric])
qed

end
