(* ===== verification/Meter.thy ===== *)
theory Meter
  imports Config
begin

text \<open>
  The instruments of \<open>internal/telemetry/metrics.go\<close> and what their methods \<open>Add\<close> record. A meter is
  the list of measurements of a process; an instrument has one value (a series) per set of labels,
  the sum of what was added under these labels. Histograms (the durations) are left out.
\<close>

section \<open>Measurements\<close>

text \<open>The fields of \<open>Metrics\<close> and the names that \<open>Instruments\<close> gives them.\<close>

datatype instrument =
    APIRequests | APIRequestFailures | APIRequestDuration | CertificatesIssued | CertificatesRenewed
  | CertificatesRevoked | ActiveCertificates | ExpiringCertificates | Enrollments | EnrollmentFailures
  | TokenValidationFailures | BootstrapRuns | BootstrapFailures | DatabaseQueryDuration | DatabaseErrors
  | OTelExportFailures | OTelExportDuration | CLICommandDuration | CLICommandErrors | CLICommandResults
  | SecurityCheckResults

fun instrument_name :: "instrument \<Rightarrow> string" where
  "instrument_name APIRequests = ''pki_api_requests_total''"
| "instrument_name APIRequestFailures = ''pki_api_request_failures_total''"
| "instrument_name APIRequestDuration = ''pki_api_request_duration_seconds''"
| "instrument_name CertificatesIssued = ''pki_certificates_issued_total''"
| "instrument_name CertificatesRenewed = ''pki_certificates_renewed_total''"
| "instrument_name CertificatesRevoked = ''pki_certificates_revoked_total''"
| "instrument_name ActiveCertificates = ''pki_active_certificates_total''"
| "instrument_name ExpiringCertificates = ''pki_expiring_certificates_total''"
| "instrument_name Enrollments = ''pki_enrollments_total''"
| "instrument_name EnrollmentFailures = ''pki_enrollment_failures_total''"
| "instrument_name TokenValidationFailures = ''pki_bootstrap_token_validation_failures_total''"
| "instrument_name BootstrapRuns = ''pki_bootstrap_runs_total''"
| "instrument_name BootstrapFailures = ''pki_bootstrap_failures_total''"
| "instrument_name DatabaseQueryDuration = ''pki_database_query_duration_seconds''"
| "instrument_name DatabaseErrors = ''pki_database_errors_total''"
| "instrument_name OTelExportFailures = ''pki_otel_export_failures_total''"
| "instrument_name OTelExportDuration = ''pki_otel_export_duration_seconds''"
| "instrument_name CLICommandDuration = ''pki_cli_command_duration_seconds''"
| "instrument_name CLICommandErrors = ''pki_cli_command_errors_total''"
| "instrument_name CLICommandResults = ''pki_cli_command_results_total''"
| "instrument_name SecurityCheckResults = ''pki_security_check_results_total''"

record measurement =
  me_instrument :: instrument
  me_labels :: "(string \<times> string) list"
  me_value :: int

definition adds :: "instrument \<Rightarrow> int \<Rightarrow> (string \<times> string) list \<Rightarrow> measurement" where
  "adds name n labels = \<lparr>me_instrument = name, me_labels = labels, me_value = n\<rparr>"

text \<open>One series of an instrument, and the sum of all its series.\<close>

definition series :: "measurement list \<Rightarrow> instrument \<Rightarrow> (string \<times> string) list \<Rightarrow> int" where
  "series ms name labels = sum_list (map me_value (filter (\<lambda>m. me_instrument m = name \<and> me_labels m = labels) ms))"

definition total :: "measurement list \<Rightarrow> instrument \<Rightarrow> int" where
  "total ms name = sum_list (map me_value (filter (\<lambda>m. me_instrument m = name) ms))"

definition label_sets :: "measurement list \<Rightarrow> instrument \<Rightarrow> (string \<times> string) list set" where
  "label_sets ms name = me_labels ` set (filter (\<lambda>m. me_instrument m = name) ms)"

section \<open>Reading the series\<close>

lemma instrument_names_differ: "instrument_name i = instrument_name j \<longleftrightarrow> i = j"
  by (cases i; cases j) simp_all

lemma adds_simps [simp]:
  "me_instrument (adds name n ls) = name" "me_labels (adds name n ls) = ls" "me_value (adds name n ls) = n"
  by (simp_all add: adds_def)

lemma total_simps [simp]:
  "total [] x = 0" "total (m # ms) x = (if me_instrument m = x then me_value m else 0) + total ms x"
  "total (ms @ ns) x = total ms x + total ns x"
  by (simp_all add: total_def)

lemma series_simps [simp]:
  "series [] x ls = 0"
  "series (m # ms) x ls = (if me_instrument m = x \<and> me_labels m = ls then me_value m else 0) + series ms x ls"
  "series (ms @ ns) x ls = series ms x ls + series ns x ls"
  by (simp_all add: series_def)

lemma label_sets_simps [simp]:
  "label_sets [] x = {}" "label_sets (m # ms) x = (if me_instrument m = x then insert (me_labels m) (label_sets ms x) else label_sets ms x)"
  "label_sets (ms @ ns) x = label_sets ms x \<union> label_sets ns x"
  by (auto simp: label_sets_def)

end
