(* ===== verification/Api.thy ===== *)
theory Api
  imports Enrollment Ledger Authority Meter
begin

text \<open>
  The HTTP interface that changes the state: \<open>internal/api/handlers.go\<close> and the router and
  metrics middleware of \<open>internal/api/router.go\<close>. A handler is a function of the environment
  (clock, UUIDs, random serial), the server's state and the decoded request, and returns the new
  state and the response. The state is the store and the meter of the process. Decoding of
  the JSON body is the library's: its outcome (an error or the request) is an argument.
\<close>

section \<open>State, requests and responses\<close>

record server =
  sv_store :: store
  sv_metrics :: "measurement list"

record dependencies =
  dp_lifetime :: duration
  dp_renew_before :: duration
  dp_authority :: authority

record certificate_request =
  cq_enrollment_id :: string
  cq_csr_pem :: string
  cq_dns_names :: "string list"

record revoke_request =
  rq_serial :: string
  rq_reason :: string

record certificate_response =
  cs_serial :: string
  cs_cert_pem :: string
  cs_chain_pem :: string
  cs_root_pem :: string
  cs_not_before :: string
  cs_not_after :: string
  cs_renew_before :: string

datatype api_error =
    DecodeFailed string
  | EnrollFailed enroll_error
  | EnrollmentIdRequired
  | UnknownEnrollment
  | SignFailed authority_error
  | StoreFailed db_error
  | OutsideRenewalWindow
  | SerialRequired

datatype body =
    StatusBody string
  | PemBody string
  | EnrolledBody string
  | CertificateBody certificate_response
  | IssuedBody issued_certificate
  | AuditBody "audit_log list"
  | ErrorBody api_error string \<comment> \<open>with the request id\<close>

record response =
  rs_status :: int
  rs_body :: body

definition reply :: "int \<Rightarrow> body \<Rightarrow> response" where
  "reply status b = \<lparr>rs_status = status, rs_body = b\<rparr>"

definition write_error :: "env \<Rightarrow> int \<Rightarrow> api_error \<Rightarrow> response" where
  "write_error e status err = reply status (ErrorBody err (uuid e 9))"

section \<open>Audit metadata\<close>

text \<open>\<open>json.Marshal\<close> of a string: quotes, backslashes, control characters and the HTML characters
  are escaped (ASCII text; Go replaces invalid UTF-8).\<close>

definition json_char :: "char \<Rightarrow> string" where
  "json_char c =
     (let n = code c; unicode = CHR 0x5C # ''u00'' @ [hex_digit (n div 16), hex_digit (n mod 16)]
      in if n = 34 \<or> n = 92 then [CHR 0x5C, c]
         else if n = 8 then [CHR 0x5C, CHR ''b''] else if n = 12 then [CHR 0x5C, CHR ''f'']
         else if n = 10 then [CHR 0x5C, CHR ''n''] else if n = 13 then [CHR 0x5C, CHR ''r'']
         else if n = 9 then [CHR 0x5C, CHR ''t'']
         else if n < 32 \<or> n = 60 \<or> n = 62 \<or> n = 38 then unicode
         else [c])"

definition json_string :: "string \<Rightarrow> string" where
  "json_string s = CHR 0x22 # concat (map json_char s) @ [CHR 0x22]"

definition json_pair :: "string \<Rightarrow> string \<Rightarrow> string" where
  "json_pair k v = CHR 0x7B # json_string k @ CHR 0x3A # json_string v @ [CHR 0x7D]"

text \<open>\<open>audit.Logger.Record\<close> with one metadata pair.\<close>

definition record_audit ::
  "(string \<Rightarrow> char list) \<Rightarrow> env \<Rightarrow> server \<Rightarrow> string \<Rightarrow> string \<Rightarrow> string \<Rightarrow> string \<times> string \<Rightarrow> server" where
  "record_audit sha e sv action actor target meta =
     sv\<lparr>sv_store := audit_record sha (sv_store sv)
          (audit_entry (uuid e 5) (clk e 5) (trace e) action actor target (json_pair (fst meta) (snd meta)))\<rparr>"

section \<open>Metrics\<close>

text \<open>\<open>telemetry.Instruments().X.Add\<close>; labels are given in the order of the source.\<close>

definition tally :: "measurement list \<Rightarrow> server \<Rightarrow> server" where
  "tally ms sv = sv\<lparr>sv_metrics := sv_metrics sv @ ms\<rparr>"

definition certificate_labels :: "string \<Rightarrow> string \<Rightarrow> (string \<times> string) list" where
  "certificate_labels issuer status =
     [(''certificate_type'', ''server''), (''issuer'', issuer), (''status'', status)]"

definition issuer_label :: "dependencies \<Rightarrow> string" where
  "issuer_label dp = sanitize_label (au_ca_id (dp_authority dp))"

text \<open>The two calls of a handler of certificates: its own counter, and the gauge of active certificates.\<close>

definition tally_certificate :: "instrument \<Rightarrow> int \<Rightarrow> (string \<times> string) list \<Rightarrow> server \<Rightarrow> server" where
  "tally_certificate i n labels sv = tally [adds i 1 labels, adds ActiveCertificates n labels] sv"

lemma tally_server [simp]:
  "sv_store (tally ms sv) = sv_store sv" "sv_metrics (tally ms sv) = sv_metrics sv @ ms"
  "sv_store (tally_certificate i n labels sv) = sv_store sv"
  "sv_metrics (tally_certificate i n labels sv) = sv_metrics sv @ [adds i 1 labels, adds ActiveCertificates n labels]"
  by (simp_all add: tally_def tally_certificate_def)

section \<open>Handlers\<close>

definition root_handler :: "dependencies \<Rightarrow> response" where
  "root_handler dp = reply 200 (PemBody (au_root (dp_authority dp)))"

definition chain_handler :: "dependencies \<Rightarrow> response" where
  "chain_handler dp = reply 200 (PemBody (au_chain (dp_authority dp)))"

definition enroll_handler ::
  "(string \<Rightarrow> char list) \<Rightarrow> env \<Rightarrow> server \<Rightarrow> (string + enroll_request) \<Rightarrow> server \<times> response" where
  "enroll_handler sha e sv body =
     (case body of
        Inl err \<Rightarrow> (sv, write_error e 400 (DecodeFailed err))
      | Inr req \<Rightarrow>
     (case validate_and_enroll sha e (sv_store sv) req of
        Inl err \<Rightarrow>
          (tally (adds EnrollmentFailures 1 [] # (if err = ErrInvalidToken then [adds TokenValidationFailures 1 []] else [])) sv,
           write_error e 401 (EnrollFailed err))
      | Inr (s', i) \<Rightarrow>
          (record_audit sha e
             (tally [adds Enrollments 1 []] (sv\<lparr>sv_store := s'\<rparr>))
             ''enrollment.created'' (er_hostname req) i (''machine_id'', er_machine_id req),
           reply 201 (EnrolledBody i))))"

definition cert_response :: "dependencies \<Rightarrow> issued \<Rightarrow> certificate_response" where
  "cert_response dp i =
     \<lparr>cs_serial = is_serial i, cs_cert_pem = is_cert_pem i, cs_chain_pem = au_chain (dp_authority dp),
      cs_root_pem = au_root (dp_authority dp), cs_not_before = rfc3339 (is_not_before i),
      cs_not_after = rfc3339 (is_not_after i),
      cs_renew_before = rfc3339 (is_not_after i - dp_renew_before dp)\<rparr>"

definition default_ca_config :: "env \<Rightarrow> dependencies \<Rightarrow> ca_config" where
  "default_ca_config e dp =
     (let i = au_ca_id (dp_authority dp); now = clk e 2
      in \<lparr>cc_id = i, cc_name = ''default'', cc_root_fingerprint = i, cc_intermediate_fingerprint = i,
          cc_status = ''active'', cc_created_at = now, cc_not_before = now - minute,
          cc_not_after = now + 5 * 365 * 24 * hour\<rparr>)"

definition ensure_ca_config :: "env \<Rightarrow> dependencies \<Rightarrow> store \<Rightarrow> db_error + store" where
  "ensure_ca_config e dp s = upsert_ca_config s (default_ca_config e dp)"

definition issued_row ::
  "env \<Rightarrow> dependencies \<Rightarrow> issued \<Rightarrow> string \<Rightarrow> string \<Rightarrow> string list \<Rightarrow> issued_certificate" where
  "issued_row e dp i enrollment subject dns =
     \<lparr>ic_serial = is_serial i, ic_ca_id = au_ca_id (dp_authority dp), ic_enrollment_id = enrollment,
      ic_subject = subject, ic_dns_names = join '','' dns, ic_pem = is_cert_pem i,
      ic_not_before = is_not_before i, ic_not_after = is_not_after i, ic_revoked_at = None,
      ic_created_at = clk e 3\<rparr>"

text \<open>
  What \<open>requestCertificate\<close> and \<open>renewCertificate\<close> share: sign, make sure of the CA row, store
  the certificate. A failing insert leaves the CA row behind.
\<close>

definition issue ::
  "env \<Rightarrow> dependencies \<Rightarrow> store \<Rightarrow> certificate_request \<Rightarrow> string \<Rightarrow> string \<Rightarrow>
     store \<times> (int \<times> api_error + issued)" where
  "issue e dp s req enrollment subject =
     (case au_sign (dp_authority dp) (clk e 1) (draw e) (cq_csr_pem req) (cq_dns_names req) (dp_lifetime dp) of
        Inl err \<Rightarrow> (s, Inl (400, SignFailed err))
      | Inr i \<Rightarrow>
     (case ensure_ca_config e dp s of
        Inl err \<Rightarrow> (s, Inl (500, StoreFailed err))
      | Inr s1 \<Rightarrow>
     (case store_issued_certificate s1 (issued_row e dp i enrollment subject (cq_dns_names req)) of
        Inl err \<Rightarrow> (s1, Inl (500, StoreFailed err))
      | Inr s2 \<Rightarrow> (s2, Inr i))))"

definition request_certificate ::
  "(string \<Rightarrow> char list) \<Rightarrow> env \<Rightarrow> dependencies \<Rightarrow> server \<Rightarrow> (string + certificate_request) \<Rightarrow> server \<times> response" where
  "request_certificate sha e dp sv body =
     (case body of
        Inl err \<Rightarrow> (sv, write_error e 400 (DecodeFailed err))
      | Inr req \<Rightarrow>
     (if trim_space (cq_enrollment_id req) = [] then (sv, write_error e 400 EnrollmentIdRequired)
      else (case get_enrollment (sv_store sv) (cq_enrollment_id req) of
              Inl err \<Rightarrow> (sv, write_error e 401 UnknownEnrollment)
            | Inr en \<Rightarrow>
           (case issue e dp (sv_store sv) req (en_id en) (en_hostname en) of
              (s', Inl (status, err)) \<Rightarrow> (sv\<lparr>sv_store := s'\<rparr>, write_error e status err)
            | (s', Inr i) \<Rightarrow>
                (record_audit sha e
                   (tally_certificate CertificatesIssued 1 (certificate_labels (issuer_label dp) ''issued'') (sv\<lparr>sv_store := s'\<rparr>))
                   ''certificate.issued'' (en_hostname en) (is_serial i) (''enrollment_id'', en_id en),
                 reply 201 (CertificateBody (cert_response dp i)))))))"

text \<open>\<open>old_serial\<close> is the query parameter \<open>serial\<close>, empty when it is missing.\<close>

definition inside_window :: "env \<Rightarrow> dependencies \<Rightarrow> store \<Rightarrow> string \<Rightarrow> bool" where
  "inside_window e dp s old_serial \<longleftrightarrow>
     \<not> (old_serial \<noteq> [] \<and>
        (case get_issued_certificate s old_serial of
           Inl _ \<Rightarrow> False
         | Inr old \<Rightarrow> time_sub (ic_not_after old) (clk e 0) > dp_renew_before dp))"

definition renew_certificate ::
  "(string \<Rightarrow> char list) \<Rightarrow> env \<Rightarrow> dependencies \<Rightarrow> server \<Rightarrow> string \<Rightarrow> (string + certificate_request) \<Rightarrow>
     server \<times> response" where
  "renew_certificate sha e dp sv old_serial body =
     (case body of
        Inl err \<Rightarrow> (sv, write_error e 400 (DecodeFailed err))
      | Inr req \<Rightarrow>
     (if \<not> inside_window e dp (sv_store sv) old_serial then (sv, write_error e 400 OutsideRenewalWindow)
      else (case issue e dp (sv_store sv) req (cq_enrollment_id req) (cq_enrollment_id req) of
              (s', Inl (status, err)) \<Rightarrow> (sv\<lparr>sv_store := s'\<rparr>, write_error e status err)
            | (s', Inr i) \<Rightarrow>
                (record_audit sha e
                   (tally_certificate CertificatesRenewed 1 (certificate_labels (issuer_label dp) ''renewed'') (sv\<lparr>sv_store := s'\<rparr>))
                   ''certificate.renewed'' (cq_enrollment_id req) (is_serial i) (''previous_serial'', old_serial),
                 reply 201 (CertificateBody (cert_response dp i))))))"

definition revoke_certificate_handler ::
  "(string \<Rightarrow> char list) \<Rightarrow> env \<Rightarrow> server \<Rightarrow> (string + revoke_request) \<Rightarrow> server \<times> response" where
  "revoke_certificate_handler sha e sv body =
     (case body of
        Inl err \<Rightarrow> (sv, write_error e 400 (DecodeFailed err))
      | Inr req \<Rightarrow>
     (if rq_serial req = [] then (sv, write_error e 400 SerialRequired)
      else
       (let reason = (if rq_reason req = [] then ''unspecified'' else rq_reason req);
            r = revoke_certificate (sv_store sv)
                  \<lparr>rc_serial = rq_serial req, rc_reason = reason, rc_revoked_at = clk e 0\<rparr>
        in case r of
             (s', Some err) \<Rightarrow> (sv\<lparr>sv_store := s'\<rparr>, write_error e 500 (StoreFailed err))
           | (s', None) \<Rightarrow>
               (record_audit sha e
                  (tally_certificate CertificatesRevoked (- 1) (certificate_labels ''unknown'' ''revoked'') (sv\<lparr>sv_store := s'\<rparr>))
                  ''certificate.revoked'' ''admin'' (rq_serial req) (''reason'', reason),
                reply 200 (StatusBody ''revoked'')))))"

definition certificate_status :: "env \<Rightarrow> server \<Rightarrow> string \<Rightarrow> response" where
  "certificate_status e sv serial =
     (case get_issued_certificate (sv_store sv) serial of
        Inl err \<Rightarrow> write_error e 404 (StoreFailed err)
      | Inr c \<Rightarrow> reply 200 (IssuedBody c))"

definition audit_handler :: "env \<Rightarrow> server \<Rightarrow> response" where
  "audit_handler e sv =
     (case list_audit_logs (Some (sv_store sv)) 100 of
        Inl err \<Rightarrow> write_error e 500 (StoreFailed err)
      | Inr logs \<Rightarrow> reply 200 (AuditBody logs))"

section \<open>The router\<close>

datatype http_request =
    GetHealth
  | GetReady
  | GetRoot
  | GetChain
  | PostEnroll "string + enroll_request"
  | PostRequest "string + certificate_request"
  | PostRenew string "string + certificate_request"
  | PostRevoke "string + revoke_request"
  | GetCertificate string
  | GetAudit

fun dispatch ::
  "(string \<Rightarrow> char list) \<Rightarrow> env \<Rightarrow> dependencies \<Rightarrow> server \<Rightarrow> http_request \<Rightarrow> server \<times> response" where
  "dispatch sha e dp sv GetHealth = (sv, reply 200 (StatusBody ''ok''))"
| "dispatch sha e dp sv GetReady = (sv, reply 200 (StatusBody ''ready''))"
| "dispatch sha e dp sv GetRoot = (sv, root_handler dp)"
| "dispatch sha e dp sv GetChain = (sv, chain_handler dp)"
| "dispatch sha e dp sv (PostEnroll b) = enroll_handler sha e sv b"
| "dispatch sha e dp sv (PostRequest b) = request_certificate sha e dp sv b"
| "dispatch sha e dp sv (PostRenew serial b) = renew_certificate sha e dp sv serial b"
| "dispatch sha e dp sv (PostRevoke b) = revoke_certificate_handler sha e sv b"
| "dispatch sha e dp sv (GetCertificate serial) = (sv, certificate_status e sv serial)"
| "dispatch sha e dp sv GetAudit = (sv, audit_handler e sv)"

definition status_path :: string where "status_path = ''/v1/certificates/status/''"

text \<open>\<open>r.Method\<close> and \<open>r.URL.Path\<close> of a request.\<close>

fun request_line :: "http_request \<Rightarrow> string \<times> string" where
  "request_line GetHealth = (''GET'', ''/healthz'')"
| "request_line GetReady = (''GET'', ''/readyz'')"
| "request_line GetRoot = (''GET'', ''/v1/ca/root'')"
| "request_line GetChain = (''GET'', ''/v1/ca/chain'')"
| "request_line (PostEnroll b) = (''POST'', ''/v1/enroll'')"
| "request_line (PostRequest b) = (''POST'', ''/v1/certificates/request'')"
| "request_line (PostRenew serial b) = (''POST'', ''/v1/certificates/renew'')"
| "request_line (PostRevoke b) = (''POST'', ''/v1/certificates/revoke'')"
| "request_line (GetCertificate serial) = (''GET'', status_path @ serial)"
| "request_line GetAudit = (''GET'', ''/v1/audit'')"

definition metric_attrs :: "http_request \<Rightarrow> int \<Rightarrow> (string \<times> string) list" where
  "metric_attrs req status =
     [(''method'', fst (request_line req)), (''route'', snd (request_line req)), (''status_code'', show_int status)]"

definition middleware_measurements :: "http_request \<Rightarrow> int \<Rightarrow> measurement list" where
  "middleware_measurements req status =
     adds APIRequests 1 (metric_attrs req status) #
     (if status \<ge> 500 then [adds APIRequestFailures 1 (metric_attrs req status)] else [])"

text \<open>\<open>metricsMiddleware\<close> counts the request after the handler has run.\<close>

definition serve ::
  "(string \<Rightarrow> char list) \<Rightarrow> env \<Rightarrow> dependencies \<Rightarrow> server \<Rightarrow> http_request \<Rightarrow> server \<times> response" where
  "serve sha e dp sv req =
     (let (sv', r) = dispatch sha e dp sv req in (tally (middleware_measurements req (rs_status r)) sv', r))"

text \<open>A run of the server: requests, each with the environment of its handler.\<close>

definition serve_all ::
  "(string \<Rightarrow> char list) \<Rightarrow> dependencies \<Rightarrow> server \<Rightarrow> (env \<times> http_request) list \<Rightarrow> server" where
  "serve_all sha dp sv reqs = fold (\<lambda>(e, r) sv. fst (serve sha e dp sv r)) reqs sv"

lemma serve_all_simps [simp]:
  "serve_all sha dp sv [] = sv"
  "serve_all sha dp sv ((e, r) # reqs) = serve_all sha dp (fst (serve sha e dp sv r)) reqs"
  by (simp_all add: serve_all_def)

lemma serve_store [simp]: "sv_store (fst (serve sha e dp sv r)) = sv_store (fst (dispatch sha e dp sv r))"
  by (simp add: serve_def Let_def case_prod_beta)

lemma serve_response [simp]: "snd (serve sha e dp sv r) = snd (dispatch sha e dp sv r)"
  by (simp add: serve_def Let_def case_prod_beta)

end
