(* ===== verification/Rbac.thy ===== *)
theory Rbac
  imports Store_Invariant Config
begin

text \<open>
  The RBAC manifests: \<open>internal/rbac/loader.go\<close>. Manifests are read from files, checked and
  applied to the store in two passes (identities, CAs and roles first, then bindings and token
  policies). The file system (\<open>glob\<close>, \<open>stat\<close>, \<open>read\<close>), the YAML decoder and
  \<open>time.Parse\<close> are parameters. Applying stops at the first error and keeps what it has
  written, so it returns the store together with the error. The clock stands still while the
  manifests are applied.
\<close>

section \<open>Manifests\<close>

record rbac_result =
  rr_files :: "string list"
  rr_users :: nat
  rr_groups :: nat
  rr_service_accounts :: nat
  rr_root_cas :: nat
  rr_intermediate_cas :: nat
  rr_roles :: nat
  rr_role_bindings :: nat
  rr_ca_roles :: nat
  rr_ca_role_bindings :: nat
  rr_token_policies :: nat

record subject =
  sj_kind :: string
  sj_name :: string

record rule =
  ru_resources :: "string list"
  ru_verbs :: "string list"
  ru_intermediate_ref :: string

record role_ref =
  rf_kind :: string
  rf_name :: string

record spec =
  sp_display_name :: string
  sp_environment :: string
  sp_fingerprint :: string
  sp_status :: string
  sp_trust_domain :: string
  sp_root_ref :: string
  sp_owner :: string
  sp_namespace :: string
  sp_subjects :: "subject list"
  sp_rules :: "rule list"
  sp_role_ref :: role_ref
  sp_intermediate_ref :: string
  sp_certificate_types :: "string list"
  sp_allowed_dns :: "string list"
  sp_allowed_usages :: "string list"
  sp_max_ttl :: string
  sp_issuance_limit :: int
  sp_renewal_allowed :: "bool option"
  sp_require_approval :: bool
  sp_expires_at :: string

record manifest =
  mf_api_version :: string
  mf_kind :: string
  mf_name :: string
  mf_spec :: spec

datatype manifest_error =
    MissingApiVersion | MissingKind | MissingName | RootWithoutFingerprint | IntermediateWithoutRoot
  | IntermediateWithoutFingerprint | RoleWithoutRules | BindingWithoutRole | BindingWithoutSubjects
  | PolicyWithoutIntermediate | PolicyWithoutTypes | UnsupportedKind string | SubjectIncomplete

datatype rbac_error =
    UnsupportedMode string
  | BadPattern string string
  | ReadManifest string string
  | ParseManifest string nat string
  | InvalidManifest string nat manifest_error
  | MissingRole string string
  | ApplyFailed string db_error
  | InvalidMaxTTL string
  | InvalidExpiresAt string

section \<open>Finding and reading the files\<close>

text \<open>\<open>sort.Strings\<close> of the keys of a set.\<close>

definition sorted_set :: "string list \<Rightarrow> string list" where
  "sorted_set xs = sort (remdups xs)"

fun expand_patterns ::
  "(string \<Rightarrow> string + string list) \<Rightarrow> (string \<Rightarrow> bool) \<Rightarrow> string list \<Rightarrow> rbac_error + string list" where
  "expand_patterns glob is_file [] = Inr []"
| "expand_patterns glob is_file (p # ps) =
     (let q = trim_space p
      in if q = [] then expand_patterns glob is_file ps
         else (case glob q of
                 Inl e \<Rightarrow> Inl (BadPattern q e)
               | Inr matches \<Rightarrow>
                   bindE (expand_patterns glob is_file ps) (\<lambda>rest. Inr (filter is_file matches @ rest))))"

definition expand_paths ::
  "(string \<Rightarrow> string + string list) \<Rightarrow> (string \<Rightarrow> bool) \<Rightarrow> string list \<Rightarrow> rbac_error + string list" where
  "expand_paths glob is_file patterns =
     bindE (expand_patterns glob is_file patterns) (\<lambda>files. Inr (sorted_set files))"

definition blank :: "string \<Rightarrow> bool" where "blank s \<longleftrightarrow> trim_space s = []"

definition validate_kind :: "manifest \<Rightarrow> manifest_error option" where
  "validate_kind m =
     (let k = mf_kind m; s = mf_spec m
      in if k \<in> set [''User'', ''Group'', ''ServiceAccount''] then None
         else if k = ''RootCA'' then (if blank (sp_fingerprint s) then Some RootWithoutFingerprint else None)
         else if k = ''IntermediateCA'' then
           (if blank (sp_root_ref s) then Some IntermediateWithoutRoot
            else if blank (sp_fingerprint s) then Some IntermediateWithoutFingerprint else None)
         else if k \<in> set [''Role'', ''CARole'', ''GlobalRole''] then
           (if sp_rules s = [] then Some RoleWithoutRules else None)
         else if k \<in> set [''RoleBinding'', ''CARoleBinding'', ''GlobalRoleBinding''] then
           (if blank (rf_name (sp_role_ref s)) then Some BindingWithoutRole
            else if sp_subjects s = [] then Some BindingWithoutSubjects else None)
         else if k = ''TokenPolicy'' then
           (if blank (sp_intermediate_ref s) then Some PolicyWithoutIntermediate
            else if sp_certificate_types s = [] then Some PolicyWithoutTypes else None)
         else Some (UnsupportedKind k))"

definition validate_manifest :: "manifest \<Rightarrow> manifest_error option" where
  "validate_manifest m =
     (if blank (mf_api_version m) then Some MissingApiVersion
      else if blank (mf_kind m) then Some MissingKind
      else if blank (mf_name m) then Some MissingName
      else (case validate_kind m of
              Some e \<Rightarrow> Some e
            | None \<Rightarrow>
                if mf_kind m \<in> set [''User'', ''Group'', ''ServiceAccount''] then None
                else if list_ex (\<lambda>sj. blank (sj_kind sj) \<or> blank (sj_name sj)) (sp_subjects (mf_spec m))
                  then Some SubjectIncomplete
                else None))"

text \<open>The documents of one file as the decoder yields them; \<open>doc\<close> counts them from one.\<close>

fun read_documents :: "string \<Rightarrow> nat \<Rightarrow> (string + manifest) list \<Rightarrow> rbac_error + manifest list" where
  "read_documents file doc [] = Inr []"
| "read_documents file doc (Inl e # ds) = Inl (ParseManifest file (doc + 1) e)"
| "read_documents file doc (Inr m # ds) =
     (if mf_kind m = [] \<and> mf_name m = [] then read_documents file (doc + 1) ds
      else (case validate_manifest m of
              Some e \<Rightarrow> Inl (InvalidManifest file (doc + 1) e)
            | None \<Rightarrow> bindE (read_documents file (doc + 1) ds) (\<lambda>ms. Inr (m # ms))))"

fun read_manifests ::
  "(string \<Rightarrow> string + string) \<Rightarrow> (string \<Rightarrow> (string + manifest) list) \<Rightarrow> string list \<Rightarrow> rbac_error + manifest list" where
  "read_manifests read decode [] = Inr []"
| "read_manifests read decode (f # fs) =
     (case read f of
        Inl e \<Rightarrow> Inl (ReadManifest f e)
      | Inr body \<Rightarrow>
          bindE (read_documents f 0 (decode body)) (\<lambda>ms.
          bindE (read_manifests read decode fs) (\<lambda>rest. Inr (ms @ rest))))"

section \<open>Applying them\<close>

fun first_non_empty :: "string list \<Rightarrow> string" where
  "first_non_empty [] = []"
| "first_non_empty (v # vs) = (if trim_space v \<noteq> [] then trim_space v else first_non_empty vs)"

definition ttl_of :: "string \<Rightarrow> duration option" where
  "ttl_of v = (if trim_space v = [] then Some 0 else parse_duration v)"

definition rbac_root :: "gotime \<Rightarrow> manifest \<Rightarrow> root_ca" where
  "rbac_root now m =
     (let s = mf_spec m
      in \<lparr>rt_id = mf_name m, rt_name = first_non_empty [sp_display_name s, mf_name m],
          rt_environment = first_non_empty [sp_environment s, ''development''], rt_fingerprint = sp_fingerprint s,
          rt_status = first_non_empty [sp_status s, ''active''], rt_trust_domain = sp_trust_domain s,
          rt_created_at = now, rt_not_before = now, rt_not_after = now + 10 * 365 * 24 * hour\<rparr>)"

definition apply_root_ca :: "gotime \<Rightarrow> store \<Rightarrow> manifest \<Rightarrow> rbac_error + store" where
  "apply_root_ca now s m =
     (case upsert_root_ca s (rbac_root now m) of Inl e \<Rightarrow> Inl (ApplyFailed (mf_name m) e) | Inr s' \<Rightarrow> Inr s')"

definition rbac_intermediate :: "gotime \<Rightarrow> duration \<Rightarrow> manifest \<Rightarrow> intermediate_ca" where
  "rbac_intermediate now ttl m =
     (let s = mf_spec m
      in \<lparr>im_id = mf_name m, im_root_id = sp_root_ref s, im_name = first_non_empty [sp_display_name s, mf_name m],
          im_environment = first_non_empty [sp_environment s, ''development''], im_owner = sp_owner s,
          im_namespace = sp_namespace s, im_fingerprint = sp_fingerprint s,
          im_status = first_non_empty [sp_status s, ''active''], im_max_ttl = ttl,
          im_allowed_dns = join '','' (sp_allowed_dns s), im_allowed_usages = join '','' (sp_allowed_usages s),
          im_require_approval = sp_require_approval s, im_issuance_limit = sp_issuance_limit s,
          im_renewal_allowed = (case sp_renewal_allowed s of None \<Rightarrow> True | Some b \<Rightarrow> b),
          im_created_at = now, im_not_before = now, im_not_after = now + 365 * 24 * hour\<rparr>)"

definition apply_intermediate_ca :: "gotime \<Rightarrow> store \<Rightarrow> manifest \<Rightarrow> rbac_error + store" where
  "apply_intermediate_ca now s m =
     (case ttl_of (sp_max_ttl (mf_spec m)) of
        None \<Rightarrow> Inl (InvalidMaxTTL (mf_name m))
      | Some ttl \<Rightarrow>
          (case upsert_intermediate_ca s (rbac_intermediate now ttl m) of
             Inl e \<Rightarrow> Inl (ApplyFailed (mf_name m) e) | Inr s' \<Rightarrow> Inr s'))"

definition binding_row :: "gotime \<Rightarrow> manifest \<Rightarrow> manifest \<Rightarrow> rule \<Rightarrow> string \<Rightarrow> subject \<Rightarrow> ca_role" where
  "binding_row now role binding ru im sj =
     \<lparr>ro_id = mf_name binding @ ''-'' @ to_lower (sj_kind sj) @ ''-'' @ sj_name sj @ ''-'' @ im,
      ro_name = mf_name role, ro_subject = to_lower (sj_kind sj) @ '':'' @ sj_name sj,
      ro_intermediate_id = im, ro_permissions = join '','' (ru_verbs ru), ro_created_at = now\<rparr>"

definition rule_intermediate :: "manifest \<Rightarrow> manifest \<Rightarrow> rule \<Rightarrow> string" where
  "rule_intermediate role binding ru =
     first_non_empty [ru_intermediate_ref ru, sp_intermediate_ref (mf_spec role), sp_intermediate_ref (mf_spec binding)]"

text \<open>The rows of the two nested loops, in order.\<close>

definition binding_rows :: "gotime \<Rightarrow> manifest \<Rightarrow> manifest \<Rightarrow> ca_role list" where
  "binding_rows now role binding =
     concat (map (\<lambda>ru. let im = rule_intermediate role binding ru
                       in if im = [] then []
                          else map (binding_row now role binding ru im) (sp_subjects (mf_spec binding)))
       (sp_rules (mf_spec role)))"

fun upsert_roles :: "store \<Rightarrow> ca_role list \<Rightarrow> store \<times> db_error option" where
  "upsert_roles s [] = (s, None)"
| "upsert_roles s (r # rs) = (case upsert_ca_role s r of Inl e \<Rightarrow> (s, Some e) | Inr s' \<Rightarrow> upsert_roles s' rs)"

definition apply_role_binding :: "gotime \<Rightarrow> store \<Rightarrow> manifest \<Rightarrow> manifest \<Rightarrow> store \<times> rbac_error option" where
  "apply_role_binding now s role binding =
     (case upsert_roles s (binding_rows now role binding) of
        (s', None) \<Rightarrow> (s', None) | (s', Some e) \<Rightarrow> (s', Some (ApplyFailed (mf_name binding) e)))"

definition rbac_policy :: "gotime \<Rightarrow> duration \<Rightarrow> gotime \<Rightarrow> manifest \<Rightarrow> ca_token_policy" where
  "rbac_policy now ttl expires m =
     (let s = mf_spec m
      in \<lparr>tp_id = mf_name m, tp_name = first_non_empty [sp_display_name s, mf_name m],
          tp_intermediate_id = sp_intermediate_ref s, tp_certificate_types = join '','' (sp_certificate_types s),
          tp_allowed_dns = join '','' (sp_allowed_dns s), tp_max_ttl = ttl, tp_issuance_limit = sp_issuance_limit s,
          tp_renewal_allowed = (case sp_renewal_allowed s of None \<Rightarrow> False | Some b \<Rightarrow> b),
          tp_require_approval = sp_require_approval s, tp_created_at = now, tp_expires_at = expires\<rparr>)"

definition apply_token_policy ::
  "(string \<Rightarrow> gotime option) \<Rightarrow> gotime \<Rightarrow> store \<Rightarrow> manifest \<Rightarrow> rbac_error + store" where
  "apply_token_policy parse_time now s m =
     (case ttl_of (sp_max_ttl (mf_spec m)) of
        None \<Rightarrow> Inl (InvalidMaxTTL (mf_name m))
      | Some ttl \<Rightarrow>
          (let e = trim_space (sp_expires_at (mf_spec m))
           in case (if e = [] then Some (now + 24 * hour) else parse_time e) of
                None \<Rightarrow> Inl (InvalidExpiresAt (mf_name m))
              | Some expires \<Rightarrow>
                  (case upsert_ca_token_policy s (rbac_policy now ttl expires m) of
                     Inl e \<Rightarrow> Inl (ApplyFailed (mf_name m) e) | Inr s' \<Rightarrow> Inr s')))"

definition is_role_kind :: "string \<Rightarrow> bool" where
  "is_role_kind k \<longleftrightarrow> k \<in> set [''Role'', ''CARole'', ''GlobalRole'']"

definition is_binding_kind :: "string \<Rightarrow> bool" where
  "is_binding_kind k \<longleftrightarrow> k \<in> set [''RoleBinding'', ''CARoleBinding'', ''GlobalRoleBinding'']"

text \<open>First pass; \<open>roles\<close> is the Go map of roles by name.\<close>

fun apply_first ::
  "gotime \<Rightarrow> store \<Rightarrow> (string \<rightharpoonup> manifest) \<Rightarrow> rbac_result \<Rightarrow> manifest list \<Rightarrow>
     store \<times> (string \<rightharpoonup> manifest) \<times> rbac_result \<times> rbac_error option" where
  "apply_first now s roles res [] = (s, roles, res, None)"
| "apply_first now s roles res (m # ms) =
     (if mf_kind m = ''User'' then apply_first now s roles (res\<lparr>rr_users := rr_users res + 1\<rparr>) ms
      else if mf_kind m = ''Group'' then apply_first now s roles (res\<lparr>rr_groups := rr_groups res + 1\<rparr>) ms
      else if mf_kind m = ''ServiceAccount''
        then apply_first now s roles (res\<lparr>rr_service_accounts := rr_service_accounts res + 1\<rparr>) ms
      else if mf_kind m = ''RootCA'' then
        (case apply_root_ca now s m of
           Inl e \<Rightarrow> (s, roles, res, Some e)
         | Inr s' \<Rightarrow> apply_first now s' roles (res\<lparr>rr_root_cas := rr_root_cas res + 1\<rparr>) ms)
      else if mf_kind m = ''IntermediateCA'' then
        (case apply_intermediate_ca now s m of
           Inl e \<Rightarrow> (s, roles, res, Some e)
         | Inr s' \<Rightarrow> apply_first now s' roles (res\<lparr>rr_intermediate_cas := rr_intermediate_cas res + 1\<rparr>) ms)
      else if is_role_kind (mf_kind m) then
        apply_first now s (roles(mf_name m \<mapsto> m))
          (res\<lparr>rr_roles := rr_roles res + 1,
               rr_ca_roles := rr_ca_roles res + (if has_prefix (mf_kind m) ''CA'' then 1 else 0)\<rparr>) ms
      else apply_first now s roles res ms)"

fun apply_second ::
  "(string \<Rightarrow> gotime option) \<Rightarrow> gotime \<Rightarrow> (string \<rightharpoonup> manifest) \<Rightarrow> store \<Rightarrow> rbac_result \<Rightarrow> manifest list \<Rightarrow>
     store \<times> rbac_result \<times> rbac_error option" where
  "apply_second parse_time now roles s res [] = (s, res, None)"
| "apply_second parse_time now roles s res (m # ms) =
     (if is_binding_kind (mf_kind m) then
        (case roles (rf_name (sp_role_ref (mf_spec m))) of
           None \<Rightarrow> (s, res, Some (MissingRole (mf_name m) (rf_name (sp_role_ref (mf_spec m)))))
         | Some role \<Rightarrow>
             (case apply_role_binding now s role m of
                (s', Some e) \<Rightarrow> (s', res, Some e)
              | (s', None) \<Rightarrow>
                  apply_second parse_time now roles s'
                    (res\<lparr>rr_role_bindings := rr_role_bindings res + 1,
                         rr_ca_role_bindings := rr_ca_role_bindings res + (if has_prefix (mf_kind m) ''CA'' then 1 else 0)\<rparr>) ms))
      else if mf_kind m = ''TokenPolicy'' then
        (case apply_token_policy parse_time now s m of
           Inl e \<Rightarrow> (s, res, Some e)
         | Inr s' \<Rightarrow> apply_second parse_time now roles s' (res\<lparr>rr_token_policies := rr_token_policies res + 1\<rparr>) ms)
      else apply_second parse_time now roles s res ms)"

definition apply_manifests ::
  "(string \<Rightarrow> gotime option) \<Rightarrow> gotime \<Rightarrow> store \<Rightarrow> manifest list \<Rightarrow> rbac_result \<Rightarrow>
     store \<times> rbac_result \<times> rbac_error option" where
  "apply_manifests parse_time now s ms res =
     (case apply_first now s Map.empty res ms of
        (s1, roles, res1, Some e) \<Rightarrow> (s1, res1, Some e)
      | (s1, roles, res1, None) \<Rightarrow> apply_second parse_time now roles s1 res1 ms)"

definition no_result :: rbac_result where
  "no_result = \<lparr>rr_files = [], rr_users = 0, rr_groups = 0, rr_service_accounts = 0, rr_root_cas = 0,
     rr_intermediate_cas = 0, rr_roles = 0, rr_role_bindings = 0, rr_ca_roles = 0, rr_ca_role_bindings = 0,
     rr_token_policies = 0\<rparr>"

record file_system =
  fs_glob :: "string \<Rightarrow> string + string list"
  fs_is_file :: "string \<Rightarrow> bool"
  fs_read :: "string \<Rightarrow> string + string"

definition load_and_apply ::
  "file_system \<Rightarrow> (string \<Rightarrow> (string + manifest) list) \<Rightarrow> (string \<Rightarrow> gotime option) \<Rightarrow> gotime \<Rightarrow> rbac_config \<Rightarrow>
     store \<Rightarrow> store \<times> rbac_result \<times> rbac_error option" where
  "load_and_apply fs decode parse_time now cfg s =
     (let mode = (if rb_mode cfg = [] then ''file'' else rb_mode cfg)
      in if \<not> rb_enabled cfg then (s, no_result, None)
         else if mode \<noteq> ''file'' then (s, no_result, Some (UnsupportedMode mode))
         else (case expand_paths (fs_glob fs) (fs_is_file fs) (rb_paths cfg) of
                 Inl e \<Rightarrow> (s, no_result, Some e)
               | Inr files \<Rightarrow>
                   (case read_manifests (fs_read fs) decode files of
                      Inl e \<Rightarrow> (s, no_result\<lparr>rr_files := files\<rparr>, Some e)
                    | Inr ms \<Rightarrow> apply_manifests parse_time now s ms (no_result\<lparr>rr_files := files\<rparr>))))"

end
