(* ===== verification/Server.thy ===== *)
theory Server
  imports Api Rbac Config
begin

text \<open>
  The server process, \<open>cmd/server/main.go\<close>: the start sequence that composes configuration,
  telemetry, database, RBAC manifests and CA material into a router, and what a process does
  with its listener; with \<open>db.Open\<close> of \<open>internal/db/store.go\<close>. The store that the functions
  take is the content of the configured database; log lines are left out.
\<close>

section \<open>Opening the database\<close>

datatype open_error = DriverNotImplemented string | OpenFailed string

text \<open>\<open>ping\<close> stands for \<open>sql.Open\<close> and \<open>PingContext\<close> of the SQLite driver.\<close>

definition open_database :: "(string \<Rightarrow> string option) \<Rightarrow> database_config \<Rightarrow> open_error option" where
  "open_database ping cfg =
     (if db_driver cfg \<noteq> ''sqlite'' then Some (DriverNotImplemented (db_driver cfg))
      else map_option OpenFailed (ping (db_dsn cfg)))"

section \<open>Starting\<close>

text \<open>
  What the start sequence relies on: viper and the environment, the OpenTelemetry constructors,
  the SQLite driver, the files and decoders of the RBAC loader, the files and X.509 functions of
  \<open>ca.LoadAuthority\<close>, and \<open>ListenAndServe\<close>, which gives an error or listens. The statements of
  a migration succeed.
\<close>

datatype listener = PlainHttp string | TlsHttp string string string

record server_lib =
  sl_viper :: viper
  sl_float :: "string \<Rightarrow> rat option"
  sl_getenv :: "string \<Rightarrow> string"
  sl_otel :: otel_lib
  sl_ping :: "string \<Rightarrow> string option"
  sl_files :: file_system
  sl_manifests :: "string \<Rightarrow> (string + manifest) list"
  sl_parse_time :: "string \<Rightarrow> gotime option"
  sl_sha :: "string \<Rightarrow> char list"
  sl_x509 :: x509_lib
  sl_cipher :: cipher_suite
  sl_read :: "string \<Rightarrow> string + string"
  sl_listen :: "listener \<Rightarrow> string option"

definition sl_load :: "server_lib \<Rightarrow> string \<Rightarrow> string + config" where
  "sl_load lib = load_config (sl_viper lib) (sl_float lib) (sl_getenv lib)"

datatype start_error =
    LoadConfigFailed string
  | TelemetryFailed string
  | DatabaseFailed open_error
  | RbacFailed rbac_error
  | StartPanic \<comment> \<open>the runtime ends the process\<close>

definition pki_files_of :: "pki_config \<Rightarrow> pki_files" where
  "pki_files_of p =
     \<lparr>pf_cert = pki_cert_file p, pf_key = pki_key_file p, pf_key_pass = pki_key_pass p,
      pf_chain = pki_chain_file p, pf_root = pki_root_file p\<rparr>"

definition server_authority :: "server_lib \<Rightarrow> pki_config \<Rightarrow> authority" where
  "server_authority lib p =
     (case load_authority (sl_sha lib) (sl_x509 lib) (sl_cipher lib) (sl_read lib) (pki_files_of p) of
        Inl e \<Rightarrow> disabled_authority
      | Inr fa \<Rightarrow> file_signer (sl_x509 lib) fa)"

text \<open>
  \<open>LoadAuthority\<close> does not return when the \<open>Nonce\<close> header of the key file decodes to another
  length than the cipher takes: \<open>gcm.Open\<close> panics, and nothing in \<open>main\<close> recovers.
\<close>

definition load_panics :: "server_lib \<Rightarrow> pki_config \<Rightarrow> bool" where
  "load_panics lib p \<longleftrightarrow>
     load_authority (sl_sha lib) (sl_x509 lib) (sl_cipher lib) (sl_read lib) (pki_files_of p) = Inl (DecryptFailed NoncePanic)"

definition listener_of :: "server_config \<Rightarrow> listener" where
  "listener_of c =
     (if tls_cert_file (srv_tls c) \<noteq> [] \<and> tls_key_file (srv_tls c) \<noteq> []
      then TlsHttp (srv_address c) (tls_cert_file (srv_tls c)) (tls_key_file (srv_tls c))
      else PlainHttp (srv_address c))"

record running =
  ru_deps :: dependencies
  ru_listener :: listener
  ru_metrics :: "measurement list"

definition server_of :: "server_lib \<Rightarrow> config \<Rightarrow> running" where
  "server_of lib cfg =
     \<lparr>ru_deps = \<lparr>dp_lifetime = pki_default_lifetime (cf_pki cfg), dp_renew_before = pki_renew_before (cf_pki cfg),
        dp_authority = server_authority lib (cf_pki cfg)\<rparr>,
      ru_listener = listener_of (cf_server cfg), ru_metrics = []\<rparr>"

definition start_server ::
  "server_lib \<Rightarrow> string \<Rightarrow> gotime \<Rightarrow> store \<Rightarrow> store \<times> (start_error + running)" where
  "start_server lib path now s =
     (case sl_load lib path of
        Inl e \<Rightarrow> (s, Inl (LoadConfigFailed e))
      | Inr cfg \<Rightarrow>
     (case snd (configure_telemetry (sl_otel lib) (cf_telemetry cfg) ''ironroot-server'') of
        Inl e \<Rightarrow> (s, Inl (TelemetryFailed e))
      | Inr shutdown \<Rightarrow>
     (case open_database (sl_ping lib) (cf_database cfg) of
        Some e \<Rightarrow> (s, Inl (DatabaseFailed e))
      | None \<Rightarrow>
     (case load_and_apply (sl_files lib) (sl_manifests lib) (sl_parse_time lib) now (cf_rbac cfg) (migrate s) of
        (s1, result, Some e) \<Rightarrow> (s1, Inl (RbacFailed e))
      | (s1, result, None) \<Rightarrow>
          if load_panics lib (cf_pki cfg) then (s1, Inl StartPanic) else (s1, Inr (server_of lib cfg))))))"

section \<open>The process\<close>

text \<open>
  \<open>main\<close>: the store it leaves, whether it served, and its exit status. A listener that cannot
  be opened stops the process the same way a signal does. A Go process that panics exits with 2.
  The requests are those that arrive before the signal; each comes with the readings of its handler.
\<close>

definition server_main ::
  "server_lib \<Rightarrow> bool \<Rightarrow> string \<Rightarrow> gotime \<Rightarrow> (env \<times> http_request) list \<Rightarrow> store \<Rightarrow> store \<times> bool \<times> int" where
  "server_main lib show_version path now reqs s =
     (if show_version then (s, False, 0)
      else case start_server lib path now s of
        (s1, Inl e) \<Rightarrow> (s1, False, if e = StartPanic then 2 else 1)
      | (s1, Inr r) \<Rightarrow>
          if sl_listen lib (ru_listener r) \<noteq> None then (s1, False, 0)
          else (sv_store (serve_all (sl_sha lib) (ru_deps r) \<lparr>sv_store = s1, sv_metrics = ru_metrics r\<rparr> reqs), True, 0))"

end
