(* ===== verification/Files.thy ===== *)
theory Files
  imports Prelude
begin

text \<open>
  The file operations of Go's \<open>os\<close> and \<open>path/filepath\<close> (on Unix) that the command line tools
  use: cleaning and joining paths, \<open>Stat\<close>, \<open>MkdirAll\<close>, \<open>WriteFile\<close>, \<open>ReadFile\<close>,
  \<open>Remove\<close>. A disk maps paths to files and directories; \<open>fault\<close> says on which paths writing
  fails for a reason the model does not know (permissions, a full disk). The mode of a new file
  is the one asked for, before the umask. A failing \<open>WriteFile\<close> leaves the file as it was; Go's
  may have truncated it or written a part. There are no symbolic links.
\<close>

section \<open>Paths\<close>

fun clean_parts :: "bool \<Rightarrow> string list \<Rightarrow> string list \<Rightarrow> string list" where
  "clean_parts rooted acc [] = rev acc"
| "clean_parts rooted acc (p # ps) =
     (if p = [] \<or> p = ''.'' then clean_parts rooted acc ps
      else if p = ''..'' then
        (case acc of
           [] \<Rightarrow> clean_parts rooted (if rooted then [] else [''..'']) ps
         | a # as \<Rightarrow> if a = ''..'' then clean_parts rooted (''..'' # acc) ps else clean_parts rooted as ps)
      else clean_parts rooted (p # acc) ps)"

definition is_abs :: "string \<Rightarrow> bool" where "is_abs p = has_prefix p ''/''"

definition clean_path :: "string \<Rightarrow> string" where
  "clean_path p =
     (let parts = clean_parts (is_abs p) [] (split_on (CHR ''/'') p)
      in if is_abs p then ''/'' @ join ''/'' parts else if parts = [] then ''.'' else join ''/'' parts)"

definition join_path :: "string list \<Rightarrow> string" where
  "join_path ps =
     (let qs = filter (\<lambda>p. p \<noteq> []) ps in if qs = [] then [] else clean_path (join ''/'' qs))"

text \<open>The directory part; empty for a name in the current directory or the root.\<close>

definition parent_path :: "string \<Rightarrow> string" where
  "parent_path p = join ''/'' (butlast (split_on (CHR ''/'') p))"

definition ancestors :: "string \<Rightarrow> string list" where
  "ancestors p = (let ps = split_on (CHR ''/'') p in map (\<lambda>n. join ''/'' (take n ps)) [1..<Suc (length ps)])"

section \<open>Disks\<close>

datatype node = Dir | File string nat

type_synonym disk = "string \<Rightarrow> node option"
type_synonym fault = "string \<Rightarrow> string option"

definition exists_path :: "disk \<Rightarrow> string \<Rightarrow> bool" where "exists_path d p = (d p \<noteq> None)"

definition is_dir :: "disk \<Rightarrow> string \<Rightarrow> bool" where "is_dir d p = (d p = Some Dir)"

definition read_file :: "disk \<Rightarrow> string \<Rightarrow> string + string" where
  "read_file d p = (case d p of Some (File c m) \<Rightarrow> Inr c | Some Dir \<Rightarrow> Inl ''is a directory'' | None \<Rightarrow> Inl ''no such file or directory'')"

definition mkdir_all :: "fault \<Rightarrow> disk \<Rightarrow> string \<Rightarrow> string + disk" where
  "mkdir_all fault d p =
     (if is_dir d p then Inr d
      else (case fault p of
              Some e \<Rightarrow> Inl e
            | None \<Rightarrow>
                let as = filter (\<lambda>a. a \<noteq> []) (ancestors p)
                in if list_ex (\<lambda>a. case d a of Some (File c m) \<Rightarrow> True | _ \<Rightarrow> False) as then Inl ''not a directory''
                   else Inr (fold (\<lambda>a d. d(a \<mapsto> Dir)) as d)))"

definition write_file :: "fault \<Rightarrow> disk \<Rightarrow> string \<Rightarrow> string \<Rightarrow> nat \<Rightarrow> string + disk" where
  "write_file fault d p content mode =
     (case fault p of
        Some e \<Rightarrow> Inl e
      | None \<Rightarrow>
     (case d p of
        Some Dir \<Rightarrow> Inl ''is a directory''
      | Some (File c m) \<Rightarrow> Inr (d(p \<mapsto> File content m))
      | None \<Rightarrow>
          if parent_path p = [] \<or> is_dir d (parent_path p) then Inr (d(p \<mapsto> File content mode))
          else Inl ''no such file or directory''))"

section \<open>Sequences of operations\<close>

text \<open>An operation on the disk that may fail keeps what it has written so far.\<close>

type_synonym ('e, 'a) io = "disk \<Rightarrow> disk \<times> ('e + 'a)"

definition io_return :: "'a \<Rightarrow> ('e, 'a) io" where "io_return x d = (d, Inr x)"
definition io_fail :: "'e \<Rightarrow> ('e, 'a) io" where "io_fail e d = (d, Inl e)"

definition io_bind :: "('e, 'a) io \<Rightarrow> ('a \<Rightarrow> ('e, 'b) io) \<Rightarrow> ('e, 'b) io" where
  "io_bind m f d = (case m d of (d', Inl e) \<Rightarrow> (d', Inl e) | (d', Inr x) \<Rightarrow> f x d')"

definition io_lift :: "('e + 'a) \<Rightarrow> ('e, 'a) io" where "io_lift r d = (d, r)"

definition io_update :: "(disk \<Rightarrow> 'e + disk) \<Rightarrow> ('e, unit) io" where
  "io_update f d = (case f d of Inl e \<Rightarrow> (d, Inl e) | Inr d' \<Rightarrow> (d', Inr ()))"

definition io_write :: "(string \<Rightarrow> 'e) \<Rightarrow> fault \<Rightarrow> string \<Rightarrow> string \<Rightarrow> nat \<Rightarrow> ('e, unit) io" where
  "io_write err fault p content mode =
     io_update (\<lambda>d. case write_file fault d p content mode of Inl e \<Rightarrow> Inl (err e) | Inr d' \<Rightarrow> Inr d')"

definition io_mkdir :: "(string \<Rightarrow> 'e) \<Rightarrow> fault \<Rightarrow> string \<Rightarrow> ('e, unit) io" where
  "io_mkdir err fault p = io_update (\<lambda>d. case mkdir_all fault d p of Inl e \<Rightarrow> Inl (err e) | Inr d' \<Rightarrow> Inr d')"

fun io_each :: "('a \<Rightarrow> ('e, unit) io) \<Rightarrow> 'a list \<Rightarrow> ('e, unit) io" where
  "io_each f [] = io_return ()"
| "io_each f (x # xs) = io_bind (f x) (\<lambda>_. io_each f xs)"

lemma io_simps [simp]:
  "io_return x d = (d, Inr x)" "io_fail e d = (d, Inl e)" "io_lift r d = (d, r)"
  by (simp_all add: io_return_def io_fail_def io_lift_def)

lemma io_bind_Inr: "io_bind m f d = (d2, Inr y) \<longleftrightarrow> (\<exists>d1 x. m d = (d1, Inr x) \<and> f x d1 = (d2, Inr y))"
  by (auto simp: io_bind_def split: prod.splits sum.splits)

text \<open>
  The frame of an operation: which paths it can change. Every sequence of operations that keep
  a set of paths keeps it.
\<close>

definition keeps_path :: "('e, 'a) io \<Rightarrow> string \<Rightarrow> bool" where
  "keeps_path m p \<longleftrightarrow> (\<forall>d. fst (m d) p = d p)"

lemma keeps_return [frame]: "keeps_path (io_return x) p"
  by (simp add: keeps_path_def)

lemma keeps_fail [frame]: "keeps_path (io_fail e) p"
  by (simp add: keeps_path_def)

lemma keeps_lift [frame]: "keeps_path (io_lift r) p"
  by (simp add: keeps_path_def)

lemma keeps_bind [frame]: "keeps_path m p \<Longrightarrow> (\<And>x. keeps_path (f x) p) \<Longrightarrow> keeps_path (io_bind m f) p"
  by (simp add: keeps_path_def io_bind_def split: prod.split sum.split) (metis fst_conv)

lemma keeps_each [frame]: "(\<And>x. x \<in> set xs \<Longrightarrow> keeps_path (f x) p) \<Longrightarrow> keeps_path (io_each f xs) p"
  by (induction xs) (auto intro: frame)

lemma keeps_write [frame]: "q \<noteq> p \<Longrightarrow> keeps_path (io_write err fault q c m) p"
  by (simp add: keeps_path_def io_write_def io_update_def write_file_def split: sum.split option.split node.split)

lemma fold_mkdir: "fold (\<lambda>a d. d(a \<mapsto> Dir)) as d p = (if p \<in> set as then Some Dir else d p)"
  by (induction as arbitrary: d) auto

text \<open>Making a directory never changes a file.\<close>

lemma mkdir_keeps_files: "mkdir_all fault d q = Inr d' \<Longrightarrow> d p = Some (File c m) \<Longrightarrow> d' p = Some (File c m)"
  by (auto simp: mkdir_all_def Let_def fold_mkdir list_ex_iff split: if_splits option.splits)

text \<open>
  The contract of an operation that must not destroy files: every file of the disk is still
  there, unchanged.
\<close>

definition keeps_files :: "('e, 'a) io \<Rightarrow> bool" where
  "keeps_files m \<longleftrightarrow> (\<forall>d p c k. d p = Some (File c k) \<longrightarrow> fst (m d) p = Some (File c k))"

lemma keeps_files_intros [keeps]:
  "keeps_files (io_return x)" "keeps_files (io_fail e)" "keeps_files (io_lift r)" "keeps_files (io_mkdir err fault q)"
proof -
  show "keeps_files (io_mkdir err fault q)"
    unfolding keeps_files_def io_mkdir_def io_update_def
    by (auto split: sum.splits dest: mkdir_keeps_files)
qed (simp_all add: keeps_files_def)

lemma keeps_files_bind [keeps]: "keeps_files m \<Longrightarrow> (\<And>x. keeps_files (f x)) \<Longrightarrow> keeps_files (io_bind m f)"
  unfolding keeps_files_def io_bind_def by (auto split: prod.splits sum.splits) (metis fst_conv)+

lemma write_absent_keeps_files:
  "\<not> exists_path d q \<Longrightarrow> d p = Some (File c k) \<Longrightarrow> fst (io_write err fault q content mode d) p = Some (File c k)"
  by (auto simp: io_write_def io_update_def write_file_def exists_path_def split: sum.splits option.splits node.splits)

lemma read_after_write:
  "write_file fault d p c m = Inr d' \<Longrightarrow> read_file d' p = Inr c"
  by (auto simp: write_file_def read_file_def split: option.splits node.splits if_splits)

section \<open>Files of one directory\<close>

text \<open>A file name that is neither empty nor a dot name, without a slash.\<close>

definition plain_name :: "string \<Rightarrow> bool" where
  "plain_name n \<longleftrightarrow> n \<noteq> [] \<and> n \<noteq> ''.'' \<and> n \<noteq> ''..'' \<and> CHR ''/'' \<notin> set n"

lemma clean_parts_snoc: "plain_name n \<Longrightarrow> clean_parts r acc (ps @ [n]) = clean_parts r acc ps @ [n]"
  by (induction r acc ps rule: clean_parts.induct) (auto simp: plain_name_def split: list.splits)

lemma split_on_snoc: "sep \<notin> set n \<Longrightarrow> split_on sep (a @ sep # n) = split_on sep a @ [n]"
  by (induction a) (auto simp: split_on_no_sep split: list.splits)

lemma join_snoc: "join sep (xs @ [n]) = (if xs = [] then [] else join sep xs @ sep) @ n"
  by (induction sep xs rule: join.induct) auto

definition dir_prefix :: "string \<Rightarrow> string" where
  "dir_prefix dir =
     (if dir = [] then []
      else let parts = clean_parts (is_abs dir) [] (split_on (CHR ''/'') dir)
           in (if is_abs dir then ''/'' else []) @ (if parts = [] then [] else join ''/'' parts @ ''/''))"

lemma join_path_plain:
  assumes "plain_name n"
  shows "join_path [dir, n] = dir_prefix dir @ n"
proof (cases "dir = []")
  case True
  obtain c cs where "n = c # cs" and "c \<noteq> CHR ''/''" using assms by (cases n) (auto simp: plain_name_def)
  then have "\<not> is_abs n" by (simp add: is_abs_def)
  moreover have "split_on (CHR ''/'') n = [n]" using assms by (intro split_on_no_sep) (simp add: plain_name_def)
  ultimately show ?thesis
    using True assms by (simp add: join_path_def clean_path_def dir_prefix_def plain_name_def)
next
  case False
  have "is_abs (dir @ ''/'' @ n) = is_abs dir" using False by (cases dir) (auto simp: is_abs_def)
  moreover have "split_on (CHR ''/'') (dir @ ''/'' @ n) = split_on (CHR ''/'') dir @ [n]"
    using assms by (simp add: split_on_snoc plain_name_def)
  moreover have "join_path [dir, n] = clean_path (dir @ ''/'' @ n)"
    using False assms by (simp add: join_path_def plain_name_def)
  ultimately show ?thesis
    using False by (simp only: clean_path_def dir_prefix_def join_snoc Let_def clean_parts_snoc [OF assms]) simp
qed

lemma join_path_inject: "plain_name m \<Longrightarrow> plain_name n \<Longrightarrow> join_path [dir, m] = join_path [dir, n] \<longleftrightarrow> m = n"
  by (simp add: join_path_plain)

lemma io_write_Inr: "io_write err fault p c m d = (d', Inr u) \<longleftrightarrow> write_file fault d p c m = Inr d'"
  by (auto simp: io_write_def io_update_def split: sum.splits)

lemma write_other: "write_file fault d q c m = Inr d' \<Longrightarrow> p \<noteq> q \<Longrightarrow> d' p = d p"
  by (auto simp: write_file_def split: option.splits node.splits if_splits)

lemma read_file_cong: "d' p = d p \<Longrightarrow> read_file d' p = read_file d p"
  by (simp add: read_file_def)

lemma read_after_other_write: "write_file fault d q c m = Inr d' \<Longrightarrow> p \<noteq> q \<Longrightarrow> read_file d' p = read_file d p"
  by (rule read_file_cong) (rule write_other)

lemma io_bind_lift: "io_bind (io_lift r) f d = (case r of Inl e \<Rightarrow> (d, Inl e) | Inr x \<Rightarrow> f x d)"
  by (simp add: io_bind_def split: sum.split)

lemma io_lift_Inr: "io_lift r d = (d', Inr x) \<longleftrightarrow> d' = d \<and> r = Inr x"
  by (auto simp: io_lift_def)

lemma io_mkdir_Inr: "io_mkdir err fault q d = (d', Inr u) \<longleftrightarrow> mkdir_all fault d q = Inr d'"
  by (auto simp: io_mkdir_def io_update_def split: sum.splits)

lemma io_bind_step: "m d = (d', Inr x) \<Longrightarrow> io_bind m f d = f x d'"
  by (simp add: io_bind_def)

lemma io_bind_pure: "io_bind (io_lift (Inr x)) f d = f x d" "io_bind (io_return x) f d = f x d"
  by (simp_all add: io_bind_def)

end
