(* ===== verification/Ca_Local.thy ===== *)
theory Ca_Local
  imports Authority Files
begin

text \<open>
  The offline CA workflow of \<open>internal/ca/localpki.go\<close>: options and their checks, the templates
  of root and intermediate certificates, the order in which key, certificate and the other
  files are written, reading them back, inspection and chain verification. Key generation,
  encodings, CIDR parsing and the rendering of JSON are parameters (\<open>local_lib\<close>).
\<close>

section \<open>Library\<close>

datatype json_value = JString string | JInt int | JBool bool | JStrings "string list"

record local_lib =
  ll_x509 :: x509_lib
  ll_cipher :: cipher_suite
  ll_sha :: "string \<Rightarrow> char list"
  ll_generate_rsa :: "int \<Rightarrow> string + (string \<times> public_key)"
  ll_generate_ecdsa :: "curve \<Rightarrow> string + (string \<times> public_key)"
  ll_marshal_pkcs8 :: "string \<Rightarrow> string + char list"
  ll_marshal_pkix :: "public_key \<Rightarrow> string + char list"
  ll_create_request :: "dist_name \<Rightarrow> string \<Rightarrow> string + char list"
  ll_serial :: "string + nat"
  ll_salt :: "string + char list"
  ll_nonce :: "string + char list"
  ll_parse_cidr :: "string \<Rightarrow> string + string"
  ll_name_text :: "dist_name \<Rightarrow> string"
  ll_render_json :: "(string \<times> json_value) list \<Rightarrow> string"

section \<open>Options\<close>

record root_options =
  op_name :: string
  op_common_name :: string
  op_organization :: string
  op_unit :: string
  op_country :: string
  op_province :: string
  op_locality :: string
  op_algorithm :: string
  op_rsa_bits :: int
  op_curve :: string
  op_key_format :: string
  op_encrypt_key :: bool
  op_password :: string
  op_lifetime :: duration
  op_not_before :: gotime
  op_max_path :: int
  op_is_ca :: bool
  op_cert_signing :: bool
  op_crl_signing :: bool
  op_server_auth :: bool
  op_client_auth :: bool
  op_code_signing :: bool
  op_email :: bool
  op_trust_bundle :: bool
  op_write_pem :: bool
  op_write_der :: bool
  op_offline :: bool
  op_backup_reminder :: bool
  op_crl_enabled :: bool
  op_ocsp_enabled :: bool
  op_permitted_dns :: "string list"
  op_permitted_ip :: "string list"
  op_permitted_email :: "string list"
  op_out_dir :: string
  op_now :: gotime

datatype local_error =
    UnsupportedAlgorithm string | UnsupportedKeyFormat string | RsaTooSmall | UnsupportedCurve string
  | LifetimeNotPositive | LifetimeTooLong | NotACA | NoCertSigning | NegativePathLength
  | OsError string | LibraryError string | InvalidIPRange string string
  | RootPasswordRequired | KeyPasswordRequired | NoCertificatePEM string | NoPrivateKeyPEM string
  | KeyDecrypt key_error | NotSupportedSigner | LifetimeExceedsRoot string | EncryptionPasswordRequired

definition default_root_options :: "gotime \<Rightarrow> root_options \<Rightarrow> root_options" where
  "default_root_options clock opt =
     (let name = (if op_name opt = [] then ''IronRoot Local Root CA'' else op_name opt);
          now = (if is_zero (op_now opt) then clock else op_now opt)
      in opt\<lparr>op_name := name,
           op_common_name := (if op_common_name opt = [] then name else op_common_name opt),
           op_organization := (if op_organization opt = [] then ''IronRoot'' else op_organization opt),
           op_algorithm := to_lower (if op_algorithm opt = [] then ''ecdsa'' else op_algorithm opt),
           op_rsa_bits := (if op_rsa_bits opt = 0 then 4096 else op_rsa_bits opt),
           op_curve := to_lower (if op_curve opt = [] then ''p384'' else op_curve opt),
           op_key_format := to_lower (if op_key_format opt = [] then ''pkcs8'' else op_key_format opt),
           op_lifetime := (if op_lifetime opt = 0 then 20 * 365 * 24 * hour else op_lifetime opt),
           op_out_dir := (if op_out_dir opt = [] then ''.'' else op_out_dir opt),
           op_now := now,
           op_not_before := (if is_zero (op_not_before opt) then now - minute else op_not_before opt),
           op_max_path := (if op_max_path opt = 0 then 1 else op_max_path opt)\<rparr>)"

definition elliptic_curve :: "string \<Rightarrow> curve option" where
  "elliptic_curve n =
     (let l = to_lower n
      in if l = ''p256'' \<or> l = ''p-256'' then Some P256
         else if l = ''p384'' \<or> l = ''p-384'' then Some P384
         else if l = ''p521'' \<or> l = ''p-521'' then Some P521 else None)"

definition validate_root_options :: "root_options \<Rightarrow> local_error option" where
  "validate_root_options opt =
     (if op_algorithm opt \<notin> set [''ecdsa'', ''rsa''] then Some (UnsupportedAlgorithm (op_algorithm opt))
      else if op_key_format opt \<notin> set [''pkcs8'', ''pem''] then Some (UnsupportedKeyFormat (op_key_format opt))
      else if op_algorithm opt = ''rsa'' \<and> op_rsa_bits opt < 2048 then Some RsaTooSmall
      else if op_algorithm opt = ''ecdsa'' \<and> elliptic_curve (op_curve opt) = None then Some (UnsupportedCurve (op_curve opt))
      else if op_lifetime opt \<le> 0 then Some LifetimeNotPositive
      else if op_lifetime opt > 30 * 365 * 24 * hour then Some LifetimeTooLong
      else if \<not> op_is_ca opt then Some NotACA
      else if \<not> op_cert_signing opt then Some NoCertSigning
      else if op_max_path opt < 0 then Some NegativePathLength
      else None)"

section \<open>Templates\<close>

definition blank_name :: dist_name where
  "blank_name = \<lparr>dn_common_name = [], dn_organization = [], dn_unit = [], dn_country = [], dn_province = [], dn_locality = []\<rparr>"

definition opt_list :: "string \<Rightarrow> string list" where "opt_list s = (if s = [] then [] else [s])"

definition root_subject :: "root_options \<Rightarrow> dist_name" where
  "root_subject opt = \<lparr>dn_common_name = op_common_name opt, dn_organization = opt_list (op_organization opt),
     dn_unit = opt_list (op_unit opt), dn_country = opt_list (op_country opt), dn_province = opt_list (op_province opt),
     dn_locality = opt_list (op_locality opt)\<rparr>"

definition root_key_usage :: "root_options \<Rightarrow> key_usage" where
  "root_key_usage opt =
     (let u = (if op_cert_signing opt then or 0 cert_sign else 0)
      in if op_crl_signing opt then or u crl_sign else u)"

definition root_ext_usage :: "root_options \<Rightarrow> ext_usage list" where
  "root_ext_usage opt =
     (if op_server_auth opt then [ServerAuth] else []) @ (if op_client_auth opt then [ClientAuth] else []) @
     (if op_code_signing opt then [CodeSigning] else []) @ (if op_email opt then [EmailProtection] else [])"

fun parse_ip_ranges :: "(string \<Rightarrow> string + string) \<Rightarrow> string list \<Rightarrow> local_error + string list" where
  "parse_ip_ranges parse [] = Inr []"
| "parse_ip_ranges parse (v # vs) =
     (let w = trim_space v
      in if w = [] then parse_ip_ranges parse vs
         else (case parse w of
                 Inl e \<Rightarrow> Inl (InvalidIPRange w e)
               | Inr r \<Rightarrow> bindE (parse_ip_ranges parse vs) (\<lambda>rs. Inr (r # rs))))"

definition root_template :: "root_options \<Rightarrow> nat \<Rightarrow> string list \<Rightarrow> cert_template" where
  "root_template opt serial ips =
     \<lparr>tpl_serial = serial, tpl_subject = root_subject opt, tpl_dns = [], tpl_not_before = op_not_before opt,
      tpl_not_after = op_now opt + op_lifetime opt, tpl_key_usage = root_key_usage opt, tpl_ext_usage = root_ext_usage opt,
      tpl_basic = True, tpl_is_ca = op_is_ca opt, tpl_max_path = op_max_path opt, tpl_max_path_zero = False,
      tpl_permitted_dns = op_permitted_dns opt, tpl_permitted_email = op_permitted_email opt, tpl_permitted_ip = ips\<rparr>"

section \<open>Names of what is in a certificate\<close>

text \<open>SHA-256 in upper-case hexadecimal, the bytes separated by colons.\<close>

fun pairs :: "string \<Rightarrow> string list" where
  "pairs (a # b # cs) = [a, b] # pairs cs"
| "pairs [a] = [[a]]"
| "pairs [] = []"

definition colon_fingerprint :: "(string \<Rightarrow> char list) \<Rightarrow> char list \<Rightarrow> string" where
  "colon_fingerprint sha der = join '':'' (pairs (to_upper (hex_encode (sha der))))"

definition key_algorithm :: "public_key \<Rightarrow> string" where
  "key_algorithm k = (case k of RsaPublic _ _ \<Rightarrow> ''rsa'' | EcdsaPublic _ _ \<Rightarrow> ''ecdsa'' | OtherPublic _ \<Rightarrow> ''unknown'')"

definition curve_name :: "curve \<Rightarrow> string" where
  "curve_name c = (case c of P256 \<Rightarrow> ''p256'' | P384 \<Rightarrow> ''p384'' | P521 \<Rightarrow> ''p521'' | OtherCurve _ \<Rightarrow> ''unknown'')"

definition key_curve :: "public_key \<Rightarrow> string" where
  "key_curve k = (case k of EcdsaPublic c _ \<Rightarrow> curve_name c | _ \<Rightarrow> [])"

definition key_size :: "public_key \<Rightarrow> int" where
  "key_size k =
     (case k of RsaPublic bits _ \<Rightarrow> bits
      | EcdsaPublic c _ \<Rightarrow> (case c of P256 \<Rightarrow> 256 | P384 \<Rightarrow> 384 | P521 \<Rightarrow> 521 | OtherCurve bits \<Rightarrow> bits)
      | OtherPublic _ \<Rightarrow> 0)"

definition usage_table :: "(key_usage \<times> string) list" where
  "usage_table =
     [(digital_signature, ''digital_signature''), (content_commitment, ''content_commitment''),
      (key_encipherment, ''key_encipherment''), (data_encipherment, ''data_encipherment''),
      (key_agreement, ''key_agreement''), (cert_sign, ''cert_signing''), (crl_sign, ''crl_signing''),
      (encipher_only, ''encipher_only''), (decipher_only, ''decipher_only'')]"

definition key_usage_names :: "key_usage \<Rightarrow> string list" where
  "key_usage_names u = map snd (filter (\<lambda>(b, n). and u b \<noteq> 0) usage_table)"

fun ext_usage_name :: "ext_usage \<Rightarrow> string" where
  "ext_usage_name ServerAuth = ''server_auth''"
| "ext_usage_name ClientAuth = ''client_auth''"
| "ext_usage_name CodeSigning = ''code_signing''"
| "ext_usage_name EmailProtection = ''email_protection''"
| "ext_usage_name TimeStamping = ''timestamping''"
| "ext_usage_name OCSPSigning = ''ocsp_signing''"
| "ext_usage_name (OtherUsage n) = ''unknown_'' @ show_int n"

definition ext_usage_names :: "ext_usage list \<Rightarrow> string list" where
  "ext_usage_names us = map ext_usage_name us"

section \<open>Keys\<close>

definition lib_result :: "(string + 'a) \<Rightarrow> local_error + 'a" where
  "lib_result r = (case r of Inl e \<Rightarrow> Inl (LibraryError e) | Inr x \<Rightarrow> Inr x)"

definition generate_signer :: "local_lib \<Rightarrow> string \<Rightarrow> int \<Rightarrow> string \<Rightarrow> local_error + (string \<times> public_key)" where
  "generate_signer lib algorithm bits curve =
     (if algorithm = ''rsa'' then lib_result (ll_generate_rsa lib bits)
      else if algorithm = ''ecdsa'' then
        (case elliptic_curve curve of None \<Rightarrow> Inl (UnsupportedCurve curve) | Some c \<Rightarrow> lib_result (ll_generate_ecdsa lib c))
      else Inl (UnsupportedAlgorithm algorithm))"

definition pem_text :: "local_lib \<Rightarrow> string \<Rightarrow> char list \<Rightarrow> string" where
  "pem_text lib t bytes = pem_encode (ll_x509 lib) \<lparr>pb_type = t, pb_headers = [], pb_bytes = bytes\<rparr>"

definition pkcs8_block :: "local_lib \<Rightarrow> string \<Rightarrow> string \<Rightarrow> bool \<Rightarrow> local_error + pem_block" where
  "pkcs8_block lib key password encrypt =
     bindE (lib_result (ll_marshal_pkcs8 lib key)) (\<lambda>der.
       if encrypt then
         (if password = [] then Inl EncryptionPasswordRequired
          else (case encrypt_private_key (ll_cipher lib) (ll_salt lib) (ll_nonce lib) der password of
                  Inl e \<Rightarrow> Inl (KeyDecrypt e) | Inr b \<Rightarrow> Inr b))
       else Inr \<lparr>pb_type = ''PRIVATE KEY'', pb_headers = [], pb_bytes = der\<rparr>)"

definition write_pkcs8_key :: "local_lib \<Rightarrow> fault \<Rightarrow> string \<Rightarrow> string \<Rightarrow> string \<Rightarrow> bool \<Rightarrow> (local_error, unit) io" where
  "write_pkcs8_key lib fault path key password encrypt =
     io_bind (io_lift (pkcs8_block lib key password encrypt)) (\<lambda>b.
       io_write OsError fault path (pem_encode (ll_x509 lib) b) 384)"

definition read_cert :: "local_lib \<Rightarrow> disk \<Rightarrow> string \<Rightarrow> local_error + (certificate \<times> string)" where
  "read_cert lib d path =
     (case read_file d path of
        Inl e \<Rightarrow> Inl (OsError e)
      | Inr body \<Rightarrow>
     (case pem_decode (ll_x509 lib) body of
        None \<Rightarrow> Inl (NoCertificatePEM path)
      | Some b \<Rightarrow>
          if pb_type b \<noteq> ''CERTIFICATE'' then Inl (NoCertificatePEM path)
          else bindE (lib_result (parse_certificate (ll_x509 lib) (pb_bytes b)))
                 (\<lambda>c. Inr (c, pem_encode (ll_x509 lib) b))))"

definition read_private_key :: "local_lib \<Rightarrow> disk \<Rightarrow> string \<Rightarrow> string \<Rightarrow> local_error + string" where
  "read_private_key lib d path password =
     (case read_file d path of
        Inl e \<Rightarrow> Inl (OsError e)
      | Inr body \<Rightarrow>
     (case pem_decode (ll_x509 lib) body of
        None \<Rightarrow> Inl (NoPrivateKeyPEM path)
      | Some b \<Rightarrow>
     bindE (if is_encrypted_block b
            then (case decrypt_private_key (ll_cipher lib) b password of Inl e \<Rightarrow> Inl (KeyDecrypt e) | Inr der \<Rightarrow> Inr der)
            else Inr (pb_bytes b)) (\<lambda>der.
     bindE (lib_result (parse_private_key (ll_x509 lib) der)) (\<lambda>k.
       case k of SignerKey s \<Rightarrow> Inr s | NonSignerKey s \<Rightarrow> Inl NotSupportedSigner))))"

section \<open>Creating a root CA\<close>

record root_result =
  rs_key_path :: string
  rs_cert_path :: string
  rs_public_path :: string
  rs_pem_path :: string
  rs_der_path :: string
  rs_metadata_path :: string
  rs_fingerprints_path :: string
  rs_recovery_path :: string
  rs_trust_dir :: string
  rs_fingerprint :: string
  rs_password_file :: string
  rs_not_after :: gotime

definition recovery_text :: "bool \<Rightarrow> string" where
  "recovery_text reminder =
     ''IronRoot Root CA recovery notes'' @ [CHR 0x0A, CHR 0x0A] @
     ''- Keep root-ca.key encrypted and offline.'' @ [CHR 0x0A] @
     ''- Store at least two offline backups in separate locations.'' @ [CHR 0x0A] @
     ''- Do not copy root-ca.key to IronRoot servers, containers, Kubernetes, or CI.'' @ [CHR 0x0A] @
     ''- Distribute only root-ca.crt or trust-bundle contents to systems that need trust.'' @ [CHR 0x0A] @
     (if reminder then ''- Verify backup readability before production use.'' @ [CHR 0x0A] else [])"

text \<open>\<open>cert\<close> is the template, whose issuer is the zero name.\<close>

definition root_metadata ::
  "local_lib \<Rightarrow> root_options \<Rightarrow> cert_template \<Rightarrow> public_key \<Rightarrow> string \<Rightarrow> (string \<times> json_value) list" where
  "root_metadata lib opt tpl pub fp =
     [(''name'', JString (op_name opt)), (''subject'', JString (ll_name_text lib (tpl_subject tpl))),
      (''issuer'', JString (ll_name_text lib blank_name)), (''algorithm'', JString (key_algorithm pub)),
      (''curve'', JString (key_curve pub)), (''key_size'', JInt (key_size pub)),
      (''fingerprint_sha256'', JString fp), (''not_before'', JString (rfc3339 (tpl_not_before tpl))),
      (''not_after'', JString (rfc3339 (tpl_not_after tpl))), (''max_path_length'', JInt (tpl_max_path tpl)),
      (''offline_recommended'', JBool (op_offline opt)), (''encrypted_private_key'', JBool (op_encrypt_key opt)),
      (''crl_enabled_future_ready'', JBool (op_crl_enabled opt)), (''ocsp_enabled_future_ready'', JBool (op_ocsp_enabled opt)),
      (''permitted_dns_domains'', JStrings (op_permitted_dns opt)), (''permitted_ip_ranges'', JStrings (op_permitted_ip opt)),
      (''permitted_email_domains'', JStrings (op_permitted_email opt)),
      (''key_usage'', JStrings (key_usage_names (tpl_key_usage tpl))),
      (''extended_key_usage'', JStrings (ext_usage_names (tpl_ext_usage tpl)))]"

text \<open>Modes: 420 is \<open>0o644\<close>, 384 is \<open>0o600\<close>.\<close>

definition io_when :: "bool \<Rightarrow> ('e, unit) io \<Rightarrow> ('e, unit) io" where
  "io_when b m = (if b then m else io_return ())"

definition write_root_artifacts ::
  "local_lib \<Rightarrow> fault \<Rightarrow> root_options \<Rightarrow> root_result \<Rightarrow> cert_template \<Rightarrow> public_key \<Rightarrow> char list \<Rightarrow> string \<Rightarrow>
     (local_error, root_result) io" where
  "write_root_artifacts lib fault opt r tpl pub der cert_pem =
     (let at = (\<lambda>n. join_path [op_out_dir opt, n]); trust = at ''trust-bundle''
      in io_bind (io_lift (lib_result (ll_marshal_pkix lib pub))) (\<lambda>pub_der.
         io_bind (io_write OsError fault (at ''root-ca.pub'') (pem_text lib ''PUBLIC KEY'' pub_der) 420) (\<lambda>_.
         io_bind (io_when (op_write_pem opt) (io_write OsError fault (at ''root-ca.pem'') cert_pem 420)) (\<lambda>_.
         io_bind (io_when (op_write_der opt) (io_write OsError fault (at ''root-ca.der'') der 420)) (\<lambda>_.
         io_bind (io_write OsError fault (at ''metadata.json'')
           (ll_render_json lib (root_metadata lib opt tpl pub (rs_fingerprint r)) @ [CHR 0x0A]) 420) (\<lambda>_.
         io_bind (io_write OsError fault (at ''fingerprints.txt'') (''SHA256 Fingerprint='' @ rs_fingerprint r @ [CHR 0x0A]) 420) (\<lambda>_.
         io_bind (io_write OsError fault (at ''recovery.txt'') (recovery_text (op_backup_reminder opt)) 420) (\<lambda>_.
         io_bind (io_when (op_trust_bundle opt)
           (io_bind (io_mkdir OsError fault trust) (\<lambda>_.
            io_write OsError fault (join_path [trust, ''root-ca.crt'']) cert_pem 420))) (\<lambda>_.
         io_return (r\<lparr>rs_public_path := at ''root-ca.pub'', rs_pem_path := (if op_write_pem opt then at ''root-ca.pem'' else []),
           rs_der_path := (if op_write_der opt then at ''root-ca.der'' else []), rs_metadata_path := at ''metadata.json'',
           rs_fingerprints_path := at ''fingerprints.txt'', rs_recovery_path := at ''recovery.txt'',
           rs_trust_dir := (if op_trust_bundle opt then trust else [])\<rparr>))))))))))"

definition create_root :: "local_lib \<Rightarrow> fault \<Rightarrow> gotime \<Rightarrow> root_options \<Rightarrow> (local_error, root_result) io" where
  "create_root lib fault clock opts =
     (let opt = default_root_options clock opts; at = (\<lambda>n. join_path [op_out_dir opt, n])
      in case validate_root_options opt of
           Some e \<Rightarrow> io_fail e
         | None \<Rightarrow>
             io_bind (io_mkdir OsError fault (op_out_dir opt)) (\<lambda>_.
             io_bind (io_lift (generate_signer lib (op_algorithm opt) (op_rsa_bits opt) (op_curve opt))) (\<lambda>(key, pub).
             io_bind (io_lift (lib_result (ll_serial lib))) (\<lambda>serial.
             io_bind (io_lift (parse_ip_ranges (ll_parse_cidr lib) (op_permitted_ip opt))) (\<lambda>ips.
             (let tpl = root_template opt serial ips
              in io_bind (io_lift (lib_result (create_certificate (ll_x509 lib) tpl SelfSigned pub (SignerKey key)))) (\<lambda>der.
                 io_bind (write_pkcs8_key lib fault (at ''root-ca.key'') key (op_password opt) (op_encrypt_key opt)) (\<lambda>_.
                 (let cert_pem = pem_text lib ''CERTIFICATE'' der
                  in io_bind (io_write OsError fault (at ''root-ca.crt'') cert_pem 420) (\<lambda>_.
                     write_root_artifacts lib fault opt
                       \<lparr>rs_key_path = at ''root-ca.key'', rs_cert_path = at ''root-ca.crt'', rs_public_path = [],
                        rs_pem_path = [], rs_der_path = [], rs_metadata_path = [], rs_fingerprints_path = [],
                        rs_recovery_path = [], rs_trust_dir = [], rs_fingerprint = colon_fingerprint (ll_sha lib) der, rs_password_file = [],
                        rs_not_after = tpl_not_after tpl\<rparr>
                       tpl pub der cert_pem))))))))))"

section \<open>Creating an intermediate CA\<close>

record intermediate_options =
  io_name :: string
  io_out_dir :: string
  io_root_cert :: string
  io_root_key :: string
  io_root_password :: string
  io_password :: string
  io_lifetime :: duration
  io_now :: gotime

record intermediate_result =
  ir_key_path :: string
  ir_csr_path :: string
  ir_cert_path :: string
  ir_chain_path :: string
  ir_fingerprint :: string
  ir_password_file :: string
  ir_not_after :: gotime

definition default_intermediate_options :: "gotime \<Rightarrow> intermediate_options \<Rightarrow> intermediate_options" where
  "default_intermediate_options clock opt =
     opt\<lparr>io_name := (if io_name opt = [] then ''IronRoot Local Intermediate CA'' else io_name opt),
       io_out_dir := (if io_out_dir opt = [] then ''.'' else io_out_dir opt),
       io_lifetime := (if io_lifetime opt = 0 then 5 * 365 * 24 * hour else io_lifetime opt),
       io_now := (if is_zero (io_now opt) then clock else io_now opt)\<rparr>"

definition intermediate_name :: "intermediate_options \<Rightarrow> dist_name" where
  "intermediate_name opt = blank_name\<lparr>dn_common_name := io_name opt, dn_organization := [''IronRoot'']\<rparr>"

definition intermediate_template :: "intermediate_options \<Rightarrow> nat \<Rightarrow> cert_template" where
  "intermediate_template opt serial =
     \<lparr>tpl_serial = serial, tpl_subject = intermediate_name opt, tpl_dns = [], tpl_not_before = io_now opt - minute,
      tpl_not_after = io_now opt + io_lifetime opt, tpl_key_usage = or cert_sign crl_sign, tpl_ext_usage = [],
      tpl_basic = True, tpl_is_ca = True, tpl_max_path = 0, tpl_max_path_zero = True, tpl_permitted_dns = [],
      tpl_permitted_email = [], tpl_permitted_ip = []\<rparr>"

definition io_read :: "(disk \<Rightarrow> local_error + 'a) \<Rightarrow> (local_error, 'a) io" where
  "io_read f d = (d, f d)"

definition create_intermediate ::
  "local_lib \<Rightarrow> fault \<Rightarrow> gotime \<Rightarrow> intermediate_options \<Rightarrow> (local_error, intermediate_result) io" where
  "create_intermediate lib fault clock opts =
     (let opt = default_intermediate_options clock opts; at = (\<lambda>n. join_path [io_out_dir opt, n])
      in if io_root_password opt = [] then io_fail RootPasswordRequired
         else if io_password opt = [] then io_fail KeyPasswordRequired
         else
           io_bind (io_mkdir OsError fault (io_out_dir opt)) (\<lambda>_.
           io_bind (io_read (\<lambda>d. read_cert lib d (io_root_cert opt))) (\<lambda>(root_cert, root_pem).
           io_bind (io_read (\<lambda>d. read_private_key lib d (io_root_key opt) (io_root_password opt))) (\<lambda>root_key.
           io_bind (io_lift (lib_result (ll_generate_ecdsa lib P256))) (\<lambda>(key, pub).
           io_bind (io_lift (lib_result (ll_create_request lib (intermediate_name opt) key))) (\<lambda>csr_der.
           io_bind (io_lift (lib_result (ll_serial lib))) (\<lambda>serial.
           (let tpl = intermediate_template opt serial
            in if tpl_not_after tpl > ct_not_after root_cert
               then io_fail (LifetimeExceedsRoot (rfc3339 (ct_not_after root_cert)))
               else
                 io_bind (io_lift (lib_result (create_certificate (ll_x509 lib) tpl (SignedBy root_cert) pub (SignerKey root_key)))) (\<lambda>der.
                 (let cert_pem = pem_text lib ''CERTIFICATE'' der
                  in io_bind (write_pkcs8_key lib fault (at ''intermediate-ca.key'') key (io_password opt) True) (\<lambda>_.
                     io_bind (io_write OsError fault (at ''intermediate-ca.csr'') (pem_text lib ''CERTIFICATE REQUEST'' csr_der) 420) (\<lambda>_.
                     io_bind (io_write OsError fault (at ''intermediate-ca.crt'') cert_pem 420) (\<lambda>_.
                     io_bind (io_write OsError fault (at ''ca-chain.crt'') (cert_pem @ root_pem) 420) (\<lambda>_.
                     io_return \<lparr>ir_key_path = at ''intermediate-ca.key'', ir_csr_path = at ''intermediate-ca.csr'',
                       ir_cert_path = at ''intermediate-ca.crt'', ir_chain_path = at ''ca-chain.crt'',
                       ir_fingerprint = colon_fingerprint (ll_sha lib) der, ir_password_file = [], ir_not_after = tpl_not_after tpl\<rparr>))))))))))))))"

section \<open>Inspection and verification\<close>

record cert_info =
  cn_path :: string
  cn_subject :: string
  cn_issuer :: string
  cn_algorithm :: string
  cn_curve :: string
  cn_key_size :: int
  cn_not_before :: gotime
  cn_not_after :: gotime
  cn_is_ca :: bool
  cn_max_path :: int
  cn_key_usage :: "string list"
  cn_ext_usage :: "string list"
  cn_fingerprint :: string
  cn_skid :: string
  cn_akid :: string

definition cert_info_of :: "local_lib \<Rightarrow> string \<Rightarrow> certificate \<Rightarrow> cert_info" where
  "cert_info_of lib path c =
     \<lparr>cn_path = path, cn_subject = ct_subject c, cn_issuer = ct_issuer c, cn_algorithm = key_algorithm (ct_public c),
      cn_curve = key_curve (ct_public c), cn_key_size = key_size (ct_public c), cn_not_before = ct_not_before c,
      cn_not_after = ct_not_after c, cn_is_ca = ct_is_ca c, cn_max_path = ct_max_path c,
      cn_key_usage = key_usage_names (ct_key_usage c), cn_ext_usage = ext_usage_names (ct_ext_usage c),
      cn_fingerprint = colon_fingerprint (ll_sha lib) (ct_raw c), cn_skid = to_upper (hex_encode (ct_skid c)),
      cn_akid = to_upper (hex_encode (ct_akid c))\<rparr>"

fun inspect_certificates :: "local_lib \<Rightarrow> disk \<Rightarrow> string list \<Rightarrow> local_error + cert_info list" where
  "inspect_certificates lib d [] = Inr []"
| "inspect_certificates lib d (p # ps) =
     bindE (read_cert lib d p) (\<lambda>(c, _).
     bindE (inspect_certificates lib d ps) (\<lambda>rest. Inr (cert_info_of lib p c # rest)))"

definition first_dns_name :: "certificate \<Rightarrow> string" where
  "first_dns_name c = (case ct_dns c of [] \<Rightarrow> [] | n # _ \<Rightarrow> n)"

text \<open>
  \<open>signed_by\<close> is \<open>CheckSignatureFrom\<close> and \<open>verify\<close> is \<open>Verify\<close> with one root, one intermediate
  and a DNS name, at the current time.
\<close>

definition verify_chain ::
  "local_lib \<Rightarrow> (certificate \<Rightarrow> certificate \<Rightarrow> string option) \<Rightarrow>
     (certificate \<Rightarrow> certificate \<Rightarrow> string \<Rightarrow> certificate \<Rightarrow> string option) \<Rightarrow> disk \<Rightarrow> string \<Rightarrow> string \<Rightarrow> string \<Rightarrow>
     local_error + unit" where
  "verify_chain lib signed_by verify d root_path intermediate_path leaf_path =
     bindE (read_cert lib d root_path) (\<lambda>(root, _).
     bindE (read_cert lib d intermediate_path) (\<lambda>(intermediate, _).
       if leaf_path = [] then
         (case signed_by intermediate root of Some e \<Rightarrow> Inl (LibraryError e) | None \<Rightarrow> Inr ())
       else bindE (read_cert lib d leaf_path) (\<lambda>(leaf, _).
         case verify root intermediate (first_dns_name leaf) leaf of
           Some e \<Rightarrow> Inl (LibraryError e) | None \<Rightarrow> Inr ())))"

end
