(* ===== verification/Security_Model.thy ===== *)
theory Security_Model
  imports Clock "HOL-Library.Char_ord" "HOL-Library.List_Lexorder" "HOL-Library.Product_Lexorder" "HOL-Library.Multiset"
begin

text \<open>
  Results of the security self-check: \<open>internal/securitycheck/model.go\<close> (severities, statuses,
  results, the summary, the threshold, the order of a report), \<open>render.go\<close> (report formats) and
  the loop of \<open>runner.go\<close>. A check is anything that knows its id and category and returns a
  result (Go's interface \<open>Check\<close>); its contract is the locale \<open>self_check\<close>, which
  \<open>Security_Checks\<close> interprets on the nineteen checks of the program.
\<close>

section \<open>Severities\<close>

datatype severity = SeverityInfo | SeverityLow | SeverityMedium | SeverityHigh | SeverityCritical

fun severity_rank :: "severity \<Rightarrow> nat" where
  "severity_rank SeverityInfo = 0"
| "severity_rank SeverityLow = 1"
| "severity_rank SeverityMedium = 2"
| "severity_rank SeverityHigh = 3"
| "severity_rank SeverityCritical = 4"

lemma severity_rank_inject: "severity_rank a = severity_rank b \<longleftrightarrow> a = b"
  by (cases a; cases b) auto

instantiation severity :: linorder
begin

definition less_eq_severity :: "severity \<Rightarrow> severity \<Rightarrow> bool" where
  "a \<le> b \<longleftrightarrow> severity_rank a \<le> severity_rank b"

definition less_severity :: "severity \<Rightarrow> severity \<Rightarrow> bool" where
  "a < b \<longleftrightarrow> severity_rank a < severity_rank b"

instance
  by standard (auto simp: less_eq_severity_def less_severity_def severity_rank_inject)

end

fun severity_name :: "severity \<Rightarrow> string" where
  "severity_name SeverityInfo = ''info''"
| "severity_name SeverityLow = ''low''"
| "severity_name SeverityMedium = ''medium''"
| "severity_name SeverityHigh = ''high''"
| "severity_name SeverityCritical = ''critical''"

definition parse_severity :: "string \<Rightarrow> severity option" where
  "parse_severity value =
     (let v = to_lower (trim_space value)
      in if v = ''info'' then Some SeverityInfo
         else if v = ''low'' then Some SeverityLow
         else if v = ''medium'' then Some SeverityMedium
         else if v = ''high'' then Some SeverityHigh
         else if v = ''critical'' then Some SeverityCritical
         else None)"

datatype check_status = StatusPass | StatusWarn | StatusFail | StatusSkip

fun status_name :: "check_status \<Rightarrow> string" where
  "status_name StatusPass = ''pass''"
| "status_name StatusWarn = ''warn''"
| "status_name StatusFail = ''fail''"
| "status_name StatusSkip = ''skip''"

section \<open>Results and reports\<close>

record check_result =
  ck_id :: string
  ck_title :: string
  ck_category :: string
  ck_severity :: severity
  ck_status :: check_status
  ck_message :: string
  ck_remediation :: string
  ck_url :: string

record check_summary =
  cs_passed :: nat
  cs_warnings :: nat
  cs_failed :: nat
  cs_skipped :: nat

record check_report =
  rp_summary :: check_summary
  rp_checks :: "check_result list"

fun count_status :: "check_status \<Rightarrow> check_summary \<Rightarrow> check_summary" where
  "count_status StatusPass s = s\<lparr>cs_passed := cs_passed s + 1\<rparr>"
| "count_status StatusWarn s = s\<lparr>cs_warnings := cs_warnings s + 1\<rparr>"
| "count_status StatusFail s = s\<lparr>cs_failed := cs_failed s + 1\<rparr>"
| "count_status StatusSkip s = s\<lparr>cs_skipped := cs_skipped s + 1\<rparr>"

definition summarize :: "check_result list \<Rightarrow> check_summary" where
  "summarize results =
     fold (\<lambda>r. count_status (ck_status r)) results \<lparr>cs_passed = 0, cs_warnings = 0, cs_failed = 0, cs_skipped = 0\<rparr>"

definition fails_threshold :: "check_result list \<Rightarrow> severity \<Rightarrow> bool" where
  "fails_threshold results threshold =
     list_ex (\<lambda>r. ck_status r = StatusFail \<and> severity_rank (ck_severity r) \<ge> severity_rank threshold) results"

definition result_key :: "check_result \<Rightarrow> string \<times> string" where
  "result_key r = (ck_category r, ck_id r)"

definition sort_results :: "check_result list \<Rightarrow> check_result list" where
  "sort_results results = sort_key result_key results"

text \<open>\<open>strings.ReplaceAll\<close> of one character.\<close>

definition replace_char :: "char \<Rightarrow> string \<Rightarrow> string \<Rightarrow> string" where
  "replace_char c new s = concat (map (\<lambda>x. if x = c then new else [x]) s)"

definition base_result :: "string \<Rightarrow> string \<Rightarrow> string \<Rightarrow> severity \<Rightarrow> check_result" where
  "base_result i title category severity =
     \<lparr>ck_id = i, ck_title = title, ck_category = category, ck_severity = severity, ck_status = StatusPass,
      ck_message = [], ck_remediation = [],
      ck_url = ''https://example.com/docs/security/'' @ replace_char (CHR ''_'') ''-'' category\<rparr>"

text \<open>The three assignments every branch of a check makes.\<close>

definition verdict :: "check_result \<Rightarrow> check_status \<Rightarrow> string \<Rightarrow> string \<Rightarrow> check_result" where
  "verdict r st msg remedy = r\<lparr>ck_status := st, ck_message := msg, ck_remediation := remedy\<rparr>"

lemma verdict_simps [simp]:
  "ck_id (verdict r st m x) = ck_id r" "ck_category (verdict r st m x) = ck_category r"
  "ck_severity (verdict r st m x) = ck_severity r" "ck_status (verdict r st m x) = st"
  by (simp_all add: verdict_def)

lemma base_result_simps [simp]:
  "ck_id (base_result i t c s) = i" "ck_category (base_result i t c s) = c" "ck_severity (base_result i t c s) = s"
  by (simp_all add: base_result_def)

text \<open>\<open>Runner.Run\<close>: every check in turn, then the sorted report with its summary.\<close>

definition run_checks :: "('c \<Rightarrow> check_result) \<Rightarrow> 'c list \<Rightarrow> check_report" where
  "run_checks run checks =
     (let results = sort_results (map run checks)
      in \<lparr>rp_summary = summarize results, rp_checks = results\<rparr>)"

section \<open>Rendering\<close>

datatype output_format = OutputTable | OutputJSON | OutputMarkdown

definition parse_output_format :: "string \<Rightarrow> output_format option" where
  "parse_output_format value =
     (let v = to_lower (trim_space value)
      in if v = ''table'' then Some OutputTable
         else if v = ''json'' then Some OutputJSON
         else if v = ''markdown'' then Some OutputMarkdown else None)"

definition nl :: string where "nl = [CHR 0x0A]"
definition tab :: string where "tab = [CHR 0x09]"

definition escape_md :: "string \<Rightarrow> string" where
  "escape_md v = replace_char (CHR 0x0A) '' '' (replace_char (CHR ''|'') [CHR 0x5C, CHR ''|''] v)"

text \<open>The cells of the table as they go into the tab writer, which pads the columns.\<close>

definition table_text :: "check_report \<Rightarrow> string" where
  "table_text report =
     join tab [''STATUS'', ''SEVERITY'', ''CATEGORY'', ''ID'', ''MESSAGE''] @ nl @
     concat (map (\<lambda>c. join tab [status_name (ck_status c), severity_name (ck_severity c), ck_category c, ck_id c,
       ck_message c] @ nl) (rp_checks report)) @
     nl @ ''passed='' @ show_int (int (cs_passed (rp_summary report))) @ '' warnings='' @
     show_int (int (cs_warnings (rp_summary report))) @ '' failed='' @ show_int (int (cs_failed (rp_summary report))) @
     '' skipped='' @ show_int (int (cs_skipped (rp_summary report))) @ nl"

definition md_row :: "check_result \<Rightarrow> string" where
  "md_row c =
     ''| '' @ escape_md (status_name (ck_status c)) @ '' | '' @ escape_md (severity_name (ck_severity c)) @ '' | '' @
     escape_md (ck_category c) @ '' | `'' @ escape_md (ck_id c) @ ''` | '' @ escape_md (ck_message c) @ '' | '' @
     escape_md (ck_remediation c) @ '' |'' @ nl"

definition markdown_text :: "check_report \<Rightarrow> string" where
  "markdown_text report =
     ''# IronRoot Security Check Report'' @ nl @ nl @ ''## Summary'' @ nl @ nl @
     ''- Passed: '' @ show_int (int (cs_passed (rp_summary report))) @ nl @
     ''- Warnings: '' @ show_int (int (cs_warnings (rp_summary report))) @ nl @
     ''- Failed: '' @ show_int (int (cs_failed (rp_summary report))) @ nl @
     ''- Skipped: '' @ show_int (int (cs_skipped (rp_summary report))) @ nl @ nl @
     ''## Checks'' @ nl @ nl @
     ''| Status | Severity | Category | ID | Message | Remediation |'' @ nl @
     ''| --- | --- | --- | --- | --- | --- |'' @ nl @ concat (map md_row (rp_checks report))"

text \<open>\<open>tabwriter\<close> and \<open>encoding/json\<close> are parameters.\<close>

definition render ::
  "(string \<Rightarrow> string) \<Rightarrow> (check_report \<Rightarrow> string) \<Rightarrow> check_report \<Rightarrow> output_format \<Rightarrow> string" where
  "render align json report fmt =
     (case fmt of OutputTable \<Rightarrow> align (table_text report)
      | OutputJSON \<Rightarrow> json report
      | OutputMarkdown \<Rightarrow> markdown_text report)"

section \<open>Lemmas\<close>

lemma summarize_counts:
  "cs_passed (summarize rs) = length (filter (\<lambda>r. ck_status r = StatusPass) rs) \<and>
   cs_warnings (summarize rs) = length (filter (\<lambda>r. ck_status r = StatusWarn) rs) \<and>
   cs_failed (summarize rs) = length (filter (\<lambda>r. ck_status r = StatusFail) rs) \<and>
   cs_skipped (summarize rs) = length (filter (\<lambda>r. ck_status r = StatusSkip) rs)"
proof -
  have "cs_passed (fold (\<lambda>r. count_status (ck_status r)) rs z) = cs_passed z + length (filter (\<lambda>r. ck_status r = StatusPass) rs) \<and>
   cs_warnings (fold (\<lambda>r. count_status (ck_status r)) rs z) = cs_warnings z + length (filter (\<lambda>r. ck_status r = StatusWarn) rs) \<and>
   cs_failed (fold (\<lambda>r. count_status (ck_status r)) rs z) = cs_failed z + length (filter (\<lambda>r. ck_status r = StatusFail) rs) \<and>
   cs_skipped (fold (\<lambda>r. count_status (ck_status r)) rs z) = cs_skipped z + length (filter (\<lambda>r. ck_status r = StatusSkip) rs)" for z
  proof (induction rs arbitrary: z)
    case (Cons r rs)
    show ?case by (cases "ck_status r") (simp_all add: Cons)
  qed simp
  then show ?thesis by (simp add: summarize_def)
qed

lemma status_partition:
  "length (filter (\<lambda>r. ck_status r = StatusPass) rs) + length (filter (\<lambda>r. ck_status r = StatusWarn) rs) +
   length (filter (\<lambda>r. ck_status r = StatusFail) rs) + length (filter (\<lambda>r. ck_status r = StatusSkip) rs) = length rs"
proof (induction rs)
  case (Cons r rs)
  then show ?case by (cases "ck_status r") simp_all
qed simp

lemma mset_sort_results [simp]: "mset (sort_results rs) = mset rs"
  by (simp add: sort_results_def)

lemma set_sort_results [simp]: "set (sort_results rs) = set rs"
  by (simp add: sort_results_def)

lemma fails_threshold_iff:
  "fails_threshold rs t \<longleftrightarrow> (\<exists>r \<in> set rs. ck_status r = StatusFail \<and> t \<le> ck_severity r)"
  by (auto simp: fails_threshold_def list_ex_iff less_eq_severity_def)

lemma parse_severity_name: "parse_severity (severity_name s) = Some s"
  by (cases s; simp only:; code_simp)

text \<open>The contract of a check: the result carries the check's own id and category.\<close>

locale self_check =
  fixes run :: "'c \<Rightarrow> check_result" and id_of :: "'c \<Rightarrow> string" and category_of :: "'c \<Rightarrow> string"
  assumes run_id: "ck_id (run c) = id_of c"
    and run_category: "ck_category (run c) = category_of c"
begin

lemma report_keys:
  "mset (map result_key (rp_checks (run_checks run cs))) = mset (map (\<lambda>c. (category_of c, id_of c)) cs)"
  by (simp add: run_checks_def Let_def result_key_def run_id run_category mset_map image_mset.compositionality comp_def)

lemma report_sorted: "sorted (map result_key (rp_checks (run_checks run cs)))"
  by (simp add: run_checks_def Let_def sort_results_def)

text \<open>Checks with distinct keys come in a strictly increasing order, whatever they find.\<close>

lemma report_strict:
  assumes "distinct (map (\<lambda>c. (category_of c, id_of c)) cs)"
  shows "map result_key (rp_checks (run_checks run cs)) = sorted_list_of_set ((\<lambda>c. (category_of c, id_of c)) ` set cs)"
proof (rule sorted_distinct_set_unique)
  let ?ks = "map result_key (rp_checks (run_checks run cs))"
  show "sorted ?ks" by (rule report_sorted)
  show "distinct ?ks" using report_keys [of cs] assms by (metis mset_eq_imp_distinct_iff)
  show "set ?ks = set (sorted_list_of_set ((\<lambda>c. (category_of c, id_of c)) ` set cs))"
    using mset_eq_setD [OF report_keys [of cs]] by simp
qed simp_all

lemma report_total:
  "cs_passed (rp_summary (run_checks run cs)) + cs_warnings (rp_summary (run_checks run cs)) +
   cs_failed (rp_summary (run_checks run cs)) + cs_skipped (rp_summary (run_checks run cs)) = length cs"
  using status_partition [of "sort_results (map run cs)"]
  by (simp add: run_checks_def Let_def summarize_counts sort_results_def)

lemma report_fails: "fails_threshold (rp_checks (run_checks run cs)) t \<longleftrightarrow>
    (\<exists>c \<in> set cs. ck_status (run c) = StatusFail \<and> t \<le> ck_severity (run c))"
  by (auto simp: run_checks_def Let_def fails_threshold_iff)

end

end
