(* ===== verification/Paths.thy ===== *)
theory Paths
  imports Files
begin

text \<open>
  Facts on Go's lexical path functions: \<open>filepath.Clean\<close> is idempotent, and the directory of a
  file joined with another name is that name in the same directory. Both are needed wherever one
  command writes a file that another one looks for.
\<close>

section \<open>Cleaned paths\<close>

text \<open>
  The parts of a cleaned path: parent steps only at the start, and none under a root; no empty
  part and no dot. Cleaning such parts again changes nothing.
\<close>

definition proper_part :: "string \<Rightarrow> bool" where
  "proper_part p \<longleftrightarrow> p \<noteq> [] \<and> p \<noteq> ''.'' \<and> p \<noteq> ''..''"

definition clean_form :: "bool \<Rightarrow> string list \<Rightarrow> bool" where
  "clean_form r ps \<longleftrightarrow> (\<exists>k zs. ps = replicate k ''..'' @ zs \<and> (r \<longrightarrow> k = 0) \<and> list_all proper_part zs)"

lemma clean_formI: "ps = replicate k ''..'' @ zs \<Longrightarrow> (r \<Longrightarrow> k = 0) \<Longrightarrow> list_all proper_part zs \<Longrightarrow> clean_form r ps"
  unfolding clean_form_def by blast

lemma clean_parts_proper: "list_all proper_part ps \<Longrightarrow> clean_parts r acc ps = rev acc @ ps"
  by (induction ps arbitrary: acc) (auto simp: proper_part_def)

lemma clean_parts_dots: "clean_parts False (replicate m ''..'') (replicate k ''..'' @ ps) = clean_parts False (replicate (m + k) ''..'') ps"
proof (induction k arbitrary: m)
  case (Suc k)
  have "clean_parts False (replicate m ''..'') (''..'' # replicate k ''..'' @ ps) =
      clean_parts False (replicate (Suc m) ''..'') (replicate k ''..'' @ ps)"
    by (cases m) simp_all
  with Suc [of "Suc m"] show ?case by simp
qed simp

lemma clean_parts_fixed: "clean_form r ps \<Longrightarrow> clean_parts r [] ps = ps"
proof -
  assume "clean_form r ps"
  then obtain k zs where ps: "ps = replicate k ''..'' @ zs" "r \<longrightarrow> k = 0" "list_all proper_part zs"
    by (auto simp: clean_form_def)
  show ?thesis
  proof (cases r)
    case True
    with ps show ?thesis by (simp add: clean_parts_proper)
  next
    case False
    with ps show ?thesis using clean_parts_dots [of 0 k zs] by (simp add: clean_parts_proper)
  qed
qed

lemma clean_form_snoc:
  assumes "clean_form r ps" and "proper_part p"
  shows "clean_form r (ps @ [p])"
proof -
  from assms(1) obtain k zs where "ps = replicate k ''..'' @ zs" "r \<longrightarrow> k = 0" "list_all proper_part zs"
    by (auto simp: clean_form_def)
  with assms(2) show ?thesis by (intro clean_formI [of _ k "zs @ [p]"]) auto
qed

lemma clean_form_pop:
  assumes "clean_form r (ps @ [p])" and "p \<noteq> ''..''"
  shows "clean_form r ps"
proof -
  from assms(1) obtain k zs where eq: "ps @ [p] = replicate k ''..'' @ zs" and r: "r \<longrightarrow> k = 0" and z: "list_all proper_part zs"
    by (auto simp: clean_form_def)
  have "zs \<noteq> []"
  proof
    assume "zs = []"
    with eq have "ps @ [p] = replicate k ''..''" by simp
    then have "p \<in> set (replicate k ''..'')" by (metis in_set_conv_decomp)
    with assms(2) show False by (simp split: if_splits)
  qed
  then obtain ys y where zs: "zs = ys @ [y]" by (meson rev_exhaust)
  with eq have "ps = replicate k ''..'' @ ys" by simp
  with r z zs show ?thesis by (auto simp: clean_form_def)
qed

lemma clean_form_up: "clean_form False (ps @ [''..'']) \<Longrightarrow> clean_form False (ps @ [''..'', ''..''])"
proof -
  assume "clean_form False (ps @ [''..''])"
  then obtain k zs where eq: "ps @ [''..''] = replicate k ''..'' @ zs" and z: "list_all proper_part zs"
    by (auto simp: clean_form_def)
  have "zs = []"
  proof (rule ccontr)
    assume "zs \<noteq> []"
    then obtain ys y where zs: "zs = ys @ [y]" by (meson rev_exhaust)
    with eq have "y = ''..''" by simp
    with z zs show False by (simp add: proper_part_def)
  qed
  with eq have "ps @ [''..'', ''..''] = replicate k ''..'' @ [''..'']" by simp
  also have "\<dots> = replicate (Suc k) ''..'' @ []" by (simp add: replicate_append_same)
  finally show ?thesis by (rule clean_formI) auto
qed

lemma clean_form_rooted: "\<not> clean_form True (xs @ [''..''])"
  by (auto simp: clean_form_def proper_part_def)

lemma clean_parts_form: "clean_form r (rev acc) \<Longrightarrow> clean_form r (clean_parts r acc ps)"
proof (induction r acc ps rule: clean_parts.induct)
  case (2 r acc p ps)
  show ?case
  proof (cases "p = [] \<or> p = ''.''")
    case True
    with 2 show ?thesis by simp
  next
    case nd: False
    show ?thesis
    proof (cases "p = ''..''")
      case False
      with nd have "proper_part p" by (simp add: proper_part_def)
      with 2 nd False show ?thesis by (simp add: clean_form_snoc)
    next
      case up: True
      show ?thesis
      proof (cases acc)
        case Nil
        have "clean_form r (rev (if r then [] else [''..'']))"
          by (rule clean_formI [of _ "if r then 0 else Suc 0" "[]"]) auto
        with "2.IH"(2) [OF nd up Nil] Nil nd up show ?thesis by simp
      next
        case (Cons a as)
        show ?thesis
        proof (cases "a = ''..''")
          case True
          from "2.prems" Cons True have "\<not> r" by (intro notI) (simp add: clean_form_rooted)
          with "2.prems" Cons True have "clean_form False (rev as @ [''..''])" by simp
          then have "clean_form False (rev as @ [''..'', ''..''])" by (rule clean_form_up)
          with \<open>\<not> r\<close> "2.IH"(3) [OF nd up Cons True] Cons True nd up show ?thesis by simp
        next
          case False
          from "2.prems" Cons have "clean_form r (rev as @ [a])" by simp
          then have "clean_form r (rev as)" using False by (rule clean_form_pop)
          with "2.IH"(4) [OF nd up Cons False] Cons False nd up show ?thesis by simp
        qed
      qed
    qed
  qed
qed simp

lemma split_on_parts: "p \<in> set (split_on sep s) \<Longrightarrow> sep \<notin> set p"
  by (induction s arbitrary: p) (auto split: list.splits if_splits)

lemma clean_parts_set: "set (clean_parts r acc ps) \<subseteq> set acc \<union> set ps \<union> {''..''}"
  by (induction r acc ps rule: clean_parts.induct) (auto split: list.splits if_splits)

definition path_parts :: "string \<Rightarrow> string list" where
  "path_parts p = clean_parts (is_abs p) [] (split_on (CHR ''/'') p)"

lemma path_parts_form: "clean_form (is_abs p) (path_parts p)"
  unfolding path_parts_def by (rule clean_parts_form) (auto simp: clean_form_def)

lemma path_parts_slash: "x \<in> set (path_parts p) \<Longrightarrow> CHR ''/'' \<notin> set x"
proof -
  assume "x \<in> set (path_parts p)"
  then have "x \<in> set [] \<union> set (split_on (CHR ''/'') p) \<union> {''..''}"
    unfolding path_parts_def by (rule subsetD [OF clean_parts_set])
  then consider "x \<in> set (split_on (CHR ''/'') p)" | "x = ''..''" by (simp only: Un_iff set_simps insert_iff empty_iff) blast
  then show "CHR ''/'' \<notin> set x"
  proof cases
    case 1
    then show ?thesis by (rule split_on_parts)
  next
    case 2
    then show ?thesis by simp
  qed
qed

lemma path_parts_nonempty: "x \<in> set (path_parts p) \<Longrightarrow> x \<noteq> []"
proof -
  assume x: "x \<in> set (path_parts p)"
  obtain k zs where ps: "path_parts p = replicate k ''..'' @ zs" and z: "list_all proper_part zs"
    using path_parts_form [of p] unfolding clean_form_def by blast
  from x consider "x \<in> set (replicate k ''..'')" | "x \<in> set zs" unfolding ps by (simp only: set_append Un_iff) blast
  then show "x \<noteq> []"
  proof cases
    case 1
    then show ?thesis by (simp split: if_splits)
  next
    case 2
    with z show ?thesis by (simp add: list_all_iff proper_part_def)
  qed
qed

lemma split_path_parts: "path_parts p \<noteq> [] \<Longrightarrow> split_on (CHR ''/'') (join ''/'' (path_parts p)) = path_parts p"
proof (rule split_on_join)
  show "CHR ''/'' \<notin> set x" if "x \<in> set (path_parts p)" for x using that by (rule path_parts_slash)
qed

lemma join_not_abs:
  assumes "path_parts p \<noteq> []"
  shows "\<not> is_abs (join ''/'' (path_parts p) @ t)"
proof -
  obtain x xs where x: "path_parts p = x # xs" using assms by (cases "path_parts p") auto
  then have "x \<noteq> []" and "CHR ''/'' \<notin> set x" using path_parts_nonempty [of x p] path_parts_slash [of x p] by auto
  then obtain c cs where "x = c # cs" and "c \<noteq> CHR ''/''" by (cases x) auto
  then show ?thesis using x by (cases xs) (auto simp: is_abs_def)
qed

lemma clean_path_parts: "clean_path p = (if is_abs p then ''/'' @ join ''/'' (path_parts p)
    else if path_parts p = [] then ''.'' else join ''/'' (path_parts p))"
  by (simp add: clean_path_def path_parts_def Let_def)

lemma dir_prefix_parts: "dir_prefix p = (if p = [] then [] else (if is_abs p then ''/'' else []) @
    (if path_parts p = [] then [] else join ''/'' (path_parts p) @ ''/''))"
  by (simp add: dir_prefix_def path_parts_def Let_def)

text \<open>\<open>filepath.Clean\<close> is idempotent.\<close>

lemma path_parts_clean: "path_parts (clean_path p) = path_parts p \<and> is_abs (clean_path p) = is_abs p"
proof (cases "path_parts p = []")
  case True
  then show ?thesis by (simp add: clean_path_parts is_abs_def) (simp add: path_parts_def is_abs_def)
next
  case False
  have fixed: "clean_parts (is_abs p) [] (path_parts p) = path_parts p" by (rule clean_parts_fixed) (rule path_parts_form)
  show ?thesis
  proof (cases "is_abs p")
    case True
    then have c: "clean_path p = ''/'' @ join ''/'' (path_parts p)" by (simp add: clean_path_parts)
    have abs: "is_abs (''/'' @ join ''/'' (path_parts p))" by (simp add: is_abs_def)
    then have "path_parts (''/'' @ join ''/'' (path_parts p)) = path_parts p"
      using fixed True split_path_parts [OF False] by (simp add: path_parts_def [of "CHR ''/'' # t" for t])
    then show ?thesis using c abs True by simp
  next
    case rel: False
    then have c: "clean_path p = join ''/'' (path_parts p)" using False by (simp add: clean_path_parts)
    have "\<not> is_abs (clean_path p)" using join_not_abs [OF False, of "[]"] c by simp
    moreover from this have "path_parts (join ''/'' (path_parts p)) = path_parts p"
      using fixed rel split_path_parts [OF False] c by (simp add: path_parts_def [of "join ''/'' (path_parts p)"])
    ultimately show ?thesis using c rel by simp
  qed
qed

lemma clean_path_idem: "clean_path (clean_path p) = clean_path p"
  using path_parts_clean [of p] by (simp add: clean_path_parts [of "clean_path p"]) (simp add: clean_path_parts)

section \<open>The directory of a path\<close>

text \<open>\<open>filepath.Dir\<close>: the path up to the last slash, cleaned.\<close>

definition dir_of :: "string \<Rightarrow> string" where
  "dir_of p = clean_path (rev (dropWhile (\<lambda>c. c \<noteq> CHR ''/'') (rev p)))"

lemma split_on_slash_end: "split_on sep (s @ [sep]) = split_on sep s @ [[]]"
  by (induction s) (auto split: list.splits)

lemma clean_parts_skip: "clean_parts r acc (ps @ [[]]) = clean_parts r acc ps"
  by (induction r acc ps rule: clean_parts.induct) (auto split: list.splits)

lemma path_parts_slash_end: "p \<noteq> [] \<Longrightarrow> path_parts (p @ ''/'') = path_parts p"
  using split_on_slash_end [of "CHR ''/''" p] by (cases p) (simp_all add: path_parts_def is_abs_def clean_parts_skip)

lemma is_abs_append: "p \<noteq> [] \<Longrightarrow> is_abs (p @ q) = is_abs p"
  by (cases p) (auto simp: is_abs_def)

lemma join_parts_nonempty: "path_parts p \<noteq> [] \<Longrightarrow> join ''/'' (path_parts p) \<noteq> []"
proof
  assume "path_parts p \<noteq> []" and "join ''/'' (path_parts p) = []"
  then have "path_parts p = [[]]" using split_path_parts [of p] by simp
  then show False using path_parts_nonempty [of "[]" p] by simp
qed

text \<open>A cleaned path with a slash after it is the prefix of the files in that directory.\<close>

lemma dir_prefix_clean:
  "p \<noteq> [] \<Longrightarrow> dir_prefix p = (if path_parts p = [] then (if is_abs p then ''/'' else []) else clean_path p @ ''/'')"
  by (simp add: dir_prefix_parts clean_path_parts)

lemma clean_path_nonempty: "clean_path p \<noteq> []"
  using join_parts_nonempty [of p] by (simp add: clean_path_parts)

lemma dir_prefix_of_clean: "dir_prefix (clean_path p) = (if p = [] then [] else dir_prefix p)"
proof (cases "p = []")
  case True
  have "clean_path [] = ''.''" by (simp add: clean_path_def is_abs_def)
  then show ?thesis using True by (simp add: dir_prefix_def is_abs_def Let_def)
next
  case False
  then show ?thesis
    using path_parts_clean [of p] clean_path_idem [of p] clean_path_nonempty [of p] by (simp add: dir_prefix_clean)
qed

lemma dir_prefix_idem: "dir_prefix (clean_path (dir_prefix p)) = dir_prefix p"
proof (cases "dir_prefix p = []")
  case True
  then show ?thesis by (simp add: dir_prefix_of_clean)
next
  case False
  then have p: "p \<noteq> []" by (auto simp: dir_prefix_def)
  have "dir_prefix (dir_prefix p) = dir_prefix p"
  proof (cases "path_parts p = []")
    case True
    with False p have d: "dir_prefix p = ''/''" by (simp add: dir_prefix_clean split: if_splits)
    have "dir_prefix ''/'' = ''/''" by (simp add: dir_prefix_def is_abs_def)
    with d show ?thesis by simp
  next
    case ne: False
    have d: "dir_prefix p = clean_path p @ ''/''" using p ne by (simp add: dir_prefix_clean)
    have "path_parts (clean_path p @ ''/'') = path_parts p"
      using path_parts_slash_end [OF clean_path_nonempty] path_parts_clean [of p] by simp
    moreover have "is_abs (clean_path p @ ''/'') = is_abs p"
      using is_abs_append [OF clean_path_nonempty] path_parts_clean [of p] by simp
    ultimately have "clean_path (clean_path p @ ''/'') = clean_path p"
      by (simp add: clean_path_parts [of "clean_path p @ ''/''"]) (simp add: clean_path_parts)
    with ne \<open>path_parts (clean_path p @ ''/'') = path_parts p\<close> show ?thesis
      unfolding d by (simp add: dir_prefix_clean)
  qed
  then show ?thesis using False by (simp add: dir_prefix_of_clean)
qed

lemma dir_prefix_slash: "dir_prefix p = [] \<or> (\<exists>q. dir_prefix p = q @ ''/'')"
proof (cases "p = []")
  case True
  then show ?thesis by (simp add: dir_prefix_def)
next
  case False
  then show ?thesis by (cases "path_parts p = []") (auto simp: dir_prefix_clean)
qed

lemma dropWhile_all: "CHR ''/'' \<notin> set n \<Longrightarrow> dropWhile (\<lambda>c. c \<noteq> CHR ''/'') (n @ xs) = dropWhile (\<lambda>c. c \<noteq> CHR ''/'') xs"
  by (induction n) auto

lemma dir_of_join:
  assumes "plain_name n"
  shows "dir_of (join_path [dir, n]) = clean_path (dir_prefix dir)"
proof -
  have "CHR ''/'' \<notin> set (rev n)" using assms by (simp add: plain_name_def)
  then have "dropWhile (\<lambda>c. c \<noteq> CHR ''/'') (rev n @ rev (dir_prefix dir)) =
      dropWhile (\<lambda>c. c \<noteq> CHR ''/'') (rev (dir_prefix dir))"
    by (rule dropWhile_all)
  also have "\<dots> = rev (dir_prefix dir)" using dir_prefix_slash [of dir] by auto
  finally show ?thesis using assms by (simp add: dir_of_def join_path_plain)
qed

text \<open>A file beside another is in the same directory.\<close>

lemma sibling_path:
  "plain_name m \<Longrightarrow> plain_name n \<Longrightarrow> join_path [dir_of (join_path [dir, m]), n] = join_path [dir, n]"
  by (simp only: dir_of_join) (simp only: join_path_plain dir_prefix_idem)

end
