(* ===== verification/Security_Checks.thy ===== *)
theory Security_Checks
  imports Security_Model Ledger Config Authority Paths
begin

text \<open>
  The nineteen checks of \<open>internal/securitycheck/checks.go\<close>. What they ask of the machine
  (process, environment, file modes, file contents, the SQLite driver) is the record \<open>host\<close>;
  the texts are the source's.
\<close>

section \<open>Host and target\<close>

datatype stat_result = StatMode nat | StatAbsent | StatFailed

text \<open>Opening the database, pinging it, and the query of its table names.\<close>

datatype db_probe = ProbeOpenFailed | ProbePingFailed | ProbeQueryFailed | ProbeTables "string list"

record host =
  ho_euid :: int
  ho_os :: string
  ho_arch :: string
  ho_environ :: "string list"
  ho_stat :: "string \<Rightarrow> stat_result"
  ho_read :: "string \<Rightarrow> string + string"
  ho_sqlite :: "string \<Rightarrow> db_probe"
  ho_verify :: "certificate \<Rightarrow> certificate \<Rightarrow> gotime \<Rightarrow> bool"
  ho_x509 :: x509_lib
  ho_sha :: "string \<Rightarrow> char list"
  ho_error_text :: "db_error \<Rightarrow> string"

record target =
  tg_config :: config
  tg_config_path :: string
  tg_store :: "store option"
  tg_now :: gotime

text \<open>\<open>os.Getenv\<close>: the value of the first entry with this name.\<close>

fun getenv_in :: "string list \<Rightarrow> string \<Rightarrow> string" where
  "getenv_in [] k = []"
| "getenv_in (e # es) k = (if has_prefix e (k @ ''='') then drop (length k + 1) e else getenv_in es k)"

definition in_kubernetes :: "host \<Rightarrow> bool" where
  "in_kubernetes h \<longleftrightarrow>
     getenv_in (ho_environ h) ''KUBERNETES_SERVICE_HOST'' \<noteq> [] \<or> getenv_in (ho_environ h) ''POD_NAME'' \<noteq> []"

definition stat_ok :: "stat_result \<Rightarrow> bool" where
  "stat_ok r = (case r of StatMode m \<Rightarrow> True | _ \<Rightarrow> False)"

definition in_container :: "host \<Rightarrow> bool" where
  "in_container h \<longleftrightarrow>
     stat_ok (ho_stat h ''/.dockerenv'') \<or>
     (case ho_read h ''/proc/1/cgroup'' of
        Inl e \<Rightarrow> False
      | Inr b \<Rightarrow> contains b ''docker'' \<or> contains b ''kubepods'' \<or> contains b ''containerd'')"

definition read_first_cert :: "host \<Rightarrow> string \<Rightarrow> string + certificate" where
  "read_first_cert h path =
     bindE (ho_read h path) (\<lambda>b.
       case pem_decode (ho_x509 h) b of
         None \<Rightarrow> Inl ''no PEM block found''
       | Some block \<Rightarrow> parse_certificate (ho_x509 h) (pb_bytes block))"

definition sqlite_path :: "string \<Rightarrow> string" where
  "sqlite_path dsn =
     (let d = trim_prefix dsn ''file:'' in case cut (CHR ''?'') d of None \<Rightarrow> d | Some (a, b) \<Rightarrow> a)"

definition path_for_kind :: "config \<Rightarrow> string \<Rightarrow> string \<Rightarrow> string" where
  "path_for_kind cfg config_path kind =
     (if kind = ''config'' then config_path
      else if kind = ''ca_key'' then pki_key_file (cf_pki cfg)
      else if kind = ''database'' then sqlite_path (db_dsn (cf_database cfg))
      else [])"

definition mask_path :: "string \<Rightarrow> string" where
  "mask_path p = (if p = [] then [] else clean_path p)"

text \<open>\<open>mode.Perm() & 0o077\<close>: access for the group or for others.\<close>

definition open_to_others :: "nat \<Rightarrow> bool" where
  "open_to_others mode \<longleftrightarrow> and mode 63 \<noteq> 0"

text \<open>The host part of \<open>net.SplitHostPort\<close>, if the address is well-formed.\<close>

definition split_host :: "string \<Rightarrow> string option" where
  "split_host hostport =
     (case cut (CHR '':'') (rev hostport) of
        None \<Rightarrow> None
      | Some (rev_port, rev_front) \<Rightarrow>
          (let front = rev rev_front; port = rev rev_port
           in if hostport \<noteq> [] \<and> hd hostport = CHR ''['' then
                (case cut (CHR '']'') hostport of
                   None \<Rightarrow> None
                 | Some (a, b) \<Rightarrow>
                     if b = CHR '':'' # port \<and> CHR ''['' \<notin> set (tl hostport) \<and> CHR '']'' \<notin> set b
                     then Some (tl a) else None)
              else if CHR '':'' \<in> set front \<or> CHR ''['' \<in> set hostport \<or> CHR '']'' \<in> set hostport then None
              else Some front))"

section \<open>Host checks\<close>

definition host_check :: "host \<Rightarrow> check_result" where
  "host_check h =
     (let r = base_result ''host.runtime'' ''Host OS and process posture'' ''host'' SeverityLow;
          msg = ''Running on '' @ ho_os h @ ''/'' @ ho_arch h
      in if ho_euid h = 0
         then verdict r StatusWarn (msg @ ''; process is running as root.'') ''Run IronRoot as a dedicated non-root user.''
         else verdict r StatusPass (msg @ ''; process is not running as root.'')
                ''Keep running IronRoot as a dedicated non-root user.'')"

definition env_key :: "string \<Rightarrow> string" where
  "env_key e = to_upper (hd (split_on (CHR ''='') e))"

definition sensitive_key :: "string \<Rightarrow> bool" where
  "sensitive_key k \<longleftrightarrow>
     contains k ''TOKEN'' \<or> contains k ''PASSWORD'' \<or> contains k ''PRIVATE_KEY'' \<or> contains k ''KEY_PASS''"

definition environment_secrets_check :: "host \<Rightarrow> check_result" where
  "environment_secrets_check h =
     (let r = base_result ''host.env_sensitive_values'' ''Environment does not expose obvious sensitive values'' ''host''
                SeverityMedium
      in case find sensitive_key (map env_key (ho_environ h)) of
           Some k \<Rightarrow> verdict r StatusWarn
             (''An environment variable name suggests sensitive material may be present: '' @ k)
             ''Move secrets to mounted files or a secret manager and avoid exposing values in process environments.''
         | None \<Rightarrow> verdict r StatusPass ''No obvious sensitive environment variable names were detected.''
             ''Continue masking tokens, key passwords, and private key material.'')"

definition file_permission_check ::
  "string \<Rightarrow> string \<Rightarrow> string \<Rightarrow> string \<Rightarrow> host \<Rightarrow> target \<Rightarrow> check_result" where
  "file_permission_check i title category kind h t =
     (let r = base_result i title category SeverityHigh;
          path = path_for_kind (tg_config t) (tg_config_path t) kind
      in if path = [] then
           verdict r StatusSkip ''No path is configured for this check.''
             ''Configure explicit paths for production deployments.''
         else case ho_stat h path of
           StatAbsent \<Rightarrow> verdict r StatusSkip (''Path does not exist: '' @ mask_path path)
             ''Create the path with owner-only permissions before production use.''
         | StatFailed \<Rightarrow> verdict r StatusWarn (''Could not inspect permissions for '' @ mask_path path)
             ''Verify permissions manually.''
         | StatMode m \<Rightarrow>
             if open_to_others m then
               verdict r StatusFail (''Path is readable or writable by group/world: '' @ mask_path path)
                 ''Restrict permissions to the IronRoot user, usually 0600 for files and 0700 for directories.''
             else verdict r StatusPass (''Permissions are restricted for '' @ mask_path path)
                 ''Keep CA keys and SQLite files owner-only.'')"

section \<open>CA checks\<close>

definition root_key_names :: "string list" where
  "root_key_names = [''root.key'', ''root-ca.key'', ''root.key.enc'', ''root-ca.key.enc'', ''ca.key'']"

definition root_key_absent_check :: "host \<Rightarrow> target \<Rightarrow> check_result" where
  "root_key_absent_check h t =
     (let r = base_result ''ca.root.private_key_absent'' ''Root CA private key is not present on online server'' ''ca''
                SeverityCritical;
          dir = dir_of (pki_root_file (cf_pki (tg_config t)))
      in if list_ex (\<lambda>n. stat_ok (ho_stat h (join_path [dir, n]))) root_key_names then
           verdict r StatusFail ''A possible Root CA private key was found under the configured PKI directory.''
             ''Remove Root CA private keys from the online server and keep them offline and encrypted.''
         else verdict r StatusPass ''Root private key was not found in configured PKI paths.''
             ''Keep the Root CA private key offline and encrypted.'')"

definition intermediate_key_check :: "host \<Rightarrow> target \<Rightarrow> check_result" where
  "intermediate_key_check h t =
     (let r = base_result ''ca.intermediate.private_key'' ''Intermediate CA private key exists and is restricted'' ''ca''
                SeverityHigh
      in case ho_stat h (pki_key_file (cf_pki (tg_config t))) of
           StatMode m \<Rightarrow>
             if open_to_others m then
               verdict r StatusFail ''Intermediate private key permissions allow group/world access.''
                 ''Use owner-only permissions such as 0600.''
             else verdict r StatusPass ''Intermediate private key exists with restricted permissions.''
                 ''Keep the key encrypted at rest and mounted only into the IronRoot server.''
         | _ \<Rightarrow> verdict r StatusSkip ''Intermediate private key is not present at the configured path.''
                 ''Mount the encrypted Intermediate CA private key at the configured path before issuing certificates.'')"

definition ca_chain_check :: "host \<Rightarrow> target \<Rightarrow> check_result" where
  "ca_chain_check h t =
     (let r = base_result ''ca.chain.valid'' ''Intermediate CA is signed by configured Root CA'' ''ca'' SeverityCritical
      in case read_first_cert h (pki_root_file (cf_pki (tg_config t))) of
           Inl e \<Rightarrow> verdict r StatusSkip ''Root certificate could not be read.''
             ''Mount the Root CA certificate so clients can build trust chains.''
         | Inr rc \<Rightarrow>
         (case read_first_cert h (pki_cert_file (cf_pki (tg_config t))) of
            Inl e \<Rightarrow> verdict r StatusSkip ''Intermediate certificate could not be read.''
              ''Mount the Intermediate CA certificate signed by the offline Root CA.''
          | Inr intermediate \<Rightarrow>
              if \<not> ho_verify h rc intermediate (tg_now t) then
                verdict r StatusFail ''Intermediate certificate did not verify against the configured Root CA.''
                  ''Reissue the Intermediate CA from the offline Root CA and update the mounted chain.''
              else verdict r StatusPass ''Intermediate certificate verifies against the configured Root CA.''
                  ''Keep serving the full CA chain to clients.''))"

definition lifetime_findings :: "certificate \<Rightarrow> certificate \<Rightarrow> gotime \<Rightarrow> (check_status \<times> string \<times> string) option" where
  "lifetime_findings rc intermediate now =
     (if ct_not_after rc \<le> ct_not_after intermediate then
        Some (StatusFail, ''Root CA lifetime is not longer than Intermediate CA lifetime.'',
          ''Use a longer Root CA lifetime than Intermediate CA lifetime; recommended values are 20 years and 5 years.'')
      else if now > ct_not_after intermediate then
        Some (StatusFail, ''Intermediate CA is expired.'',
          ''Import a new Intermediate CA signed by the offline Root CA.'')
      else if time_sub (ct_not_after intermediate) now < 180 * 24 * hour then
        Some (StatusWarn, ''Intermediate CA expires within 180 days.'', ''Plan Intermediate CA rotation.'')
      else if time_sub (ct_not_after rc) now < 2 * 365 * 24 * hour then
        Some (StatusWarn, ''Root CA expires within 2 years.'', ''Plan Root CA migration.'')
      else None)"

definition certificate_lifetime_check :: "host \<Rightarrow> target \<Rightarrow> check_result" where
  "certificate_lifetime_check h t =
     (let r = base_result ''ca.lifetimes'' ''CA and issued certificate lifetimes follow recommendations'' ''ca'' SeverityMedium;
          pki = cf_pki (tg_config t);
          found = (case (read_first_cert h (pki_root_file pki), read_first_cert h (pki_cert_file pki)) of
                     (Inr rc, Inr intermediate) \<Rightarrow> lifetime_findings rc intermediate (tg_now t)
                   | _ \<Rightarrow> None)
      in case found of
           Some (st, msg, remedy) \<Rightarrow> verdict r st msg remedy
         | None \<Rightarrow>
             if pki_default_lifetime pki > 90 * 24 * hour then
               verdict r StatusWarn ''Default server certificate lifetime is longer than 90 days.''
                 ''Use 90 days or less for normal server certificates.''
             else verdict r StatusPass ''Configured certificate lifetimes are within the recommended MVP posture.''
                 ''Use 20 years for Root CA, 5 years for Intermediate CA, and 90 days for issued certificates.'')"

section \<open>Database checks\<close>

definition migration_tables :: "string list" where
  "migration_tables = [''ca_config'', ''enrollments'', ''issued_certificates'', ''audit_logs'', ''bootstrap_tokens'']"

definition database_reachable_check :: "host \<Rightarrow> target \<Rightarrow> check_result" where
  "database_reachable_check h t =
     (let r = base_result ''database.reachable'' ''Database is reachable and migrations are applied'' ''database'' SeverityHigh
      in if db_driver (cf_database (tg_config t)) \<noteq> ''sqlite'' then
           verdict r StatusSkip ''PostgreSQL-ready checks are reserved for a future backend.''
             ''Use SQLite for the current MVP or add PostgreSQL check implementation with the backend.''
         else case ho_sqlite h (db_dsn (cf_database (tg_config t))) of
           ProbeOpenFailed \<Rightarrow> verdict r StatusFail ''SQLite database could not be opened.''
             ''Verify the database path and permissions.''
         | ProbePingFailed \<Rightarrow> verdict r StatusFail ''SQLite database is not reachable.''
             ''Apply migrations and verify data directory permissions.''
         | ProbeQueryFailed \<Rightarrow> verdict r StatusFail ''Could not inspect SQLite migration state.''
             ''Run ironroot-admin init-server.''
         | ProbeTables names \<Rightarrow>
             if length (filter (\<lambda>n. n \<in> set migration_tables) names) < 5 then
               verdict r StatusFail ''Expected migration tables are missing.''
                 ''Run ironroot-admin init-server before production use.''
             else verdict r StatusPass ''SQLite database is reachable and expected migration tables exist.''
                 ''Back up the database with Intermediate CA material.'')"

definition sqlite_kubernetes_check :: "host \<Rightarrow> target \<Rightarrow> check_result" where
  "sqlite_kubernetes_check h t =
     (let r = base_result ''database.sqlite_kubernetes_pvc'' ''SQLite in Kubernetes uses persistent storage'' ''database''
                SeverityMedium
      in if \<not> in_kubernetes h \<or> db_driver (cf_database (tg_config t)) \<noteq> ''sqlite'' then
           verdict r StatusSkip ''Not running SQLite inside Kubernetes.''
             ''Use a PVC for SQLite when deploying IronRoot to Kubernetes.''
         else if contains (db_dsn (cf_database (tg_config t))) ''/data/'' then
           verdict r StatusPass ''SQLite DSN points at /data, which should be backed by a PVC in the provided manifests.''
             ''Confirm the /data mount is a persistent volume.''
         else verdict r StatusWarn ''SQLite in Kubernetes does not appear to use /data.''
             ''Mount SQLite data on a PVC-backed path such as /data.'')"

section \<open>API checks\<close>

definition tls_configured :: "config \<Rightarrow> bool" where
  "tls_configured cfg \<longleftrightarrow> tls_cert_file (srv_tls (cf_server cfg)) \<noteq> [] \<and> tls_key_file (srv_tls (cf_server cfg)) \<noteq> []"

definition api_tls_check :: "host \<Rightarrow> target \<Rightarrow> check_result" where
  "api_tls_check h t =
     (let r = base_result ''api.tls_enabled'' ''API TLS is enabled'' ''api'' SeverityHigh
      in if \<not> tls_configured (tg_config t) then
           verdict r StatusFail ''API TLS certificate or key is not configured.''
             ''Enable TLS before exposing the API outside localhost.''
         else case read_first_cert h (tls_cert_file (srv_tls (cf_server (tg_config t)))) of
           Inl e \<Rightarrow> verdict r StatusWarn ''API TLS certificate could not be parsed.''
             ''Verify TLS certificate and key files.''
         | Inr c \<Rightarrow>
             if tg_now t > ct_not_after c then
               verdict r StatusFail ''API TLS certificate is expired.'' ''Renew the API TLS certificate.''
             else verdict r StatusPass ''API TLS is configured and the certificate is not expired.''
                 ''Keep TLS enabled and rotate certificates before expiry.'')"

definition public_address :: "string \<Rightarrow> bool" where
  "public_address address \<longleftrightarrow>
     (let h = (case split_host address of None \<Rightarrow> address | Some x \<Rightarrow> x) in h = [] \<or> h = ''0.0.0.0'' \<or> h = ''::'')"

definition api_bind_check :: "target \<Rightarrow> check_result" where
  "api_bind_check t =
     (let r = base_result ''api.bind_address'' ''API bind address is intentional'' ''api'' SeverityMedium;
          pub = public_address (srv_address (cf_server (tg_config t)))
      in if pub \<and> \<not> tls_configured (tg_config t) then
           verdict r StatusFail ''API listens on a public address without TLS.''
             ''Bind to localhost for development or enable TLS before public binding.''
         else if pub then
           verdict r StatusWarn ''API listens on a public address.''
             ''Confirm network policy, firewalling, and authentication before production exposure.''
         else verdict r StatusPass ''API bind address is not broadly public.''
             ''Keep public exposure behind TLS and future mTLS/auth controls.'')"

section \<open>Tokens, audit and telemetry\<close>

definition token_ttl_check :: check_result where
  "token_ttl_check =
     verdict (base_result ''tokens.ttl'' ''Bootstrap tokens are hashed and time-limited'' ''tokens'' SeverityMedium) StatusSkip
       ''Token TTL can be fully evaluated once admin token APIs expose active token metadata.''
       ''Use short token TTLs, revoke unused tokens, and never store raw token values.''"

definition evaluate_token_ttl :: "duration \<Rightarrow> duration \<Rightarrow> check_result" where
  "evaluate_token_ttl ttl most =
     (let r = base_result ''tokens.ttl.policy'' ''Bootstrap token TTL is within recommended maximum'' ''tokens'' SeverityMedium
      in if ttl \<le> 0 then
           verdict r StatusFail ''Bootstrap token TTL is not positive.'' ''Use a positive, short-lived TTL.''
         else if ttl > most then
           verdict r StatusWarn ''Bootstrap token TTL exceeds the recommended maximum.''
             ''Use short-lived bootstrap tokens, typically one hour or less.''
         else verdict r StatusPass ''Bootstrap token TTL is within the recommended maximum.''
             ''Keep bootstrap token TTLs short and revoke unused tokens.'')"

definition audit_check :: check_result where
  "audit_check =
     verdict (base_result ''audit.enabled'' ''Audit logging is enabled'' ''audit'' SeverityMedium) StatusPass
       ''Audit logging is part of the server write path for enrollment, issuance, renewal, and revocation.''
       ''Add retention policy controls before long-running production deployments.''"

definition audit_chain_check :: "host \<Rightarrow> target \<Rightarrow> check_result" where
  "audit_chain_check h t =
     (let r = base_result ''audit.ledger_chain_valid'' ''Audit log ledger chain is cryptographically secure'' ''audit''
                SeverityCritical
      in case tg_store t of
           None \<Rightarrow> verdict r StatusWarn ''Storage backend is not available to verify the audit ledger.''
             ''Run security-check in an environment connected to the SQLite or PostgreSQL database.''
         | Some s \<Rightarrow>
         (case list_audit_logs (Some s) 500 of
            Inl e \<Rightarrow>
              if contains (ho_error_text h e) ''no such table'' then
                verdict r StatusWarn
                  ''Audit log ledger cannot be verified because the database tables have not been created yet.''
                  ''Initialize the server configuration and database migrations by running: ironroot-admin init-server''
              else verdict r StatusFail
                  (''Failed to retrieve audit log entries for cryptographic validation: '' @ ho_error_text h e)
                  ''Verify that the database permissions allow reading the audit_logs table.''
          | Inr logs \<Rightarrow>
              if logs = [] then
                verdict r StatusPass ''No audit log entries exist yet; ledger chain is empty and valid.''
                  ''Generate activity (e.g., generate a bootstrap token or enroll) to initialize the audit ledger.''
              else (case verify_ledger (ho_sha h) logs of
                BrokenLink i expected got \<Rightarrow> verdict r StatusFail
                  (''Cryptographic audit chain is broken! Hash mismatch at entry '' @ i @ '': expected previous hash '' @
                   expected @ '', got '' @ got)
                  (''CRITICAL: The audit log database has been tampered with or corrupted! Restore the database from '' @
                   ''a trusted, encrypted backup.'')
              | BadHash i \<Rightarrow> verdict r StatusFail
                  (''Audit ledger record signature verification failed for entry '' @ i @
                   '': signature recalculation mismatch.'')
                  (''CRITICAL: Audit log payload has been modified or corrupted! Recalculated hash does not match '' @
                   ''stored signature hash.'')
              | ChainValid \<Rightarrow> verdict r StatusPass
                  ''Audit log ledger chain verified successfully. Unbroken cryptographically secured sequence.''
                  ''No action required. The immutable audit log ledger is structurally sound.'')))"

definition telemetry_check :: "target \<Rightarrow> check_result" where
  "telemetry_check t =
     (let r = base_result ''telemetry.configured'' ''Telemetry is configured or intentionally disabled'' ''telemetry''
                SeverityLow;
          c = cf_telemetry (tg_config t)
      in if \<not> tel_enabled c then
           verdict r StatusWarn ''OpenTelemetry is disabled.''
             ''Enable telemetry or record the operational reason for disabling it.''
         else if tel_service_name c = [] \<or> tel_environment c = [] then
           verdict r StatusFail ''Telemetry is enabled but service name or deployment environment is missing.''
             ''Set telemetry.service_name and telemetry.deployment_environment.''
         else if tel_sampling_ratio c \<ge> 1 \<and> equal_fold (tel_environment c) ''production'' then
           verdict r StatusWarn ''Telemetry sampling is always-on in production.''
             ''Use a lower sampling ratio for high-volume production environments.''
         else verdict r StatusPass ''Telemetry has service identity and deployment environment configured.''
             ''Verify the OTLP endpoint is reachable from the deployment network.'')"

section \<open>Container and Kubernetes\<close>

definition container_check :: "host \<Rightarrow> check_result" where
  "container_check h =
     (let r = base_result ''container.runtime'' ''Container runtime posture is detected'' ''container'' SeverityLow
      in if \<not> in_container h then
           verdict r StatusSkip ''Container runtime was not detected.''
             ''When containerized, run as non-root with mounted /config, /data, and /pki.''
         else if ho_euid h = 0 then
           verdict r StatusFail ''Containerized process is running as root.''
             ''Run the container as a non-root user and drop Linux capabilities.''
         else verdict r StatusPass ''Container runtime detected and process is non-root.''
             ''Use read-only root filesystem where possible and mount CA material rather than baking it into the image.'')"

definition kubernetes_check :: "host \<Rightarrow> check_result" where
  "kubernetes_check h =
     (let r = base_result ''kubernetes.runtime'' ''Kubernetes runtime posture is detected'' ''kubernetes'' SeverityLow
      in if \<not> in_kubernetes h then
           verdict r StatusSkip ''Kubernetes runtime was not detected.''
             ''Use the provided manifests with non-root security context, probes, PVC, and Secret mounts.''
         else if getenv_in (ho_environ h) ''POD_NAMESPACE'' = ''default'' then
           verdict r StatusWarn ''IronRoot appears to be running in the default namespace.''
             ''Use a dedicated namespace and scoped ServiceAccount.''
         else verdict r StatusPass ''Kubernetes runtime detected.''
             ''Verify NetworkPolicy, internal-only Service, PVC, Secret CA material, probes, and dropped capabilities.'')"

section \<open>The default runner\<close>

datatype check =
    HostCheck | EnvironmentSecretsCheck | FilePermissionCheck string string string string | RootPrivateKeyAbsentCheck
  | IntermediateKeyCheck | CAChainCheck | CertificateLifetimeCheck | DatabaseReachableCheck | SQLiteKubernetesCheck
  | APITLSCheck | APIBindCheck | TokenTTLCheck | AuditCheck | AuditChainCheck | TelemetryCheck | ContainerCheck
  | KubernetesCheck

fun check_id :: "check \<Rightarrow> string" where
  "check_id HostCheck = ''host.runtime''"
| "check_id EnvironmentSecretsCheck = ''host.env_sensitive_values''"
| "check_id (FilePermissionCheck i title cat kind) = i"
| "check_id RootPrivateKeyAbsentCheck = ''ca.root.private_key_absent''"
| "check_id IntermediateKeyCheck = ''ca.intermediate.private_key''"
| "check_id CAChainCheck = ''ca.chain.valid''"
| "check_id CertificateLifetimeCheck = ''ca.lifetimes''"
| "check_id DatabaseReachableCheck = ''database.reachable''"
| "check_id SQLiteKubernetesCheck = ''database.sqlite_kubernetes_pvc''"
| "check_id APITLSCheck = ''api.tls_enabled''"
| "check_id APIBindCheck = ''api.bind_address''"
| "check_id TokenTTLCheck = ''tokens.ttl''"
| "check_id AuditCheck = ''audit.enabled''"
| "check_id AuditChainCheck = ''audit.ledger_chain_valid''"
| "check_id TelemetryCheck = ''telemetry.configured''"
| "check_id ContainerCheck = ''container.runtime''"
| "check_id KubernetesCheck = ''kubernetes.runtime''"

fun check_category :: "check \<Rightarrow> string" where
  "check_category HostCheck = ''host''"
| "check_category EnvironmentSecretsCheck = ''host''"
| "check_category (FilePermissionCheck i title cat kind) = cat"
| "check_category RootPrivateKeyAbsentCheck = ''ca''"
| "check_category IntermediateKeyCheck = ''ca''"
| "check_category CAChainCheck = ''ca''"
| "check_category CertificateLifetimeCheck = ''ca''"
| "check_category DatabaseReachableCheck = ''database''"
| "check_category SQLiteKubernetesCheck = ''database''"
| "check_category APITLSCheck = ''api''"
| "check_category APIBindCheck = ''api''"
| "check_category TokenTTLCheck = ''tokens''"
| "check_category AuditCheck = ''audit''"
| "check_category AuditChainCheck = ''audit''"
| "check_category TelemetryCheck = ''telemetry''"
| "check_category ContainerCheck = ''container''"
| "check_category KubernetesCheck = ''kubernetes''"

fun run_check :: "host \<Rightarrow> target \<Rightarrow> check \<Rightarrow> check_result" where
  "run_check h t HostCheck = host_check h"
| "run_check h t EnvironmentSecretsCheck = environment_secrets_check h"
| "run_check h t (FilePermissionCheck i title cat kind) = file_permission_check i title cat kind h t"
| "run_check h t RootPrivateKeyAbsentCheck = root_key_absent_check h t"
| "run_check h t IntermediateKeyCheck = intermediate_key_check h t"
| "run_check h t CAChainCheck = ca_chain_check h t"
| "run_check h t CertificateLifetimeCheck = certificate_lifetime_check h t"
| "run_check h t DatabaseReachableCheck = database_reachable_check h t"
| "run_check h t SQLiteKubernetesCheck = sqlite_kubernetes_check h t"
| "run_check h t APITLSCheck = api_tls_check h t"
| "run_check h t APIBindCheck = api_bind_check t"
| "run_check h t TokenTTLCheck = token_ttl_check"
| "run_check h t AuditCheck = audit_check"
| "run_check h t AuditChainCheck = audit_chain_check h t"
| "run_check h t TelemetryCheck = telemetry_check t"
| "run_check h t ContainerCheck = container_check h"
| "run_check h t KubernetesCheck = kubernetes_check h"

definition default_checks :: "check list" where
  "default_checks =
     [HostCheck, EnvironmentSecretsCheck,
      FilePermissionCheck ''host.config_permissions'' ''Config file permissions are restricted'' ''host'' ''config'',
      FilePermissionCheck ''host.ca_permissions'' ''CA private key permissions are restricted'' ''host'' ''ca_key'',
      FilePermissionCheck ''host.database_permissions'' ''SQLite database permissions are restricted'' ''database'' ''database'',
      RootPrivateKeyAbsentCheck, IntermediateKeyCheck, CAChainCheck, CertificateLifetimeCheck, DatabaseReachableCheck,
      SQLiteKubernetesCheck, APITLSCheck, APIBindCheck, TokenTTLCheck, AuditCheck, AuditChainCheck, TelemetryCheck,
      ContainerCheck, KubernetesCheck]"

definition security_report :: "host \<Rightarrow> gotime \<Rightarrow> target \<Rightarrow> check_report" where
  "security_report h clock t =
     (let t' = (if is_zero (tg_now t) then t\<lparr>tg_now := clock\<rparr> else t) in run_checks (run_check h t') default_checks)"

section \<open>The contract\<close>

lemmas check_defs = host_check_def environment_secrets_check_def file_permission_check_def root_key_absent_check_def
  intermediate_key_check_def ca_chain_check_def certificate_lifetime_check_def database_reachable_check_def
  sqlite_kubernetes_check_def api_tls_check_def api_bind_check_def token_ttl_check_def audit_check_def audit_chain_check_def
  telemetry_check_def container_check_def kubernetes_check_def

lemma run_check_key:
  "ck_id (run_check h t c) = check_id c \<and> ck_category (run_check h t c) = check_category c"
  by (cases c) (simp_all add: check_defs Let_def split: option.split sum.split stat_result.split db_probe.split
      chain_verdict.split prod.split)

interpretation checks: self_check "run_check h t" check_id check_category for h t
  by unfold_locales (simp_all add: run_check_key)

end
