(* ===== verification/Security_Bootstrap.thy ===== *)
theory Security_Bootstrap
  imports Security_Model Files
begin

text \<open>
  The first-run guide of \<open>internal/securitycheck/bootstrap.go\<close>: it prints what is expected of an
  operator, asks for the confirmation of every item of a checklist on the standard input, and
  writes the checklist as Markdown. The model returns what is printed, the disk, and the error.
\<close>

section \<open>The checklist\<close>

definition bootstrap_checklist :: "(string \<times> string) list" where
  "bootstrap_checklist =
     [(''Offline Root CA checklist'', ''Root CA private key is offline or air-gapped.''),
      (''Offline Root CA checklist'', ''Root CA private key is encrypted at rest.''),
      (''Offline Root CA checklist'', ''Root CA private key has at least two secure offline backups.''),
      (''Offline Root CA checklist'', ''Root CA is used only to sign Intermediate CA certificates.''),
      (''Offline Root CA checklist'', ''Normal server certificates are never signed directly by the Root CA.''),
      (''Intermediate CA checklist'', ''Intermediate CA is signed by the offline Root CA.''),
      (''Intermediate CA checklist'', ''Intermediate CA private key is encrypted at rest.''),
      (''Intermediate CA checklist'', ''Intermediate CA private key is stored only on the IronRoot server.''),
      (''Intermediate CA checklist'', ''Intermediate CA lifetime is shorter than Root CA lifetime, recommended 5 years.''),
      (''Server hardening checklist'', ''IronRoot server filesystem permissions are restricted.''),
      (''Server hardening checklist'', ''IronRoot runs as a non-root user.''),
      (''Server hardening checklist'', ''Admin access is protected.''),
      (''Backup checklist'', ''Backup plan exists for SQLite data or future PostgreSQL data.''),
      (''Backup checklist'', ''Backup plan exists for Intermediate CA material.''),
      (''API TLS checklist'', ''TLS is enabled for the IronRoot API.''),
      (''API TLS checklist'', ''API bind address is intentional and protected.''),
      (''Observability checklist'', ''Audit logging is enabled.''),
      (''Observability checklist'', ''OpenTelemetry is configured or intentionally disabled.''),
      (''Migration readiness checklist'', ''CA generation metadata is tracked for future root migration.''),
      (''Recovery checklist'', ''Recovery steps are documented and tested without exposing Root CA private keys.'')]"

text \<open>The loop of \<open>SecurityChecklistMarkdown\<close>: a heading whenever the section changes.\<close>

fun checklist_items :: "string \<Rightarrow> (string \<times> string) list \<Rightarrow> string" where
  "checklist_items cur [] = []"
| "checklist_items cur ((sec, tx) # items) =
     (if sec \<noteq> cur then ''## '' @ sec @ nl @ nl else []) @ ''- [ ] '' @ tx @ nl @ checklist_items sec items"

definition checklist_markdown :: string where
  "checklist_markdown = ''# IronRoot Security Bootstrap Checklist'' @ nl @ nl @ checklist_items [] bootstrap_checklist"

section \<open>The guide\<close>

record bootstrap_options =
  bo_non_interactive :: bool
  bo_acknowledge_risk :: bool
  bo_output_checklist :: string

datatype guide_error = NeedsAcknowledgement | NotConfirmed string | ChecklistWrite string

text \<open>\<open>ReadString\<close> up to and including a newline: the line and the rest of the input.\<close>

fun read_line :: "string \<Rightarrow> string \<times> string" where
  "read_line [] = ([], [])"
| "read_line (c # cs) = (if c = CHR 0x0A then ([c], cs) else (case read_line cs of (l, r) \<Rightarrow> (c # l, r)))"

definition confirmed :: "string \<Rightarrow> bool" where
  "confirmed answer \<longleftrightarrow> to_lower (trim_space answer) = ''y''"

text \<open>What the questions print, and the item at which the guide stops.\<close>

fun ask_items :: "bool \<Rightarrow> string \<Rightarrow> (string \<times> string) list \<Rightarrow> string \<times> string option" where
  "ask_items ack inp [] = ([], None)"
| "ask_items ack inp ((sec, tx) # items) =
     (case read_line inp of (answer, rest) \<Rightarrow>
        let question = sec @ nl @ tx @ nl @ ''Confirm [y/N]: ''
        in if confirmed answer then (case ask_items ack rest items of (p, e) \<Rightarrow> (question @ nl @ p, e))
           else if \<not> ack then (question, Some tx)
           else (case ask_items ack rest items of (p, e) \<Rightarrow>
                   (question @ ''Risk acknowledged; continuing.'' @ nl @ nl @ p, e)))"

definition guide_intro :: string where
  "guide_intro =
     ''IronRoot first-run security bootstrap'' @ nl @ nl @
     ''Offline Root CA: create it on an offline or air-gapped machine. The Root CA private key '' @
     ''must never be copied to the online IronRoot server. Encrypt it at rest, back it up to at '' @
     ''least two offline locations, and use it only to sign Intermediate CA certificates. '' @
     ''Recommended Root CA lifetime: 20 years.'' @ nl @ nl @
     ''Intermediate CA: this is the online issuing CA. Its private key may live on the IronRoot '' @
     ''server, but it must be encrypted at rest and protected with strict filesystem permissions.'' @
     '' Recommended Intermediate CA lifetime: 5 years. Normal server certificates should be '' @
     ''signed by the Intermediate CA and default to 90 days.'' @ nl @ nl"

definition run_bootstrap_guide ::
  "fault \<Rightarrow> bootstrap_options \<Rightarrow> string \<Rightarrow> disk \<Rightarrow> disk \<times> string \<times> guide_error option" where
  "run_bootstrap_guide fault opts inp d =
     (if bo_non_interactive opts \<and> \<not> bo_acknowledge_risk opts then (d, [], Some NeedsAcknowledgement)
      else case (if bo_non_interactive opts
                 then (''Non-interactive mode enabled; risk acknowledgement recorded by flag.'' @ nl, None)
                 else ask_items (bo_acknowledge_risk opts) inp bootstrap_checklist) of
        (p, Some tx) \<Rightarrow> (d, guide_intro @ p, Some (NotConfirmed tx))
      | (p, None) \<Rightarrow>
          (let out = guide_intro @ p; path = bo_output_checklist opts;
               closing = ''Bootstrap guide complete. Run `ironroot-admin security-check` before exposing the API.'' @ nl
           in if path = [] then (d, out @ closing, None)
              else case write_file fault d path checklist_markdown 384 of
                     Inl e \<Rightarrow> (d, out, Some (ChecklistWrite e))
                   | Inr d' \<Rightarrow> (d', out @ ''Wrote security checklist: '' @ path @ nl @ closing, None)))"

section \<open>Lemmas\<close>

text \<open>The first \<open>n\<close> answers on the standard input.\<close>

fun answers :: "nat \<Rightarrow> string \<Rightarrow> string list" where
  "answers 0 inp = []"
| "answers (Suc n) inp = fst (read_line inp) # answers n (snd (read_line inp))"

lemma read_line_append: "fst (read_line s) @ snd (read_line s) = s"
  by (induction s) (auto split: prod.splits)

lemma ask_items_None:
  "snd (ask_items ack inp items) = None \<longleftrightarrow> ack \<or> list_all confirmed (answers (length items) inp)"
proof (induction ack inp items rule: ask_items.induct)
  case (2 ack inp sec tx items)
  obtain a r where ar: "read_line inp = (a, r)" by (cases "read_line inp")
  show ?case
    using ar "2.IH" [OF ar [symmetric] refl]
    by (cases "confirmed a"; cases ack) (auto simp: Let_def split: prod.splits)
qed simp

section \<open>Properties\<close>

text \<open>
  The guide completes only when every item of the checklist has been answered with a yes, or the
  risk was acknowledged on the command line, in which case it always gets to the checklist; when
  it stops for a missing confirmation or acknowledgement nothing has been written.
\<close>

theorem guide_completes_iff_confirmed:
  assumes "bo_output_checklist opts = [] \<or> (\<exists>d'. write_file fault d (bo_output_checklist opts) checklist_markdown 384 = Inr d')"
  shows "(snd (snd (run_bootstrap_guide fault opts inp d)) = None \<longleftrightarrow>
      bo_acknowledge_risk opts \<or>
      (\<not> bo_non_interactive opts \<and> list_all confirmed (answers (length bootstrap_checklist) inp))) \<and>
    (snd (snd (run_bootstrap_guide fault opts inp d)) \<noteq> None \<longrightarrow> fst (run_bootstrap_guide fault opts inp d) = d)"
proof -
  have a: "snd (ask_items (bo_acknowledge_risk opts) inp bootstrap_checklist) = None \<longleftrightarrow>
      bo_acknowledge_risk opts \<or> list_all confirmed (answers (length bootstrap_checklist) inp)"
    by (rule ask_items_None)
  then show ?thesis
    using assms by (auto simp: run_bootstrap_guide_def Let_def split: prod.splits option.splits sum.splits)
qed

theorem guide_completes_iff_confirmed_witness:
  "snd (snd (run_bootstrap_guide (\<lambda>_. None)
     \<lparr>bo_non_interactive = False, bo_acknowledge_risk = False, bo_output_checklist = []\<rparr> ''no'' (\<lambda>_. None))) \<noteq> None"
proof -
  have "\<not> list_all confirmed (answers (length bootstrap_checklist) ''no'')" by code_simp
  then show ?thesis
    using guide_completes_iff_confirmed [of "\<lparr>bo_non_interactive = False, bo_acknowledge_risk = False,
        bo_output_checklist = []\<rparr>" "\<lambda>_. None" "\<lambda>_. None" "''no''"] by simp
qed

end
