(* ===== verification/Status.thy ===== *)
theory Status
  imports Api Config "HOL-Library.Multiset"
begin

text \<open>
  The read-only status endpoints, \<open>internal/api/status.go\<close>: summaries of certificates,
  enrollments and audit entries, the token and enrollment listings, the state of the CA
  material and the CA hierarchy. The clock is taken to stand still while one answer is made
  (\<open>now\<close>), and the fraction of a day in \<open>days_remaining\<close> is exact instead of \<open>float64\<close>.
\<close>

section \<open>Server and telemetry\<close>

record server_status =
  ss_status :: string
  ss_version :: string
  ss_api_health :: string
  ss_readiness :: string
  ss_database_type :: string
  ss_api_address :: string
  ss_tls_enabled :: bool
  ss_go_version :: string
  ss_goroutines :: int

text \<open>\<open>go\<close> and \<open>gr\<close> are \<open>runtime.Version()\<close> and \<open>runtime.NumGoroutine()\<close>.\<close>

definition server_status_of :: "string \<Rightarrow> int \<Rightarrow> config \<Rightarrow> server_status" where
  "server_status_of go gr cfg =
     \<lparr>ss_status = ''healthy'', ss_version = tel_service_version (cf_telemetry cfg), ss_api_health = ''ok'',
      ss_readiness = ''ready'', ss_database_type = db_driver (cf_database cfg),
      ss_api_address = srv_address (cf_server cfg),
      ss_tls_enabled = (tls_cert_file (srv_tls (cf_server cfg)) \<noteq> [] \<and> tls_key_file (srv_tls (cf_server cfg)) \<noteq> []),
      ss_go_version = go, ss_goroutines = gr\<rparr>"

record telemetry_status =
  ts_enabled :: bool
  ts_traces :: bool
  ts_metrics :: bool
  ts_logs :: bool
  ts_endpoint :: string
  ts_protocol :: string
  ts_prometheus :: bool
  ts_prometheus_path :: string
  ts_exporter_status :: string

definition telemetry_status_of :: "config \<Rightarrow> telemetry_status" where
  "telemetry_status_of c =
     (let t = cf_telemetry c
      in \<lparr>ts_enabled = tel_enabled t, ts_traces = tel_traces t, ts_metrics = tel_metrics t, ts_logs = tel_logs t,
          ts_endpoint = ex_endpoint (tel_exporter t), ts_protocol = ex_protocol (tel_exporter t),
          ts_prometheus = pm_enabled (tel_prometheus t), ts_prometheus_path = pm_path (tel_prometheus t),
          ts_exporter_status = (if tel_enabled t then ''configured'' else ''disabled'')\<rparr>)"

section \<open>Names stored in one column\<close>

definition split_names :: "string \<Rightarrow> string list" where
  "split_names s =
     (if trim_space s = [] then []
      else filter (\<lambda>p. p \<noteq> []) (map trim_space (split_on (CHR '','') s)))"

section \<open>Certificates\<close>

record certificate_summary =
  sm_active :: nat
  sm_expiring_soon :: nat
  sm_issued_today :: nat
  sm_renewed_today :: nat
  sm_revoked_today :: nat
  sm_revoked :: nat
  sm_expired :: nat
  sm_total :: nat

definition no_certificates :: certificate_summary where
  "no_certificates = \<lparr>sm_active = 0, sm_expiring_soon = 0, sm_issued_today = 0, sm_renewed_today = 0,
     sm_revoked_today = 0, sm_revoked = 0, sm_expired = 0, sm_total = 0\<rparr>"

definition count_certificate ::
  "gotime \<Rightarrow> duration \<Rightarrow> issued_certificate \<Rightarrow> certificate_summary \<Rightarrow> certificate_summary" where
  "count_certificate now renew_before c out =
     (let today = start_of_day now;
          out1 = (if ic_created_at c > today then out\<lparr>sm_issued_today := sm_issued_today out + 1\<rparr> else out)
      in case ic_revoked_at c of
           Some t \<Rightarrow>
             (let out2 = out1\<lparr>sm_revoked := sm_revoked out1 + 1\<rparr>
              in if t > today then out2\<lparr>sm_revoked_today := sm_revoked_today out2 + 1\<rparr> else out2)
         | None \<Rightarrow>
             if now > ic_not_after c then out1\<lparr>sm_expired := sm_expired out1 + 1\<rparr>
             else
               (let out2 = out1\<lparr>sm_active := sm_active out1 + 1\<rparr>
                in if time_sub (ic_not_after c) now \<le> renew_before
                   then out2\<lparr>sm_expiring_soon := sm_expiring_soon out2 + 1\<rparr> else out2))"

definition summarize_certificates :: "gotime \<Rightarrow> issued_certificate list \<Rightarrow> duration \<Rightarrow> certificate_summary" where
  "summarize_certificates now certs renew_before =
     fold (count_certificate now renew_before) certs (no_certificates\<lparr>sm_total := length certs\<rparr>)"

record certificate_item =
  ci_serial :: string
  ci_dns_names :: "string list"
  ci_issuer :: string
  ci_status :: string
  ci_created_at :: gotime
  ci_expires_at :: gotime
  ci_days_remaining :: int
  ci_enrollment_id :: string
  ci_renewal_status :: string

definition certificate_item_of :: "gotime \<Rightarrow> issued_certificate \<Rightarrow> duration \<Rightarrow> certificate_item" where
  "certificate_item_of now c renew_before =
     \<lparr>ci_serial = ic_serial c, ci_dns_names = split_names (ic_dns_names c), ci_issuer = ic_ca_id c,
      ci_status = (if ic_revoked_at c \<noteq> None then ''revoked'' else if now > ic_not_after c then ''expired'' else ''active''),
      ci_created_at = ic_created_at c, ci_expires_at = ic_not_after c,
      ci_days_remaining = quot (time_sub (ic_not_after c) now) (24 * hour),
      ci_enrollment_id = ic_enrollment_id c,
      ci_renewal_status = (if ic_revoked_at c = None \<and> now < ic_not_after c \<and> time_sub (ic_not_after c) now \<le> renew_before
        then ''due'' else ''ok'')\<rparr>"

definition status_certificates :: "gotime \<Rightarrow> duration \<Rightarrow> store \<Rightarrow> db_error + certificate_item list" where
  "status_certificates now renew_before s =
     bindE (list_issued_certificates s) (\<lambda>certs. Inr (map (\<lambda>c. certificate_item_of now c renew_before) certs))"

section \<open>Enrollments\<close>

record enrollment_summary =
  es_successful :: nat
  es_failed :: nat
  es_pending :: nat
  es_invalid_token :: nat
  es_total :: nat

definition count_enrollment_log :: "audit_log \<Rightarrow> enrollment_summary \<Rightarrow> enrollment_summary" where
  "count_enrollment_log l out =
     (let out1 = (if contains (al_action l) ''enrollment'' \<and> contains (al_action l) ''failed''
                  then out\<lparr>es_failed := es_failed out + 1\<rparr> else out)
      in if contains (al_action l) ''token'' \<and> contains (al_action l) ''invalid''
         then out1\<lparr>es_invalid_token := es_invalid_token out1 + 1\<rparr> else out1)"

definition summarize_enrollments :: "enrollment list \<Rightarrow> audit_log list \<Rightarrow> enrollment_summary" where
  "summarize_enrollments ens logs =
     fold count_enrollment_log logs
       \<lparr>es_successful = length ens, es_failed = 0, es_pending = 0, es_invalid_token = 0, es_total = length ens\<rparr>"

record enrollment_item =
  ei_id :: string
  ei_hostname :: string
  ei_machine_id :: string
  ei_status :: string
  ei_created_at :: gotime
  ei_last_seen_at :: gotime
  ei_certificate_count :: nat
  ei_failed_attempts :: nat

text \<open>The two Go maps built from the certificates; a missing key reads as zero.\<close>

definition certificates_seen ::
  "issued_certificate list \<Rightarrow> (string \<Rightarrow> nat) \<times> (string \<Rightarrow> gotime)" where
  "certificates_seen certs =
     fold (\<lambda>c (counts, seen).
         (counts(ic_enrollment_id c := counts (ic_enrollment_id c) + 1),
          if ic_created_at c > seen (ic_enrollment_id c) then seen(ic_enrollment_id c := ic_created_at c) else seen))
       certs ((\<lambda>_. 0), (\<lambda>_. zero_time))"

definition enrollment_item_of :: "(string \<Rightarrow> nat) \<Rightarrow> (string \<Rightarrow> gotime) \<Rightarrow> enrollment \<Rightarrow> enrollment_item" where
  "enrollment_item_of counts seen en =
     \<lparr>ei_id = en_id en, ei_hostname = en_hostname en, ei_machine_id = en_machine_id en,
      ei_status = (if counts (en_id en) > 0 then ''active'' else ''pending''), ei_created_at = en_created_at en,
      ei_last_seen_at = seen (en_id en), ei_certificate_count = counts (en_id en), ei_failed_attempts = 0\<rparr>"

text \<open>Errors of the certificate listing are ignored by the code: it then sees no certificate.\<close>

definition certificates_or_none :: "store \<Rightarrow> issued_certificate list" where
  "certificates_or_none s = (case list_issued_certificates s of Inl _ \<Rightarrow> [] | Inr cs \<Rightarrow> cs)"

definition status_enrollments :: "store \<Rightarrow> db_error + enrollment_item list" where
  "status_enrollments s =
     bindE (list_enrollments s) (\<lambda>ens.
       let (counts, seen) = certificates_seen (certificates_or_none s)
       in Inr (map (enrollment_item_of counts seen) ens))"

section \<open>Tokens\<close>

record token_item =
  ti_id :: string
  ti_host :: string
  ti_status :: string
  ti_created_at :: gotime
  ti_expires_at :: gotime
  ti_used :: bool
  ti_revoked :: bool
  ti_usage_count :: nat
  ti_last_used_at :: "gotime option"

definition token_item_of :: "gotime \<Rightarrow> token_usage \<Rightarrow> bootstrap_token \<Rightarrow> token_item" where
  "token_item_of now u t =
     \<lparr>ti_id = bt_id t, ti_host = bt_hostname t,
      ti_status = (if bt_revoked_at t \<noteq> None then ''revoked'' else if now > bt_expires_at t then ''expired''
                   else if tu_count u > 0 then ''used'' else ''active''),
      ti_created_at = bt_created_at t, ti_expires_at = bt_expires_at t, ti_used = (tu_count u > 0),
      ti_revoked = (bt_revoked_at t \<noteq> None), ti_usage_count = tu_count u, ti_last_used_at = tu_last_used_at u\<rparr>"

definition status_tokens ::
  "(gotime \<Rightarrow> gotime option) \<Rightarrow> gotime \<Rightarrow> store \<Rightarrow> db_error + token_item list" where
  "status_tokens scan now s =
     bindE (list_bootstrap_tokens s) (\<lambda>ts.
       Inr (map (\<lambda>t. token_item_of now (fst (bootstrap_token_usage scan s (bt_id t))) t) ts))"

section \<open>Security and audit\<close>

record security_summary =
  sc_status :: string
  sc_critical :: nat
  sc_high :: nat
  sc_warnings :: nat
  sc_message :: string

definition is_security_log :: "audit_log \<Rightarrow> bool" where
  "is_security_log l \<longleftrightarrow> contains (al_action l) ''security-check'' \<or> contains (al_action l) ''security_check''"

definition mentions :: "audit_log \<Rightarrow> string \<Rightarrow> bool" where
  "mentions l w \<longleftrightarrow> contains (to_lower (al_metadata l)) w"

definition count_security_log :: "audit_log \<Rightarrow> security_summary \<Rightarrow> security_summary" where
  "count_security_log l out =
     (if is_security_log l then
        (let out1 = out\<lparr>sc_status := ''warning'', sc_warnings := sc_warnings out + 1,
                       sc_message := ''Recent security-check activity found in audit log.''\<rparr>;
             out2 = (if mentions l ''critical''
                     then out1\<lparr>sc_critical := sc_critical out1 + 1, sc_status := ''critical''\<rparr> else out1)
         in if mentions l ''high'' then
              (let out3 = out2\<lparr>sc_high := sc_high out2 + 1\<rparr>
               in if sc_status out3 \<noteq> ''critical'' then out3\<lparr>sc_status := ''high''\<rparr> else out3)
            else out2)
      else out)"

definition summarize_security :: "audit_log list \<Rightarrow> security_summary" where
  "summarize_security logs =
     fold count_security_log logs
       \<lparr>sc_status = ''unknown'', sc_critical = 0, sc_high = 0, sc_warnings = 0,
        sc_message = ''No security-check result has been recorded yet.''\<rparr>"

definition status_security :: "store \<Rightarrow> security_summary" where
  "status_security s =
     summarize_security (case list_audit_logs (Some s) 100 of Inl _ \<Rightarrow> [] | Inr logs \<Rightarrow> logs)"

definition audit_result :: "audit_log \<Rightarrow> string" where
  "audit_result l = (if contains (to_lower (al_action l)) ''failed'' then ''failure'' else ''success'')"

definition audit_severity :: "audit_log \<Rightarrow> string" where
  "audit_severity l =
     (let action = to_lower (al_action l); metadata = to_lower (al_metadata l)
      in if contains metadata ''critical'' then ''critical''
         else if contains metadata ''high'' then ''high''
         else if contains action ''failed'' \<or> contains action ''revoked'' then ''warning''
         else ''info'')"

record audit_item =
  ai_timestamp :: gotime
  ai_actor :: string
  ai_action :: string
  ai_target :: string
  ai_result :: string
  ai_severity :: string

definition audit_recent :: "store \<Rightarrow> db_error + audit_item list" where
  "audit_recent s =
     bindE (list_audit_logs (Some s) 100) (\<lambda>logs. Inr (map (\<lambda>l.
       \<lparr>ai_timestamp = al_created_at l, ai_actor = al_actor l, ai_action = al_action l, ai_target = al_target l,
        ai_result = audit_result l, ai_severity = audit_severity l\<rparr>) logs))"

section \<open>CA material\<close>

text \<open>
  \<open>pem.Decode\<close> returns the first block and the rest of the text; the loop reads blocks until
  there is none. First the loop as it is written, which ends when \<open>decode\<close> does not go on for
  ever; then with fuel, the length of the text plus one, since a block takes at least one
  character. \<open>pem_loop_returns\<close> shows that they agree.
\<close>

partial_function (option) pem_loop ::
  "(string \<Rightarrow> (pem_block \<times> string) option) \<Rightarrow> (char list \<Rightarrow> string + certificate) \<Rightarrow> string \<Rightarrow> certificate list option" where
  "pem_loop decode parse s =
     (case decode s of
        None \<Rightarrow> Some []
      | Some (b, rest) \<Rightarrow>
          Option.bind (pem_loop decode parse rest) (\<lambda>cs.
            Some (if pb_type b \<noteq> ''CERTIFICATE'' then cs
                  else case parse (pb_bytes b) of Inl e \<Rightarrow> cs | Inr c \<Rightarrow> c # cs)))"

fun parse_pem_loop ::
  "(string \<Rightarrow> (pem_block \<times> string) option) \<Rightarrow> (char list \<Rightarrow> string + certificate) \<Rightarrow> nat \<Rightarrow> string \<Rightarrow> certificate list" where
  "parse_pem_loop decode parse 0 s = []"
| "parse_pem_loop decode parse (Suc n) s =
     (case decode s of
        None \<Rightarrow> []
      | Some (b, rest) \<Rightarrow>
          if pb_type b \<noteq> ''CERTIFICATE'' then parse_pem_loop decode parse n rest
          else (case parse (pb_bytes b) of
                  Inl e \<Rightarrow> parse_pem_loop decode parse n rest
                | Inr c \<Rightarrow> c # parse_pem_loop decode parse n rest))"

definition parse_pem_certificates ::
  "(string \<Rightarrow> (pem_block \<times> string) option) \<Rightarrow> (char list \<Rightarrow> string + certificate) \<Rightarrow> string \<Rightarrow> certificate list" where
  "parse_pem_certificates decode parse s = parse_pem_loop decode parse (Suc (length s)) s"

record ca_status =
  ca_root_fingerprint :: string
  ca_root_expires :: gotime
  ca_intermediate_fingerprint :: string
  ca_intermediate_expires :: gotime
  ca_active_issuer :: string
  ca_disabled_issuers :: nat
  ca_retired_issuers :: nat
  ca_chain_status :: string
  ca_warnings :: "string list"

definition blank_ca_status :: ca_status where
  "blank_ca_status = \<lparr>ca_root_fingerprint = [], ca_root_expires = zero_time, ca_intermediate_fingerprint = [],
     ca_intermediate_expires = zero_time, ca_active_issuer = [], ca_disabled_issuers = 0, ca_retired_issuers = 0,
     ca_chain_status = [], ca_warnings = []\<rparr>"

definition ca_status_of ::
  "(string \<Rightarrow> char list) \<Rightarrow> (string \<Rightarrow> certificate list) \<Rightarrow> gotime \<Rightarrow> authority option \<Rightarrow> ca_status" where
  "ca_status_of sha parse now auth =
     (case auth of
        None \<Rightarrow> blank_ca_status\<lparr>ca_active_issuer := ''unconfigured'', ca_chain_status := ''unconfigured'',
                  ca_warnings := [''CA authority is not configured'']\<rparr>
      | Some a \<Rightarrow>
     (let roots = parse (au_root a); chain = parse (au_chain a);
          s0 = blank_ca_status\<lparr>ca_active_issuer := au_ca_id a, ca_chain_status := ''unknown''\<rparr>;
          s1 = (case roots of [] \<Rightarrow> s0 | r # _ \<Rightarrow>
                  s0\<lparr>ca_root_fingerprint := hex_encode (sha (ct_raw r)), ca_root_expires := ct_not_after r,
                     ca_warnings := ca_warnings s0 @
                       (if time_sub (ct_not_after r) now < 2 * 365 * 24 * hour then [''Root CA expires within 2 years''] else [])\<rparr>);
          s2 = (case chain of [] \<Rightarrow> s1 | c # _ \<Rightarrow>
                  s1\<lparr>ca_intermediate_fingerprint := hex_encode (sha (ct_raw c)), ca_intermediate_expires := ct_not_after c,
                     ca_chain_status := ''valid'',
                     ca_warnings := ca_warnings s1 @
                       (if time_sub (ct_not_after c) now < 180 * 24 * hour
                        then [''Intermediate CA expires within 180 days''] else [])\<rparr>)
      in if chain = [] \<and> roots = []
         then s2\<lparr>ca_chain_status := ''unconfigured'', ca_warnings := ca_warnings s2 @ [''CA material is not configured'']\<rparr>
         else s2))"

section \<open>Overview\<close>

record overview =
  ov_server :: server_status
  ov_certificates :: certificate_summary
  ov_enrollments :: enrollment_summary
  ov_security :: security_summary
  ov_telemetry :: telemetry_status
  ov_ca :: ca_status

definition status_overview ::
  "(string \<Rightarrow> char list) \<Rightarrow> (string \<Rightarrow> certificate list) \<Rightarrow> string \<Rightarrow> int \<Rightarrow> gotime \<Rightarrow> config \<Rightarrow> authority option \<Rightarrow>
     store \<Rightarrow> overview" where
  "status_overview sha parse go gr now cfg auth s =
     (let certs = certificates_or_none s;
          ens = (case list_enrollments s of Inl _ \<Rightarrow> [] | Inr es \<Rightarrow> es);
          logs = (case list_audit_logs (Some s) 100 of Inl _ \<Rightarrow> [] | Inr ls \<Rightarrow> ls)
      in \<lparr>ov_server = server_status_of go gr cfg,
          ov_certificates = summarize_certificates now certs (pki_renew_before (cf_pki cfg)),
          ov_enrollments = summarize_enrollments ens logs, ov_security = summarize_security logs,
          ov_telemetry = telemetry_status_of cfg, ov_ca = ca_status_of sha parse now auth\<rparr>)"

end
