(* ===== verification/Admin_Tokens.thy ===== *)
theory Admin_Tokens
  imports Enrollment Config Security_Model Status
begin

text \<open>
  The token commands of \<open>internal/cli/admin/admin.go\<close>: \<open>create-token\<close>, \<open>list-tokens\<close>,
  \<open>inspect-token\<close> and \<open>revoke-token\<close>. A command gets the store its configuration names and
  returns the store, what it prints and its error; loading the configuration and opening the
  database are parameters, cobra's flag parsing is not modelled.
\<close>

section \<open>Results of commands\<close>

datatype admin_error =
    HostRequired
  | BadTTL string
  | ConfigError string
  | OpenError string
  | RandomError string
  | StoreError db_error

record console =
  con_out :: string
  con_err :: string

type_synonym command_result = "store \<times> console \<times> admin_error option"

definition silent :: console where "silent = \<lparr>con_out = [], con_err = []\<rparr>"

record admin_lib =
  adm_load :: "string \<Rightarrow> string + config"
  adm_open :: "database_config \<Rightarrow> string option"
  adm_scan :: "gotime \<Rightarrow> gotime option"
  adm_align :: "string \<Rightarrow> string"

text \<open>\<open>openAdminStore\<close>: load the configuration, open the database, migrate.\<close>

definition open_admin_store :: "admin_lib \<Rightarrow> string \<Rightarrow> store \<Rightarrow> admin_error + (config \<times> store)" where
  "open_admin_store lib path s =
     (case adm_load lib path of
        Inl e \<Rightarrow> Inl (ConfigError e)
      | Inr cfg \<Rightarrow>
          (case adm_open lib (cf_database cfg) of
             Some e \<Rightarrow> Inl (OpenError e)
           | None \<Rightarrow> Inr (cfg, migrate s)))"

section \<open>Creating a token\<close>

definition backslash :: string where "backslash = [CHR 0x5C]"

definition created_text :: "string \<Rightarrow> string \<Rightarrow> gotime \<Rightarrow> string \<Rightarrow> string \<Rightarrow> string" where
  "created_text i host expires token dsn =
     ''Bootstrap token created successfully.'' @ nl @
     nl @ ''ID:'' @ nl @ i @ nl @ nl @ ''Host:'' @ nl @ host @ nl @ nl @ ''Expires:'' @ nl @ rfc3339 expires @ nl @ nl @
     ''Token:'' @ nl @ token @ nl @ nl @ ''Token database:'' @ nl @ dsn @ nl @ nl @
     ''Before enrolling, make sure ironroot-server is running with the same --config file so it reads this database.'' @ nl @
     nl @ ''Next step:'' @ nl @ ''ironroot-client enroll '' @ backslash @ nl @ ''  --server http://localhost:8443 '' @ backslash @ nl @
     ''  --hostname '' @ host @ '' '' @ backslash @ nl @ ''  --token '' @ token @ nl"

definition create_token ::
  "(string \<Rightarrow> char list) \<Rightarrow> admin_lib \<Rightarrow> (string + char list) \<Rightarrow> gotime \<Rightarrow> string \<Rightarrow> string \<Rightarrow> string \<Rightarrow> string \<Rightarrow> store \<Rightarrow>
     command_result" where
  "create_token sha lib rnd now i path hostname ttl s =
     (if hostname = [] then (s, silent, Some HostRequired)
      else case parse_duration ttl of
        None \<Rightarrow> (s, silent, Some (BadTTL ttl))
      | Some dur \<Rightarrow>
      (case open_admin_store lib path s of
         Inl e \<Rightarrow> (s, silent, Some e)
       | Inr (cfg, s1) \<Rightarrow>
      (case new_bootstrap_token rnd of
         Inl e \<Rightarrow> (s1, silent, Some (RandomError e))
       | Inr token \<Rightarrow>
      (case create_bootstrap_token s1
              \<lparr>bt_id = i, bt_token_hash = hash_token sha token, bt_hostname = hostname, bt_expires_at = now + dur,
               bt_revoked_at = None, bt_created_at = now\<rparr> of
         Inl e \<Rightarrow> (s1, silent, Some (StoreError e))
       | Inr s2 \<Rightarrow>
           (s2, \<lparr>con_out = created_text i hostname (now + dur) token (db_dsn (cf_database cfg)),
                 con_err = (if dur > 24 * hour
                   then ''WARNING: bootstrap token TTL is longer than 24h. Short-lived tokens are safer.'' @ nl else [])\<rparr>,
            None)))))"

section \<open>Rows\<close>

record token_row =
  tr_id :: string
  tr_hostname :: string
  tr_status :: string
  tr_created_at :: gotime
  tr_expires_at :: gotime
  tr_revoked_at :: "gotime option"
  tr_used :: bool
  tr_usage_count :: nat
  tr_last_used_at :: "gotime option"
  tr_enrollment_id :: string
  tr_enrollment_host :: string

definition token_status :: "token_row \<Rightarrow> gotime \<Rightarrow> string" where
  "token_status row now =
     (if tr_revoked_at row \<noteq> None then ''revoked''
      else if now > tr_expires_at row then ''expired''
      else if tr_used row then ''used'' else ''active'')"

definition token_row_from :: "(gotime \<Rightarrow> gotime option) \<Rightarrow> gotime \<Rightarrow> store \<Rightarrow> bootstrap_token \<Rightarrow> db_error + token_row" where
  "token_row_from scan now s t =
     (case bootstrap_token_usage scan s (bt_id t) of
        (u, Some e) \<Rightarrow> Inl e
      | (u, None) \<Rightarrow>
          (let row = \<lparr>tr_id = bt_id t, tr_hostname = bt_hostname t, tr_status = [], tr_created_at = bt_created_at t,
                 tr_expires_at = bt_expires_at t, tr_revoked_at = bt_revoked_at t, tr_used = (tu_count u > 0),
                 tr_usage_count = tu_count u, tr_last_used_at = tu_last_used_at u, tr_enrollment_id = tu_enrollment_id u,
                 tr_enrollment_host = tu_enrollment_host u\<rparr>
           in Inr (row\<lparr>tr_status := token_status row now\<rparr>)))"

text \<open>Every row reads the clock anew.\<close>

fun rows_from ::
  "(gotime \<Rightarrow> gotime option) \<Rightarrow> (nat \<Rightarrow> gotime) \<Rightarrow> nat \<Rightarrow> store \<Rightarrow> bootstrap_token list \<Rightarrow> db_error + token_row list" where
  "rows_from scan clock k s [] = Inr []"
| "rows_from scan clock k s (t # ts) =
     bindE (token_row_from scan (clock k) s t) (\<lambda>r. bindE (rows_from scan clock (Suc k) s ts) (\<lambda>rs. Inr (r # rs)))"

definition load_token_rows :: "(gotime \<Rightarrow> gotime option) \<Rightarrow> (nat \<Rightarrow> gotime) \<Rightarrow> store \<Rightarrow> db_error + token_row list" where
  "load_token_rows scan clock s = bindE (list_bootstrap_tokens s) (rows_from scan clock 0 s)"

definition load_token_row :: "(gotime \<Rightarrow> gotime option) \<Rightarrow> gotime \<Rightarrow> store \<Rightarrow> string \<Rightarrow> db_error + token_row" where
  "load_token_row scan now s i = bindE (get_bootstrap_token s i) (token_row_from scan now s)"

record token_filters =
  tf_active :: bool
  tf_expired :: bool
  tf_revoked :: bool
  tf_used :: bool
  tf_unused :: bool
  tf_host :: string

definition row_passes :: "token_filters \<Rightarrow> token_row \<Rightarrow> bool" where
  "row_passes f row \<longleftrightarrow>
     \<not> (tf_host f \<noteq> [] \<and> \<not> equal_fold (tr_hostname row) (tf_host f)) \<and>
     \<not> (tf_active f \<and> tr_status row \<noteq> ''active'') \<and> \<not> (tf_expired f \<and> tr_status row \<noteq> ''expired'') \<and>
     \<not> (tf_revoked f \<and> tr_status row \<noteq> ''revoked'') \<and> \<not> (tf_used f \<and> \<not> tr_used row) \<and> \<not> (tf_unused f \<and> tr_used row)"

definition filter_token_rows :: "token_row list \<Rightarrow> token_filters \<Rightarrow> token_row list" where
  "filter_token_rows rows f = filter (row_passes f) rows"

section \<open>Rendering\<close>

definition yes_no :: "bool \<Rightarrow> string" where "yes_no b = (if b then ''yes'' else ''no'')"

definition last_used_text :: "token_row \<Rightarrow> string" where
  "last_used_text row = (case tr_last_used_at row of None \<Rightarrow> ''never'' | Some t \<Rightarrow> rfc3339 t)"

definition row_cells :: "bool \<Rightarrow> token_row \<Rightarrow> string list" where
  "row_cells wide row =
     [tr_id row, tr_hostname row, tr_status row, rfc3339 (tr_created_at row), rfc3339 (tr_expires_at row),
      yes_no (tr_used row)] @
     (if wide then [show_int (int (tr_usage_count row)), last_used_text row, tr_enrollment_id row]
      else [last_used_text row])"

text \<open>The tab-separated lines that go into the tab writer.\<close>

definition token_table :: "token_row list \<Rightarrow> bool \<Rightarrow> string" where
  "token_table rows wide =
     join tab ([''ID'', ''HOST'', ''STATUS'', ''CREATED'', ''EXPIRES'', ''USED''] @
       (if wide then [''USAGE'', ''LAST USED'', ''ENROLLMENT''] else [''LAST USED''])) @ nl @
     concat (map (\<lambda>r. join tab (row_cells wide r) @ nl) rows)"

definition token_markdown :: "token_row list \<Rightarrow> bool \<Rightarrow> string" where
  "token_markdown rows wide =
     (if wide then ''| ID | Host | Status | Created | Expires | Used | Usage | Last used | Enrollment |'' @ nl @
                   ''|---|---|---|---|---|---|---:|---|---|'' @ nl
      else ''| ID | Host | Status | Created | Expires | Used | Last used |'' @ nl @ ''|---|---|---|---|---|---|---|'' @ nl) @
     concat (map (\<lambda>r. ''| `'' @ join ''` | `'' (row_cells wide r) @ ''` |'' @ nl) rows)"

datatype token_format = TokenJson | TokenMarkdown | TokenTable

definition render_tokens :: "admin_lib \<Rightarrow> (token_row list \<Rightarrow> string) \<Rightarrow> token_format \<Rightarrow> token_row list \<Rightarrow> bool \<Rightarrow> string" where
  "render_tokens lib json fmt rows wide =
     (case fmt of TokenJson \<Rightarrow> json rows | TokenMarkdown \<Rightarrow> token_markdown rows wide
      | TokenTable \<Rightarrow> adm_align lib (token_table rows wide))"

section \<open>The other commands\<close>

definition list_tokens ::
  "admin_lib \<Rightarrow> (token_row list \<Rightarrow> string) \<Rightarrow> (nat \<Rightarrow> gotime) \<Rightarrow> string \<Rightarrow> token_filters \<Rightarrow> token_format \<Rightarrow> bool \<Rightarrow> store \<Rightarrow>
     command_result" where
  "list_tokens lib json clock path f fmt wide s =
     (case open_admin_store lib path s of
        Inl e \<Rightarrow> (s, silent, Some e)
      | Inr (cfg, s1) \<Rightarrow>
          (case load_token_rows (adm_scan lib) clock s1 of
             Inl e \<Rightarrow> (s1, silent, Some (StoreError e))
           | Inr rows \<Rightarrow> (s1, silent\<lparr>con_out := render_tokens lib json fmt (filter_token_rows rows f) wide\<rparr>, None)))"

definition inspect_token ::
  "admin_lib \<Rightarrow> (token_row \<Rightarrow> string) \<Rightarrow> gotime \<Rightarrow> string \<Rightarrow> string \<Rightarrow> token_format \<Rightarrow> store \<Rightarrow> command_result" where
  "inspect_token lib json now path i fmt s =
     (case open_admin_store lib path s of
        Inl e \<Rightarrow> (s, silent, Some e)
      | Inr (cfg, s1) \<Rightarrow>
          (case load_token_row (adm_scan lib) now s1 i of
             Inl e \<Rightarrow> (s1, silent, Some (StoreError e))
           | Inr row \<Rightarrow>
               (s1, \<lparr>con_out = (if fmt = TokenJson then json row else render_tokens lib (\<lambda>_. []) fmt [row] True),
                     con_err = (if tr_status row = ''expired'' \<and> \<not> tr_used row
                       then ''WARNING: token expired unused. Consider revoking or cleaning it up.'' @ nl else [])\<rparr>, None)))"

definition revoke_token :: "admin_lib \<Rightarrow> gotime \<Rightarrow> string \<Rightarrow> string \<Rightarrow> store \<Rightarrow> command_result" where
  "revoke_token lib now path i s =
     (case open_admin_store lib path s of
        Inl e \<Rightarrow> (s, silent, Some e)
      | Inr (cfg, s1) \<Rightarrow>
          (case revoke_bootstrap_token now s1 i of
             Inl e \<Rightarrow> (s1, silent, Some (StoreError e))
           | Inr s2 \<Rightarrow> (s2, silent\<lparr>con_out := ''Bootstrap token revoked: '' @ i @ nl\<rparr>, None)))"

definition init_server :: "admin_lib \<Rightarrow> string \<Rightarrow> store \<Rightarrow> command_result" where
  "init_server lib path s =
     (case open_admin_store lib path s of Inl e \<Rightarrow> (s, silent, Some e) | Inr (cfg, s1) \<Rightarrow> (s1, silent, None))"

end
