(* ===== verification/Admin_Ca.thy ===== *)
theory Admin_Ca
  imports Ca_Local Security_Checks Security_Bootstrap Admin_Tokens
begin

text \<open>
  The CA and check commands of \<open>internal/cli/admin/admin.go\<close>: \<open>ca create-root\<close>,
  \<open>ca create-intermediate\<close>, \<open>ca inspect\<close>, \<open>ca verify-chain\<close>, \<open>bootstrap\<close> and
  \<open>security-check\<close>, with the resolution of passwords and the parsing of lifetimes. A command
  returns the disk, what it prints and its error; \<open>time.Parse\<close> is a parameter.
\<close>

section \<open>Lifetimes\<close>

text \<open>\<open>years * 365 * 24\<close> is a product of \<open>int64\<close> values: both multiplications wrap around.\<close>

definition parse_days_duration :: "string \<Rightarrow> duration option" where
  "parse_days_duration value =
     (if has_suffix value ''y'' then
        (case parse_duration (trim_suffix value ''y'' @ ''h'') of
           None \<Rightarrow> None | Some years \<Rightarrow> Some (wrap64 (wrap64 (years * 365) * 24)))
      else parse_duration value)"

section \<open>Passwords\<close>

datatype admin_ca_error =
    CaOsError string
  | PasswordFileEmpty string
  | PasswordRandom string
  | EnvironmentEmpty string
  | BadLifetime string
  | BadNotBefore string string
  | CaLocal local_error
  | BadInspectFormat string

definition read_password_file :: "disk \<Rightarrow> string \<Rightarrow> admin_ca_error + string" where
  "read_password_file d path =
     (case read_file d path of
        Inl e \<Rightarrow> Inl (CaOsError e)
      | Inr body \<Rightarrow> (let p = trim_space body in if p = [] then Inl (PasswordFileEmpty path) else Inr p))"

definition random_password :: "(string + char list) \<Rightarrow> admin_ca_error + string" where
  "random_password rnd = (case rnd of Inl e \<Rightarrow> Inl (PasswordRandom e) | Inr b \<Rightarrow> Inr (b64url b))"

text \<open>The password and the file it comes from; without either, a new one is written to the default file.\<close>

definition resolve_password ::
  "fault \<Rightarrow> (string + char list) \<Rightarrow> string \<Rightarrow> string \<Rightarrow> string \<Rightarrow> (admin_ca_error, string \<times> string) io" where
  "resolve_password fault rnd value file default_file =
     (if value \<noteq> [] then io_return (value, [])
      else if file \<noteq> [] then (\<lambda>d. (d, bindE (read_password_file d file) (\<lambda>p. Inr (p, file))))
      else
        io_bind (io_lift (random_password rnd)) (\<lambda>p.
        io_bind (io_mkdir CaOsError fault (dir_of default_file)) (\<lambda>_.
        io_bind (io_write CaOsError fault default_file (p @ nl) 384) (\<lambda>_.
        io_return (p, default_file)))))"

definition resolve_root_password ::
  "fault \<Rightarrow> (string \<Rightarrow> string) \<Rightarrow> (string + char list) \<Rightarrow> string \<Rightarrow> string \<Rightarrow> string \<Rightarrow> string \<Rightarrow> bool \<Rightarrow>
     (admin_ca_error, string \<times> string) io" where
  "resolve_root_password fault getenv rnd value env_name file default_file encrypt =
     (if \<not> encrypt then io_return ([], [])
      else if value \<noteq> [] then io_return (value, [])
      else if env_name \<noteq> [] then
        (let p = trim_space (getenv env_name)
         in if p = [] then io_fail (EnvironmentEmpty env_name) else io_return (p, []))
      else resolve_password fault rnd [] file default_file)"

definition resolve_existing_password :: "disk \<Rightarrow> string \<Rightarrow> string \<Rightarrow> string \<Rightarrow> admin_ca_error + (string \<times> string)" where
  "resolve_existing_password d value file default_file =
     (if value \<noteq> [] then Inr (value, [])
      else (let f = (if file = [] then default_file else file)
            in bindE (read_password_file d f) (\<lambda>p. Inr (p, f))))"

section \<open>Creating a root\<close>

record root_flags =
  rf_options :: root_options
  rf_password :: string
  rf_password_env :: string
  rf_password_file :: string
  rf_validity :: string
  rf_not_before :: string

definition default_root_flags :: root_flags where
  "default_root_flags =
     \<lparr>rf_options =
        \<lparr>op_name = ''IronRoot Local Root CA'', op_common_name = [], op_organization = ''IronRoot'', op_unit = [],
         op_country = [], op_province = [], op_locality = [], op_algorithm = ''ecdsa'', op_rsa_bits = 4096,
         op_curve = ''p384'', op_key_format = ''pkcs8'', op_encrypt_key = True, op_password = [], op_lifetime = 0,
         op_not_before = zero_time, op_max_path = 1, op_is_ca = True, op_cert_signing = True, op_crl_signing = True,
         op_server_auth = False, op_client_auth = False, op_code_signing = False, op_email = False,
         op_trust_bundle = True, op_write_pem = True, op_write_der = True, op_offline = True, op_backup_reminder = True,
         op_crl_enabled = False, op_ocsp_enabled = False, op_permitted_dns = [], op_permitted_ip = [],
         op_permitted_email = [], op_out_dir = ''./pki/root'', op_now = zero_time\<rparr>,
      rf_password = [], rf_password_env = [], rf_password_file = [], rf_validity = ''20y'', rf_not_before = []\<rparr>"

definition root_warnings :: "root_options \<Rightarrow> string" where
  "root_warnings opt =
     (if op_encrypt_key opt then []
      else ''WARNING: --encrypt-key=false writes the Root CA private key unencrypted. Use only for throwaway local testing.'' @ nl) @
     (if op_server_auth opt \<or> op_client_auth opt \<or> op_code_signing opt \<or> op_email opt
      then ''WARNING: Root CAs should normally not include leaf certificate usages such as serverAuth, clientAuth, '' @
           ''codeSigning, or emailProtection.'' @ nl else []) @
     (if op_offline opt then []
      else ''WARNING: --offline=false documents an online Root workflow. Production Root CA private keys should remain offline.'' @ nl)"

definition optional_line :: "string \<Rightarrow> string \<Rightarrow> string" where
  "optional_line label v = (if v = [] then [] else ''  '' @ label @ '': '' @ v @ nl)"

definition root_created_text :: "root_result \<Rightarrow> string" where
  "root_created_text r =
     ''Root CA created successfully.'' @ nl @
     ''  certificate: '' @ rs_cert_path r @ nl @ ''  private key: '' @ rs_key_path r @ nl @
     ''  public key: '' @ rs_public_path r @ nl @ ''  metadata: '' @ rs_metadata_path r @ nl @
     ''  fingerprints: '' @ rs_fingerprints_path r @ nl @ ''  recovery notes: '' @ rs_recovery_path r @ nl @
     optional_line ''pem export'' (rs_pem_path r) @ optional_line ''der export'' (rs_der_path r) @
     optional_line ''trust bundle'' (rs_trust_dir r) @
     ''  fingerprint: '' @ rs_fingerprint r @ nl @ ''  expires: '' @ rfc3339 (rs_not_after r) @ nl @
     optional_line ''password file'' (rs_password_file r) @
     nl @ ''IMPORTANT: keep '' @ rs_key_path r @ '' offline, encrypted, out of containers, out of Kubernetes, and out of CI.'' @ nl @
     ''Next step:'' @ nl @ ''  ironroot-admin ca create-intermediate --root-cert '' @ rs_cert_path r @ '' --root-key '' @
     rs_key_path r @ '' '' @
     (if rs_password_file r = [] then ''--root-password <root-password>''
      else ''--root-password-file '' @ rs_password_file r) @ '' --out ./pki/intermediate'' @ nl"

type_synonym ca_command = "disk \<Rightarrow> disk \<times> console \<times> admin_ca_error option"

definition create_root_command ::
  "local_lib \<Rightarrow> fault \<Rightarrow> (string \<Rightarrow> string) \<Rightarrow> (string + char list) \<Rightarrow> (string \<Rightarrow> string + gotime) \<Rightarrow> gotime \<Rightarrow> root_flags \<Rightarrow>
     ca_command" where
  "create_root_command lib fault getenv rnd parse_time clock flags d =
     (let opt = rf_options flags
      in case resolve_root_password fault getenv rnd (rf_password flags) (rf_password_env flags) (rf_password_file flags)
                (join_path [op_out_dir opt, ''root-ca.password'']) (op_encrypt_key opt) d of
           (d1, Inl e) \<Rightarrow> (d1, silent, Some e)
         | (d1, Inr (pass, pass_path)) \<Rightarrow>
         (case parse_days_duration (rf_validity flags) of
            None \<Rightarrow> (d1, silent, Some (BadLifetime (rf_validity flags)))
          | Some dur \<Rightarrow>
         (case (if rf_not_before flags = [] then Inr zero_time else parse_time (rf_not_before flags)) of
            Inl e \<Rightarrow> (d1, silent, Some (BadNotBefore (rf_not_before flags) e))
          | Inr nb \<Rightarrow>
         (case create_root lib fault clock
                 (opt\<lparr>op_password := pass, op_lifetime := dur, op_not_before := nb, op_now := zero_time\<rparr>) d1 of
            (d2, Inl e) \<Rightarrow> (d2, silent\<lparr>con_err := root_warnings opt\<rparr>, Some (CaLocal e))
          | (d2, Inr r) \<Rightarrow>
              (d2, \<lparr>con_out = root_created_text (r\<lparr>rs_password_file := pass_path\<rparr>), con_err = root_warnings opt\<rparr>, None)))))"

section \<open>Creating an intermediate\<close>

record intermediate_flags =
  mf_name :: string
  mf_out :: string
  mf_root_cert :: string
  mf_root_key :: string
  mf_root_password :: string
  mf_root_password_file :: string
  mf_password :: string
  mf_password_file :: string
  mf_lifetime :: string

definition default_intermediate_flags :: intermediate_flags where
  "default_intermediate_flags =
     \<lparr>mf_name = ''IronRoot Local Intermediate CA'', mf_out = ''./pki/intermediate'',
      mf_root_cert = ''./pki/root/root-ca.crt'', mf_root_key = ''./pki/root/root-ca.key'', mf_root_password = [],
      mf_root_password_file = [], mf_password = [], mf_password_file = [], mf_lifetime = ''5y''\<rparr>"

definition intermediate_created_text :: "intermediate_result \<Rightarrow> string" where
  "intermediate_created_text r =
     ''Intermediate CA created successfully.'' @ nl @
     ''  certificate: '' @ ir_cert_path r @ nl @ ''  private key: '' @ ir_key_path r @ nl @ ''  csr: '' @ ir_csr_path r @ nl @
     ''  chain: '' @ ir_chain_path r @ nl @ ''  fingerprint: '' @ ir_fingerprint r @ nl @
     ''  expires: '' @ rfc3339 (ir_not_after r) @ nl @ optional_line ''password file'' (ir_password_file r) @
     nl @ ''Copy the Intermediate CA certificate, encrypted key, chain, and password into the IronRoot server PKI path. '' @
     ''Do not copy the Root CA private key.'' @ nl"

definition create_intermediate_command ::
  "local_lib \<Rightarrow> fault \<Rightarrow> (string + char list) \<Rightarrow> gotime \<Rightarrow> intermediate_flags \<Rightarrow> ca_command" where
  "create_intermediate_command lib fault rnd clock f d =
     (case resolve_existing_password d (mf_root_password f) (mf_root_password_file f)
             (join_path [dir_of (mf_root_key f), ''root-ca.password'']) of
        Inl e \<Rightarrow> (d, silent, Some e)
      | Inr (root_pass, root_path) \<Rightarrow>
      (case resolve_password fault rnd (mf_password f) (mf_password_file f)
              (join_path [mf_out f, ''intermediate-ca.password'']) d of
         (d1, Inl e) \<Rightarrow> (d1, silent, Some e)
       | (d1, Inr (pass, pass_path)) \<Rightarrow>
      (case parse_days_duration (mf_lifetime f) of
         None \<Rightarrow> (d1, silent, Some (BadLifetime (mf_lifetime f)))
       | Some dur \<Rightarrow>
      (case create_intermediate lib fault clock
              \<lparr>io_name = mf_name f, io_out_dir = mf_out f, io_root_cert = mf_root_cert f, io_root_key = mf_root_key f,
               io_root_password = root_pass, io_password = pass, io_lifetime = dur, io_now = zero_time\<rparr> d1 of
         (d2, Inl e) \<Rightarrow> (d2, silent, Some (CaLocal e))
       | (d2, Inr r) \<Rightarrow> (d2, silent\<lparr>con_out := intermediate_created_text (r\<lparr>ir_password_file := pass_path\<rparr>)\<rparr>, None)))))"

section \<open>Inspecting and verifying\<close>

definition show_bool :: "bool \<Rightarrow> string" where "show_bool b = (if b then ''true'' else ''false'')"

definition inspect_table :: "cert_info \<Rightarrow> string" where
  "inspect_table c =
     cn_path c @ nl @ ''  subject: '' @ cn_subject c @ nl @ ''  issuer: '' @ cn_issuer c @ nl @
     ''  algorithm: '' @ cn_algorithm c @ nl @ ''  curve: '' @ cn_curve c @ nl @
     ''  key size: '' @ show_int (cn_key_size c) @ nl @ ''  ca: '' @ show_bool (cn_is_ca c) @ nl @
     ''  max path length: '' @ show_int (cn_max_path c) @ nl @ ''  key usage: '' @ join '', '' (cn_key_usage c) @ nl @
     ''  extended key usage: '' @ join '', '' (cn_ext_usage c) @ nl @ ''  fingerprint: '' @ cn_fingerprint c @ nl @
     ''  valid: '' @ rfc3339 (cn_not_before c) @ '' to '' @ rfc3339 (cn_not_after c) @ nl"

definition md_field :: "string \<Rightarrow> string \<Rightarrow> string" where
  "md_field name v = ''| '' @ name @ '' | `'' @ v @ ''` |'' @ nl"

definition inspect_markdown :: "cert_info \<Rightarrow> string" where
  "inspect_markdown c =
     ''## '' @ cn_path c @ nl @ nl @ ''| Field | Value |'' @ nl @ ''|---|---|'' @ nl @
     md_field ''Subject'' (cn_subject c) @ md_field ''Issuer'' (cn_issuer c) @ md_field ''Algorithm'' (cn_algorithm c) @
     md_field ''Curve'' (cn_curve c) @ md_field ''Key size'' (show_int (cn_key_size c)) @
     md_field ''CA'' (show_bool (cn_is_ca c)) @ md_field ''Max path length'' (show_int (cn_max_path c)) @
     md_field ''Key usage'' (join '', '' (cn_key_usage c)) @ md_field ''Extended key usage'' (join '', '' (cn_ext_usage c)) @
     md_field ''Not before'' (rfc3339 (cn_not_before c)) @ md_field ''Not after'' (rfc3339 (cn_not_after c)) @
     md_field ''SHA-256 fingerprint'' (cn_fingerprint c) @ nl"

definition inspect_command :: "local_lib \<Rightarrow> (cert_info list \<Rightarrow> string) \<Rightarrow> disk \<Rightarrow> string \<Rightarrow> string list \<Rightarrow> admin_ca_error + string" where
  "inspect_command lib json d format paths =
     (case inspect_certificates lib d paths of
        Inl e \<Rightarrow> Inl (CaLocal e)
      | Inr info \<Rightarrow>
          if format = ''json'' then Inr (json info)
          else if format = ''markdown'' then Inr (concat (map inspect_markdown info))
          else if format = ''table'' then Inr (concat (map inspect_table info))
          else Inl (BadInspectFormat format))"

definition verify_chain_command ::
  "local_lib \<Rightarrow> (certificate \<Rightarrow> certificate \<Rightarrow> string option) \<Rightarrow>
     (certificate \<Rightarrow> certificate \<Rightarrow> string \<Rightarrow> certificate \<Rightarrow> string option) \<Rightarrow> disk \<Rightarrow> string \<Rightarrow> string \<Rightarrow> string \<Rightarrow>
     admin_ca_error + string" where
  "verify_chain_command lib signed_by verify d root_path intermediate_path leaf_path =
     (case verify_chain lib signed_by verify d root_path intermediate_path leaf_path of
        Inl e \<Rightarrow> Inl (CaLocal e)
      | Inr u \<Rightarrow> Inr (''Certificate chain verified successfully.'' @ nl))"

section \<open>Checks\<close>

datatype exit_error =
    ExitConfig string | ExitGuide guide_error | ExitFormat | ExitSeverity | ExitReport string | ExitFailures severity

text \<open>\<open>ExitError.ExitCode\<close>.\<close>

fun exit_code :: "exit_error option \<Rightarrow> int" where
  "exit_code None = 0"
| "exit_code (Some (ExitFailures s)) = 1"
| "exit_code (Some e) = 2"

definition bootstrap_command ::
  "(string \<Rightarrow> string + config) \<Rightarrow> fault \<Rightarrow> string \<Rightarrow> bootstrap_options \<Rightarrow> string \<Rightarrow> disk \<Rightarrow> disk \<times> string \<times> exit_error option" where
  "bootstrap_command load fault config_path opts inp d =
     (case load config_path of
        Inl e \<Rightarrow> (d, [], Some (ExitConfig e))
      | Inr cfg \<Rightarrow>
          (case run_bootstrap_guide fault opts inp d of
             (d', out, None) \<Rightarrow> (d', out, None) | (d', out, Some e) \<Rightarrow> (d', out, Some (ExitGuide e))))"

record check_flags =
  kf_config :: string
  kf_output :: string
  kf_fail_on :: string
  kf_write_report :: string

definition default_check_flags :: check_flags where
  "default_check_flags = \<lparr>kf_config = [], kf_output = ''table'', kf_fail_on = ''critical'', kf_write_report = []\<rparr>"

text \<open>
  \<open>open_store\<close> is \<open>db.Open\<close> (\<open>None\<close>: it failed, and the checks run without a store). A report
  file is always Markdown unless JSON was asked for; mode 438 is \<open>0o666\<close>.
\<close>

definition security_check_command ::
  "admin_lib \<Rightarrow> (check_report \<Rightarrow> string) \<Rightarrow> (database_config \<Rightarrow> store option) \<Rightarrow> host \<Rightarrow> fault \<Rightarrow> gotime \<Rightarrow> check_flags \<Rightarrow> disk \<Rightarrow>
     disk \<times> string \<times> exit_error option" where
  "security_check_command lib json open_store h fault now f d =
     (case adm_load lib (kf_config f) of
        Inl e \<Rightarrow> (d, [], Some (ExitConfig e))
      | Inr cfg \<Rightarrow>
     (case parse_output_format (kf_output f) of
        None \<Rightarrow> (d, [], Some ExitFormat)
      | Some format \<Rightarrow>
     (case parse_severity (kf_fail_on f) of
        None \<Rightarrow> (d, [], Some ExitSeverity)
      | Some fail_on \<Rightarrow>
          (let report = security_report h now
                 \<lparr>tg_config = cfg, tg_config_path = kf_config f,
                  tg_store = (if db_driver (cf_database cfg) = [] then None else open_store (cf_database cfg)), tg_now = now\<rparr>;
               out = render (adm_align lib) json report format;
               outcome = (if fails_threshold (rp_checks report) fail_on then Some (ExitFailures fail_on) else None)
           in if kf_write_report f = [] then (d, out, outcome)
              else case write_file fault d (kf_write_report f)
                     (render (adm_align lib) json report (if format = OutputJSON then OutputJSON else OutputMarkdown)) 438 of
                     Inl e \<Rightarrow> (d, out, Some (ExitReport e))
                   | Inr d' \<Rightarrow> (d', out, outcome)))))"

text \<open>\<open>import-intermediate\<close> only looks whether the configured certificate file is there.\<close>

definition import_intermediate :: "(string \<Rightarrow> string + config) \<Rightarrow> string \<Rightarrow> disk \<Rightarrow> string option" where
  "import_intermediate load config_path d =
     (case load config_path of
        Inl e \<Rightarrow> Some e
      | Inr cfg \<Rightarrow>
          if exists_path d (pki_cert_file (cf_pki cfg)) then None else Some ''no such file or directory'')"

end
