(* ===== verification/Ca_Local_Properties.thy ===== *)
theory Ca_Local_Properties
  imports Ca_Local
begin

text \<open>
  What the offline CA workflow guarantees about the certificates it asks the library for, the
  files it leaves behind and the texts it shows an operator.
\<close>

section \<open>Fingerprints and usages\<close>

lemma pairs_concat: "concat (pairs cs) = cs"
  by (induction cs rule: pairs.induct) auto

lemma hex_value_upper: "n < 16 \<Longrightarrow> hex_value (upper_char (hex_digit n)) = Some n"
  by (auto simp: hex_value_def hex_digit_def upper_char_def code_char_of)

lemma hex_decode_upper: "hex_decode (to_upper (hex_encode bs)) = Some bs"
proof (induction bs)
  case Nil
  show ?case by (simp add: to_upper_def)
next
  case (Cons b bs)
  have lt: "code b div 16 < 16" and lt': "code b mod 16 < 16"
    using code_bound [of b] by auto
  have "char_of (16 * (code b div 16) + code b mod 16) = b"
    by (simp only: mult_div_mod_eq) (simp add: code_def)
  with Cons lt lt' show ?case by (simp add: to_upper_def hex_value_upper)
qed

lemma hex_decode_no_colon: "hex_decode cs = Some bs \<Longrightarrow> CHR '':'' \<notin> set cs"
  by (induction cs arbitrary: bs rule: hex_decode.induct)
    (auto split: option.splits simp: hex_value_def code_def)

lemma pairs_subset: "p \<in> set (pairs cs) \<Longrightarrow> set p \<subseteq> set cs"
  by (induction cs rule: pairs.induct) auto

text \<open>
  The fingerprint shown to an operator determines the SHA-256 digest: reading the hexadecimal
  digits between the colons gives it back. Two certificates are shown with the same fingerprint
  exactly when their digests are equal.
\<close>

theorem fingerprint_roundtrip:
  "hex_decode (concat (split_on (CHR '':'') (colon_fingerprint sha der))) = Some (sha der) \<and>
   (colon_fingerprint sha der = colon_fingerprint sha der') = (sha der = sha der')"
proof -
  have rt: "hex_decode (concat (split_on (CHR '':'') (colon_fingerprint sha x))) = Some (sha x)" for x
  proof -
    let ?h = "to_upper (hex_encode (sha x))"
    have nc: "CHR '':'' \<notin> set ?h" by (rule hex_decode_no_colon) (rule hex_decode_upper)
    show ?thesis
    proof (cases "pairs ?h = []")
      case True
      then have "?h = []" using pairs_concat [of ?h] by simp
      then have "sha x = []" using hex_decode_upper [of "sha x"] by simp
      then show ?thesis by (simp add: colon_fingerprint_def to_upper_def)
    next
      case False
      have "split_on (CHR '':'') (join '':'' (pairs ?h)) = pairs ?h"
      proof (rule split_on_join [OF False])
        show "CHR '':'' \<notin> set p" if "p \<in> set (pairs ?h)" for p
          by (rule contra_subsetD [OF pairs_subset [OF that] nc])
      qed
      then show ?thesis by (simp only: colon_fingerprint_def pairs_concat hex_decode_upper)
    qed
  qed
  have "(colon_fingerprint sha der = colon_fingerprint sha der') = (sha der = sha der')"
  proof
    assume "colon_fingerprint sha der = colon_fingerprint sha der'"
    then have "Some (sha der) = Some (sha der')" by (simp only: rt [symmetric])
    then show "sha der = sha der'" by simp
  qed (simp only: colon_fingerprint_def)
  with rt [of der] show ?thesis by (rule conjI)
qed

text \<open>
  The listing of a certificate's key usages loses nothing of the nine bits X.509 defines: two
  values are listed alike exactly when they agree on those bits.
\<close>

lemma usage_names_set: "n \<in> set (key_usage_names u) \<longleftrightarrow> (\<exists>b. (b, n) \<in> set usage_table \<and> and u b \<noteq> 0)"
  by (force simp: key_usage_names_def)

lemma usage_table_names: "(b, n) \<in> set usage_table \<Longrightarrow> (c, n) \<in> set usage_table \<Longrightarrow> b = c"
  by (auto simp: usage_table_def)

theorem usage_names_faithful:
  "(key_usage_names u = key_usage_names v) =
   (\<forall>b \<in> fst ` set usage_table. (and u b = 0) = (and v b = 0))"
proof
  assume eq: "key_usage_names u = key_usage_names v"
  show "\<forall>b \<in> fst ` set usage_table. (and u b = 0) = (and v b = 0)"
  proof
    fix b assume "b \<in> fst ` set usage_table"
    then obtain n where n: "(b, n) \<in> set usage_table" by auto
    have "and w b \<noteq> 0 \<longleftrightarrow> n \<in> set (key_usage_names w)" for w
      using usage_names_set [of n w] usage_table_names [OF n] n by metis
    with eq show "(and u b = 0) = (and v b = 0)" by metis
  qed
next
  assume *: "\<forall>b \<in> fst ` set usage_table. (and u b = 0) = (and v b = 0)"
  have "filter (\<lambda>(b, n). and u b \<noteq> 0) usage_table = filter (\<lambda>(b, n). and v b \<noteq> 0) usage_table"
    by (rule filter_cong) (use * in force)+
  then show "key_usage_names u = key_usage_names v" by (simp add: key_usage_names_def)
qed

section \<open>The root certificate\<close>

lemma default_root_max_path: "op_max_path (default_root_options clock opt) \<noteq> 0"
  by (simp add: default_root_options_def Let_def)

text \<open>Completing options twice changes nothing.\<close>

lemma to_lower_idem: "to_lower (to_lower s) = to_lower s"
proof -
  have "code (lower_char c) < 65 \<or> 90 < code (lower_char c)" for c
    using code_bound [of c] by (auto simp: lower_char_def code_char_of)
  then have "lower_char (lower_char c) = lower_char c" for c
    by (metis lower_char_def not_le)
  then show ?thesis by (simp add: to_lower_def)
qed

lemma to_lower_Nil [simp]: "to_lower s = [] \<longleftrightarrow> s = []"
  by (simp add: to_lower_def)

lemma default_root_idem:
  "\<not> is_zero clock \<Longrightarrow> default_root_options clock' (default_root_options clock opt) = default_root_options clock opt"
  by (simp add: default_root_options_def Let_def to_lower_idem is_zero_def units)

lemma lib_result_Inr: "lib_result r = Inr x \<longleftrightarrow> r = Inr x"
  by (cases r) (auto simp: lib_result_def)

lemmas io_inversion = io_bind_Inr io_lift_Inr lib_result_Inr

lemma write_root_artifacts_result:
  "write_root_artifacts lib fault opt r tpl pub der cert_pem d = (d', Inr r') \<Longrightarrow>
     rs_fingerprint r' = rs_fingerprint r \<and> rs_not_after r' = rs_not_after r \<and> rs_key_path r' = rs_key_path r \<and>
     rs_cert_path r' = rs_cert_path r"
  unfolding write_root_artifacts_def Let_def by (auto simp: io_bind_Inr)

lemma create_root_run:
  assumes "create_root lib fault clock opts d = (d', Inr r)"
  shows "validate_root_options (default_root_options clock opts) = None"
    and "\<exists>serial ips key pub der.
      create_certificate (ll_x509 lib) (root_template (default_root_options clock opts) serial ips) SelfSigned pub
        (SignerKey key) = Inr der \<and>
      rs_fingerprint r = colon_fingerprint (ll_sha lib) der \<and>
      rs_not_after r = tpl_not_after (root_template (default_root_options clock opts) serial ips)"
proof -
  let ?opt = "default_root_options clock opts"
  show *: "validate_root_options ?opt = None"
    using assms by (auto simp: create_root_def Let_def split: option.splits)
  from assms * obtain serial ips key pub der cert_pem d2 r0 where
    c: "create_certificate (ll_x509 lib) (root_template ?opt serial ips) SelfSigned pub (SignerKey key) = Inr der"
    and w: "write_root_artifacts lib fault ?opt r0 (root_template ?opt serial ips) pub der cert_pem d2 = (d', Inr r)"
    and r0: "rs_fingerprint r0 = colon_fingerprint (ll_sha lib) der" "rs_not_after r0 = tpl_not_after (root_template ?opt serial ips)"
    by (fastforce simp: create_root_def Let_def io_inversion split: prod.splits)
  from write_root_artifacts_result [OF w] r0 c
  show "\<exists>serial ips key pub der.
      create_certificate (ll_x509 lib) (root_template ?opt serial ips) SelfSigned pub (SignerKey key) = Inr der \<and>
      rs_fingerprint r = colon_fingerprint (ll_sha lib) der \<and>
      rs_not_after r = tpl_not_after (root_template ?opt serial ips)"
    by metis
qed

lemma validated_root:
  assumes "validate_root_options opt = None"
  shows "0 < op_lifetime opt" "op_lifetime opt \<le> 30 * 365 * 24 * hour" "op_is_ca opt" "op_cert_signing opt"
    "0 \<le> op_max_path opt"
  using assms by (auto simp: validate_root_options_def split: if_splits)

lemma root_cert_sign: "op_cert_signing opt \<Longrightarrow> and (root_key_usage opt) cert_sign \<noteq> 0"
  by (simp add: root_key_usage_def Let_def usage_bits)

text \<open>
  C22. Whatever options it was given, a root certificate that the workflow reports as created was
  asked for as a CA certificate with the certificate signing bit, a path length of at least one
  and an expiry after now and at most thirty years ahead; the reported fingerprint and expiry
  are those of that certificate. In particular a path length of zero, which the checks
  accept, cannot be had: it is replaced by one.
\<close>

theorem created_root_is_ca:
  assumes "create_root lib fault clock opts d = (d', Inr r)"
  shows "\<exists>tpl pub key der now.
    now = (if is_zero (op_now opts) then clock else op_now opts) \<and>
    create_certificate (ll_x509 lib) tpl SelfSigned pub (SignerKey key) = Inr der \<and>
    tpl_is_ca tpl \<and> tpl_basic tpl \<and> and (tpl_key_usage tpl) cert_sign \<noteq> 0 \<and> 1 \<le> tpl_max_path tpl \<and>
    now < tpl_not_after tpl \<and> tpl_not_after tpl \<le> now + 30 * 365 * 24 * hour \<and>
    rs_not_after r = tpl_not_after tpl \<and> rs_fingerprint r = colon_fingerprint (ll_sha lib) der"
proof -
  let ?opt = "default_root_options clock opts"
  note v = validated_root [OF create_root_run(1) [OF assms]]
  from create_root_run(2) [OF assms] obtain serial ips key pub der where
    c: "create_certificate (ll_x509 lib) (root_template ?opt serial ips) SelfSigned pub (SignerKey key) = Inr der"
      "rs_fingerprint r = colon_fingerprint (ll_sha lib) der"
      "rs_not_after r = tpl_not_after (root_template ?opt serial ips)" by blast
  have now: "op_now ?opt = (if is_zero (op_now opts) then clock else op_now opts)"
    by (simp add: default_root_options_def Let_def)
  have "1 \<le> op_max_path ?opt" using v(5) default_root_max_path [of clock opts] by linarith
  with v root_cert_sign [OF v(4)] c now show ?thesis
    by (intro exI [of _ "root_template ?opt serial ips"] exI [of _ pub] exI [of _ key] exI [of _ der] exI [of _ "op_now ?opt"])
      (simp add: root_template_def)
qed

section \<open>The intermediate certificate\<close>

lemma mkdir_reads: "mkdir_all fault d q = Inr d' \<Longrightarrow> read_file d' p = Inr c \<Longrightarrow> read_file d p = Inr c"
  by (auto simp: mkdir_all_def Let_def fold_mkdir read_file_def split: if_splits option.splits node.splits)

lemma mkdir_read_cert:
  "mkdir_all fault d q = Inr d' \<Longrightarrow> read_cert lib d' p = Inr x \<Longrightarrow> read_cert lib d p = Inr x"
  using mkdir_reads [of fault d q d' p]
  by (auto simp: read_cert_def split: sum.splits)

lemma intermediate_names [simp]:
  "plain_name ''intermediate-ca.key''" "plain_name ''intermediate-ca.csr''" "plain_name ''intermediate-ca.crt''"
  "plain_name ''ca-chain.crt''"
  by (simp_all add: plain_name_def)

text \<open>A successful run, step by step; \<open>d1\<close> is the disk once the output directory exists.\<close>

lemma create_intermediate_run:
  assumes "create_intermediate lib fault clock opts d = (d', Inr r)"
  obtains d1 d2 d3 d4 root_cert root_pem root_key key pub csr_der serial der
  where "io_root_password opts \<noteq> []" and "io_password opts \<noteq> []"
    and "mkdir_all fault d (io_out_dir (default_intermediate_options clock opts)) = Inr d1"
    and "read_cert lib d1 (io_root_cert opts) = Inr (root_cert, root_pem)"
    and "read_private_key lib d1 (io_root_key opts) (io_root_password opts) = Inr root_key"
    and "ll_generate_ecdsa lib P256 = Inr (key, pub)"
    and "tpl_not_after (intermediate_template (default_intermediate_options clock opts) serial) \<le> ct_not_after root_cert"
    and "create_certificate (ll_x509 lib) (intermediate_template (default_intermediate_options clock opts) serial)
           (SignedBy root_cert) pub (SignerKey root_key) = Inr der"
    and "ir_not_after r = tpl_not_after (intermediate_template (default_intermediate_options clock opts) serial)"
    and "write_pkcs8_key lib fault (ir_key_path r) key (io_password opts) True d1 = (d2, Inr ())"
    and "write_file fault d2 (ir_csr_path r) (pem_text lib ''CERTIFICATE REQUEST'' csr_der) 420 = Inr d3"
    and "write_file fault d3 (ir_cert_path r) (pem_text lib ''CERTIFICATE'' der) 420 = Inr d4"
    and "write_file fault d4 (ir_chain_path r) (pem_text lib ''CERTIFICATE'' der @ root_pem) 420 = Inr d'"
    and "distinct [ir_key_path r, ir_csr_path r, ir_cert_path r, ir_chain_path r]"
proof -
  let ?o = "default_intermediate_options clock opts"
  have o: "io_root_password ?o = io_root_password opts" "io_password ?o = io_password opts"
    "io_root_cert ?o = io_root_cert opts" "io_root_key ?o = io_root_key opts"
    by (simp_all add: default_intermediate_options_def)
  have pw: "io_root_password opts \<noteq> []" "io_password opts \<noteq> []"
    using assms by (auto simp: create_intermediate_def Let_def o split: if_splits)
  show thesis
    using assms pw
    by (auto simp: create_intermediate_def Let_def o io_inversion io_read_def io_mkdir_Inr io_write_Inr join_path_inject
        not_less split: if_splits intro!: that)
qed

text \<open>
  C23. An intermediate CA is only created below the root certificate found at the given path: it
  does not outlive that root, may not have further CAs below it, and the chain file holds it
  followed by the root. Both passwords must have been given.
\<close>

theorem intermediate_within_root:
  assumes "create_intermediate lib fault clock opts d = (d', Inr r)"
  shows "\<exists>root_cert root_pem root_key tpl pub der.
    read_cert lib d (io_root_cert opts) = Inr (root_cert, root_pem) \<and>
    create_certificate (ll_x509 lib) tpl (SignedBy root_cert) pub (SignerKey root_key) = Inr der \<and>
    tpl_is_ca tpl \<and> tpl_max_path tpl = 0 \<and> tpl_max_path_zero tpl \<and>
    ir_not_after r = tpl_not_after tpl \<and> tpl_not_after tpl \<le> ct_not_after root_cert \<and>
    read_file d' (ir_chain_path r) = Inr (pem_text lib ''CERTIFICATE'' der @ root_pem) \<and>
    read_file d' (ir_cert_path r) = Inr (pem_text lib ''CERTIFICATE'' der) \<and>
    io_root_password opts \<noteq> [] \<and> io_password opts \<noteq> []"
  using assms
proof (rule create_intermediate_run)
  fix d1 d2 d3 d4 root_cert root_pem root_key key pub csr_der serial der
  assume pw: "io_root_password opts \<noteq> []" "io_password opts \<noteq> []"
    and mk: "mkdir_all fault d (io_out_dir (default_intermediate_options clock opts)) = Inr d1"
    and rc: "read_cert lib d1 (io_root_cert opts) = Inr (root_cert, root_pem)"
    and na: "tpl_not_after (intermediate_template (default_intermediate_options clock opts) serial) \<le> ct_not_after root_cert"
    and der: "create_certificate (ll_x509 lib) (intermediate_template (default_intermediate_options clock opts) serial)
           (SignedBy root_cert) pub (SignerKey root_key) = Inr der"
    and ina: "ir_not_after r = tpl_not_after (intermediate_template (default_intermediate_options clock opts) serial)"
    and crt: "write_file fault d3 (ir_cert_path r) (pem_text lib ''CERTIFICATE'' der) 420 = Inr d4"
    and chain: "write_file fault d4 (ir_chain_path r) (pem_text lib ''CERTIFICATE'' der @ root_pem) 420 = Inr d'"
    and dist: "distinct [ir_key_path r, ir_csr_path r, ir_cert_path r, ir_chain_path r]"
  let ?tpl = "intermediate_template (default_intermediate_options clock opts) serial"
  have "tpl_is_ca ?tpl \<and> tpl_max_path ?tpl = 0 \<and> tpl_max_path_zero ?tpl"
    by (simp add: intermediate_template_def)
  moreover have "read_file d' (ir_cert_path r) = Inr (pem_text lib ''CERTIFICATE'' der)"
    using read_after_other_write [OF chain] read_after_write [OF crt] dist by simp
  ultimately show ?thesis
    using pw mkdir_read_cert [OF mk rc] na der ina read_after_write [OF chain] by blast
qed

text \<open>The key file of a run can be read back with the password it was written with.\<close>

lemma write_pkcs8_key_run:
  assumes "write_pkcs8_key lib fault path key pw True d = (d', Inr ())"
  obtains der b where "ll_marshal_pkcs8 lib key = Inr der"
    and "encrypt_private_key (ll_cipher lib) (ll_salt lib) (ll_nonce lib) der pw = Inr b"
    and "write_file fault d path (pem_encode (ll_x509 lib) b) 384 = Inr d'"
  using assms
  by (auto simp: write_pkcs8_key_def pkcs8_block_def io_inversion io_write_Inr bindE_eq_Inr
      split: if_splits sum.splits intro: that)

text \<open>
  C24. The private key file of a new intermediate CA decrypts, with the password the operator gave,
  to exactly the key that was certified; without it, opening the file is an error or a wrong
  key only if the cipher is. Assumed of the library: PEM, PKCS#8 and AES-GCM round trips, and
  that salt and nonce are 16 and 12 bytes.
\<close>

theorem intermediate_key_readable:
  assumes "create_intermediate lib fault clock opts d = (d', Inr r)"
    and "\<And>b. pem_decode (ll_x509 lib) (pem_encode (ll_x509 lib) b) = Some b"
    and "\<And>k n x. gcm_open (ll_cipher lib) k n (gcm_seal (ll_cipher lib) k n x) = Some x"
    and "\<And>k der. ll_marshal_pkcs8 lib k = Inr der \<Longrightarrow> parse_pkcs8 (ll_x509 lib) der = Inr (SignerKey k)"
    and "ll_salt lib = Inr salt" and "length salt = 16" and "ll_nonce lib = Inr nonce" and "length nonce = 12"
  shows "\<exists>key pub tpl parent signer der. ll_generate_ecdsa lib P256 = Inr (key, pub) \<and>
    create_certificate (ll_x509 lib) tpl parent pub signer = Inr der \<and>
    read_file d' (ir_cert_path r) = Inr (pem_text lib ''CERTIFICATE'' der) \<and>
    read_private_key lib d' (ir_key_path r) (io_password opts) = Inr key"
  using assms(1)
proof (rule create_intermediate_run)
  fix d1 d2 d3 d4 root_cert root_pem root_key key pub csr_der serial der
  assume gen: "ll_generate_ecdsa lib P256 = Inr (key, pub)"
    and der: "create_certificate (ll_x509 lib) (intermediate_template (default_intermediate_options clock opts) serial)
           (SignedBy root_cert) pub (SignerKey root_key) = Inr der"
    and kw: "write_pkcs8_key lib fault (ir_key_path r) key (io_password opts) True d1 = (d2, Inr ())"
    and w3: "write_file fault d2 (ir_csr_path r) (pem_text lib ''CERTIFICATE REQUEST'' csr_der) 420 = Inr d3"
    and w4: "write_file fault d3 (ir_cert_path r) (pem_text lib ''CERTIFICATE'' der) 420 = Inr d4"
    and w5: "write_file fault d4 (ir_chain_path r) (pem_text lib ''CERTIFICATE'' der @ root_pem) 420 = Inr d'"
    and dist: "distinct [ir_key_path r, ir_csr_path r, ir_cert_path r, ir_chain_path r]"
  from kw obtain kder b where m: "ll_marshal_pkcs8 lib key = Inr kder"
    and e: "encrypt_private_key (ll_cipher lib) (ll_salt lib) (ll_nonce lib) kder (io_password opts) = Inr b"
    and w2: "write_file fault d1 (ir_key_path r) (pem_encode (ll_x509 lib) b) 384 = Inr d2"
    by (rule write_pkcs8_key_run)
  have eb: "encrypt_private_key (ll_cipher lib) (Inr salt) (Inr nonce) kder (io_password opts) = Inr b"
    using e assms(5,7) by simp
  have ne: "salt \<noteq> []" "nonce \<noteq> []" using assms(6,8) by auto
  have dec: "is_encrypted_block b \<and> decrypt_private_key (ll_cipher lib) b (io_password opts) = Inr kder"
    using assms(3,8) ne by (simp add: is_encrypted_block_def decrypt_private_key_def Let_def encrypted_headers [OF eb]
        hex_decode_encode atoi_iterations nonce_size_def)
  have "read_file d' (ir_key_path r) = Inr (pem_encode (ll_x509 lib) b)"
    using read_after_other_write [OF w5] read_after_other_write [OF w4] read_after_other_write [OF w3]
      read_after_write [OF w2] dist by simp
  then have "read_private_key lib d' (ir_key_path r) (io_password opts) = Inr key"
    using dec assms(2) assms(4) [OF m] by (simp add: read_private_key_def parse_private_key_def lib_result_def)
  moreover have "read_file d' (ir_cert_path r) = Inr (pem_text lib ''CERTIFICATE'' der)"
    using read_after_other_write [OF w5] read_after_write [OF w4] dist by simp
  ultimately show ?thesis using gen der by blast
qed

section \<open>A password is needed\<close>

lemma read_keeps_files [keeps]: "keeps_files (io_read f)"
  by (simp add: keeps_files_def io_read_def)

lemma keeps_files_case_prod [keeps]: "(\<And>a b. keeps_files (f a b)) \<Longrightarrow> keeps_files (case x of (a, b) \<Rightarrow> f a b)"
  by (cases x) simp

lemma keyless_write:
  assumes "pw = []"
  shows "\<exists>e. write_pkcs8_key lib fault path key pw True = io_fail e"
proof (cases "pkcs8_block lib key pw True")
  case (Inl e)
  then have "write_pkcs8_key lib fault path key pw True = io_fail e"
    by (simp add: fun_eq_iff write_pkcs8_key_def io_bind_lift)
  then show ?thesis by blast
next
  case (Inr b)
  with assms show ?thesis by (auto simp: pkcs8_block_def bindE_eq_Inr)
qed

lemma bind_fail: "io_bind (io_fail e) f = io_fail e"
  by (simp add: fun_eq_iff io_bind_def)

text \<open>
  With encryption of the root key asked for but no password, creating a root fails before any
  file is written: every file already on the disk, a former root key among them, is as it was.
\<close>

theorem root_needs_password:
  assumes "op_encrypt_key opts" and "op_password opts = []"
  shows "(\<exists>e. snd (create_root lib fault clock opts d) = Inl e) \<and>
    (d p = Some (File c m) \<longrightarrow> fst (create_root lib fault clock opts d) p = Some (File c m))"
proof -
  have e: "op_encrypt_key (default_root_options clock opts)" "op_password (default_root_options clock opts) = []"
    using assms by (simp_all add: default_root_options_def Let_def)
  have "\<forall>path key. \<exists>x. write_pkcs8_key lib fault path key (op_password (default_root_options clock opts))
      (op_encrypt_key (default_root_options clock opts)) = io_fail x"
    using keyless_write [OF e(2)] e(1) by simp
  then obtain x where fail: "\<And>path key. write_pkcs8_key lib fault path key (op_password (default_root_options clock opts))
      (op_encrypt_key (default_root_options clock opts)) = io_fail (x path key)"
    by metis
  have run: "create_root lib fault clock opts =
    (case validate_root_options (default_root_options clock opts) of
       Some e \<Rightarrow> io_fail e
     | None \<Rightarrow> io_bind (io_mkdir OsError fault (op_out_dir (default_root_options clock opts))) (\<lambda>_.
         io_bind (io_lift (generate_signer lib (op_algorithm (default_root_options clock opts))
             (op_rsa_bits (default_root_options clock opts)) (op_curve (default_root_options clock opts)))) (\<lambda>(key, pub).
         io_bind (io_lift (lib_result (ll_serial lib))) (\<lambda>serial.
         io_bind (io_lift (parse_ip_ranges (ll_parse_cidr lib) (op_permitted_ip (default_root_options clock opts)))) (\<lambda>ips.
         io_bind (io_lift (lib_result (create_certificate (ll_x509 lib)
             (root_template (default_root_options clock opts) serial ips) SelfSigned pub (SignerKey key)))) (\<lambda>der.
         io_fail (x (join_path [op_out_dir (default_root_options clock opts), ''root-ca.key'']) key)))))))"
    by (simp only: create_root_def Let_def fail bind_fail)
  have "keeps_files (create_root lib fault clock opts)"
    unfolding run by (cases "validate_root_options (default_root_options clock opts)") (simp_all, (intro keeps)+)
  moreover have "snd (create_root lib fault clock opts d) \<noteq> Inr r" for r
    unfolding run by (auto simp: io_bind_def split: option.split prod.splits sum.splits)
  then have "\<exists>e. snd (create_root lib fault clock opts d) = Inl e"
    by (metis sum.exhaust)
  ultimately show ?thesis
    unfolding keeps_files_def by simp
qed

section \<open>A concrete library\<close>

text \<open>
  PEM as a comma-separated list of the hexadecimal fields of a block, for the witnesses: it
  satisfies the round trip.
\<close>

fun flatten_headers :: "(string \<times> string) list \<Rightarrow> string list" where
  "flatten_headers [] = []"
| "flatten_headers ((k, v) # hs) = k # v # flatten_headers hs"

fun unflatten_headers :: "string list \<Rightarrow> (string \<times> string) list" where
  "unflatten_headers (k # v # hs) = (k, v) # unflatten_headers hs"
| "unflatten_headers _ = []"

definition demo_pem_encode :: "pem_block \<Rightarrow> string" where
  "demo_pem_encode b = join '','' (map hex_encode (pb_type b # pb_bytes b # flatten_headers (pb_headers b)))"

definition demo_pem_decode :: "string \<Rightarrow> pem_block option" where
  "demo_pem_decode s =
     (case map hex_decode (split_on (CHR '','') s) of
        Some t # Some c # hs \<Rightarrow> Some \<lparr>pb_type = t, pb_headers = unflatten_headers (map the hs), pb_bytes = c\<rparr>
      | _ \<Rightarrow> None)"

lemma hex_decode_no_comma: "hex_decode cs = Some bs \<Longrightarrow> CHR '','' \<notin> set cs"
  by (induction cs arbitrary: bs rule: hex_decode.induct)
    (auto split: option.splits simp: hex_value_def code_def)

lemma unflatten_flatten: "unflatten_headers (flatten_headers hs) = hs"
  by (induction hs rule: flatten_headers.induct) auto

lemma map_hex_decode: "map (hex_decode \<circ> hex_encode) xs = map Some xs"
  by (simp add: hex_decode_encode)

lemma demo_pem_roundtrip: "demo_pem_decode (demo_pem_encode b) = Some b"
proof -
  have "split_on (CHR '','') (demo_pem_encode b) = map hex_encode (pb_type b # pb_bytes b # flatten_headers (pb_headers b))"
    unfolding demo_pem_encode_def
  proof (rule split_on_join)
    show "CHR '','' \<notin> set x" if "x \<in> set (map hex_encode (pb_type b # pb_bytes b # flatten_headers (pb_headers b)))" for x
      using that hex_decode_no_comma [OF hex_decode_encode] by (metis ex_map_conv)
  qed simp
  then show ?thesis
    by (simp add: demo_pem_decode_def hex_decode_encode comp_def unflatten_flatten)
qed

definition demo_local :: local_lib where
  "demo_local =
     \<lparr>ll_x509 = demo_lib\<lparr>pem_decode := demo_pem_decode, pem_encode := demo_pem_encode\<rparr>, ll_cipher = demo_suite,
      ll_sha = rev, ll_generate_rsa = (\<lambda>n. Inr (''rsa'', RsaPublic n ''n'')),
      ll_generate_ecdsa = (\<lambda>c. Inr (''k'', EcdsaPublic c ''q'')), ll_marshal_pkcs8 = Inr, ll_marshal_pkix = (\<lambda>k. Inr ''pub''),
      ll_create_request = (\<lambda>n k. Inr ''csr''), ll_serial = Inr 7, ll_salt = Inr (replicate 16 CHR ''s''),
      ll_nonce = Inr (replicate 12 CHR ''n''), ll_parse_cidr = Inr, ll_name_text = dn_common_name,
      ll_render_json = (\<lambda>fields. ''{}'')\<rparr>"

definition demo_root_options :: root_options where
  "demo_root_options =
     \<lparr>op_name = [], op_common_name = [], op_organization = [], op_unit = [], op_country = [], op_province = [],
      op_locality = [], op_algorithm = [], op_rsa_bits = 0, op_curve = [], op_key_format = [], op_encrypt_key = True,
      op_password = ''pw'', op_lifetime = 0, op_not_before = zero_time, op_max_path = 0, op_is_ca = True,
      op_cert_signing = True, op_crl_signing = True, op_server_auth = False, op_client_auth = False,
      op_code_signing = False, op_email = False, op_trust_bundle = False, op_write_pem = True, op_write_der = False,
      op_offline = True, op_backup_reminder = True, op_crl_enabled = False, op_ocsp_enabled = False,
      op_permitted_dns = [], op_permitted_ip = [''10.0.0.0/8''], op_permitted_email = [], op_out_dir = ''.'',
      op_now = zero_time\<rparr>"


definition no_fault :: fault where "no_fault p = None"
definition empty_disk :: disk where "empty_disk = [''.'' \<mapsto> Dir]"

definition demo_intermediate_options :: intermediate_options where
  "demo_intermediate_options =
     \<lparr>io_name = [], io_out_dir = ''.'', io_root_cert = ''r.crt'', io_root_key = ''r.key'', io_root_password = ''a'',
      io_password = ''b'', io_lifetime = hour, io_now = 5\<rparr>"

definition demo_root_disk :: disk where
  "demo_root_disk =
     [''.'' \<mapsto> Dir,
      ''r.crt'' \<mapsto> File (demo_pem_encode \<lparr>pb_type = ''CERTIFICATE'', pb_headers = [], pb_bytes = ''root''\<rparr>) 420,
      ''r.key'' \<mapsto> File (demo_pem_encode \<lparr>pb_type = ''PRIVATE KEY'', pb_headers = [], pb_bytes = ''rk''\<rparr>) 384]"

definition demo_root_lib :: local_lib where
  "demo_root_lib = demo_local\<lparr>ll_x509 := (ll_x509 demo_local)\<lparr>parse_certificate :=
     (\<lambda>b. Inr (demo_ca_cert\<lparr>ct_raw := b, ct_not_after := 24 * hour\<rparr>))\<rparr>\<rparr>"

text \<open>Runs in the current directory, where it exists and holds no directory of the file's name.\<close>

lemma join_path_here: "plain_name n \<Longrightarrow> join_path [''.'', n] = n"
  by (simp add: join_path_plain dir_prefix_def is_abs_def Let_def)

lemma write_here: "plain_name n \<Longrightarrow> d n = None \<Longrightarrow> io_write err no_fault n c m d = (d(n \<mapsto> File c m), Inr ())"
  by (simp add: io_write_def io_update_def write_file_def no_fault_def parent_path_def split_on_no_sep plain_name_def)

lemma mkdir_here: "d p = Some Dir \<Longrightarrow> io_mkdir err no_fault p d = (d, Inr ())"
  by (simp add: io_mkdir_def io_update_def mkdir_all_def is_dir_def)

lemma io_bind_read: "io_bind (io_read g) f d = io_bind (io_lift (g d)) f d"
  by (simp add: io_bind_def io_read_def)

lemmas io_bind_sum = io_bind_pure io_bind_read

lemma io_bind_write:
  "plain_name n \<Longrightarrow> d n = None \<Longrightarrow> io_bind (io_write err no_fault n c m) f d = f () (d(n \<mapsto> File c m))"
  "d p = Some Dir \<Longrightarrow> io_bind (io_mkdir err no_fault p) f d = f () d"
  by (rule io_bind_step, simp add: write_here mkdir_here)+

lemmas run_simps = io_bind_sum io_bind_write lib_result_def

lemma root_file_names [simp]:
  "plain_name ''root-ca.key''" "plain_name ''root-ca.crt''" "plain_name ''root-ca.pub''" "plain_name ''root-ca.pem''"
  "plain_name ''root-ca.der''" "plain_name ''metadata.json''" "plain_name ''fingerprints.txt''" "plain_name ''recovery.txt''"
  by (simp_all add: plain_name_def)

lemma demo_root_defaults:
  "default_root_options 0 demo_root_options = demo_root_options
     \<lparr>op_name := ''IronRoot Local Root CA'', op_common_name := ''IronRoot Local Root CA'', op_organization := ''IronRoot'',
      op_algorithm := ''ecdsa'', op_rsa_bits := 4096, op_curve := ''p384'', op_key_format := ''pkcs8'',
      op_lifetime := 20 * 365 * 24 * hour, op_now := 0, op_not_before := - minute, op_max_path := 1\<rparr>"
proof -
  have "to_lower ''ecdsa'' = ''ecdsa''" "to_lower ''p384'' = ''p384''" "to_lower ''pkcs8'' = ''pkcs8''" by code_simp+
  then show ?thesis by (simp add: default_root_options_def demo_root_options_def Let_def is_zero_def zero_time_def)
qed

lemma demo_root_valid: "validate_root_options (default_root_options 0 demo_root_options) = None"
proof -
  have "elliptic_curve ''p384'' = Some P384" by code_simp
  then show ?thesis
    unfolding demo_root_defaults by (simp add: validate_root_options_def demo_root_options_def units)
qed

lemma io_bind_assoc: "io_bind (io_bind m f) g = io_bind m (\<lambda>x. io_bind (f x) g)"
  by (simp add: fun_eq_iff io_bind_def split: prod.split sum.split)

lemma demo_key_written:
  "plain_name n \<Longrightarrow> d n = None \<Longrightarrow> pw \<noteq> [] \<Longrightarrow> \<exists>b.
     write_pkcs8_key (demo_local\<lparr>ll_x509 := x\<rparr>) no_fault n key pw True d = (d(n \<mapsto> File (pem_encode x b) 384), Inr ())"
  by (auto simp: write_pkcs8_key_def pkcs8_block_def demo_local_def lib_result_def encrypt_private_key_def io_bind_sum write_here)

lemma demo_root_created: "\<exists>d' r. create_root demo_local no_fault 0 demo_root_options empty_disk = (d', Inr r)"
proof -
  have ec: "elliptic_curve ''p384'' = Some P384" and tr: "trim_space ''10.0.0.0/8'' = ''10.0.0.0/8''" by code_simp+
  let ?d = "default_root_options 0 demo_root_options"
  have o: "op_out_dir ?d = ''.''" "op_encrypt_key ?d" "op_password ?d = ''pw''" "\<not> op_trust_bundle ?d" "op_write_pem ?d"
     "\<not> op_write_der ?d" "op_algorithm ?d = ''ecdsa''" "op_curve ?d = ''p384''" "op_permitted_ip ?d = [''10.0.0.0/8'']"
    unfolding demo_root_defaults by (simp_all add: demo_root_options_def)
  have d: "empty_disk ''.'' = Some Dir" "p \<noteq> ''.'' \<Longrightarrow> empty_disk p = None" for p by (simp_all add: empty_disk_def)
  have g: "generate_signer demo_local ''ecdsa'' b ''p384'' = Inr (''k'', EcdsaPublic P384 ''q'')" for b
    by (simp add: generate_signer_def ec demo_local_def lib_result_def)
  have ip: "parse_ip_ranges (ll_parse_cidr demo_local) [''10.0.0.0/8''] = Inr [''10.0.0.0/8'']"
    by (simp add: tr demo_local_def)
  have libs: "ll_serial demo_local = Inr 7" "ll_marshal_pkix demo_local k = Inr ''pub''"
    "create_certificate (ll_x509 demo_local) t p k' s = Inr (show_hex (tpl_serial t))" for k t p k' s
    by (simp_all add: demo_local_def demo_lib_def)
  obtain b where kw: "write_pkcs8_key demo_local no_fault ''root-ca.key'' ''k'' ''pw'' True empty_disk =
      (empty_disk(''root-ca.key'' \<mapsto> File b 384), Inr ())"
    using demo_key_written [of "''root-ca.key''" empty_disk "''pw''" "ll_x509 demo_local" "''k''"] d by auto
  have kwb: "io_bind (write_pkcs8_key demo_local no_fault ''root-ca.key'' ''k'' ''pw'' True) f empty_disk =
      f () (empty_disk(''root-ca.key'' \<mapsto> File b 384))" for f
    by (rule io_bind_step) (rule kw)
  show ?thesis
    by (simp add: create_root_def Let_def demo_root_valid o join_path_here io_bind_write io_bind_sum d g ip libs lib_result_def
        kwb write_root_artifacts_def io_when_def del: parse_ip_ranges.simps)
qed

lemma demo_intermediate_created:
  "\<exists>d' r. create_intermediate demo_root_lib no_fault 0 demo_intermediate_options demo_root_disk = (d', Inr r)"
proof -
  let ?d = "default_intermediate_options 0 demo_intermediate_options"
  have o: "io_out_dir ?d = ''.''" "io_root_password ?d = ''a''" "io_password ?d = ''b''" "io_root_cert ?d = ''r.crt''"
      "io_root_key ?d = ''r.key''" "io_lifetime ?d = hour" "io_now ?d = 5"
    by (simp_all add: default_intermediate_options_def demo_intermediate_options_def is_zero_def zero_time_def units)
  have lib: "pem_decode (ll_x509 demo_root_lib) = demo_pem_decode" "pem_encode (ll_x509 demo_root_lib) = demo_pem_encode"
      "ll_generate_ecdsa demo_root_lib c = Inr (''k'', EcdsaPublic c ''q'')" "ll_create_request demo_root_lib n k = Inr ''csr''"
      "ll_serial demo_root_lib = Inr 7"
      "parse_certificate (ll_x509 demo_root_lib) b = Inr (demo_ca_cert\<lparr>ct_raw := b, ct_not_after := 24 * hour\<rparr>)"
      "parse_pkcs8 (ll_x509 demo_root_lib) b = Inr (SignerKey b)"
      "create_certificate (ll_x509 demo_root_lib) t pa k' s = Inr (show_hex (tpl_serial t))" for c n k b t pa k' s
    by (simp_all add: demo_root_lib_def demo_local_def demo_lib_def)
  have d: "demo_root_disk ''.'' = Some Dir"
      "read_file demo_root_disk ''r.crt'' = Inr (demo_pem_encode \<lparr>pb_type = ''CERTIFICATE'', pb_headers = [], pb_bytes = ''root''\<rparr>)"
      "read_file demo_root_disk ''r.key'' = Inr (demo_pem_encode \<lparr>pb_type = ''PRIVATE KEY'', pb_headers = [], pb_bytes = ''rk''\<rparr>)"
      "p \<notin> {''.'', ''r.crt'', ''r.key''} \<Longrightarrow> demo_root_disk p = None" for p
    by (simp_all add: demo_root_disk_def read_file_def)
  have reads: "\<exists>c s. read_cert demo_root_lib demo_root_disk ''r.crt'' = Inr (c, s) \<and> ct_not_after c = 24 * hour"
      "read_private_key demo_root_lib demo_root_disk ''r.key'' ''a'' = Inr ''rk''"
    by (simp_all add: read_cert_def read_private_key_def d lib demo_pem_roundtrip lib_result_def is_encrypted_block_def
        parse_private_key_def)
  then obtain c s where rc: "read_cert demo_root_lib demo_root_disk ''r.crt'' = Inr (c, s)" "ct_not_after c = 24 * hour" by blast
  obtain b where kw: "write_pkcs8_key demo_root_lib no_fault ''intermediate-ca.key'' ''k'' ''b'' True demo_root_disk =
      (demo_root_disk(''intermediate-ca.key'' \<mapsto> File b 384), Inr ())"
    using demo_key_written [of "''intermediate-ca.key''" demo_root_disk "''b''" "ll_x509 demo_root_lib" "''k''"] d(4)
    by (auto simp: demo_root_lib_def)
  have kwb: "io_bind (write_pkcs8_key demo_root_lib no_fault ''intermediate-ca.key'' ''k'' ''b'' True) f demo_root_disk =
      f () (demo_root_disk(''intermediate-ca.key'' \<mapsto> File b 384))" for f
    by (rule io_bind_step) (rule kw)
  have "tpl_not_after (intermediate_template ?d 7) \<le> 24 * hour" by (simp add: intermediate_template_def o units)
  then show ?thesis
    by (simp add: create_intermediate_def Let_def o join_path_here io_bind_write io_bind_sum d(1,4) rc reads(2) lib
        lib_result_def kwb not_less)
qed

theorem created_root_is_ca_witness:
  "\<exists>tpl pub key der. create_certificate (ll_x509 demo_local) tpl SelfSigned pub (SignerKey key) = Inr der \<and>
     tpl_is_ca tpl \<and> 1 \<le> tpl_max_path tpl \<and> op_max_path demo_root_options = 0"
proof -
  obtain d' r where "create_root demo_local no_fault 0 demo_root_options empty_disk = (d', Inr r)"
    using demo_root_created by blast
  from created_root_is_ca [OF this] show ?thesis by (auto simp: demo_root_options_def)
qed

theorem intermediate_within_root_witness:
  "\<exists>d' r root root_pem. create_intermediate demo_root_lib no_fault 0 demo_intermediate_options demo_root_disk = (d', Inr r) \<and>
     read_cert demo_root_lib demo_root_disk ''r.crt'' = Inr (root, root_pem) \<and> ir_not_after r \<le> ct_not_after root"
proof -
  obtain d' r where run: "create_intermediate demo_root_lib no_fault 0 demo_intermediate_options demo_root_disk = (d', Inr r)"
    using demo_intermediate_created by blast
  from intermediate_within_root [OF run] obtain root root_pem
    where "read_cert demo_root_lib demo_root_disk ''r.crt'' = Inr (root, root_pem)" and "ir_not_after r \<le> ct_not_after root"
    by (auto simp: demo_intermediate_options_def)
  with run show ?thesis by blast
qed

theorem intermediate_key_readable_witness:
  "\<exists>d' r key. create_intermediate demo_root_lib no_fault 0 demo_intermediate_options demo_root_disk = (d', Inr r) \<and>
     read_private_key demo_root_lib d' (ir_key_path r) ''b'' = Inr key"
proof -
  obtain d' r where run: "create_intermediate demo_root_lib no_fault 0 demo_intermediate_options demo_root_disk = (d', Inr r)"
    using demo_intermediate_created by blast
  have "gcm_open (ll_cipher demo_root_lib) k n (gcm_seal (ll_cipher demo_root_lib) k n x) = Some x" for k n x
    using has_prefix_self [of "k @ n" x] by (simp add: demo_root_lib_def demo_local_def demo_suite_def)
  from intermediate_key_readable [OF run _ this, of "replicate 16 CHR ''s''" "replicate 12 CHR ''n''"] run
  show ?thesis
    by (force simp: demo_root_lib_def demo_local_def demo_pem_roundtrip demo_lib_def demo_intermediate_options_def)
qed

theorem root_needs_password_witness:
  "\<exists>e. snd (create_root demo_local no_fault 0 (demo_root_options\<lparr>op_password := []\<rparr>) demo_root_disk) = Inl e"
  using root_needs_password [of "demo_root_options\<lparr>op_password := []\<rparr>" demo_local no_fault 0 demo_root_disk "''r.key''"]
  by (simp add: demo_root_options_def)


end
