(* ===== verification/Security_Properties.thy ===== *)
theory Security_Properties
  imports Security_Checks Security_Bootstrap
begin

text \<open>What the report of the security self-check says, and what its threshold guarantees.\<close>

section \<open>Lemmas\<close>

definition report_keys :: "(string \<times> string) list" where
  "report_keys =
     [(''api'', ''api.bind_address''), (''api'', ''api.tls_enabled''), (''audit'', ''audit.enabled''),
      (''audit'', ''audit.ledger_chain_valid''), (''ca'', ''ca.chain.valid''), (''ca'', ''ca.intermediate.private_key''),
      (''ca'', ''ca.lifetimes''), (''ca'', ''ca.root.private_key_absent''), (''container'', ''container.runtime''),
      (''database'', ''database.reachable''), (''database'', ''database.sqlite_kubernetes_pvc''),
      (''database'', ''host.database_permissions''), (''host'', ''host.ca_permissions''),
      (''host'', ''host.config_permissions''), (''host'', ''host.env_sensitive_values''), (''host'', ''host.runtime''),
      (''kubernetes'', ''kubernetes.runtime''), (''telemetry'', ''telemetry.configured''), (''tokens'', ''tokens.ttl'')]"

text \<open>Neighbours are compared only; the order is transitive.\<close>

lemma report_keys_ok: "sorted report_keys \<and> distinct report_keys"
proof -
  have "successively (<) report_keys"
    by (simp add: report_keys_def less_prod_def less_char_def)
  then have "sorted_wrt (<) report_keys" by (simp add: successively_conv_sorted_wrt)
  then show ?thesis by (simp add: strict_sorted_iff)
qed

lemma default_keys: "set (map (\<lambda>c. (check_category c, check_id c)) default_checks) = set report_keys"
  by code_simp

lemma default_distinct: "distinct (map (\<lambda>c. (check_category c, check_id c)) default_checks)"
  by code_simp

lemma default_length: "length default_checks = 19"
  by (simp add: default_checks_def)

lemma report_fails_iff:
  "fails_threshold (rp_checks (run_checks (run_check h t) default_checks)) s \<longleftrightarrow>
     (\<exists>c \<in> set default_checks. ck_status (run_check h t c) = StatusFail \<and> s \<le> ck_severity (run_check h t c))"
  by (rule checks.report_fails)

section \<open>Properties\<close>

text \<open>
  C27. Whatever the machine and the configuration look like, the report has one result for each of
  the nineteen checks, in one fixed order, and every result is counted once in the summary.
\<close>

theorem report_is_complete:
  "map (\<lambda>r. (ck_category r, ck_id r)) (rp_checks (security_report h clock t)) = report_keys \<and>
   (let s = rp_summary (security_report h clock t) in cs_passed s + cs_warnings s + cs_failed s + cs_skipped s = 19)"
proof -
  let ?t = "if is_zero (tg_now t) then t\<lparr>tg_now := clock\<rparr> else t"
  have rep: "security_report h clock t = run_checks (run_check h ?t) default_checks"
    by (simp add: security_report_def Let_def)
  have "map result_key (rp_checks (run_checks (run_check h ?t) default_checks)) =
      sorted_list_of_set ((\<lambda>c. (check_category c, check_id c)) ` set default_checks)"
    by (rule checks.report_strict) (rule default_distinct)
  also have "\<dots> = sorted_list_of_set (set report_keys)"
    using default_keys by simp
  also have "\<dots> = report_keys"
    using report_keys_ok by (simp add: sorted_list_of_set.idem_if_sorted_distinct)
  finally show ?thesis
    using checks.report_total [of h ?t default_checks]
    by (simp add: rep result_key_def [abs_def] Let_def default_length)
qed

lemma fails_up_to:
  "c \<in> set default_checks \<Longrightarrow> ck_status (run_check h t c) = StatusFail \<Longrightarrow> s \<le> ck_severity (run_check h t c) \<Longrightarrow>
    fails_threshold (rp_checks (run_checks (run_check h t) default_checks)) s"
  using report_fails_iff by blast

lemma severity_top: "s \<le> SeverityCritical"
  by (cases s) (simp_all add: less_eq_severity_def)

text \<open>
  C34. The threshold catches what matters most: a deployment whose API has no TLS, or whose signing
  key others can read, fails at every threshold up to \<open>high\<close>, and one with a possible root key
  beside the root certificate fails at every threshold.
\<close>

theorem insecure_deployments_fail:
  assumes "\<not> is_zero (tg_now t)"
  shows "(\<not> tls_configured (tg_config t) \<longrightarrow> s \<le> SeverityHigh \<longrightarrow> fails_threshold (rp_checks (security_report h clock t)) s) \<and>
    (ho_stat h (pki_key_file (cf_pki (tg_config t))) = StatMode m \<longrightarrow> open_to_others m \<longrightarrow> s \<le> SeverityHigh \<longrightarrow>
      fails_threshold (rp_checks (security_report h clock t)) s) \<and>
    (n \<in> set root_key_names \<longrightarrow> stat_ok (ho_stat h (join_path [dir_of (pki_root_file (cf_pki (tg_config t))), n])) \<longrightarrow>
      fails_threshold (rp_checks (security_report h clock t)) s)"
proof -
  have rep: "security_report h clock t = run_checks (run_check h t) default_checks"
    using assms by (simp add: security_report_def)
  have mem: "APITLSCheck \<in> set default_checks" "IntermediateKeyCheck \<in> set default_checks"
      "RootPrivateKeyAbsentCheck \<in> set default_checks"
    by (simp_all add: default_checks_def)
  show ?thesis
    unfolding rep
  proof (intro conjI impI)
    assume "\<not> tls_configured (tg_config t)" and "s \<le> SeverityHigh"
    then show "fails_threshold (rp_checks (run_checks (run_check h t) default_checks)) s"
      by (intro fails_up_to [OF mem(1)]) (simp_all add: api_tls_check_def Let_def)
  next
    assume "ho_stat h (pki_key_file (cf_pki (tg_config t))) = StatMode m" and "open_to_others m" and "s \<le> SeverityHigh"
    then show "fails_threshold (rp_checks (run_checks (run_check h t) default_checks)) s"
      by (intro fails_up_to [OF mem(2)]) (simp_all add: intermediate_key_check_def Let_def)
  next
    assume "n \<in> set root_key_names" and "stat_ok (ho_stat h (join_path [dir_of (pki_root_file (cf_pki (tg_config t))), n]))"
    then have "list_ex (\<lambda>n. stat_ok (ho_stat h (join_path [dir_of (pki_root_file (cf_pki (tg_config t))), n]))) root_key_names"
      by (auto simp: list_ex_iff)
    then show "fails_threshold (rp_checks (run_checks (run_check h t) default_checks)) s"
      by (intro fails_up_to [OF mem(3)]) (simp_all add: root_key_absent_check_def Let_def severity_top)
  qed
qed

definition demo_host :: host where
  "demo_host = \<lparr>ho_euid = 1000, ho_os = ''linux'', ho_arch = ''amd64'', ho_environ = [],
     ho_stat = (\<lambda>p. if p = ''/pki/intermediate.key.enc'' then StatMode 420 else StatAbsent),
     ho_read = (\<lambda>p. Inl ''absent''), ho_sqlite = (\<lambda>d. ProbeTables []), ho_verify = (\<lambda>r i n. True), ho_x509 = demo_lib,
     ho_sha = rev, ho_error_text = (\<lambda>e. [])\<rparr>"

definition demo_target :: target where
  "demo_target = \<lparr>tg_config = default_config, tg_config_path = [], tg_store = None, tg_now = 0\<rparr>"

theorem insecure_deployments_fail_witness:
  "fails_threshold (rp_checks (security_report demo_host 0 demo_target)) SeverityHigh"
proof -
  have "open_to_others 420" by (simp add: open_to_others_def)
  then show ?thesis
    using insecure_deployments_fail [of demo_target SeverityHigh demo_host 0 420 "''ca.key''"]
    by (simp add: demo_target_def demo_host_def default_config_def is_zero_def zero_time_def)
qed

text \<open>
  The threshold is monotone: a report that fails at a threshold fails at every lower one, and at
  the lowest one it fails exactly when some check failed.
\<close>

theorem threshold_monotone:
  "(s \<le> s' \<longrightarrow> fails_threshold rs s' \<longrightarrow> fails_threshold rs s) \<and>
   fails_threshold rs SeverityInfo = (0 < cs_failed (summarize rs)) \<and> parse_severity (severity_name s) = Some s"
proof -
  have "fails_threshold rs SeverityInfo = (\<exists>r \<in> set rs. ck_status r = StatusFail)"
    by (simp add: fails_threshold_iff less_eq_severity_def)
  also have "\<dots> = (filter (\<lambda>r. ck_status r = StatusFail) rs \<noteq> [])"
    by (simp add: filter_empty_conv)
  finally show ?thesis
    using parse_severity_name [of s] by (auto simp: fails_threshold_iff summarize_counts intro: order_trans)
qed

text \<open>
  Only the directory of the root certificate is searched for a root key: with the root
  certificate elsewhere, a root key beside the signing key of the server goes unnoticed and the
  check says that none was found in the configured PKI paths.
\<close>

theorem root_key_elsewhere_unnoticed:
  assumes "list_all (\<lambda>n. ho_stat h (join_path [dir_of (pki_root_file (cf_pki (tg_config t))), n]) = StatAbsent) root_key_names"
  shows "ck_status (run_check h t RootPrivateKeyAbsentCheck) = StatusPass \<and>
    ck_message (run_check h t RootPrivateKeyAbsentCheck) = ''Root private key was not found in configured PKI paths.''"
proof -
  have "\<not> list_ex (\<lambda>n. stat_ok (ho_stat h (join_path [dir_of (pki_root_file (cf_pki (tg_config t))), n]))) root_key_names"
    using assms by (auto simp: list_ex_iff list_all_iff stat_ok_def)
  then show ?thesis by (simp add: root_key_absent_check_def Let_def verdict_def)
qed

theorem root_key_elsewhere_unnoticed_witness:
  "let h = demo_host\<lparr>ho_stat := (\<lambda>p. if p = ''/ca/root-ca.key'' then StatMode 384 else StatAbsent)\<rparr>;
       t = demo_target\<lparr>tg_config := default_config\<lparr>cf_pki := (cf_pki default_config)\<lparr>pki_root_file := ''/trust/root.crt'',
         pki_key_file := ''/ca/intermediate.key''\<rparr>\<rparr>\<rparr>
   in ck_status (run_check h t RootPrivateKeyAbsentCheck) = StatusPass"
proof -
  have d: "list_all (\<lambda>n. join_path [dir_of ''/trust/root.crt'', n] \<noteq> ''/ca/root-ca.key'') root_key_names" by code_simp
  show ?thesis
    unfolding Let_def
    by (rule root_key_elsewhere_unnoticed [THEN conjunct1]) (use d in \<open>auto simp: list_all_iff\<close>)
qed

end
