(* ===== verification/Admin_Token_Properties.thy ===== *)
theory Admin_Token_Properties
  imports Admin_Tokens
begin

text \<open>
  The token commands against the rest of the program: what they show is what the status API
  shows and what enrollment decides, and a token that was printed works until it expires or is
  revoked.
\<close>

section \<open>Lemmas\<close>

lemma token_row_from_Inr:
  "token_row_from scan now s t = Inr row \<Longrightarrow>
     snd (bootstrap_token_usage scan s (bt_id t)) = None \<and> tr_id row = bt_id t \<and> tr_status row = token_status row now \<and>
     tr_revoked_at row = bt_revoked_at t \<and> tr_expires_at row = bt_expires_at t \<and> tr_created_at row = bt_created_at t \<and>
     tr_hostname row = bt_hostname t \<and> tr_usage_count row = tu_count (fst (bootstrap_token_usage scan s (bt_id t))) \<and>
     tr_used row = (0 < tu_count (fst (bootstrap_token_usage scan s (bt_id t)))) \<and>
     tr_last_used_at row = tu_last_used_at (fst (bootstrap_token_usage scan s (bt_id t)))"
  by (auto simp: token_row_from_def Let_def token_status_def split: prod.splits option.splits)

lemma create_token_run:
  assumes "create_token sha lib rnd now i path hostname ttl s = (s', con, None)"
  obtains dur bytes dsn where "parse_duration ttl = Some dur"
    and "create_bootstrap_token (migrate s)
      \<lparr>bt_id = i, bt_token_hash = hash_token sha (b64url bytes), bt_hostname = hostname, bt_expires_at = now + dur,
       bt_revoked_at = None, bt_created_at = now\<rparr> = Inr s'"
    and "con_out con = created_text i hostname (now + dur) (b64url bytes) dsn"
  using assms
  by (auto simp: create_token_def open_admin_store_def new_bootstrap_token_def bindE_def
      split: if_splits option.splits sum.splits intro: that)

lemma schema_migrate: "set schema_tables \<subseteq> set (st_tables (migrate s))"
  by (auto simp: migrate_def)

lemma schema_names: "''bootstrap_tokens'' \<in> set schema_tables" "''enrollments'' \<in> set schema_tables"
  by (simp_all add: schema_tables_def)

section \<open>Properties\<close>

text \<open>
  C35. The status of a token that the administrator's listing shows is the one the status API shows
  for the same token, and a token is shown as \<open>active\<close> or \<open>used\<close> exactly when enrollment would
  still admit its host with it: \<open>used\<close> does not mean that it is spent.
\<close>

theorem token_status_means_admits:
  assumes "token_row_from scan now s t = Inr row"
  shows "tr_status row = ti_status (token_item_of now (fst (bootstrap_token_usage scan s (bt_id t))) t) \<and>
    (tr_status row \<in> {''active'', ''used''}) = token_admits now t \<lparr>er_token = tok, er_hostname = bt_hostname t,
      er_machine_id = m, er_mac = mac\<rparr>"
  using token_row_from_Inr [OF assms]
  by (auto simp: token_status_def token_item_of_def token_admits_def)

theorem token_status_means_admits_witness:
  "\<exists>row. token_row_from Some 5 demo_store demo_token = Inr row \<and> tr_status row \<in> {''active'', ''used''}"
proof -
  obtain row where r: "token_row_from Some 5 demo_store demo_token = Inr row"
    by (simp add: token_row_from_def bootstrap_token_usage_def demo_store_def migrate_def empty_store_def schema_tables_def
        token_enrollments_def Let_def)
  moreover have "token_admits 5 demo_token \<lparr>er_token = [], er_hostname = bt_hostname demo_token, er_machine_id = [], er_mac = []\<rparr>"
    by (simp add: token_admits_def demo_token_def)
  ultimately show ?thesis using token_status_means_admits [OF r] by blast
qed

section \<open>What the operator reads\<close>

text \<open>
  The value shown under a heading: the line after the first line that is the heading and follows
  an empty one.
\<close>

fun under :: "string \<Rightarrow> string list \<Rightarrow> string option" where
  "under h (a # b # c # ls) = (if a = [] \<and> b = h then Some c else under h (b # c # ls))"
| "under h ls = None"

definition shown :: "string \<Rightarrow> console \<Rightarrow> string option" where
  "shown h con = under h (split_on (CHR 0x0A) (con_out con))"

lemma b64_char_no_space: "n < 64 \<Longrightarrow> \<not> is_space (b64_char n)"
proof -
  assume n: "n < 64"
  then have "code (b64_char n) = (if n < 26 then 65 + n else if n < 52 then 71 + n else if n < 62 then n - 4
      else if n = 62 then 45 else 95)"
    by (auto simp: b64_char_def code_char_of) (simp_all add: code_def)
  with n show ?thesis by (auto simp: is_space_def)
qed

lemma byte_parts:
  "code c div 4 < 64" "code c div 16 < 16" "code c div 64 < 4" "code c mod 64 < 64" "code c mod 4 * 16 < 64" "code c mod 16 * 4 < 64"
  "code c mod 4 * 16 + code d div 16 < 64" "code c mod 16 * 4 + code d div 64 < 64"
proof -
  have d: "code x div 4 < 64" "code x div 16 < 16" "code x div 64 < 4" for x
    using code_bound [of x] by (simp_all add: less_mult_imp_div_less)
  have m: "code c mod 4 \<le> 3" "code c mod 16 \<le> 15" by (rule less_Suc_eq_le [THEN iffD1]; simp)+
  show "code c div 4 < 64" "code c div 16 < 16" "code c div 64 < 4" by (rule d)+
  show "code c mod 64 < 64" by simp
  show "code c mod 4 * 16 < 64" "code c mod 16 * 4 < 64" using m by linarith+
  show "code c mod 4 * 16 + code d div 16 < 64" using m(1) d(2) [of d] by linarith
  show "code c mod 16 * 4 + code d div 64 < 64" using m(2) d(3) [of d] by linarith
qed

lemma b64url_no_space: "list_all (\<lambda>c. \<not> is_space c) (b64url bs)"
  by (induction bs rule: b64url.induct) (simp_all add: b64_char_no_space byte_parts)

lemma no_newline: "\<not> is_space c \<Longrightarrow> c \<noteq> CHR 0x0A"
proof -
  have "is_space (CHR 0x0A)" by code_simp
  then show "\<not> is_space c \<Longrightarrow> c \<noteq> CHR 0x0A" by blast
qed

lemma b64url_line: "CHR 0x0A \<notin> set (b64url bs)"
  using b64url_no_space [of bs] no_newline unfolding list_all_iff by blast

lemma show_int_line: "CHR 0x0A \<notin> set (show_int n)"
proof -
  have "\<not> is_digit (CHR 0x0A)" by code_simp
  then have "CHR 0x0A \<notin> set (show_nat k)" for k using show_nat_digits [of k] unfolding list_all_iff by blast
  then show ?thesis by (simp add: show_int_def)
qed

lemma pad0_line: "CHR 0x0A \<notin> set s \<Longrightarrow> CHR 0x0A \<notin> set (pad0 w s)"
  by (simp add: pad0_def)

lemma rfc3339_line: "CHR 0x0A \<notin> set (rfc3339 t)"
  by (simp add: rfc3339_def rfc3339_seconds_def Let_def pad0_line show_int_line split: prod.split)

lemma created_lines:
  assumes "CHR 0x0A \<notin> set i" and "CHR 0x0A \<notin> set host" and "CHR 0x0A \<notin> set token"
  shows "\<exists>ls. split_on (CHR 0x0A) (created_text i host expires token dsn) =
    [''Bootstrap token created successfully.'', [], ''ID:'', i, [], ''Host:'', host, [], ''Expires:'', rfc3339 expires, [],
     ''Token:'', token] @ ls"
proof -
  have line: "split_on (CHR 0x0A) (s @ nl @ r) = s # split_on (CHR 0x0A) r" if "CHR 0x0A \<notin> set s" for s r
    using split_on_append_sep [OF that] by (simp add: nl_def)
  have empty: "split_on (CHR 0x0A) (nl @ r) = [] # split_on (CHR 0x0A) r" for r
    using line [of "[]" r] by simp
  have fixed: "CHR 0x0A \<notin> set ''Bootstrap token created successfully.''" "CHR 0x0A \<notin> set ''ID:''" "CHR 0x0A \<notin> set ''Host:''"
      "CHR 0x0A \<notin> set ''Expires:''" "CHR 0x0A \<notin> set ''Token:''"
    by code_simp+
  show ?thesis
    unfolding created_text_def
    by (simp only: line empty assms fixed rfc3339_line simp_thms) simp
qed

lemma created_shown:
  assumes "con_out con = created_text i host expires token dsn"
    and "CHR 0x0A \<notin> set i" and "CHR 0x0A \<notin> set host" and "CHR 0x0A \<notin> set token"
  shows "shown ''ID:'' con = Some i" and "shown ''Expires:'' con = Some (rfc3339 expires)" and "shown ''Token:'' con = Some token"
proof -
  obtain ls where ls: "split_on (CHR 0x0A) (con_out con) =
    [''Bootstrap token created successfully.'', [], ''ID:'', i, [], ''Host:'', host, [], ''Expires:'', rfc3339 expires, [],
     ''Token:'', token] @ ls"
    using created_lines [OF assms(2-4), of expires dsn] assms(1) by auto
  show "shown ''ID:'' con = Some i" "shown ''Expires:'' con = Some (rfc3339 expires)" "shown ''Token:'' con = Some token"
    unfolding shown_def ls by auto
qed

text \<open>
  C36. The life of a token from the command line to enrollment: what \<open>create-token\<close> prints under
  \<open>Token:\<close> admits its host, case of the name aside, exactly up to the time it prints under
  \<open>Expires:\<close> (to the second), which is the given lifetime after its start; and after
  \<open>revoke-token\<close> with what it prints under \<open>ID:\<close> it admits nobody any more. The host name and
  the generated id are single lines.
\<close>

theorem created_token_enrolls:
  assumes "store_inv s" and "create_token sha lib rnd now i path hostname ttl s = (s1, con, None)"
    and "CHR 0x0A \<notin> set i" and "CHR 0x0A \<notin> set hostname"
    and "shown ''Token:'' con = Some (er_token req)" and "equal_fold hostname (er_hostname req)"
    and "trim_space (er_hostname req) \<noteq> []" and "trim_space (er_machine_id req) \<noteq> []"
    and "\<not> row_exists en_id (uuid e 0) (st_enrollments s1)"
  shows "\<exists>expires j. shown ''Expires:'' con = Some (rfc3339 expires) \<and> shown ''ID:'' con = Some j \<and>
    parse_duration ttl = Some (expires - now) \<and>
    ((\<exists>s2. validate_and_enroll sha e s1 req = Inr (s2, uuid e 0)) = (clk e 0 \<le> expires)) \<and>
    (revoke_token lib now' path j s1 = (s3, con', None) \<longrightarrow> validate_and_enroll sha e s3 req = Inl ErrInvalidToken)"
  using assms(2)
proof (rule create_token_run)
  fix dur bytes dsn
  let ?t = "\<lparr>bt_id = i, bt_token_hash = hash_token sha (b64url bytes), bt_hostname = hostname, bt_expires_at = now + dur,
       bt_revoked_at = None, bt_created_at = now\<rparr>"
  assume dur: "parse_duration ttl = Some dur" and c: "create_bootstrap_token (migrate s) ?t = Inr s1"
    and con: "con_out con = created_text i hostname (now + dur) (b64url bytes) dsn"
  note screen = created_shown [OF con assms(3,4) b64url_line]
  have token: "er_token req = b64url bytes" using screen(3) assms(5) by simp
  have s1: "s1 = migrate s\<lparr>st_tokens := st_tokens (migrate s) @ [?t]\<rparr>"
    using c by (auto simp: create_bootstrap_token_def split: if_splits)
  have new: "\<not> row_exists bt_token_hash (hash_token sha (b64url bytes)) (st_tokens (migrate s))"
      "\<not> row_exists bt_id i (st_tokens (migrate s))"
    using c by (auto simp: create_bootstrap_token_def split: if_splits)
  have inv: "store_inv s1"
    using run_inv [of s sha "[Migrate, CreateBootstrapToken ?t]"] assms(1) c by (simp add: committed_def)
  have tabs: "set schema_tables \<subseteq> set (st_tables s1)" by (simp add: s1 schema_migrate)
  then have tab: "''bootstrap_tokens'' \<in> set (st_tables s1)" "''enrollments'' \<in> set (st_tables s1)"
    using subsetD [OF tabs schema_names(1)] subsetD [OF tabs schema_names(2)] by simp_all
  have find: "row_find bt_token_hash (st_tokens s1) (hash_token sha (er_token req)) = Some ?t"
      "row_find bt_id (st_tokens s1) i = Some ?t"
    using new row_find_append [of bt_token_hash ?t "st_tokens (migrate s)"] row_find_append [of bt_id ?t "st_tokens (migrate s)"]
    by (simp_all add: s1 token)
  have "row_exists bt_id i (st_tokens s1)" using find(2) by (intro row_find_Some_iff [THEN iffD1] exI)
  then have "(\<exists>s2. validate_and_enroll sha e s1 req = Inr (s2, uuid e 0)) = (clk e 0 \<le> now + dur)"
    using assms(6-9) tab find(1)
    by (auto simp: validate_and_enroll_Inr get_by_hash_Inr create_enrollment_Inr token_admits_def enrollment_of_def fk_ok_def)
  moreover have "validate_and_enroll sha e s3 req = Inl ErrInvalidToken" if "revoke_token lib now' path i s1 = (s3, con', None)"
  proof -
    have mig: "migrate s1 = s1" using tabs by (simp add: migrate_def filter_empty_conv subset_iff)
    have r: "revoke_bootstrap_token now' s1 i = Inr s3"
      using that by (auto simp: revoke_token_def open_admin_store_def mig split: sum.splits option.splits)
    show ?thesis
      using revoked_token_refused [OF inv r find(2), of sha req e "[]"] token assms(7,8) by simp
  qed
  moreover have "parse_duration ttl = Some (now + dur - now)" using dur by simp
  ultimately show ?thesis using screen(1,2) by blast
qed

definition demo_admin :: admin_lib where
  "demo_admin = \<lparr>adm_load = (\<lambda>p. Inr default_config), adm_open = (\<lambda>c. None), adm_scan = Some, adm_align = (\<lambda>t. t)\<rparr>"

theorem created_token_enrolls_witness:
  "\<exists>s1 con s2 s3 con'. create_token demo_sha demo_admin (Inr ''bytes'') 50 ''id'' [] ''node'' ''1h'' (empty_store True) = (s1, con, None) \<and>
     validate_and_enroll demo_sha demo_env s1 \<lparr>er_token = b64url ''bytes'', er_hostname = ''node'', er_machine_id = ''m'', er_mac = []\<rparr>
       = Inr (s2, ''u'') \<and>
     revoke_token demo_admin 9 [] ''id'' s1 = (s3, con', None) \<and>
     validate_and_enroll demo_sha demo_env s3 \<lparr>er_token = b64url ''bytes'', er_hostname = ''node'', er_machine_id = ''m'', er_mac = []\<rparr>
       = Inl ErrInvalidToken"
proof -
  define req where "req = \<lparr>er_token = b64url ''bytes'', er_hostname = ''node'', er_machine_id = ''m'', er_mac = []\<rparr>"
  define t where "t = \<lparr>bt_id = ''id'', bt_token_hash = hash_token demo_sha (b64url ''bytes''), bt_hostname = ''node'',
     bt_expires_at = 50 + hour, bt_revoked_at = None, bt_created_at = 50\<rparr>"
  define s1 where "s1 = (migrate (empty_store True))\<lparr>st_tokens := [t]\<rparr>"
  have pd: "parse_duration ''1h'' = Some hour" by code_simp
  have c: "create_bootstrap_token (migrate (empty_store True)) t = Inr s1"
    using schema_names(1) by (simp add: create_bootstrap_token_def row_exists_def migrate_def empty_store_def s1_def)
  then obtain con dsn where created:
    "create_token demo_sha demo_admin (Inr ''bytes'') 50 ''id'' [] ''node'' ''1h'' (empty_store True) = (s1, con, None)"
    and con: "con_out con = created_text ''id'' ''node'' (50 + hour) (b64url ''bytes'') dsn"
    by (simp add: create_token_def pd open_admin_store_def demo_admin_def new_bootstrap_token_def t_def)
  have screen: "shown ''ID:'' con = Some ''id''" "shown ''Token:'' con = Some (er_token req)"
    using created_shown [OF con _ _ b64url_line] by (simp_all add: req_def)
  have mig: "migrate s1 = s1" by (simp add: migrate_def s1_def)
  obtain s3 where r: "revoke_bootstrap_token 9 s1 ''id'' = Inr s3"
    using schema_names(1) by (simp add: revoke_bootstrap_token_def row_exists_def migrate_def empty_store_def s1_def t_def)
  then obtain con' where revoked: "revoke_token demo_admin 9 [] ''id'' s1 = (s3, con', None)"
    by (simp add: revoke_token_def open_admin_store_def demo_admin_def mig)
  have ne: "trim_space (er_hostname req) \<noteq> []" "trim_space (er_machine_id req) \<noteq> []"
    unfolding req_def by (simp_all add: trim_space_def is_space_def code_def)
  have q: "CHR 0x0A \<notin> set ''id''" "CHR 0x0A \<notin> set ''node''" "equal_fold ''node'' (er_hostname req)" by (simp_all add: req_def)
  have late: "clk demo_env 0 \<le> 50 + hour" by (simp add: demo_env_def units)
  have "\<not> row_exists en_id (uuid demo_env 0) (st_enrollments s1)"
    by (simp add: row_exists_def migrate_def empty_store_def s1_def)
  note life = created_token_enrolls [OF store_inv_empty created q(1,2) screen(2) q(3) ne this]
  obtain expires j where j: "shown ''ID:'' con = Some j" "parse_duration ''1h'' = Some (expires - 50)"
      "(\<exists>s2. validate_and_enroll demo_sha demo_env s1 req = Inr (s2, uuid demo_env 0)) = (clk demo_env 0 \<le> expires)"
      "revoke_token demo_admin 9 [] j s1 = (s3, con', None) \<longrightarrow> validate_and_enroll demo_sha demo_env s3 req = Inl ErrInvalidToken"
    using life [of 9 s3 con'] by blast
  have "validate_and_enroll demo_sha demo_env s3 req = Inl ErrInvalidToken" using j(1,4) revoked screen(1) by simp
  moreover have "expires = 50 + hour" using j(2) pd by simp
  then obtain s2 where "validate_and_enroll demo_sha demo_env s1 req = Inr (s2, uuid demo_env 0)" using j(3) late by auto
  then have "validate_and_enroll demo_sha demo_env s1 req = Inr (s2, ''u'')" by (simp add: demo_env_def)
  ultimately show ?thesis using created revoked unfolding req_def by blast
qed

end
