(* ===== verification/Admin_Ca_Properties.thy ===== *)
theory Admin_Ca_Properties
  imports Admin_Ca Ca_Local_Properties Security_Properties Admin_Token_Properties
begin

text \<open>
  What the CA commands do with lifetimes, passwords and exit codes, and what a failing
  \<open>create-root\<close> leaves behind.
\<close>

section \<open>Lemmas on lifetimes\<close>

lemma digits_then_unit:
  assumes "list_all is_digit ds" and "ds \<noteq> []" and "digits_value ds * hour \<le> two63 - 1"
  shows "parse_duration (ds @ ''h'') = Some (digits_value ds * hour)"
proof -
  have h: "\<not> is_digit (CHR ''h'')" by code_simp
  have tw: "takeWhile is_digit (ds @ ''h'') = ds" "dropWhile is_digit (ds @ ''h'') = ''h''"
    using assms(1) h by (induction ds) auto
  have u: "takeWhile (\<lambda>c. c \<noteq> CHR ''.'' \<and> \<not> is_digit c) ''h'' = ''h''"
      "dropWhile (\<lambda>c. c \<noteq> CHR ''.'' \<and> \<not> is_digit c) ''h'' = []" using h by simp_all
  have uh: "unit_of ''h'' = Some hour" by (simp add: unit_of_def)
  have v: "0 \<le> digits_value ds" by (rule digits_value_nonneg)
  have vb: "digits_value ds \<le> two63 div hour"
    using assms(3) by (simp add: two63_def units)
  have "digits_value ds * 1 \<le> digits_value ds * hour" using v by (intro mult_left_mono) (simp_all add: units)
  then have small: "digits_value ds \<le> two63" using assms(3) by simp
  have one: "parse_one (ds @ ''h'') = Some (digits_value ds * hour, [])"
    using assms(2,3) vb v small
    by (simp add: parse_one_def Let_def tw u uh h digits_value_def [of "[]"])
  have units': "parse_units (ds @ ''h'') 0 = Some (digits_value ds * hour)"
    using assms(2,3) one by (simp add: parse_units.simps [of "ds @ ''h''"] parse_units.simps [of "[]"])
  obtain c cs where ds: "ds = c # cs" using assms(2) by (cases ds) auto
  have c: "is_digit c" using assms(1) ds by simp
  then have "c \<noteq> CHR ''-''" and "c \<noteq> CHR ''+''" by (auto simp: is_digit_def code_def)
  then show ?thesis
    using units' assms(2,3) ds by (simp add: parse_duration_def Let_def)
qed

lemma show_nat_hours: "int n * hour \<le> two63 - 1 \<Longrightarrow> parse_duration (show_nat n @ ''h'') = Some (int n * hour)"
  using digits_then_unit [of "show_nat n"] show_nat_digits [of n] digits_value_show_nat [of n] by simp

lemma wrap64_add: "wrap64 (x + k * 2 ^ 64) = wrap64 x"
proof -
  have "x + k * 2 ^ 64 + 2 ^ 63 = x + 2 ^ 63 + k * 2 ^ 64" by simp
  then show ?thesis by (simp only: wrap64_def mod_mult_self1)
qed

lemma wrap64_mult: "wrap64 (wrap64 a * b) = wrap64 (a * b)"
proof -
  define q where "q = (a + 2 ^ 63) div 2 ^ 64"
  have "wrap64 a = a - 2 ^ 64 * q"
    unfolding q_def by (simp add: wrap64_def minus_mult_div_eq_mod [symmetric])
  then have "wrap64 a * b = (a - 2 ^ 64 * q) * b" by (rule arg_cong)
  also have "\<dots> = a * b + (- q * b) * 2 ^ 64" by (simp add: left_diff_distrib)
  finally have "wrap64 a * b = a * b + (- q * b) * 2 ^ 64" .
  then show ?thesis by (simp only: wrap64_add)
qed

lemma show_int_nat: "show_int (int n) = show_nat n"
  by (simp add: show_int_def)

lemma suffix_y: "has_suffix (s @ ''y'') ''y''" "trim_suffix (s @ ''y'') ''y'' = s"
  by (simp_all add: has_suffix_def trim_suffix_def)

section \<open>Properties of lifetimes\<close>

text \<open>
  A lifetime of \<open>n\<close> years means \<open>n\<close> times 365 days up to 292 years; beyond, the product wraps
  around, so that a larger number of years can be accepted as a much shorter lifetime.
\<close>

theorem years_wrap_around:
  assumes "n \<le> 2562047"
  shows "parse_days_duration (show_int (int n) @ ''y'') = Some (wrap64 (int n * (365 * 24 * hour))) \<and>
    (n \<le> 292 \<longrightarrow> parse_days_duration (show_int (int n) @ ''y'') = Some (int n * (365 * 24 * hour)))"
proof -
  have le: "int n * hour \<le> two63 - 1" using assms by (simp add: two63_def units)
  have eq: "wrap64 (wrap64 (int n * hour * 365) * 24) = wrap64 (int n * (365 * 24 * hour))"
    unfolding wrap64_mult by (rule arg_cong [of _ _ wrap64]) simp
  have "n \<le> 292 \<Longrightarrow> wrap64 (int n * (365 * 24 * hour)) = int n * (365 * 24 * hour)"
    by (rule wrap64_id) (simp_all add: units)
  then show ?thesis
    using show_nat_hours [OF le] by (simp add: parse_days_duration_def suffix_y show_int_nat eq)
qed

theorem years_wrap_around_witness:
  "\<exists>d. parse_days_duration (show_int 600 @ ''y'') = Some d \<and> 0 < d \<and> d < 16 * (365 * 24 * hour)"
  using years_wrap_around [of 600] by (simp add: wrap64_def units)

section \<open>Lemmas on passwords\<close>

lemma b64url_nonempty: "bs \<noteq> [] \<Longrightarrow> b64url bs \<noteq> []"
  by (induction bs rule: b64url.induct) simp_all

lemma trim_space_nl: "\<not> is_space c \<Longrightarrow> trim_space (cs @ [c] @ nl) = trim_left (cs @ [c])"
proof -
  assume c: "\<not> is_space c"
  have sp: "is_space (CHR 0x0A)" by code_simp
  have d: "dropWhile is_space (cs @ [c] @ nl) = dropWhile is_space (cs @ [c]) @ nl"
    using c by (induction cs) (auto simp: nl_def)
  have "\<exists>xs. dropWhile is_space (cs @ [c]) = xs @ [c]"
    using c by (induction cs) auto
  then obtain xs where xs: "dropWhile is_space (cs @ [c]) = xs @ [c]" by blast
  show ?thesis
    unfolding trim_space_def trim_left_def d xs using sp c by (simp add: nl_def)
qed

lemma password_line: "bs \<noteq> [] \<Longrightarrow> trim_space (b64url bs @ nl) = b64url bs"
proof -
  assume "bs \<noteq> []"
  then obtain cs c where cs: "b64url bs = cs @ [c]" using b64url_nonempty rev_exhaust by blast
  have ns: "\<not> is_space x" if "x \<in> set (cs @ [c])" for x using b64url_no_space [of bs] that by (auto simp: cs list_all_iff)
  then have "trim_left (cs @ [c]) = cs @ [c]"
    by (cases cs) (simp_all add: trim_left_def)
  then show ?thesis unfolding cs using trim_space_nl [of c cs] ns [of c] by simp
qed

lemma admin_file_names [simp]:
  "plain_name ''root-ca.password''" "plain_name ''root-ca.key''" "plain_name ''intermediate-ca.password''"
  by (simp_all add: plain_name_def)

lemma generated_password_run:
  assumes "resolve_password fault (Inr bytes) [] [] f d = (d', Inr (p, g))"
  shows "p = b64url bytes" "g = f" "\<exists>d1. mkdir_all fault d (dir_of f) = Inr d1 \<and> write_file fault d1 f (p @ nl) 384 = Inr d'"
  using assms
  by (auto simp: resolve_password_def random_password_def io_bind_Inr io_mkdir_Inr io_write_Inr)

section \<open>Properties of passwords\<close>

text \<open>
  The password that \<open>create-root\<close> generates is found again by \<open>create-intermediate\<close>, which only
  knows the path of the root key: it looks for the password file beside it, and that is where the
  password was written, however the output directory was spelled.
\<close>

theorem generated_password_found:
  assumes "resolve_password fault (Inr bytes) [] [] (join_path [out, ''root-ca.password'']) d = (d', Inr (p, f))"
    and "bytes \<noteq> []"
  shows "resolve_existing_password d' [] [] (join_path [dir_of (join_path [out, ''root-ca.key'']), ''root-ca.password'']) =
    Inr (p, f)"
proof -
  note run = generated_password_run [OF assms(1)]
  from run(3) have "read_file d' f = Inr (p @ nl)" using run(2) read_after_write by blast
  then have "read_password_file d' f = Inr p"
    using password_line [OF assms(2)] b64url_nonempty [OF assms(2)] run(1) by (simp add: read_password_file_def Let_def)
  then show ?thesis using run(2) by (simp add: resolve_existing_password_def sibling_path)
qed

text \<open>
  A \<open>create-root\<close> that fails can still cost the operator an existing root: the new password is
  written over the old password file before anything else is checked, so after a mistyped
  lifetime the disk holds the old encrypted key and no longer its password.
\<close>

theorem failed_create_root_loses_password:
  assumes "op_encrypt_key (rf_options flags)" and "rf_password flags = []" and "rf_password_env flags = []"
    and "rf_password_file flags = []" and "parse_days_duration (rf_validity flags) = None"
    and "pw = join_path [op_out_dir (rf_options flags), ''root-ca.password'']"
    and "key = join_path [op_out_dir (rf_options flags), ''root-ca.key'']"
    and "is_dir d (dir_of pw)" and "fault pw = None" and "d pw = Some (File old m)"
  shows "\<exists>d'. create_root_command lib fault getenv (Inr bytes) parse_time clock flags d =
      (d', silent, Some (BadLifetime (rf_validity flags))) \<and>
    d' pw = Some (File (b64url bytes @ nl) m) \<and> d' key = d key"
proof -
  let ?d' = "d(pw \<mapsto> File (b64url bytes @ nl) m)"
  have mk: "io_bind (io_mkdir CaOsError fault (dir_of pw)) f d = f () d" for f :: "unit \<Rightarrow> (admin_ca_error, string \<times> string) io"
    using assms(8) by (intro io_bind_step) (simp add: io_mkdir_def io_update_def mkdir_all_def)
  have wr: "io_bind (io_write CaOsError fault pw (b64url bytes @ nl) 384) f d = f () ?d'"
    for f :: "unit \<Rightarrow> (admin_ca_error, string \<times> string) io"
    using assms(9,10) by (intro io_bind_step) (simp add: io_write_def io_update_def write_file_def)
  have "resolve_root_password fault getenv (Inr bytes) [] [] [] pw True d = (?d', Inr (b64url bytes, pw))"
    by (simp add: resolve_root_password_def resolve_password_def random_password_def io_bind_pure mk wr)
  moreover have "pw \<noteq> key" using assms(6,7) by (simp add: join_path_inject)
  ultimately show ?thesis
    using assms(1-5) by (simp add: create_root_command_def Let_def flip: assms(6))
qed

section \<open>Properties of exit codes\<close>

text \<open>
  The exit code of \<open>security-check\<close>: with a configuration that loads and well-formed flags and a
  report file that can be written, 1 when some check failed at or above the severity asked for
  and 0 otherwise, the report being printed either way; anything else is 2.
\<close>

theorem security_check_exit:
  assumes "adm_load lib (kf_config f) = Inr cfg" and "parse_output_format (kf_output f) = Some fmt"
    and "parse_severity (kf_fail_on f) = Some sev"
    and "kf_write_report f = [] \<or> (\<forall>c. \<exists>d'. write_file fault d (kf_write_report f) c 438 = Inr d')"
  shows "\<exists>report. snd (snd (security_check_command lib json open_store h fault now f d)) =
      (if fails_threshold (rp_checks report) sev then Some (ExitFailures sev) else None) \<and>
    exit_code (snd (snd (security_check_command lib json open_store h fault now f d))) =
      (if fails_threshold (rp_checks report) sev then 1 else 0) \<and>
    fst (snd (security_check_command lib json open_store h fault now f d)) = render (adm_align lib) json report fmt \<and>
    report = security_report h now \<lparr>tg_config = cfg, tg_config_path = kf_config f,
      tg_store = (if db_driver (cf_database cfg) = [] then None else open_store (cf_database cfg)), tg_now = now\<rparr>"
proof (cases "kf_write_report f = []")
  case True
  with assms show ?thesis by (simp add: security_check_command_def Let_def)
next
  case False
  let ?rep = "security_report h now \<lparr>tg_config = cfg, tg_config_path = kf_config f,
      tg_store = (if db_driver (cf_database cfg) = [] then None else open_store (cf_database cfg)), tg_now = now\<rparr>"
  from False assms(4) obtain d' where "write_file fault d (kf_write_report f)
      (render (adm_align lib) json ?rep (if fmt = OutputJSON then OutputJSON else OutputMarkdown)) 438 = Inr d'" by blast
  with False assms show ?thesis by (simp add: security_check_command_def Let_def)
qed

theorem security_check_exit_witness:
  "exit_code (snd (snd (security_check_command demo_admin (\<lambda>r. []) (\<lambda>c. None) demo_host no_fault 5
     (default_check_flags\<lparr>kf_fail_on := ''High''\<rparr>) (\<lambda>p. None)))) \<in> {0, 1}"
proof -
  have "parse_output_format ''table'' = Some OutputTable" "parse_severity ''High'' = Some SeverityHigh" by code_simp+
  then show ?thesis
    using security_check_exit [of demo_admin "default_check_flags\<lparr>kf_fail_on := ''High''\<rparr>" default_config OutputTable SeverityHigh
        no_fault "\<lambda>p. None" "\<lambda>r. []" "\<lambda>c. None" demo_host 5]
    by (auto simp: demo_admin_def default_check_flags_def)
qed

section \<open>Witnesses\<close>

definition demo_pki_disk :: disk where
  "demo_pki_disk = [''.'' \<mapsto> Dir, ''root-ca.password'' \<mapsto> File ''old'' 384, ''root-ca.key'' \<mapsto> File ''key'' 384]"

lemma here_paths:
  "join_path [''.'', ''root-ca.password''] = ''root-ca.password''" "join_path [''.'', ''root-ca.key''] = ''root-ca.key''"
  "dir_of ''root-ca.password'' = ''.''"
  by (simp_all add: join_path_here) (simp add: dir_of_def clean_path_def is_abs_def)

theorem generated_password_found_witness:
  "\<exists>d' p. resolve_password no_fault (Inr ''b'') [] [] (join_path [''.'', ''root-ca.password'']) demo_pki_disk =
      (d', Inr (p, ''root-ca.password'')) \<and>
    resolve_existing_password d' [] [] (join_path [dir_of (join_path [''.'', ''root-ca.key'']), ''root-ca.password'']) =
      Inr (p, ''root-ca.password'')"
proof -
  obtain d' p where r: "resolve_password no_fault (Inr ''b'') [] [] (join_path [''.'', ''root-ca.password'']) demo_pki_disk =
      (d', Inr (p, ''root-ca.password''))"
    by (simp add: resolve_password_def random_password_def here_paths io_bind_def io_mkdir_def io_update_def mkdir_all_def is_dir_def
        io_write_def write_file_def demo_pki_disk_def no_fault_def)
  show ?thesis using r generated_password_found [OF r] by auto
qed

theorem failed_create_root_loses_password_witness:
  "\<exists>d' e c. create_root_command demo_local no_fault (\<lambda>_. []) (Inr ''b'') Inl 0
      (default_root_flags\<lparr>rf_options := (rf_options default_root_flags)\<lparr>op_out_dir := ''.''\<rparr>, rf_validity := ''soon''\<rparr>)
      demo_pki_disk = (d', silent, Some e) \<and>
    d' ''root-ca.password'' = Some (File c 384) \<and> c \<noteq> ''old'' \<and> d' ''root-ca.key'' = Some (File ''key'' 384)"
proof -
  let ?f = "default_root_flags\<lparr>rf_options := (rf_options default_root_flags)\<lparr>op_out_dir := ''.''\<rparr>, rf_validity := ''soon''\<rparr>"
  have bad: "parse_days_duration (rf_validity ?f) = None" by code_simp
  have c: "b64url ''b'' @ nl \<noteq> ''old''" by code_simp
  have "\<exists>d'. create_root_command demo_local no_fault (\<lambda>_. []) (Inr ''b'') Inl 0 ?f demo_pki_disk =
      (d', silent, Some (BadLifetime (rf_validity ?f))) \<and>
    d' ''root-ca.password'' = Some (File (b64url ''b'' @ nl) 384) \<and> d' ''root-ca.key'' = demo_pki_disk ''root-ca.key''"
    by (rule failed_create_root_loses_password [OF _ _ _ _ bad, where old = "''old''"])
      (simp_all add: default_root_flags_def here_paths demo_pki_disk_def is_dir_def no_fault_def)
  then show ?thesis using c by (auto simp: demo_pki_disk_def)
qed

end
