(* ===== verification/Api_Contract.thy ===== *)
theory Api_Contract
  imports Api
begin

text \<open>
  What the HTTP interface guarantees: every request is a sequence of store methods, so the
  invariant of the store holds in every reachable state of the server; what each answer says
  about the store; what a certificate needs to be issued or renewed; and what stays true of a
  revoked certificate.
\<close>

section \<open>Requests as runs of store methods\<close>

lemma audit_record_exec: "audit_record sha s a = exec sha s (CreateAuditLog a)"
  by (simp add: audit_record_def committed_def)

lemma record_audit_exec:
  "\<exists>a. sv_store (record_audit sha e sv action actor target meta) = exec sha (sv_store sv) (CreateAuditLog a)"
  by (auto simp: record_audit_def audit_record_exec)

lemma run_append: "run sha (run sha s cs) ds = run sha s (cs @ ds)"
  by (simp add: run_def)

lemma validate_and_enroll_run:
  "validate_and_enroll sha e s req = Inr (s', i) \<Longrightarrow> \<exists>c. s' = exec sha s c"
  by (auto simp: validate_and_enroll_Inr) (metis exec.simps(4) committed_simps(2))

lemma issue_cases:
  "issue e dp s req en subj = (s', r) \<Longrightarrow>
    (\<exists>err. r = Inl (400, SignFailed err) \<and> s' = s) \<or>
    (\<exists>i. au_sign (dp_authority dp) (clk e 1) (draw e) (cq_csr_pem req) (cq_dns_names req) (dp_lifetime dp) = Inr i \<and>
       ((\<exists>err. r = Inl (500, StoreFailed err) \<and> ensure_ca_config e dp s = Inl err \<and> s' = s) \<or>
        (\<exists>s1. ensure_ca_config e dp s = Inr s1 \<and>
          ((\<exists>err. r = Inl (500, StoreFailed err) \<and> s' = s1 \<and>
              store_issued_certificate s1 (issued_row e dp i en subj (cq_dns_names req)) = Inl err) \<or>
           (r = Inr i \<and> store_issued_certificate s1 (issued_row e dp i en subj (cq_dns_names req)) = Inr s')))))"
  by (auto simp: issue_def split: sum.splits)

lemma issue_run: "issue e dp s req en subj = (s', r) \<Longrightarrow> \<exists>cs. s' = run sha s cs"
proof (drule issue_cases, elim disjE exE conjE)
  fix s1 i
  let ?row = "issued_row e dp i en subj (cq_dns_names req)"
  assume "ensure_ca_config e dp s = Inr s1" and "store_issued_certificate s1 ?row = Inr s'"
  then have "s' = run sha s [UpsertCAConfig (default_ca_config e dp), StoreIssuedCertificate ?row]"
    by (simp add: ensure_ca_config_def)
  then show ?thesis ..
next
  fix s1
  assume "s' = s1" and "ensure_ca_config e dp s = Inr s1"
  then have "s' = run sha s [UpsertCAConfig (default_ca_config e dp)]"
    by (simp add: ensure_ca_config_def)
  then show ?thesis ..
qed (auto intro!: exI [of _ "[]"])

lemma audited_run:
  assumes "\<exists>cs. sv_store sv = run sha s cs"
  shows "\<exists>cs. sv_store (record_audit sha e sv action actor target meta) = run sha s cs"
proof -
  obtain cs where cs: "sv_store sv = run sha s cs" using assms by blast
  obtain a where "sv_store (record_audit sha e sv action actor target meta) = exec sha (sv_store sv) (CreateAuditLog a)"
    using record_audit_exec by blast
  then have "sv_store (record_audit sha e sv action actor target meta) = run sha s (cs @ [CreateAuditLog a])"
    by (simp add: cs run_append [symmetric])
  then show ?thesis by blast
qed

lemma run_refl [simp]: "\<exists>cs. s = run sha s cs"
  by (rule exI [of _ "[]"]) simp

lemma dispatch_run: "\<exists>cs. sv_store (fst (dispatch sha e dp sv req)) = run sha (sv_store sv) cs"
proof (cases req)
  case (PostEnroll b)
  show ?thesis
    unfolding PostEnroll
    by (auto simp: enroll_handler_def split: sum.splits intro!: audited_run dest!: validate_and_enroll_run [of sha])
      (metis run_simps)
next
  case (PostRequest b)
  show ?thesis
    unfolding PostRequest
    by (auto simp: request_certificate_def split: sum.splits prod.splits intro!: audited_run dest!: issue_run [of _ _ _ _ _ _ _ _ sha])
next
  case (PostRenew n b)
  show ?thesis
    unfolding PostRenew
    by (auto simp: renew_certificate_def split: sum.splits prod.splits intro!: audited_run dest!: issue_run [of _ _ _ _ _ _ _ _ sha])
next
  case (PostRevoke b)
  have "\<exists>cs. fst (revoke_certificate s r) = run sha s cs" for s r
    by (rule exI [of _ "[RevokeCertificate r]"]) simp
  then have "revoke_certificate s r = (s', x) \<Longrightarrow> \<exists>cs. s' = run sha s cs" for s r s' x
    by (metis fst_conv)
  then show ?thesis
    unfolding PostRevoke
    by (auto simp: revoke_certificate_handler_def Let_def split: sum.splits prod.splits option.splits intro!: audited_run)
qed auto

lemma serve_all_run: "\<exists>cs. sv_store (serve_all sha dp sv reqs) = run sha (sv_store sv) cs"
proof (induction reqs arbitrary: sv)
  case (Cons x reqs)
  obtain e r where x: "x = (e, r)" by (cases x)
  from dispatch_run obtain cs where "sv_store (fst (serve sha e dp sv r)) = run sha (sv_store sv) cs"
    by (metis serve_store)
  with Cons.IH [of "fst (serve sha e dp sv r)"] show ?case by (auto simp: x run_append)
qed simp

lemma record_audit_frame [frame]:
  "st_certs (sv_store (record_audit sha e sv action actor target meta)) = st_certs (sv_store sv)"
  "st_enrollments (sv_store (record_audit sha e sv action actor target meta)) = st_enrollments (sv_store sv)"
  "st_revoked (sv_store (record_audit sha e sv action actor target meta)) = st_revoked (sv_store sv)"
  "st_tables (sv_store (record_audit sha e sv action actor target meta)) = st_tables (sv_store sv)"
  "st_fk (sv_store (record_audit sha e sv action actor target meta)) = st_fk (sv_store sv)"
  "sv_metrics (record_audit sha e sv action actor target meta) = sv_metrics sv"
  by (auto simp: record_audit_def audit_record_def create_audit_log_def Let_def need_def split: sum.splits if_splits)

lemma ensure_ca_config_Inr:
  "ensure_ca_config e dp s = Inr s1 \<longleftrightarrow>
     ''ca_config'' \<in> set (st_tables s) \<and>
     s1 = s\<lparr>st_ca_configs := row_upsert cc_id merge_ca_config (default_ca_config e dp) (st_ca_configs s)\<rparr>"
  by (auto simp: ensure_ca_config_def upsert_ca_config_def default_ca_config_def Let_def ca_config_status_ok_def)

lemma store_issued_Inr:
  "store_issued_certificate s c = Inr s' \<longleftrightarrow>
     ''issued_certificates'' \<in> set (st_tables s) \<and> \<not> row_exists ic_serial (ic_serial c) (st_certs s) \<and>
     fk_ok s (row_exists cc_id (ic_ca_id c) (st_ca_configs s)) \<and> s' = s\<lparr>st_certs := st_certs s @ [c]\<rparr>"
  by (auto simp: store_issued_certificate_def)

lemma issue_Inr:
  assumes "''ca_config'' \<in> set (st_tables s)" and "''issued_certificates'' \<in> set (st_tables s)"
  shows "issue e dp s req en subj = (s', Inr i) \<longleftrightarrow>
    au_sign (dp_authority dp) (clk e 1) (draw e) (cq_csr_pem req) (cq_dns_names req) (dp_lifetime dp) = Inr i \<and>
    \<not> row_exists ic_serial (is_serial i) (st_certs s) \<and>
    s' = s\<lparr>st_ca_configs := row_upsert cc_id merge_ca_config (default_ca_config e dp) (st_ca_configs s),
           st_certs := st_certs s @ [issued_row e dp i en subj (cq_dns_names req)]\<rparr>"
proof -
  let ?s1 = "s\<lparr>st_ca_configs := row_upsert cc_id merge_ca_config (default_ca_config e dp) (st_ca_configs s)\<rparr>"
  have 1: "ensure_ca_config e dp s = Inr ?s1" using assms by (simp add: ensure_ca_config_Inr)
  have 2: "row_exists cc_id (au_ca_id (dp_authority dp)) (st_ca_configs ?s1)"
    by (simp add: ca_rows.exists_upsert default_ca_config_def Let_def)
  have 3: "store_issued_certificate ?s1 (issued_row e dp i en subj (cq_dns_names req)) = Inr x \<longleftrightarrow>
      \<not> row_exists ic_serial (is_serial i) (st_certs s) \<and>
      x = ?s1\<lparr>st_certs := st_certs s @ [issued_row e dp i en subj (cq_dns_names req)]\<rparr>" for i x
    using assms 2 by (simp add: store_issued_Inr issued_row_def fk_ok_def)
  show ?thesis
  proof (cases "au_sign (dp_authority dp) (clk e 1) (draw e) (cq_csr_pem req) (cq_dns_names req) (dp_lifetime dp)")
    case (Inl err)
    then show ?thesis by (simp add: issue_def)
  next
    case (Inr j)
    then show ?thesis
      using 1 3 [of j "?s1\<lparr>st_certs := st_certs s @ [issued_row e dp j en subj (cq_dns_names req)]\<rparr>"] 3 [of j s']
      by (cases "store_issued_certificate ?s1 (issued_row e dp j en subj (cq_dns_names req))")
        (auto simp: issue_def)
  qed
qed

lemma issue_certs:
  "issue e dp s req en subj = (s', r) \<Longrightarrow>
    st_certs s' = (case r of Inl _ \<Rightarrow> st_certs s
      | Inr i \<Rightarrow> st_certs s @ [issued_row e dp i en subj (cq_dns_names req)])"
  by (drule issue_cases) (auto simp: ensure_ca_config_Inr store_issued_Inr split: sum.splits)

section \<open>Certificates keep their identity\<close>

text \<open>No request removes a certificate or changes anything but its revocation, which is never undone.\<close>

definition cert_le :: "issued_certificate \<Rightarrow> issued_certificate \<Rightarrow> bool" where
  "cert_le c c' \<longleftrightarrow> c' = c\<lparr>ic_revoked_at := ic_revoked_at c'\<rparr> \<and> (ic_revoked_at c \<noteq> None \<longrightarrow> ic_revoked_at c' \<noteq> None)"

definition certs_le :: "issued_certificate list \<Rightarrow> issued_certificate list \<Rightarrow> bool" where
  "certs_le cs ds \<longleftrightarrow> (\<forall>c \<in> set cs. \<exists>d \<in> set ds. cert_le c d)"

lemma cert_le_refl [simp]: "cert_le c c" by (simp add: cert_le_def)

lemma cert_le_trans: "cert_le c d \<Longrightarrow> cert_le d f \<Longrightarrow> cert_le c f"
  by (cases c; cases d; cases f) (auto simp: cert_le_def)

lemma cert_le_serial: "cert_le c d \<Longrightarrow> ic_serial d = ic_serial c"
  by (cases c; cases d) (auto simp: cert_le_def)

lemma certs_le_refl [simp]: "certs_le cs cs" by (auto simp: certs_le_def intro: cert_le_refl)

lemma certs_le_trans: "certs_le cs ds \<Longrightarrow> certs_le ds fs \<Longrightarrow> certs_le cs fs"
  unfolding certs_le_def by (meson cert_le_trans)

lemma certs_le_append [simp]: "certs_le cs (cs @ ds)" by (auto simp: certs_le_def intro: cert_le_refl)

lemma certs_le_revoke:
  "certs_le cs (row_update ic_serial n (\<lambda>c. c\<lparr>ic_revoked_at := Some t\<rparr>) cs)"
proof -
  have "cert_le c (if ic_serial c = n then c\<lparr>ic_revoked_at := Some t\<rparr> else c)" for c
    by (cases c) (simp add: cert_le_def)
  then have "\<exists>d \<in> set (row_update ic_serial n (\<lambda>c. c\<lparr>ic_revoked_at := Some t\<rparr>) cs). cert_le c d"
    if "c \<in> set cs" for c
    unfolding row_update_def set_map using that by (rule bexI [OF _ imageI])
  then show ?thesis unfolding certs_le_def by blast
qed

lemma certs_frame [frame]:
  "create_bootstrap_token s t = Inr s' \<Longrightarrow> st_certs s' = st_certs s"
  "revoke_bootstrap_token now s i = Inr s' \<Longrightarrow> st_certs s' = st_certs s"
  "create_enrollment s e = Inr s' \<Longrightarrow> st_certs s' = st_certs s"
  "create_audit_log sha (Some s) a = Inr s' \<Longrightarrow> st_certs s' = st_certs s"
  "upsert_ca_config s cc = Inr s' \<Longrightarrow> st_certs s' = st_certs s"
  "upsert_root_ca s rt = Inr s' \<Longrightarrow> st_certs s' = st_certs s"
  "upsert_intermediate_ca s im = Inr s' \<Longrightarrow> st_certs s' = st_certs s"
  "upsert_ca_role s ro = Inr s' \<Longrightarrow> st_certs s' = st_certs s"
  "upsert_ca_token_policy s tp = Inr s' \<Longrightarrow> st_certs s' = st_certs s"
  by (auto simp: create_bootstrap_token_def revoke_bootstrap_token_def create_enrollment_def create_audit_log_def
      upsert_ca_config_def upsert_root_ca_def upsert_intermediate_ca_def upsert_ca_role_def
      upsert_ca_token_policy_def Let_def split: if_splits)

lemma committed_certs_le:
  "(\<And>s'. r = Inr s' \<Longrightarrow> certs_le (st_certs s) (st_certs s')) \<Longrightarrow> certs_le (st_certs s) (st_certs (committed s r))"
  by (cases r) auto

lemma exec_certs_le: "certs_le (st_certs s) (st_certs (exec sha s c))"
proof (cases c)
  case (RevokeCertificate r)
  then show ?thesis by (auto simp: revoke_certificate_def Let_def certs_le_revoke)
qed (auto intro!: committed_certs_le simp: frame migrate_def store_issued_Inr)

lemma run_certs_le: "certs_le (st_certs s) (st_certs (run sha s cs))"
  by (induction cs arbitrary: s) (auto intro: certs_le_trans exec_certs_le)

end
