(* ===== verification/Api_Properties.thy ===== *)
theory Api_Properties
  imports Api_Contract
begin

text \<open>The properties of the HTTP interface, over the lemmas of \<open>Api_Contract\<close>.\<close>

lemma schema_in_tables:
  "set schema_tables \<subseteq> set ts \<Longrightarrow> ''ca_config'' \<in> set ts \<and> ''issued_certificates'' \<in> set ts \<and>
    ''enrollments'' \<in> set ts \<and> ''bootstrap_tokens'' \<in> set ts \<and> ''audit_logs'' \<in> set ts \<and> ''revoked_certificates'' \<in> set ts"
  by (auto simp: schema_tables_def)

lemma write_error_status [simp]: "rs_status (write_error e n err) = n"
  by (simp add: write_error_def reply_def)

lemma reply_simps [simp]: "rs_status (reply n b) = n" "rs_body (reply n b) = b"
  by (simp_all add: reply_def)

text \<open>The three things a request can do to the certificates.\<close>

definition certs_step :: "env \<Rightarrow> dependencies \<Rightarrow> issued_certificate list \<Rightarrow> issued_certificate list \<Rightarrow> bool" where
  "certs_step e dp cs cs' \<longleftrightarrow>
     cs' = cs \<or> (\<exists>n t. cs' = row_update ic_serial n (\<lambda>c. c\<lparr>ic_revoked_at := Some t\<rparr>) cs) \<or>
     (\<exists>i (q :: certificate_request) en subj. au_sign (dp_authority dp) (clk e 1) (draw e) (cq_csr_pem q) (cq_dns_names q) (dp_lifetime dp) = Inr i \<and>
        cs' = cs @ [issued_row e dp i en subj (cq_dns_names q)])"

lemma certs_step_refl [simp]: "certs_step e dp cs cs"
  by (simp add: certs_step_def)

lemma issue_step:
  fixes q :: certificate_request
  shows "issue e dp s q en subj = (s', r) \<Longrightarrow> certs_step e dp (st_certs s) (st_certs s')"
proof -
  assume a: "issue e dp s q en subj = (s', r)"
  show ?thesis
  proof (cases r)
    case (Inl x)
    then show ?thesis using issue_certs [OF a] by simp
  next
    case (Inr i)
    then have "au_sign (dp_authority dp) (clk e 1) (draw e) (cq_csr_pem q) (cq_dns_names q) (dp_lifetime dp) = Inr i"
      using issue_cases [OF a] by auto
    moreover have "st_certs s' = st_certs s @ [issued_row e dp i en subj (cq_dns_names q)]"
      using issue_certs [OF a] Inr by simp
    ultimately show ?thesis unfolding certs_step_def by blast
  qed
qed

lemma revoke_step: "revoke_certificate s x = (s', y) \<Longrightarrow> certs_step e dp (st_certs s) (st_certs s')"
proof -
  assume "revoke_certificate s x = (s', y)"
  then have "st_certs s' = st_certs s \<or> st_certs s' =
      row_update ic_serial (rc_serial x) (\<lambda>c. c\<lparr>ic_revoked_at := Some (rc_revoked_at x)\<rparr>) (st_certs s)"
    by (auto simp: revoke_certificate_def Let_def split: if_splits)
  then show ?thesis unfolding certs_step_def by blast
qed

lemma dispatch_step:
  "certs_step e dp (st_certs (sv_store sv)) (st_certs (sv_store (fst (dispatch sha e dp sv req))))"
proof (cases req)
  case (PostEnroll b)
  then show ?thesis
    by (auto simp: enroll_handler_def record_audit_frame validate_and_enroll_Inr create_enrollment_Inr split: sum.splits)
next
  case (PostRequest b)
  then show ?thesis
    by (auto simp: request_certificate_def record_audit_frame split: sum.splits prod.splits dest: issue_step)
next
  case (PostRenew n b)
  then show ?thesis
    by (auto simp: renew_certificate_def record_audit_frame split: sum.splits prod.splits dest: issue_step)
next
  case (PostRevoke b)
  then show ?thesis
    by (auto simp: revoke_certificate_handler_def Let_def record_audit_frame split: sum.splits prod.splits option.splits dest: revoke_step)
qed simp_all

definition lifetimes_ok :: "dependencies \<Rightarrow> issued_certificate list \<Rightarrow> bool" where
  "lifetimes_ok dp cs \<longleftrightarrow> list_all (\<lambda>c. ic_not_after c - ic_not_before c = dp_lifetime dp) cs"

context signing_authority
begin

lemma step_lifetimes:
  assumes "dp_authority dp = a" and "lifetimes_ok dp cs" and "certs_step e dp cs cs'"
  shows "lifetimes_ok dp cs'"
  using assms signed_duration
  by (auto simp: certs_step_def lifetimes_ok_def list_all_update issued_row_def)

lemma serve_all_lifetimes:
  assumes "dp_authority dp = a" and "lifetimes_ok dp (st_certs (sv_store sv))"
  shows "lifetimes_ok dp (st_certs (sv_store (serve_all sha dp sv reqs)))"
  using assms(2)
proof (induction reqs arbitrary: sv)
  case (Cons x reqs)
  then show ?case by (cases x) (auto intro!: Cons.IH step_lifetimes [OF assms(1) _ dispatch_step])
qed simp

end

section \<open>Properties\<close>

text \<open>
  A server that starts on a migrated database never breaks the store's invariant, whatever
  requests it gets: keys stay unique, statuses valid, references resolve; and with a file
  authority every certificate in the store has the configured lifetime.
\<close>

theorem server_keeps_store_inv:
  "store_inv (sv_store (serve_all sha dp \<lparr>sv_store = migrate (empty_store fk), sv_metrics = m\<rparr> reqs)) \<and>
   list_all (\<lambda>c. ic_not_after c - ic_not_before c = dp_lifetime dp)
     (st_certs (sv_store (serve_all sha (dp\<lparr>dp_authority := file_signer lib fa\<rparr>)
       \<lparr>sv_store = migrate (empty_store fk), sv_metrics = m\<rparr> reqs)))"
proof
  obtain cs where "sv_store (serve_all sha dp \<lparr>sv_store = migrate (empty_store fk), sv_metrics = m\<rparr> reqs) =
      run sha (migrate (empty_store fk)) cs"
    using serve_all_run [of sha dp "\<lparr>sv_store = migrate (empty_store fk), sv_metrics = m\<rparr>"] by auto
  then show "store_inv (sv_store (serve_all sha dp \<lparr>sv_store = migrate (empty_store fk), sv_metrics = m\<rparr> reqs))"
    by (simp add: run_inv inv_migrate)
  have "st_certs (migrate (empty_store fk)) = []" by (simp add: migrate_def empty_store_def)
  then show "list_all (\<lambda>c. ic_not_after c - ic_not_before c = dp_lifetime dp)
     (st_certs (sv_store (serve_all sha (dp\<lparr>dp_authority := file_signer lib fa\<rparr>)
       \<lparr>sv_store = migrate (empty_store fk), sv_metrics = m\<rparr> reqs)))"
    using signer.serve_all_lifetimes [of "dp\<lparr>dp_authority := file_signer lib fa\<rparr>" lib fa
        "\<lparr>sv_store = migrate (empty_store fk), sv_metrics = m\<rparr>"]
    by (simp add: lifetimes_ok_def)
qed

text \<open>The two outcomes of \<open>issue\<close> on a store with its tables.\<close>

lemma issue_outcome:
  assumes "set schema_tables \<subseteq> set (st_tables s)" and "issue e dp s q en subj = (s', x)"
  obtains (Issued) i where "x = Inr i"
      and "au_sign (dp_authority dp) (clk e 1) (draw e) (cq_csr_pem q) (cq_dns_names q) (dp_lifetime dp) = Inr i"
      and "\<not> row_exists ic_serial (is_serial i) (st_certs s)"
      and "st_certs s' = st_certs s @ [issued_row e dp i en subj (cq_dns_names q)]"
  | (Refused) n err where "x = Inl (n, err)" and "n \<noteq> 201" and "st_certs s' = st_certs s"
      and "\<And>i. au_sign (dp_authority dp) (clk e 1) (draw e) (cq_csr_pem q) (cq_dns_names q) (dp_lifetime dp) = Inr i \<Longrightarrow>
        row_exists ic_serial (is_serial i) (st_certs s)"
proof (cases x)
  case (Inr i)
  then show ?thesis using Issued assms(2) schema_in_tables [OF assms(1)] by (auto simp: issue_Inr)
next
  case (Inl y)
  obtain n err where y: "y = (n, err)" by (cases y)
  have "row_exists ic_serial (is_serial i) (st_certs s)"
    if "au_sign (dp_authority dp) (clk e 1) (draw e) (cq_csr_pem q) (cq_dns_names q) (dp_lifetime dp) = Inr i" for i
    using assms(2) Inl that issue_Inr [of s e dp q en subj _ i] schema_in_tables [OF assms(1)] by fastforce
  moreover have "n \<noteq> 201" using issue_cases [OF assms(2)] Inl y by auto
  moreover have "st_certs s' = st_certs s" using issue_certs [OF assms(2)] Inl by simp
  ultimately show ?thesis using Refused Inl y by blast
qed

text \<open>
  C4. A certificate request is answered with 201 exactly when it names an enrollment of the
  store, the authority signs the CSR and the serial is new; the certificate is then stored for
  that enrollment and its host. Any other answer leaves the certificates as they were.
\<close>

theorem request_certificate_created:
  assumes "set schema_tables \<subseteq> set (st_tables (sv_store sv))"
    and "request_certificate sha e dp sv (Inr req) = (sv', r)"
  shows "(rs_status r = 201) = (trim_space (cq_enrollment_id req) \<noteq> [] \<and>
      (\<exists>en i. row_find en_id (st_enrollments (sv_store sv)) (cq_enrollment_id req) = Some en \<and>
         au_sign (dp_authority dp) (clk e 1) (draw e) (cq_csr_pem req) (cq_dns_names req) (dp_lifetime dp) = Inr i \<and>
         \<not> row_exists ic_serial (is_serial i) (st_certs (sv_store sv)))) \<and>
    (rs_status r = 201 \<longrightarrow>
      (\<exists>en i. row_find en_id (st_enrollments (sv_store sv)) (cq_enrollment_id req) = Some en \<and>
         au_sign (dp_authority dp) (clk e 1) (draw e) (cq_csr_pem req) (cq_dns_names req) (dp_lifetime dp) = Inr i \<and>
         rs_body r = CertificateBody (cert_response dp i) \<and>
         st_certs (sv_store sv') = st_certs (sv_store sv) @ [issued_row e dp i (en_id en) (en_hostname en) (cq_dns_names req)])) \<and>
    (rs_status r \<noteq> 201 \<longrightarrow> st_certs (sv_store sv') = st_certs (sv_store sv))"
proof -
  note tabs = schema_in_tables [OF assms(1)]
  have en: "get_enrollment (sv_store sv) (cq_enrollment_id req) = Inr en \<longleftrightarrow>
      row_find en_id (st_enrollments (sv_store sv)) (cq_enrollment_id req) = Some en" for en
    using tabs by (auto simp: get_enrollment_def split: option.splits)
  show ?thesis
  proof (cases "trim_space (cq_enrollment_id req) = []")
    case True
    then show ?thesis using assms(2) by (auto simp: request_certificate_def)
  next
    case nb: False
    show ?thesis
    proof (cases "get_enrollment (sv_store sv) (cq_enrollment_id req)")
      case (Inl err)
      moreover from Inl have "row_find en_id (st_enrollments (sv_store sv)) (cq_enrollment_id req) \<noteq> Some en" for en
        using en [of en] by simp
      ultimately show ?thesis using assms(2) nb by (auto simp: request_certificate_def)
    next
      case (Inr en')
      obtain s1 x where x: "issue e dp (sv_store sv) req (en_id en') (en_hostname en') = (s1, x)" by fastforce
      from assms(1) x show ?thesis
      proof (cases rule: issue_outcome)
        case (Issued i)
        then show ?thesis using assms(2) nb Inr x en [of en'] by (auto simp: request_certificate_def record_audit_frame)
      next
        case (Refused n err)
        then show ?thesis using assms(2) nb Inr x by (auto simp: request_certificate_def)
      qed
    qed
  qed
qed

definition demo_deps :: dependencies where
  "demo_deps = \<lparr>dp_lifetime = hour, dp_renew_before = minute, dp_authority = file_signer demo_lib demo_authority\<rparr>"

definition demo_cert_request :: certificate_request where
  "demo_cert_request = \<lparr>cq_enrollment_id = ''en'', cq_csr_pem = ''csr'', cq_dns_names = [''node.local'']\<rparr>"

definition demo_enrollment :: enrollment where
  "demo_enrollment = \<lparr>en_id = ''en'', en_hostname = ''node'', en_machine_id = ''m'', en_mac = [],
     en_token_id = ''tok'', en_created_at = 7\<rparr>"

definition demo_server :: server where
  "demo_server = \<lparr>sv_store = demo_store\<lparr>st_enrollments := [demo_enrollment]\<rparr>, sv_metrics = []\<rparr>"

definition demo_issued :: issued where
  "demo_issued = \<lparr>is_serial = ''ff'', is_cert_pem = ''ff'', is_not_before = clk demo_env 1 - minute,
     is_not_after = clk demo_env 1 - minute + hour\<rparr>"

lemma demo_ff: "show_hex 255 = ''ff''"
  by (simp add: show_hex.simps hex_digit_def char_of_def bit_iff_odd)

lemma demo_sign:
  "au_sign (file_signer demo_lib demo_authority) (clk demo_env 1) (draw demo_env) (''csr'') [''node.local''] hour
     = Inr demo_issued"
proof -
  have ne: "trim_space ''node.local'' \<noteq> []" by code_simp
  show ?thesis
    using ne by (simp add: file_signer_def sign_csr_def Let_def demo_lib_def demo_csr_def demo_env_def demo_issued_def
        leaf_template_def demo_ff)
qed

lemma demo_server_simps [simp]:
  "set schema_tables \<subseteq> set (st_tables (sv_store demo_server))"
  "st_enrollments (sv_store demo_server) = [demo_enrollment]" "st_certs (sv_store demo_server) = []"
  by (auto simp: demo_server_def) (simp add: demo_store_def migrate_def empty_store_def)

lemma demo_request_sign [simp]:
  "au_sign (dp_authority demo_deps) (clk demo_env (Suc 0)) (draw demo_env) (cq_csr_pem demo_cert_request)
     (cq_dns_names demo_cert_request) (dp_lifetime demo_deps) = Inr demo_issued"
  using demo_sign by (simp add: demo_deps_def demo_cert_request_def)

lemma demo_find [simp]:
  "row_find en_id [demo_enrollment] (cq_enrollment_id demo_cert_request) = Some demo_enrollment"
  "trim_space (cq_enrollment_id demo_cert_request) \<noteq> []"
  by (simp_all add: row_find_def demo_enrollment_def demo_cert_request_def trim_space_def is_space_def code_def)

theorem request_certificate_created_witness:
  "rs_status (snd (request_certificate demo_sha demo_env demo_deps demo_server (Inr demo_cert_request))) = 201"
  using request_certificate_created [OF demo_server_simps(1) prod.collapse [symmetric],
      of demo_sha demo_env demo_deps demo_cert_request]
  by (simp add: row_exists_def)

text \<open>
  C7. A renewal is answered with 201 exactly when the authority signs the CSR, the serial is new
  and the request is not provably early: its \<open>serial\<close> parameter is missing, or names no
  certificate of the store, or names one that expires within the renewal window. No
  enrollment is looked up; the id of the request is recorded as enrollment and as subject.
\<close>

theorem renew_certificate_created:
  assumes "set schema_tables \<subseteq> set (st_tables (sv_store sv))"
    and "min_duration < dp_renew_before dp" and "dp_renew_before dp < max_duration"
    and "renew_certificate sha e dp sv old_serial (Inr req) = (sv', r)"
  shows "(rs_status r = 201) =
      ((old_serial = [] \<or> (case row_find ic_serial (st_certs (sv_store sv)) old_serial of
           None \<Rightarrow> True | Some old \<Rightarrow> ic_not_after old - clk e 0 \<le> dp_renew_before dp)) \<and>
       (\<exists>i. au_sign (dp_authority dp) (clk e 1) (draw e) (cq_csr_pem req) (cq_dns_names req) (dp_lifetime dp) = Inr i \<and>
          \<not> row_exists ic_serial (is_serial i) (st_certs (sv_store sv)))) \<and>
    (rs_status r = 201 \<longrightarrow>
      (\<exists>i. au_sign (dp_authority dp) (clk e 1) (draw e) (cq_csr_pem req) (cq_dns_names req) (dp_lifetime dp) = Inr i \<and>
         st_certs (sv_store sv') = st_certs (sv_store sv) @
           [issued_row e dp i (cq_enrollment_id req) (cq_enrollment_id req) (cq_dns_names req)])) \<and>
    (rs_status r \<noteq> 201 \<longrightarrow> st_certs (sv_store sv') = st_certs (sv_store sv))"
proof -
  note tabs = schema_in_tables [OF assms(1)]
  have win: "inside_window e dp (sv_store sv) old_serial \<longleftrightarrow>
      (old_serial = [] \<or> (case row_find ic_serial (st_certs (sv_store sv)) old_serial of
           None \<Rightarrow> True | Some old \<Rightarrow> ic_not_after old - clk e 0 \<le> dp_renew_before dp))"
    using tabs time_sub_less_iff [OF assms(2,3)]
    by (auto simp: inside_window_def get_issued_certificate_def need_def not_less split: option.splits)
  show ?thesis
  proof (cases "inside_window e dp (sv_store sv) old_serial")
    case False
    with assms(4) show ?thesis unfolding win [symmetric] by (auto simp: renew_certificate_def)
  next
    case True
    let ?en = "cq_enrollment_id req"
    obtain s1 x where x: "issue e dp (sv_store sv) req ?en ?en = (s1, x)" by fastforce
    from assms(1) x show ?thesis
    proof (cases rule: issue_outcome)
      case (Issued i)
      then show ?thesis
        using assms(4) True x unfolding win [symmetric] by (auto simp: renew_certificate_def record_audit_frame)
    next
      case (Refused n err)
      then show ?thesis
        using assms(4) True x unfolding win [symmetric] by (auto simp: renew_certificate_def)
    qed
  qed
qed

lemma demo_renew_before: "min_duration < dp_renew_before demo_deps" "dp_renew_before demo_deps < max_duration"
  by (simp_all add: demo_deps_def units min_duration_def max_duration_def)

theorem renew_certificate_created_witness:
  "rs_status (snd (renew_certificate demo_sha demo_env demo_deps demo_server ''00'' (Inr demo_cert_request))) = 201"
  using renew_certificate_created [OF demo_server_simps(1) demo_renew_before prod.collapse [symmetric],
      of demo_sha demo_env "''00''" demo_cert_request]
  by (simp add: row_exists_def row_find_def)

text \<open>
  C13. The renewal endpoint issues what the request endpoint refuses: for an enrollment id the
  store does not know, a request is answered with 401 and the same body sent to
  \<open>/v1/certificates/renew\<close> without a \<open>serial\<close> parameter yields a new certificate.
\<close>

theorem renew_bypasses_enrollment:
  assumes "set schema_tables \<subseteq> set (st_tables (sv_store sv))"
    and "trim_space (cq_enrollment_id req) \<noteq> []" and "\<not> row_exists en_id (cq_enrollment_id req) (st_enrollments (sv_store sv))"
    and "au_sign (dp_authority dp) (clk e 1) (draw e) (cq_csr_pem req) (cq_dns_names req) (dp_lifetime dp) = Inr i"
    and "\<not> row_exists ic_serial (is_serial i) (st_certs (sv_store sv))"
  shows "snd (request_certificate sha e dp sv (Inr req)) = write_error e 401 UnknownEnrollment \<and>
    snd (renew_certificate sha e dp sv [] (Inr req)) = reply 201 (CertificateBody (cert_response dp i))"
proof -
  note tabs = schema_in_tables [OF assms(1)]
  have "get_enrollment (sv_store sv) (cq_enrollment_id req) = Inl ErrNotFound"
    using assms(3) tabs row_find_None [THEN iffD2, OF assms(3)] by (simp add: get_enrollment_def need_def)
  moreover obtain s' where "issue e dp (sv_store sv) req (cq_enrollment_id req) (cq_enrollment_id req) = (s', Inr i)"
    using issue_Inr [of "sv_store sv"] tabs assms(4,5) by blast
  ultimately show ?thesis
    using assms(2) by (simp add: request_certificate_def renew_certificate_def inside_window_def)
qed

theorem renew_bypasses_enrollment_witness:
  "snd (renew_certificate demo_sha demo_env demo_deps demo_server [] (Inr (demo_cert_request\<lparr>cq_enrollment_id := ''nobody''\<rparr>)))
     = reply 201 (CertificateBody (cert_response demo_deps demo_issued))"
proof -
  let ?req = "demo_cert_request\<lparr>cq_enrollment_id := ''nobody''\<rparr>"
  have 1: "trim_space (cq_enrollment_id ?req) \<noteq> []" by (simp add: trim_space_def is_space_def code_def)
  have 2: "\<not> row_exists en_id (cq_enrollment_id ?req) (st_enrollments (sv_store demo_server))"
    by (simp add: row_exists_def demo_enrollment_def)
  have 3: "\<not> row_exists ic_serial (is_serial demo_issued) (st_certs (sv_store demo_server))" by (simp add: row_exists_def)
  show ?thesis
    using renew_bypasses_enrollment [OF demo_server_simps(1) 1 2 _ 3, of demo_deps demo_env demo_sha] by simp
qed

text \<open>
  Revocation is final: once the server has answered a revocation with 200, the status of the
  certificate shows it as revoked after any further requests, and it is still there.
\<close>

theorem revoked_stays_revoked:
  assumes "store_inv (sv_store sv)" and "st_fk (sv_store sv)" and "set schema_tables \<subseteq> set (st_tables (sv_store sv))"
    and "revoke_certificate_handler sha e sv (Inr q) = (sv1, r)" and "rs_status r = 200"
  shows "\<exists>c. certificate_status e' (serve_all sha dp sv1 reqs) (rq_serial q) = reply 200 (IssuedBody c) \<and>
    ic_serial c = rq_serial q \<and> ic_revoked_at c \<noteq> None"
proof -
  let ?s = "sv_store sv" and ?n = "rq_serial q"
  let ?rows = "row_update ic_serial ?n (\<lambda>c. c\<lparr>ic_revoked_at := Some (clk e 0)\<rparr>) (st_certs ?s)"
  note tabs = schema_in_tables [OF assms(3)]
  have ex: "row_exists ic_serial ?n (st_certs ?s)" and certs: "st_certs (sv_store sv1) = ?rows"
    using assms(2,4,5) tabs
    by (auto simp: revoke_certificate_handler_def revoke_certificate_def Let_def fk_ok_def record_audit_frame
        split: if_splits)
  obtain cs where cs: "sv_store (serve_all sha dp sv1 reqs) = run sha (sv_store sv1) cs" using serve_all_run by blast
  obtain ds where ds: "sv_store sv1 = run sha ?s ds"
    using dispatch_run [of sha e dp sv "PostRevoke (Inr q)"] assms(4) by auto
  have inv: "store_inv (sv_store (serve_all sha dp sv1 reqs))" unfolding cs ds by (intro run_inv assms(1))
  obtain c0 where c0: "c0 \<in> set (st_certs ?s)" "ic_serial c0 = ?n" using ex by (auto simp: row_exists_iff)
  then have "c0\<lparr>ic_revoked_at := Some (clk e 0)\<rparr> \<in> set (st_certs (sv_store sv1))"
    unfolding certs by (auto simp: row_update_def)
  then obtain c where c: "c \<in> set (st_certs (sv_store (serve_all sha dp sv1 reqs)))"
      "cert_le (c0\<lparr>ic_revoked_at := Some (clk e 0)\<rparr>) c"
    using run_certs_le [of "sv_store sv1" sha cs] unfolding cs certs_le_def by blast
  have n: "ic_serial c = ?n" using cert_le_serial [OF c(2)] c0 by simp
  have "distinct (map ic_serial (st_certs (sv_store (serve_all sha dp sv1 reqs))))"
    using inv by (simp add: store_inv_def keys_ok_def)
  from row_find_distinct [OF this c(1)] have "row_find ic_serial (st_certs (sv_store (serve_all sha dp sv1 reqs))) ?n = Some c"
    by (simp add: n)
  moreover have "''issued_certificates'' \<in> set (st_tables (run sha ?s xs))" for xs
    using tabs by (intro run_tables) simp
  then have "''issued_certificates'' \<in> set (st_tables (sv_store (serve_all sha dp sv1 reqs)))"
    unfolding cs ds run_append .
  ultimately have "certificate_status e' (serve_all sha dp sv1 reqs) ?n = reply 200 (IssuedBody c)"
    by (simp add: certificate_status_def get_issued_certificate_def need_def)
  moreover have "ic_revoked_at c \<noteq> None" using c(2) by (simp add: cert_le_def)
  ultimately show ?thesis using n by blast
qed

definition demo_revoke :: revoke_request where
  "demo_revoke = \<lparr>rq_serial = ''1f'', rq_reason = []\<rparr>"

definition demo_cert_server :: server where
  "demo_cert_server = \<lparr>sv_store = demo_store\<lparr>st_ca_configs := [\<lparr>cc_id = ''ca'', cc_name = ''default'',
     cc_root_fingerprint = ''ca'', cc_intermediate_fingerprint = ''ca'', cc_status = ''active'', cc_created_at = 0,
     cc_not_before = 0, cc_not_after = 9\<rparr>], st_certs := [demo_cert]\<rparr>, sv_metrics = []\<rparr>"

lemma demo_cert_server_simps [simp]:
  "set schema_tables \<subseteq> set (st_tables (sv_store demo_cert_server))" "st_fk (sv_store demo_cert_server)"
  "st_certs (sv_store demo_cert_server) = [demo_cert]" "st_audit (sv_store demo_cert_server) = []"
  "store_inv (sv_store demo_cert_server)"
  by (auto simp: demo_cert_server_def)
    (simp_all add: demo_store_def migrate_def empty_store_def inv_defs ca_config_status_ok_def demo_cert_def row_exists_def)

lemma revoke_handler_known:
  assumes "set schema_tables \<subseteq> set (st_tables (sv_store sv))" and "rq_serial q \<noteq> []"
    and "row_exists ic_serial (rq_serial q) (st_certs (sv_store sv))"
  shows "rs_status (snd (revoke_certificate_handler sha e sv (Inr q))) = 200 \<and>
    st_certs (sv_store (fst (revoke_certificate_handler sha e sv (Inr q)))) =
      row_update ic_serial (rq_serial q) (\<lambda>c. c\<lparr>ic_revoked_at := Some (clk e 0)\<rparr>) (st_certs (sv_store sv)) \<and>
    sv_metrics (fst (revoke_certificate_handler sha e sv (Inr q))) =
      sv_metrics sv @ [adds CertificatesRevoked 1 (certificate_labels ''unknown'' ''revoked''),
        adds ActiveCertificates (- 1) (certificate_labels ''unknown'' ''revoked'')] \<and>
    st_tables (sv_store (fst (revoke_certificate_handler sha e sv (Inr q)))) = st_tables (sv_store sv)"
  using schema_in_tables [OF assms(1)] assms(2,3)
  by (simp add: revoke_certificate_handler_def revoke_certificate_def Let_def fk_ok_def record_audit_frame)

theorem revoked_stays_revoked_witness:
  "\<exists>c. certificate_status demo_env (serve_all demo_sha demo_deps
       (fst (revoke_certificate_handler demo_sha demo_env demo_cert_server (Inr demo_revoke)))
       [(demo_env, PostRenew ''1f'' (Inr demo_cert_request))]) ''1f'' = reply 200 (IssuedBody c) \<and>
     ic_revoked_at c \<noteq> None"
proof -
  have "rs_status (snd (revoke_certificate_handler demo_sha demo_env demo_cert_server (Inr demo_revoke))) = 200"
    by (rule revoke_handler_known [THEN conjunct1]) (simp_all add: demo_revoke_def row_exists_def demo_cert_def)
  then show ?thesis
    using revoked_stays_revoked [OF demo_cert_server_simps(5,2,1) prod.collapse [symmetric],
        of demo_sha demo_env demo_revoke demo_env demo_deps "[(demo_env, PostRenew ''1f'' (Inr demo_cert_request))]"]
    by (auto simp: demo_revoke_def)
qed

lemma revoked_twice_count:
  fixes t u :: gotime and c :: issued_certificate and cs :: "issued_certificate list"
  defines "upd \<equiv> \<lambda>t. row_update ic_serial (ic_serial c) (\<lambda>c. c\<lparr>ic_revoked_at := Some t\<rparr>)"
  assumes "distinct (map ic_serial cs)" and "c \<in> set cs" and "ic_revoked_at c = None"
  shows "length (filter (\<lambda>c. ic_revoked_at c = None) (upd u (upd t cs))) + 1 = length (filter (\<lambda>c. ic_revoked_at c = None) cs)"
  using assms(2,3)
proof (induction cs)
  case (Cons d ds)
  show ?case
  proof (cases "d = c")
    case True
    then have "ic_serial c \<notin> ic_serial ` set ds" using Cons.prems(1) by auto
    then have "upd t ds = ds" for t unfolding upd_def by (intro row_update_absent) (simp add: row_exists_iff)
    moreover have "upd t (d # xs) = d\<lparr>ic_revoked_at := Some t\<rparr> # upd t xs" if "ic_serial d = ic_serial c" for t d xs
      using that by (simp add: row_update_def upd_def)
    ultimately show ?thesis using True assms(4) by simp
  next
    case False
    then have c: "c \<in> set ds" using Cons.prems(2) by auto
    then have "ic_serial c \<in> ic_serial ` set ds" by (rule imageI)
    then have "ic_serial d \<noteq> ic_serial c" using Cons.prems(1) by auto
    then have "upd t (d # xs) = d # upd t xs" for t xs by (simp add: row_update_def upd_def)
    then show ?thesis using Cons.IH [OF _ c] Cons.prems(1) by auto
  qed
qed simp

text \<open>
  The gauge of active certificates drifts: revoking the same certificate twice is answered
  with 200 both times and lowers the gauge by two, though only one certificate of the store
  stops being active.
\<close>

theorem active_gauge_drifts:
  assumes "set schema_tables \<subseteq> set (st_tables (sv_store sv))" and "rq_serial q \<noteq> []"
    and "distinct (map ic_serial (st_certs (sv_store sv)))"
    and "c \<in> set (st_certs (sv_store sv))" and "ic_serial c = rq_serial q" and "ic_revoked_at c = None"
    and "revoke_certificate_handler sha e sv (Inr q) = (sv1, r1)"
    and "revoke_certificate_handler sha e' sv1 (Inr q) = (sv2, r2)"
  shows "rs_status r1 = 200 \<and> rs_status r2 = 200 \<and>
    total (sv_metrics sv2) ActiveCertificates = total (sv_metrics sv) ActiveCertificates - 2 \<and>
    length (filter (\<lambda>c. ic_revoked_at c = None) (st_certs (sv_store sv2))) + 1 =
      length (filter (\<lambda>c. ic_revoked_at c = None) (st_certs (sv_store sv)))"
proof -
  let ?n = "rq_serial q"
  let ?upd = "\<lambda>t. row_update ic_serial ?n (\<lambda>c. c\<lparr>ic_revoked_at := Some t\<rparr>)"
  have ex: "row_exists ic_serial ?n (st_certs (sv_store sv))"
    using assms(4) unfolding assms(5) [symmetric] by (simp add: row_exists_iff)
  note one = revoke_handler_known [OF assms(1,2) ex, of sha e, unfolded assms(7) fst_conv snd_conv]
  have tabs: "set schema_tables \<subseteq> set (st_tables (sv_store sv1))"
    and ex1: "row_exists ic_serial ?n (st_certs (sv_store sv1))"
    using one assms(1) ex by (simp_all add: row_exists_update)
  note two = revoke_handler_known [OF tabs assms(2) ex1, of sha e', unfolded assms(8) fst_conv snd_conv]
  have certs: "st_certs (sv_store sv2) = ?upd (clk e' 0) (?upd (clk e 0) (st_certs (sv_store sv)))"
    using one two by simp
  have "length (filter (\<lambda>c. ic_revoked_at c = None) (st_certs (sv_store sv2))) + 1 =
      length (filter (\<lambda>c. ic_revoked_at c = None) (st_certs (sv_store sv)))"
    unfolding certs using revoked_twice_count [OF assms(3,4,6), of "clk e' 0" "clk e 0"] unfolding assms(5) .
  then show ?thesis using one two by simp
qed

theorem active_gauge_drifts_witness:
  "total (sv_metrics (fst (revoke_certificate_handler demo_sha demo_env
     (fst (revoke_certificate_handler demo_sha demo_env demo_cert_server (Inr demo_revoke))) (Inr demo_revoke)))) ActiveCertificates = - 2"
proof -
  let ?sv1 = "fst (revoke_certificate_handler demo_sha demo_env demo_cert_server (Inr demo_revoke))"
  have "total (sv_metrics demo_cert_server) ActiveCertificates = 0" by (simp add: demo_cert_server_def)
  then show ?thesis
    using active_gauge_drifts [of demo_cert_server demo_revoke demo_cert demo_sha demo_env ?sv1
        "snd (revoke_certificate_handler demo_sha demo_env demo_cert_server (Inr demo_revoke))" demo_env
        "fst (revoke_certificate_handler demo_sha demo_env ?sv1 (Inr demo_revoke))"
        "snd (revoke_certificate_handler demo_sha demo_env ?sv1 (Inr demo_revoke))"]
    by (simp add: demo_revoke_def demo_cert_def)
qed

text \<open>
  Without CA material the server issues nothing: while the disabled authority is installed
  no sequence of requests adds a certificate or removes one.
\<close>

theorem disabled_authority_issues_nothing:
  assumes "dp_authority dp = disabled_authority"
  shows "map ic_serial (st_certs (sv_store (serve_all sha dp sv reqs))) = map ic_serial (st_certs (sv_store sv))"
proof (induction reqs arbitrary: sv)
  case (Cons x reqs)
  obtain e r where x: "x = (e, r)" by (cases x)
  have "certs_step e dp (st_certs (sv_store sv)) (st_certs (sv_store (fst (dispatch sha e dp sv r))))"
    by (rule dispatch_step)
  then have "map ic_serial (st_certs (sv_store (fst (dispatch sha e dp sv r)))) = map ic_serial (st_certs (sv_store sv))"
    using assms by (auto simp: certs_step_def disabled_authority_def certs_revoked_keys)
  with Cons.IH [of "fst (serve sha e dp sv r)"] show ?case by (simp add: x)
qed simp

theorem disabled_authority_issues_nothing_witness:
  "map ic_serial (st_certs (sv_store (serve_all demo_sha (demo_deps\<lparr>dp_authority := disabled_authority\<rparr>) demo_server
     [(demo_env, PostRequest (Inr demo_cert_request)), (demo_env, PostRenew [] (Inr demo_cert_request))]))) = []"
  by (subst disabled_authority_issues_nothing) simp_all

definition mutating :: "http_request \<Rightarrow> bool" where
  "mutating req \<longleftrightarrow> (case req of PostEnroll _ \<Rightarrow> True | PostRequest _ \<Rightarrow> True | PostRenew _ _ \<Rightarrow> True
     | PostRevoke _ \<Rightarrow> True | _ \<Rightarrow> False)"

lemma record_audit_fresh:
  assumes "''audit_logs'' \<in> set (st_tables (sv_store sv))" and "\<not> row_exists al_id (uuid e 5) (st_audit (sv_store sv))"
  shows "length (st_audit (sv_store (record_audit sha e sv action actor target meta))) = Suc (length (st_audit (sv_store sv)))"
  using assms by (simp add: record_audit_def audit_record_def create_audit_log_seal need_def audit_entry_def)

lemma issue_audit:
  "issue e dp s q en subj = (s', r) \<Longrightarrow> st_audit s' = st_audit s \<and> st_tables s' = st_tables s \<and>
     (\<forall>st err. r = Inl (st, err) \<longrightarrow> 400 \<le> st)"
  by (drule issue_cases) (auto simp: ensure_ca_config_Inr store_issued_Inr)

lemma revoke_audit:
  "revoke_certificate s r = (s', x) \<Longrightarrow> st_audit s' = st_audit s \<and> st_tables s' = st_tables s"
  by (auto simp: revoke_certificate_def Let_def split: if_splits)

lemma enroll_audit:
  "validate_and_enroll sha e s req = Inr (s', i) \<Longrightarrow> st_audit s' = st_audit s \<and> st_tables s' = st_tables s"
  by (auto simp: validate_and_enroll_Inr create_enrollment_Inr)

text \<open>
  C17. The audit trail is complete as long as the audit ids are fresh: an answer below 300 to
  one of the four requests that change the state comes with exactly one new audit entry, and no
  other answer writes one.
\<close>

theorem audit_trail_complete:
  assumes "''audit_logs'' \<in> set (st_tables (sv_store sv))" and "\<not> row_exists al_id (uuid e 5) (st_audit (sv_store sv))"
  shows "length (st_audit (sv_store (fst (dispatch sha e dp sv req)))) =
    length (st_audit (sv_store sv)) + (if mutating req \<and> rs_status (snd (dispatch sha e dp sv req)) < 300 then 1 else 0)"
proof (cases req)
  case (PostEnroll b)
  then show ?thesis
    using assms by (auto simp: mutating_def enroll_handler_def record_audit_fresh split: sum.splits dest!: enroll_audit)
next
  case (PostRequest b)
  then show ?thesis
    using assms by (auto simp: mutating_def request_certificate_def record_audit_fresh split: sum.splits prod.splits
        dest!: issue_audit)
next
  case (PostRenew n b)
  then show ?thesis
    using assms by (auto simp: mutating_def renew_certificate_def record_audit_fresh split: sum.splits prod.splits
        dest!: issue_audit)
next
  case (PostRevoke b)
  then show ?thesis
    using assms by (auto simp: mutating_def revoke_certificate_handler_def Let_def record_audit_fresh
        split: sum.splits prod.splits option.splits dest!: revoke_audit)
qed (simp_all add: mutating_def)

theorem audit_trail_complete_witness:
  "length (st_audit (sv_store (fst (dispatch demo_sha demo_env demo_deps demo_cert_server (PostRevoke (Inr demo_revoke)))))) = 1"
proof -
  have "rs_status (snd (revoke_certificate_handler demo_sha demo_env demo_cert_server (Inr demo_revoke))) = 200"
    by (rule revoke_handler_known [THEN conjunct1]) (simp_all add: demo_revoke_def row_exists_def demo_cert_def)
  then show ?thesis
    using audit_trail_complete [of demo_cert_server demo_env demo_sha demo_deps "PostRevoke (Inr demo_revoke)"]
      schema_in_tables [OF demo_cert_server_simps(1)]
    by (simp add: mutating_def row_exists_def)
qed

end
