(* ===== verification/Rbac_Properties.thy ===== *)
theory Rbac_Properties
  imports Rbac
begin

text \<open>What applying RBAC manifests does to the store.\<close>

section \<open>Applying as a run of store methods\<close>

text \<open>The commands manifests are turned into: declarations of CAs, roles and policies.\<close>

fun declares :: "command \<Rightarrow> bool" where
  "declares (UpsertRootCA c) = True"
| "declares (UpsertIntermediateCA c) = True"
| "declares (UpsertCARole r) = True"
| "declares (UpsertCATokenPolicy p) = True"
| "declares c = False"

definition reaches :: "store \<Rightarrow> store \<Rightarrow> bool" where
  "reaches s s' \<longleftrightarrow> (\<exists>cs. list_all declares cs \<and> s' = run (\<lambda>x. x) s cs)"

lemma reaches_refl [simp]: "reaches s s"
  unfolding reaches_def by (rule exI [of _ "[]"]) simp

lemma reaches_trans: "reaches s t \<Longrightarrow> reaches t u \<Longrightarrow> reaches s u"
  unfolding reaches_def run_def by (metis fold_append comp_apply list_all_append)

lemma reaches_command: "exec (\<lambda>x. x) s c = s' \<Longrightarrow> declares c \<Longrightarrow> reaches s s'"
  unfolding reaches_def by (rule exI [of _ "[c]"]) simp

text \<open>A declaration leaves the data of hosts alone.\<close>

lemma declared_frame:
  assumes "reaches s t"
  shows "st_certs t = st_certs s \<and> st_tokens t = st_tokens s \<and> st_enrollments t = st_enrollments s \<and>
    st_revoked t = st_revoked s \<and> st_audit t = st_audit s"
proof -
  have one: "st_certs (exec f s c) = st_certs s \<and> st_tokens (exec f s c) = st_tokens s \<and>
      st_enrollments (exec f s c) = st_enrollments s \<and> st_revoked (exec f s c) = st_revoked s \<and>
      st_audit (exec f s c) = st_audit s" if "declares c" for f s c
    using that by (cases c) (auto simp: committed_def upsert_root_ca_def upsert_intermediate_ca_def upsert_ca_role_def
        upsert_ca_token_policy_def Let_def split: sum.splits if_splits)
  have "st_certs (run f s cs) = st_certs s \<and> st_tokens (run f s cs) = st_tokens s \<and>
      st_enrollments (run f s cs) = st_enrollments s \<and> st_revoked (run f s cs) = st_revoked s \<and>
      st_audit (run f s cs) = st_audit s" if "list_all declares cs" for f s cs
    using that by (induction cs arbitrary: s) (simp_all add: one)
  then show ?thesis using assms by (auto simp: reaches_def)
qed

lemma reaches_inv: "reaches s s' \<Longrightarrow> store_inv s \<Longrightarrow> store_inv s'"
  by (auto simp: reaches_def intro: run_inv)

lemma apply_root_ca_reaches: "apply_root_ca now s m = Inr s' \<Longrightarrow> reaches s s'"
  by (rule reaches_command [of _ "UpsertRootCA (rbac_root now m)"]) (auto simp: apply_root_ca_def split: sum.splits)

lemma apply_intermediate_ca_reaches: "apply_intermediate_ca now s m = Inr s' \<Longrightarrow> reaches s s'"
proof -
  assume a: "apply_intermediate_ca now s m = Inr s'"
  then obtain ttl where "upsert_intermediate_ca s (rbac_intermediate now ttl m) = Inr s'"
    by (auto simp: apply_intermediate_ca_def split: option.splits sum.splits)
  then show ?thesis by (intro reaches_command [of _ "UpsertIntermediateCA (rbac_intermediate now ttl m)"]) simp_all
qed

lemma upsert_roles_reaches: "reaches s (fst (upsert_roles s rs))"
proof (induction rs arbitrary: s)
  case (Cons r rs)
  show ?case
  proof (cases "upsert_ca_role s r")
    case (Inr s')
    then have "reaches s s'" by (intro reaches_command [of _ "UpsertCARole r"]) simp_all
    with Cons.IH [of s'] Inr show ?thesis by (auto intro: reaches_trans)
  qed simp
qed simp

lemma apply_role_binding_reaches: "apply_role_binding now s role b = (s', x) \<Longrightarrow> reaches s s'"
  using upsert_roles_reaches [of s "binding_rows now role b"]
  by (auto simp: apply_role_binding_def split: prod.splits option.splits)

lemma apply_token_policy_reaches: "apply_token_policy pt now s m = Inr s' \<Longrightarrow> reaches s s'"
proof -
  assume a: "apply_token_policy pt now s m = Inr s'"
  then obtain ttl e where "upsert_ca_token_policy s (rbac_policy now ttl e m) = Inr s'"
    by (auto simp: apply_token_policy_def Let_def split: option.splits sum.splits)
  then show ?thesis by (intro reaches_command [of _ "UpsertCATokenPolicy (rbac_policy now ttl e m)"]) simp_all
qed

lemma apply_first_reaches: "apply_first now s roles res ms = (s', x) \<Longrightarrow> reaches s s'"
proof (induction ms arbitrary: s roles res)
  case (Cons m ms)
  show ?case
  proof (cases "mf_kind m = ''RootCA'' \<or> mf_kind m = ''IntermediateCA''")
    case True
    then show ?thesis
      using Cons.prems Cons.IH
      by (auto split: sum.splits if_splits dest!: apply_root_ca_reaches apply_intermediate_ca_reaches
          intro: reaches_trans)
  next
    case False
    with Cons.prems show ?thesis by (auto split: if_splits intro: Cons.IH)
  qed
qed simp

lemma apply_second_reaches: "apply_second pt now roles s res ms = (s', x) \<Longrightarrow> reaches s s'"
proof (induction ms arbitrary: s res)
  case (Cons m ms)
  show ?case
  proof (cases "is_binding_kind (mf_kind m)")
    case True
    then show ?thesis
      using Cons.prems Cons.IH
      by (auto split: option.splits prod.splits dest!: apply_role_binding_reaches intro: reaches_trans)
  next
    case False
    then show ?thesis
      using Cons.prems Cons.IH
      by (auto split: sum.splits if_splits dest!: apply_token_policy_reaches intro: reaches_trans)
  qed
qed simp

lemma load_and_apply_reaches: "reaches s (fst (load_and_apply fs decode pt now cfg s))"
proof -
  have "reaches s (fst (apply_manifests pt now s ms res))" for ms res
  proof -
    obtain s1 roles res1 x where f: "apply_first now s Map.empty res ms = (s1, roles, res1, x)"
      by (metis prod_cases4)
    note one = apply_first_reaches [OF f]
    show ?thesis
    proof (cases x)
      case None
      obtain s2 y where "apply_second pt now roles s1 res1 ms = (s2, y)" by (metis surj_pair)
      with one f None show ?thesis
        by (auto simp: apply_manifests_def dest: apply_second_reaches intro: reaches_trans)
    next
      case (Some e)
      with one f show ?thesis by (simp add: apply_manifests_def)
    qed
  qed
  then show ?thesis by (simp add: load_and_apply_def Let_def split: sum.splits)
qed

section \<open>Bindings of one role\<close>

lemma upsert_ca_role_Inr:
  "upsert_ca_role s r = Inr s' \<longleftrightarrow> ''ca_roles'' \<in> set (st_tables s) \<and>
     fk_ok s (row_exists im_id (ro_intermediate_id r) (st_intermediates s)) \<and>
     s' = s\<lparr>st_roles := row_upsert ro_id merge_role r (st_roles s)\<rparr>"
  by (auto simp: upsert_ca_role_def)

lemma upsert_roles_ok:
  assumes "''ca_roles'' \<in> set (st_tables s)"
    and "\<And>r. r \<in> set rs \<Longrightarrow> fk_ok s (row_exists im_id (ro_intermediate_id r) (st_intermediates s))"
  shows "upsert_roles s rs = (s\<lparr>st_roles := fold (row_upsert ro_id merge_role) rs (st_roles s)\<rparr>, None)"
  using assms
proof (induction rs arbitrary: s)
  case (Cons r rs)
  let ?s = "s\<lparr>st_roles := row_upsert ro_id merge_role r (st_roles s)\<rparr>"
  have "upsert_ca_role s r = Inr ?s" using Cons.prems by (simp add: upsert_ca_role_Inr)
  moreover have "upsert_roles ?s rs = (?s\<lparr>st_roles := fold (row_upsert ro_id merge_role) rs (st_roles ?s)\<rparr>, None)"
    by (rule Cons.IH) (use Cons.prems in \<open>auto simp: fk_ok_def\<close>)
  ultimately show ?case by simp
qed simp

text \<open>After a row has been upserted last under its id, that row is what the table holds for it.\<close>

lemma find_upserted_last:
  assumes "\<And>r. r \<in> set rs \<Longrightarrow> ro_id r \<noteq> ro_id n"
  shows "\<exists>t. row_find ro_id (fold (row_upsert ro_id merge_role) (qs @ n # rs) rows) (ro_id n) = Some (n\<lparr>ro_created_at := t\<rparr>)"
proof -
  have keep: "row_find ro_id (fold (row_upsert ro_id merge_role) rs rows) (ro_id n) = row_find ro_id rows (ro_id n)"
    if "\<And>r. r \<in> set rs \<Longrightarrow> ro_id r \<noteq> ro_id n" for rs rows
    using that
  proof (induction rs arbitrary: rows)
    case (Cons a rs)
    have "ro_id n \<noteq> ro_id a" using Cons.prems [of a] by auto
    moreover have "row_find ro_id (fold (row_upsert ro_id merge_role) rs (row_upsert ro_id merge_role a rows)) (ro_id n) =
        row_find ro_id (row_upsert ro_id merge_role a rows) (ro_id n)"
      by (rule Cons.IH) (use Cons.prems in auto)
    ultimately show ?case by (simp add: role_rows.find_upsert)
  qed simp
  have "\<exists>t. row_find ro_id (row_upsert ro_id merge_role n xs) (ro_id n) = Some (n\<lparr>ro_created_at := t\<rparr>)" for xs
  proof (cases "row_find ro_id xs (ro_id n)")
    case None
    then have "row_find ro_id (row_upsert ro_id merge_role n xs) (ro_id n) = Some n" by (simp add: role_rows.find_upsert)
    then show ?thesis by (intro exI [of _ "ro_created_at n"]) simp
  next
    case (Some old)
    then have "ro_id old = ro_id n" by (auto dest: row_find_SomeD)
    with Some show ?thesis by (intro exI [of _ "ro_created_at old"]) (simp add: role_rows.find_upsert merge_role_def)
  qed
  then show ?thesis using keep [OF assms] by simp
qed

section \<open>Properties\<close>

text \<open>
  Loading RBAC manifests keeps the invariant of the store, whatever the files contain and
  whether or not it ends in an error; switched off it leaves the store alone.
\<close>

theorem rbac_keeps_store_inv:
  assumes "store_inv s"
  shows "store_inv (fst (load_and_apply fs decode pt now cfg s)) \<and>
    fst (load_and_apply fs decode pt now (cfg\<lparr>rb_enabled := False\<rparr>) s) = s"
  using reaches_inv [OF load_and_apply_reaches assms] by (simp add: load_and_apply_def)

theorem rbac_keeps_store_inv_witness:
  "store_inv (fst (load_and_apply \<lparr>fs_glob = (\<lambda>p. Inr [p]), fs_is_file = (\<lambda>p. True), fs_read = Inr\<rparr> (\<lambda>b. [])
     (\<lambda>t. None) 0 \<lparr>rb_enabled = True, rb_mode = [], rb_paths = [''a'']\<rparr> (empty_store True)))"
  using rbac_keeps_store_inv [OF store_inv_empty] by blast

text \<open>
  When a role has several rules for one intermediate CA, binding it to a subject keeps only the
  last one: the rows of the rules share one id, so the subject ends up with the verbs of the
  last rule and loses those of the others.
\<close>

theorem last_rule_wins:
  assumes "''ca_roles'' \<in> set (st_tables s)" and "row_exists im_id im (st_intermediates s)" and "im \<noteq> []"
    and "trim_space im = im"
    and "sp_subjects (mf_spec binding) = [sj]"
    and "sp_rules (mf_spec role) = rules @ [ru]" and "list_all (\<lambda>r. ru_intermediate_ref r = im) (rules @ [ru])"
  shows "\<exists>s' t. apply_role_binding now s role binding = (s', None) \<and>
    row_find ro_id (st_roles s') (ro_id (binding_row now role binding ru im sj)) =
      Some \<lparr>ro_id = ro_id (binding_row now role binding ru im sj), ro_name = mf_name role,
        ro_subject = to_lower (sj_kind sj) @ '':'' @ sj_name sj, ro_intermediate_id = im,
        ro_permissions = join '','' (ru_verbs ru), ro_created_at = t\<rparr> \<and>
    length (st_roles s') \<le> length (st_roles s) + 1"
proof -
  let ?row = "\<lambda>r. binding_row now role binding r im sj"
  have rows: "binding_rows now role binding = map ?row (rules @ [ru])"
  proof -
    have "rule_intermediate role binding r = im" if "ru_intermediate_ref r = im" for r
      using that assms(3,4) by (simp add: rule_intermediate_def)
    then show ?thesis
      using assms(3,5,6,7) unfolding binding_rows_def assms(6)
      by (induction rules) (auto simp: Let_def)
  qed
  have ids: "ro_id (?row r) = ro_id (?row ru)" for r by (simp add: binding_row_def)
  have up: "upsert_roles s (map ?row (rules @ [ru])) =
      (s\<lparr>st_roles := fold (row_upsert ro_id merge_role) (map ?row (rules @ [ru])) (st_roles s)\<rparr>, None)"
    by (rule upsert_roles_ok) (use assms(1,2) in \<open>auto simp: fk_ok_def binding_row_def\<close>)
  let ?s = "s\<lparr>st_roles := fold (row_upsert ro_id merge_role) (map ?row (rules @ [ru])) (st_roles s)\<rparr>"
  have L: "length (fold (row_upsert ro_id merge_role) (map ?row rs) rows) \<le> length rows + 1 \<and>
      (row_exists ro_id (ro_id (?row ru)) rows \<longrightarrow>
        length (fold (row_upsert ro_id merge_role) (map ?row rs) rows) = length rows)" for rs rows
  proof (induction rs arbitrary: rows)
    case (Cons r rs)
    have "row_exists ro_id (ro_id (?row ru)) (row_upsert ro_id merge_role (?row r) rows)"
      using role_rows.exists_upsert [of "ro_id (?row ru)" "?row r" rows] ids [of r] by simp
    then show ?case
      using Cons.IH [of "row_upsert ro_id merge_role (?row r) rows"] role_rows.length_upsert [of "?row r" rows] ids [of r]
      by auto
  qed simp
  obtain t where "row_find ro_id (st_roles ?s) (ro_id (?row ru)) = Some ((?row ru)\<lparr>ro_created_at := t\<rparr>)"
    using find_upserted_last [of "[]" "?row ru" "map ?row rules" "st_roles s"] by auto
  moreover have "apply_role_binding now s role binding = (?s, None)"
    unfolding apply_role_binding_def rows up by simp
  moreover have "(?row ru)\<lparr>ro_created_at := t\<rparr> =
      \<lparr>ro_id = ro_id (?row ru), ro_name = mf_name role, ro_subject = to_lower (sj_kind sj) @ '':'' @ sj_name sj,
        ro_intermediate_id = im, ro_permissions = join '','' (ru_verbs ru), ro_created_at = t\<rparr>"
    by (simp add: binding_row_def)
  moreover have "length (st_roles ?s) \<le> length (st_roles s) + 1"
    using L [of "rules @ [ru]" "st_roles s", THEN conjunct1] by simp
  ultimately show ?thesis by metis
qed

definition blank_spec :: spec where
  "blank_spec = \<lparr>sp_display_name = [], sp_environment = [], sp_fingerprint = [], sp_status = [], sp_trust_domain = [],
     sp_root_ref = [], sp_owner = [], sp_namespace = [], sp_subjects = [], sp_rules = [],
     sp_role_ref = \<lparr>rf_kind = [], rf_name = []\<rparr>, sp_intermediate_ref = [], sp_certificate_types = [],
     sp_allowed_dns = [], sp_allowed_usages = [], sp_max_ttl = [], sp_issuance_limit = 0,
     sp_renewal_allowed = None, sp_require_approval = False, sp_expires_at = []\<rparr>"

definition demo_manifest :: "string \<Rightarrow> string \<Rightarrow> spec \<Rightarrow> manifest" where
  "demo_manifest k n sp = \<lparr>mf_api_version = ''v1'', mf_kind = k, mf_name = n, mf_spec = sp\<rparr>"

definition demo_intermediate :: intermediate_ca where
  "demo_intermediate = rbac_intermediate 0 0 (demo_manifest ''IntermediateCA'' ''i'' (blank_spec\<lparr>sp_root_ref := ''r''\<rparr>))"

theorem last_rule_wins_witness:
  "\<exists>s' r. apply_role_binding 0 ((migrate (empty_store True))\<lparr>st_intermediates := [demo_intermediate]\<rparr>)
     (demo_manifest ''CARole'' ''issuer'' (blank_spec\<lparr>sp_rules :=
        [\<lparr>ru_resources = [], ru_verbs = [''issue''], ru_intermediate_ref = ''i''\<rparr>,
         \<lparr>ru_resources = [], ru_verbs = [''revoke''], ru_intermediate_ref = ''i''\<rparr>]\<rparr>))
     (demo_manifest ''CARoleBinding'' ''b'' (blank_spec\<lparr>sp_subjects := [\<lparr>sj_kind = ''User'', sj_name = ''bob''\<rparr>]\<rparr>)) = (s', None) \<and>
   st_roles s' = [r] \<and> ro_permissions r = ''revoke''"
proof -
  let ?s = "(migrate (empty_store True))\<lparr>st_intermediates := [demo_intermediate]\<rparr>"
  let ?r1 = "\<lparr>ru_resources = [], ru_verbs = [''issue''], ru_intermediate_ref = ''i''\<rparr>"
  let ?r2 = "\<lparr>ru_resources = [], ru_verbs = [''revoke''], ru_intermediate_ref = ''i''\<rparr>"
  let ?sj = "\<lparr>sj_kind = ''User'', sj_name = ''bob''\<rparr>"
  have tab: "''ca_roles'' \<in> set (st_tables ?s)" by (simp add: migrate_def schema_tables_def)
  have ex: "row_exists im_id ''i'' (st_intermediates ?s)"
    by (simp add: row_exists_def demo_intermediate_def rbac_intermediate_def demo_manifest_def Let_def)
  have tr: "trim_space ''i'' = ''i''" by code_simp
  obtain s' t where s': "apply_role_binding 0 ?s (demo_manifest ''CARole'' ''issuer'' (blank_spec\<lparr>sp_rules := [?r1, ?r2]\<rparr>))
        (demo_manifest ''CARoleBinding'' ''b'' (blank_spec\<lparr>sp_subjects := [?sj]\<rparr>)) = (s', None)"
    and f: "\<exists>i. row_find ro_id (st_roles s') i = Some \<lparr>ro_id = i, ro_name = ''issuer'', ro_subject = to_lower ''User'' @ '':bob'',
        ro_intermediate_id = ''i'', ro_permissions = ''revoke'', ro_created_at = t\<rparr>"
    and len: "length (st_roles s') \<le> 1"
    using last_rule_wins [OF tab ex _ tr, where rules = "[?r1]" and ru = ?r2 and sj = ?sj and now = 0
        and role = "demo_manifest ''CARole'' ''issuer'' (blank_spec\<lparr>sp_rules := [?r1, ?r2]\<rparr>)"
        and binding = "demo_manifest ''CARoleBinding'' ''b'' (blank_spec\<lparr>sp_subjects := [?sj]\<rparr>)"]
    by (auto simp: demo_manifest_def migrate_def empty_store_def)
  from f obtain r where "r \<in> set (st_roles s')" "ro_permissions r = ''revoke''" by (auto dest!: row_find_SomeD)
  with len have "st_roles s' = [r]" by (cases "st_roles s'") auto
  with s' \<open>ro_permissions r = ''revoke''\<close> show ?thesis by blast
qed

text \<open>
  The order of CA manifests matters: with foreign keys enforced, an intermediate CA that comes
  before its root CA stops the whole load with a foreign key error, although the root is among
  the manifests.
\<close>

theorem root_must_come_first:
  assumes "st_fk s" and "set schema_tables \<subseteq> set (st_tables s)" and "mf_kind im = ''IntermediateCA''"
    and "\<not> row_exists rt_id (sp_root_ref (mf_spec im)) (st_roots s)"
    and "ttl_of (sp_max_ttl (mf_spec im)) = Some ttl" and "intermediate_status_ok (first_non_empty [sp_status (mf_spec im), ''active''])"
    and "\<not> row_exists im_fingerprint (sp_fingerprint (mf_spec im)) (st_intermediates s)"
  shows "apply_manifests pt now s (im # ms) res = (s, res, Some (ApplyFailed (mf_name im) ForeignKeyViolation))"
proof -
  have tab: "''intermediate_cas'' \<in> set (st_tables s)" using assms(2) by (auto simp: schema_tables_def)
  have "\<not> list_ex (\<lambda>r. im_id r \<noteq> mf_name im \<and> im_fingerprint r = sp_fingerprint (mf_spec im)) (st_intermediates s)"
    using assms(7) by (auto simp: row_exists_def list_ex_iff)
  then have "upsert_intermediate_ca s (rbac_intermediate now ttl im) = Inl ForeignKeyViolation"
    using assms(1,4,6) tab
    by (simp add: upsert_intermediate_ca_def need_def rbac_intermediate_def Let_def fk_ok_def)
  then have "apply_intermediate_ca now s im = Inl (ApplyFailed (mf_name im) ForeignKeyViolation)"
    using assms(5) by (simp add: apply_intermediate_ca_def)
  then show ?thesis using assms(3) by (simp add: apply_manifests_def)
qed

definition demo_im_manifest :: manifest where
  "demo_im_manifest = demo_manifest ''IntermediateCA'' ''i'' (blank_spec\<lparr>sp_root_ref := ''r'', sp_fingerprint := ''fi''\<rparr>)"

theorem root_must_come_first_witness:
  "apply_manifests (\<lambda>t. None) 0 (migrate (empty_store True))
     [demo_im_manifest, demo_manifest ''RootCA'' ''r'' (blank_spec\<lparr>sp_fingerprint := ''fr''\<rparr>)] no_result
   = (migrate (empty_store True), no_result, Some (ApplyFailed ''i'' ForeignKeyViolation))"
proof -
  have "trim_space ''active'' = ''active''" by code_simp
  then have st: "intermediate_status_ok (first_non_empty [sp_status (mf_spec demo_im_manifest), ''active''])"
    by (simp add: demo_im_manifest_def demo_manifest_def blank_spec_def intermediate_status_ok_def)
  show ?thesis
    using root_must_come_first [OF _ _ _ _ _ st, of "migrate (empty_store True)" 0]
    by (simp add: demo_im_manifest_def demo_manifest_def blank_spec_def migrate_def empty_store_def row_exists_def ttl_of_def)
qed

text \<open>
  Loading the same root CA manifest again later, as every start of the server does, moves the
  registered validity of the CA: it always ends ten years after the last start.
\<close>

theorem restart_moves_validity:
  assumes "apply_root_ca t0 s m = Inr s1" and "apply_root_ca t1 s1 m = Inr s2"
  shows "\<exists>r. row_find rt_id (st_roots s2) (mf_name m) = Some r \<and>
    rt_not_before r = t1 \<and> rt_not_after r = t1 + 10 * 365 * 24 * hour \<and>
    (row_find rt_id (st_roots s) (mf_name m) = None \<longrightarrow> rt_created_at r = t0)"
proof -
  have up: "upsert_root_ca s (rbac_root t0 m) = Inr s1" "upsert_root_ca s1 (rbac_root t1 m) = Inr s2"
    using assms by (auto simp: apply_root_ca_def split: sum.splits)
  then have s1: "st_roots s1 = row_upsert rt_id merge_root (rbac_root t0 m) (st_roots s)"
    and s2: "st_roots s2 = row_upsert rt_id merge_root (rbac_root t1 m) (st_roots s1)"
    by (auto simp: upsert_root_ca_def split: if_splits)
  have i: "rt_id (rbac_root t m) = mf_name m" for t by (simp add: rbac_root_def Let_def)
  obtain old where old: "row_find rt_id (st_roots s1) (mf_name m) = Some old"
    "row_find rt_id (st_roots s) (mf_name m) = None \<longrightarrow> old = rbac_root t0 m"
    unfolding s1 root_rows.find_upsert i by (cases "row_find rt_id (st_roots s) (mf_name m)") auto
  have "row_find rt_id (st_roots s2) (mf_name m) = Some (merge_root old (rbac_root t1 m))"
    unfolding s2 root_rows.find_upsert i using old by simp
  moreover have "rt_created_at (rbac_root t0 m) = t0" by (simp add: rbac_root_def Let_def)
  ultimately show ?thesis using old(2) by (auto simp: merge_root_def rbac_root_def Let_def)
qed

theorem restart_moves_validity_witness:
  "\<exists>s1 s2 r. apply_root_ca 0 (migrate (empty_store True)) (demo_manifest ''RootCA'' ''r'' (blank_spec\<lparr>sp_fingerprint := ''f''\<rparr>)) = Inr s1 \<and>
     apply_root_ca hour s1 (demo_manifest ''RootCA'' ''r'' (blank_spec\<lparr>sp_fingerprint := ''f''\<rparr>)) = Inr s2 \<and>
     row_find rt_id (st_roots s2) ''r'' = Some r \<and> rt_not_after r = hour + 10 * 365 * 24 * hour \<and> rt_created_at r = 0"
proof -
  let ?m = "demo_manifest ''RootCA'' ''r'' (blank_spec\<lparr>sp_fingerprint := ''f''\<rparr>)"
  have a: "trim_space ''active'' = ''active''" by code_simp
  obtain s1 where s1: "apply_root_ca 0 (migrate (empty_store True)) ?m = Inr s1"
    using a by (simp add: apply_root_ca_def upsert_root_ca_def need_def rbac_root_def demo_manifest_def blank_spec_def
        root_status_ok_def migrate_def empty_store_def schema_tables_def Let_def)
  then have s1': "s1 = (migrate (empty_store True))\<lparr>st_roots := [rbac_root 0 ?m]\<rparr>"
    using a by (simp add: apply_root_ca_def upsert_root_ca_def need_def row_upsert_def row_exists_def
        root_status_ok_def migrate_def empty_store_def schema_tables_def split: sum.splits if_splits)
  obtain s2 where s2: "apply_root_ca hour s1 ?m = Inr s2"
    using a by (simp add: s1' apply_root_ca_def upsert_root_ca_def need_def rbac_root_def demo_manifest_def blank_spec_def
        root_status_ok_def migrate_def empty_store_def schema_tables_def Let_def)
  show ?thesis
    using s1 s2 restart_moves_validity [OF s1 s2]
    by (auto simp: demo_manifest_def migrate_def empty_store_def row_find_def)
qed

section \<open>What a manifest must say\<close>









section \<open>The rows of manifest_complete manifests\<close>

lemma first_non_empty_blank: "blank (first_non_empty vs) \<longleftrightarrow> list_all blank vs"
  by (induction vs) (simp_all add: blank_def)

lemma fallback_not_blank [simp]:
  "blank ''development'' = False" "blank (first_non_empty [v, w]) = (blank v \<and> blank w)"
proof -
  show "blank ''development'' = False" by code_simp
  show "blank (first_non_empty [v, w]) = (blank v \<and> blank w)"
    by (simp add: first_non_empty_blank del: first_non_empty.simps)
qed

definition root_row_complete :: "root_ca \<Rightarrow> bool" where
  "root_row_complete r \<longleftrightarrow>
     \<not> blank (rt_id r) \<and> \<not> blank (rt_name r) \<and> \<not> blank (rt_environment r) \<and> \<not> blank (rt_fingerprint r)"

definition intermediate_row_complete :: "intermediate_ca \<Rightarrow> bool" where
  "intermediate_row_complete r \<longleftrightarrow>
     \<not> blank (im_id r) \<and> \<not> blank (im_root_id r) \<and> \<not> blank (im_name r) \<and> \<not> blank (im_environment r) \<and>
     \<not> blank (im_fingerprint r)"

definition role_row_complete :: "ca_role \<Rightarrow> bool" where
  "role_row_complete r \<longleftrightarrow>
     \<not> blank (ro_name r) \<and> \<not> blank (ro_intermediate_id r) \<and>
     (\<exists>k n. \<not> blank k \<and> \<not> blank n \<and> ro_subject r = to_lower k @ '':'' @ n)"

definition policy_row_complete :: "ca_token_policy \<Rightarrow> bool" where
  "policy_row_complete p \<longleftrightarrow>
     \<not> blank (tp_id p) \<and> \<not> blank (tp_name p) \<and> \<not> blank (tp_intermediate_id p) \<and>
     (\<exists>ts. ts \<noteq> [] \<and> tp_certificate_types p = join '','' ts)"

lemmas row_complete_defs = root_row_complete_def intermediate_row_complete_def role_row_complete_def policy_row_complete_def

text \<open>A store whose CA rows, roles and policies are those of another one, or complete.\<close>

definition adds_complete :: "store \<Rightarrow> store \<Rightarrow> bool" where
  "adds_complete s t \<longleftrightarrow>
     (\<forall>r. r \<in> set (st_roots t) \<longrightarrow> r \<in> set (st_roots s) \<or> root_row_complete r) \<and>
     (\<forall>r. r \<in> set (st_intermediates t) \<longrightarrow> r \<in> set (st_intermediates s) \<or> intermediate_row_complete r) \<and>
     (\<forall>r. r \<in> set (st_roles t) \<longrightarrow> r \<in> set (st_roles s) \<or> role_row_complete r) \<and>
     (\<forall>r. r \<in> set (st_policies t) \<longrightarrow> r \<in> set (st_policies s) \<or> policy_row_complete r)"

lemma adds_complete_refl [simp]: "adds_complete s s" by (simp add: adds_complete_def)














end
