(* ===== verification/Deployment.thy ===== *)
theory Deployment
  imports Server Admin_Ca_Properties Api_Properties Rbac_Properties
begin

text \<open>
  The life of a deployment: one database, a server process that is started, serves requests, is
  stopped and started again with other files, and the token commands of \<open>ironroot-admin\<close> that
  work on the same database between its requests. A request and a command are one step each:
  the store has a single connection, and what interleaves inside a handler is not modelled.
\<close>

section \<open>Steps\<close>

record deployment =
  de_store :: store
  de_running :: "running option"

text \<open>
  \<open>usable\<close> says which libraries (the files and the environment a process finds) occur.
\<close>

inductive deployment_step ::
  "(string \<Rightarrow> char list) \<Rightarrow> (server_lib \<Rightarrow> bool) \<Rightarrow> deployment \<Rightarrow> deployment \<Rightarrow> bool"
  for sha :: "string \<Rightarrow> char list" and usable :: "server_lib \<Rightarrow> bool" where
  Started:
    "usable lib \<Longrightarrow> de_running d = None \<Longrightarrow> start_server lib path now (de_store d) = (s, Inr r) \<Longrightarrow>
     sl_listen lib (ru_listener r) = None \<Longrightarrow> deployment_step sha usable d \<lparr>de_store = s, de_running = Some r\<rparr>"
| NotStarted:
    "usable lib \<Longrightarrow> start_server lib path now (de_store d) = (s, x) \<Longrightarrow>
     deployment_step sha usable d (d\<lparr>de_store := s\<rparr>)"
| Served:
    "de_running d = Some r \<Longrightarrow>
     serve sha e (ru_deps r) \<lparr>sv_store = de_store d, sv_metrics = ru_metrics r\<rparr> req = (sv, answer) \<Longrightarrow>
     deployment_step sha usable d \<lparr>de_store = sv_store sv, de_running = Some (r\<lparr>ru_metrics := sv_metrics sv\<rparr>)\<rparr>"
| Stopped:
    "deployment_step sha usable d (d\<lparr>de_running := None\<rparr>)"
| TokenCreated:
    "create_token sha alib rnd now i path hostname ttl (de_store d) = (s, out, x) \<Longrightarrow>
     deployment_step sha usable d (d\<lparr>de_store := s\<rparr>)"
| TokenRevoked:
    "revoke_token alib now path i (de_store d) = (s, out, x) \<Longrightarrow>
     deployment_step sha usable d (d\<lparr>de_store := s\<rparr>)"
| Initialized:
    "init_server alib path (de_store d) = (s, out, x) \<Longrightarrow> deployment_step sha usable d (d\<lparr>de_store := s\<rparr>)"

inductive deployment_run ::
  "(string \<Rightarrow> char list) \<Rightarrow> (server_lib \<Rightarrow> bool) \<Rightarrow> deployment \<Rightarrow> deployment \<Rightarrow> bool"
  for sha :: "string \<Rightarrow> char list" and usable :: "server_lib \<Rightarrow> bool" where
  Here [simp]: "deployment_run sha usable d d"
| Then: "deployment_run sha usable d t \<Longrightarrow> deployment_step sha usable t u \<Longrightarrow> deployment_run sha usable d u"

section \<open>What no step undoes\<close>

definition evolves :: "store \<Rightarrow> store \<Rightarrow> bool" where
  "evolves s t \<longleftrightarrow> (store_inv s \<longrightarrow> store_inv t) \<and> certs_le (st_certs s) (st_certs t) \<and>
     set (st_tables s) \<subseteq> set (st_tables t) \<and> st_fk t = st_fk s"

lemma evolves_refl [simp]: "evolves s s" by (simp add: evolves_def)

lemma evolves_trans: "evolves s t \<Longrightarrow> evolves t u \<Longrightarrow> evolves s u"
  by (auto simp: evolves_def intro: certs_le_trans)

lemma exec_fk: "st_fk (exec sha s c) = st_fk s"
  by (cases c)
    (auto simp: committed_def migrate_def create_bootstrap_token_def revoke_bootstrap_token_def create_enrollment_def
      store_issued_certificate_def revoke_certificate_def create_audit_log_def upsert_ca_config_def
      upsert_root_ca_def upsert_intermediate_ca_def upsert_ca_role_def upsert_ca_token_policy_def Let_def
      split: sum.splits if_splits)

lemma run_fk [simp]: "st_fk (run sha s cs) = st_fk s"
  by (induction cs arbitrary: s) (simp_all add: exec_fk)

lemma evolves_run: "evolves s (run sha s cs)"
  using run_tables by (auto simp: evolves_def run_inv run_certs_le)

lemma evolves_migrate [simp]: "evolves s (migrate s)"
  using evolves_run [of s "\<lambda>x. x" "[Migrate]"] by simp

lemma migrate_tables: "set schema_tables \<subseteq> set (st_tables (migrate s))" by (auto simp: migrate_def)


lemma evolves_reaches: "reaches s t \<Longrightarrow> evolves s t"
  by (auto simp: reaches_def evolves_run)

lemma start_evolves:
  assumes "start_server lib path now s = (t, x)"
  shows "evolves s t \<and> (\<forall>r. x = Inr r \<longrightarrow> set schema_tables \<subseteq> set (st_tables t))"
proof -
  let ?load = "load_and_apply (sl_files lib) (sl_manifests lib) (sl_parse_time lib) now"
  have rbac: "evolves (migrate s) (fst (?load c (migrate s)))" for c
    by (rule evolves_reaches [OF load_and_apply_reaches])
  have "evolves s (fst (?load c (migrate s)))" for c
    by (rule evolves_trans [OF evolves_migrate rbac])
  moreover have "set schema_tables \<subseteq> set (st_tables (fst (?load c (migrate s))))" for c
    using rbac [of c] migrate_tables [of s] by (auto simp: evolves_def)
  ultimately have step: "?load c (migrate s) = (u, y) \<Longrightarrow> evolves s u \<and> set schema_tables \<subseteq> set (st_tables u)" for c u y
    by (metis fst_conv)
  show ?thesis
    using assms by (auto simp: start_server_def split: sum.splits option.splits prod.splits if_splits dest: step)
qed

lemma admin_evolves:
  "create_token sha lib rnd now i path hostname ttl s = (t, out, x) \<Longrightarrow> evolves s t"
  "revoke_token lib now path i s = (t, out, x) \<Longrightarrow> evolves s t"
  "init_server lib path s = (t, out, x) \<Longrightarrow> evolves s t"
proof -
  have one: "evolves s (committed (migrate s) r)" if "committed (migrate s) r = exec f (migrate s) c" for r c and f :: "string \<Rightarrow> char list"
    using that evolves_trans [OF evolves_migrate evolves_run [of "migrate s" f "[c]"]] by simp
  have made: "create_bootstrap_token (migrate s) b = Inr t \<Longrightarrow> evolves s t" for b t
    using one [of "Inr t" "\<lambda>x. x" "CreateBootstrapToken b"] by simp
  have gone: "revoke_bootstrap_token now (migrate s) i = Inr t \<Longrightarrow> evolves s t" for t
    using one [of "Inr t" "\<lambda>x. x" "RevokeBootstrapToken now i"] by simp
  show "create_token sha lib rnd now i path hostname ttl s = (t, out, x) \<Longrightarrow> evolves s t"
    by (auto simp: create_token_def open_admin_store_def split: if_splits option.splits sum.splits dest: made)
  show "revoke_token lib now path i s = (t, out, x) \<Longrightarrow> evolves s t"
    by (auto simp: revoke_token_def open_admin_store_def split: option.splits sum.splits dest: gone)
  show "init_server lib path s = (t, out, x) \<Longrightarrow> evolves s t"
    by (auto simp: init_server_def open_admin_store_def split: option.splits sum.splits)
qed

lemma step_evolves: "deployment_step sha usable d t \<Longrightarrow> evolves (de_store d) (de_store t)"
proof (induction rule: deployment_step.induct)
  case (Served d r e req sv answer)
  have "\<exists>cs. sv_store sv = run sha (de_store d) cs"
    using Served(2) dispatch_run [of sha e "ru_deps r" "\<lparr>sv_store = de_store d, sv_metrics = ru_metrics r\<rparr>" req]
    by (metis fst_conv serve_store server.select_convs(1))
  then show ?case by (auto simp: evolves_run)
qed (auto dest: start_evolves admin_evolves)

lemma run_evolves: "deployment_run sha usable d t \<Longrightarrow> evolves (de_store d) (de_store t)"
  by (induction rule: deployment_run.induct) (auto intro: evolves_trans step_evolves)

text \<open>A server that runs has all its tables.\<close>

definition tables_ready :: "deployment \<Rightarrow> bool" where
  "tables_ready d \<longleftrightarrow> (de_running d \<noteq> None \<longrightarrow> set schema_tables \<subseteq> set (st_tables (de_store d)))"

lemma step_tables: "deployment_step sha usable d t \<Longrightarrow> tables_ready d \<Longrightarrow> tables_ready t"
proof -
  assume st: "deployment_step sha usable d t" and ok: "tables_ready d"
  have grows: "set (st_tables (de_store d)) \<subseteq> set (st_tables (de_store t))"
    using step_evolves [OF st] by (simp add: evolves_def)
  from st show ?thesis
  proof cases
    case (Started lib path now s r)
    then show ?thesis using start_evolves [OF Started(4)] by (simp add: tables_ready_def)
  qed (use ok grows in \<open>auto simp: tables_ready_def\<close>)
qed

lemma run_ready: "deployment_run sha usable d t \<Longrightarrow> tables_ready d \<Longrightarrow> tables_ready t"
  by (induction rule: deployment_run.induct) (auto intro: step_tables)


section \<open>Where certificates come from\<close>

lemma start_certs: "start_server lib path now s = (t, x) \<Longrightarrow> st_certs t = st_certs s"
proof -
  let ?load = "load_and_apply (sl_files lib) (sl_manifests lib) (sl_parse_time lib) now"
  have "?load c (migrate s) = (u, y) \<Longrightarrow> st_certs u = st_certs s" for c u y
    using declared_frame [OF load_and_apply_reaches [of "migrate s" "sl_files lib" "sl_manifests lib" "sl_parse_time lib" now c]]
    by (simp add: migrate_def)
  then show "start_server lib path now s = (t, x) \<Longrightarrow> st_certs t = st_certs s"
    by (auto simp: start_server_def split: sum.splits option.splits prod.splits if_splits)
qed

lemma admin_certs:
  "create_token sha lib rnd now i path hostname ttl s = (t, out, x) \<Longrightarrow> st_certs t = st_certs s"
  "revoke_token lib now path i s = (t, out, x) \<Longrightarrow> st_certs t = st_certs s"
  "init_server lib path s = (t, out, x) \<Longrightarrow> st_certs t = st_certs s"
  by (auto simp: create_token_def revoke_token_def init_server_def open_admin_store_def migrate_def
      split: if_splits option.splits sum.splits dest!: certs_frame(1,2))

text \<open>
  The row of a certificate that a process with these libraries and this configuration signed:
  the template it had signed, for a request with a valid signature.
\<close>

definition issued_by :: "server_lib \<Rightarrow> config \<Rightarrow> file_authority \<Rightarrow> issued_certificate \<Rightarrow> bool" where
  "issued_by lib cfg fa c \<longleftrightarrow>
     (\<exists>n q names der. csr_signature (sl_x509 lib) q = None \<and> (\<forall>x \<in> set names. trim_space x \<noteq> []) \<and>
        create_certificate (sl_x509 lib)
          (leaf_template n q names (ic_not_before c) (pki_default_lifetime (cf_pki cfg)))
          (SignedBy (fa_cert fa)) (cr_public q) (fa_key fa) = Inr der \<and>
        ic_serial c = show_hex n \<and> ic_ca_id c = fa_ca_id fa \<and>
        ic_pem c = pem_encode (sl_x509 lib) \<lparr>pb_type = ''CERTIFICATE'', pb_headers = [], pb_bytes = der\<rparr> \<and>
        ic_not_after c = ic_not_before c + pki_default_lifetime (cf_pki cfg))"

definition loaded :: "server_lib \<Rightarrow> config \<Rightarrow> load_error + file_authority" where
  "loaded lib cfg = load_authority (sl_sha lib) (sl_x509 lib) (sl_cipher lib) (sl_read lib) (pki_files_of (cf_pki cfg))"

definition has_issuer :: "(server_lib \<Rightarrow> bool) \<Rightarrow> issued_certificate \<Rightarrow> bool" where
  "has_issuer usable c \<longleftrightarrow>
     (\<exists>lib path cfg fa. usable lib \<and> sl_load lib path = Inr cfg \<and> loaded lib cfg = Inr fa \<and> issued_by lib cfg fa c)"

lemma has_issuer_revoked [simp]: "has_issuer usable (c\<lparr>ic_revoked_at := x\<rparr>) = has_issuer usable c"
  by (simp add: has_issuer_def issued_by_def)

text \<open>The dependencies of a router that a usable process started.\<close>

definition started_deps :: "(server_lib \<Rightarrow> bool) \<Rightarrow> dependencies \<Rightarrow> bool" where
  "started_deps usable dp \<longleftrightarrow> (\<exists>lib path cfg. usable lib \<and> sl_load lib path = Inr cfg \<and> dp = ru_deps (server_of lib cfg))"

lemma start_deps: "usable lib \<Longrightarrow> start_server lib path now s = (t, Inr r) \<Longrightarrow> started_deps usable (ru_deps r)"
  by (auto simp: start_server_def started_deps_def split: sum.splits option.splits prod.splits if_splits)

lemma signed_issued_by:
  assumes "sign_csr (sl_x509 lib) fa now serial csr dns (pki_default_lifetime (cf_pki cfg)) = Inr i"
    and "au_ca_id (dp_authority dp) = fa_ca_id fa"
  shows "issued_by lib cfg fa (issued_row e dp i en subj names)"
proof -
  from assms(1) obtain q n der where "csr_signature (sl_x509 lib) q = None"
      "\<forall>x \<in> set (if dns = [] then cr_dns q else dns). trim_space x \<noteq> []"
      "create_certificate (sl_x509 lib) (leaf_template n q (if dns = [] then cr_dns q else dns) (now - minute)
         (pki_default_lifetime (cf_pki cfg))) (SignedBy (fa_cert fa)) (cr_public q) (fa_key fa) = Inr der"
      "i = \<lparr>is_serial = show_hex n,
         is_cert_pem = pem_encode (sl_x509 lib) \<lparr>pb_type = ''CERTIFICATE'', pb_headers = [], pb_bytes = der\<rparr>,
         is_not_before = now - minute, is_not_after = now - minute + pki_default_lifetime (cf_pki cfg)\<rparr>"
    unfolding sign_csr_Inr by blast
  then show ?thesis
    unfolding issued_by_def using assms(2)
    by (intro exI [of _ n] exI [of _ q] exI [of _ "if dns = [] then cr_dns q else dns"] exI [of _ der])
      (simp add: issued_row_def)
qed

lemma signed_has_issuer:
  assumes "started_deps usable dp" and "au_sign (dp_authority dp) (clk e 1) (draw e) csr dns (dp_lifetime dp) = Inr i"
  shows "has_issuer usable (issued_row e dp i en subj names)"
proof -
  obtain lib path cfg where l: "usable lib" "sl_load lib path = Inr cfg" and dp: "dp = ru_deps (server_of lib cfg)"
    using assms(1) by (auto simp: started_deps_def)
  show ?thesis
  proof (cases "loaded lib cfg")
    case (Inl x)
    then show ?thesis using assms(2) by (simp add: dp server_of_def server_authority_def loaded_def disabled_authority_def)
  next
    case (Inr fa)
    then have a: "dp_authority dp = file_signer (sl_x509 lib) fa"
      by (simp add: dp server_of_def server_authority_def loaded_def)
    have "dp_lifetime dp = pki_default_lifetime (cf_pki cfg)" by (simp add: dp server_of_def)
    with assms(2) a have "sign_csr (sl_x509 lib) fa (clk e 1) (draw e) csr dns (pki_default_lifetime (cf_pki cfg)) = Inr i"
      by (simp add: file_signer_def)
    then have "issued_by lib cfg fa (issued_row e dp i en subj names)" by (rule signed_issued_by) (simp add: a file_signer_def)
    with l Inr show ?thesis unfolding has_issuer_def by blast
  qed
qed

text \<open>Every certificate is one of \<open>known\<close> (serial and text) or was issued by such a process.\<close>

definition identity_of :: "issued_certificate \<Rightarrow> string \<times> string" where
  "identity_of c = (ic_serial c, ic_pem c)"

definition explained :: "(string \<times> string) set \<Rightarrow> (server_lib \<Rightarrow> bool) \<Rightarrow> issued_certificate \<Rightarrow> bool" where
  "explained known usable c \<longleftrightarrow> identity_of c \<in> known \<or> has_issuer usable c"

lemma explained_revoked [simp]: "explained known usable (c\<lparr>ic_revoked_at := x\<rparr>) = explained known usable c"
  by (simp add: explained_def identity_of_def)

definition accounted :: "(string \<times> string) set \<Rightarrow> (server_lib \<Rightarrow> bool) \<Rightarrow> deployment \<Rightarrow> bool" where
  "accounted known usable d \<longleftrightarrow> list_all (explained known usable) (st_certs (de_store d)) \<and>
     (\<forall>r. de_running d = Some r \<longrightarrow> started_deps usable (ru_deps r))"

lemma certs_step_accounted:
  assumes "certs_step e dp cs cs'" and "started_deps usable dp" and "list_all (explained known usable) cs"
  shows "list_all (explained known usable) cs'"
  using assms signed_has_issuer [OF assms(2)] by (auto simp: certs_step_def list_all_update explained_def [of known usable "issued_row _ _ _ _ _ _"])

lemma step_accounted: "deployment_step sha usable d t \<Longrightarrow> accounted known usable d \<Longrightarrow> accounted known usable t"
proof (induction rule: deployment_step.induct)
  case (Started lib d path now s r)
  then show ?case using start_certs start_deps by (auto simp: accounted_def)
next
  case (Served d r e req sv answer)
  let ?sv = "\<lparr>sv_store = de_store d, sv_metrics = ru_metrics r\<rparr>"
  have dp: "started_deps usable (ru_deps r)" and ok: "list_all (explained known usable) (st_certs (de_store d))"
    using Served(1,3) by (auto simp: accounted_def)
  have "sv_store sv = sv_store (fst (dispatch sha e (ru_deps r) ?sv req))"
    using Served(2) by (metis fst_conv serve_store)
  with dispatch_step [of e "ru_deps r" ?sv sha req]
  have "certs_step e (ru_deps r) (st_certs (de_store d)) (st_certs (sv_store sv))" by simp
  from certs_step_accounted [OF this dp ok] show ?case using dp by (simp add: accounted_def)
qed (auto simp: accounted_def dest: start_certs admin_certs)

lemma run_accounted: "deployment_run sha usable d t \<Longrightarrow> accounted known usable d \<Longrightarrow> accounted known usable t"
  by (induction rule: deployment_run.induct) (auto intro: step_accounted)


lemma sl_load_frame:
  "sl_load (lib\<lparr>sl_read := f\<rparr>) = sl_load lib" "sl_load (lib\<lparr>sl_listen := g\<rparr>) = sl_load lib"
  by (simp_all add: sl_load_def fun_eq_iff)

text \<open>What a start depends on; of the CA files only a key that makes decryption panic.\<close>

lemma starts_iff:
  "(\<exists>r. snd (start_server lib path now s) = Inr r) \<longleftrightarrow>
     (\<exists>cfg. sl_load lib path = Inr cfg \<and>
        (\<exists>sd. snd (configure_telemetry (sl_otel lib) (cf_telemetry cfg) ''ironroot-server'') = Inr sd) \<and>
        open_database (sl_ping lib) (cf_database cfg) = None \<and>
        snd (snd (load_and_apply (sl_files lib) (sl_manifests lib) (sl_parse_time lib) now (cf_rbac cfg) (migrate s))) = None \<and>
        loaded lib cfg \<noteq> Inl (DecryptFailed NoncePanic))"
  by (auto simp: load_panics_def loaded_def start_server_def split: sum.split option.split prod.split)

section \<open>Properties\<close>

text \<open>
  C1. Whatever sequence of starts, failed starts, requests, stops and token commands a deployment
  goes through from an empty database on, with whatever files and manifests the processes find,
  the constraints of the schema hold, and a process that serves finds all its tables.
\<close>

theorem deployment_keeps_store_inv:
  assumes "deployment_run sha usable \<lparr>de_store = empty_store fk, de_running = None\<rparr> d"
  shows "store_inv (de_store d) \<and> (de_running d \<noteq> None \<longrightarrow> set schema_tables \<subseteq> set (st_tables (de_store d)))"
  using run_evolves [OF assms] run_ready [OF assms] by (simp add: evolves_def tables_ready_def)

text \<open>
  C6. A revocation is for ever: once the endpoint has answered 200, the status endpoint of every
  later process of the deployment reports the certificate as revoked, across restarts, changed
  manifests and CA files, renewals and token commands.
\<close>

theorem revoked_across_restarts:
  assumes "store_inv (de_store d)" and "st_fk (de_store d)" and "set schema_tables \<subseteq> set (st_tables (de_store d))"
    and "revoke_certificate_handler sha e \<lparr>sv_store = de_store d, sv_metrics = m\<rparr> (Inr q) = (sv, answer)"
    and "rs_status answer = 200" and "deployment_run sha usable (d\<lparr>de_store := sv_store sv\<rparr>) t"
  shows "\<exists>c. certificate_status e' \<lparr>sv_store = de_store t, sv_metrics = m'\<rparr> (rq_serial q) = reply 200 (IssuedBody c) \<and>
    ic_serial c = rq_serial q \<and> ic_revoked_at c \<noteq> None"
proof -
  let ?sv = "\<lparr>sv_store = de_store d, sv_metrics = m\<rparr>" and ?n = "rq_serial q"
  obtain c where "certificate_status e' (serve_all sha dp sv []) ?n = reply 200 (IssuedBody c)"
      and c: "ic_serial c = ?n" "ic_revoked_at c \<noteq> None"
    using revoked_stays_revoked [OF _ _ _ assms(4,5)] assms(1-3) by fastforce
  then have "get_issued_certificate (sv_store sv) ?n = Inr c"
    by (auto simp: certificate_status_def write_error_def reply_def split: sum.splits)
  then have mem: "c \<in> set (st_certs (sv_store sv))"
    by (auto simp: get_issued_certificate_def split: option.splits dest: row_find_SomeD)
  have "evolves (de_store d) (sv_store sv)"
    using dispatch_run [of sha e dp ?sv "PostRevoke (Inr q)"] assms(4) by (auto simp: evolves_run)
  moreover have "evolves (sv_store sv) (de_store t)" using run_evolves [OF assms(6)] by simp
  ultimately have ev: "evolves (de_store d) (de_store t)" and later: "evolves (sv_store sv) (de_store t)"
    by (auto intro: evolves_trans)
  from later mem obtain c' where c': "c' \<in> set (st_certs (de_store t))" "cert_le c c'"
    unfolding evolves_def certs_le_def by blast
  have n: "ic_serial c' = ?n" using cert_le_serial [OF c'(2)] c(1) by simp
  have "distinct (map ic_serial (st_certs (de_store t)))"
    using ev assms(1) by (simp add: evolves_def store_inv_def keys_ok_def)
  from row_find_distinct [OF this c'(1)] have "row_find ic_serial (st_certs (de_store t)) ?n = Some c'" by (simp add: n)
  moreover have "''issued_certificates'' \<in> set (st_tables (de_store t))"
    using ev assms(3) schema_in_tables [of "st_tables (de_store t)"] by (auto simp: evolves_def)
  ultimately have "certificate_status e' \<lparr>sv_store = de_store t, sv_metrics = m'\<rparr> ?n = reply 200 (IssuedBody c')"
    by (simp add: certificate_status_def get_issued_certificate_def need_def)
  then show ?thesis using n c(2) c'(2) by (auto simp: cert_le_def)
qed

text \<open>
  C2. Every certificate in the database that was not there before was signed by a process of the
  deployment: with the key and in the name of a CA that the process had loaded, for a request
  that carried a valid signature, for names that are not blank, and for exactly the lifetime
  its configuration sets.
\<close>

theorem every_certificate_has_an_issuer:
  assumes "deployment_run sha usable d t" and "de_running d = None" and "c \<in> set (st_certs (de_store t))"
    and "identity_of c \<notin> identity_of ` set (st_certs (de_store d))"
  shows "\<exists>lib path cfg fa. usable lib \<and> sl_load lib path = Inr cfg \<and> loaded lib cfg = Inr fa \<and> issued_by lib cfg fa c"
proof -
  have "accounted (identity_of ` set (st_certs (de_store d))) usable d"
    using assms(2) by (simp add: accounted_def explained_def list_all_iff)
  from run_accounted [OF assms(1) this] assms(3,4) show ?thesis
    by (auto simp: accounted_def list_all_iff explained_def has_issuer_def)
qed

text \<open>
  C20. As long as no process finds usable CA material, the deployment issues nothing and loses
  nothing: the database holds the same certificates. The material does not decide whether a server
  starts, with one exception: with whatever there is in the CA files it starts exactly when it
  would start without any, unless the key file is encrypted under a nonce of the wrong length,
  which crashes the process instead of disabling issuance.
\<close>

theorem no_ca_no_certificate:
  assumes "\<And>lib path cfg. usable lib \<Longrightarrow> sl_load lib path = Inr cfg \<Longrightarrow> \<exists>x. loaded lib cfg = Inl x"
    and "deployment_run sha usable d t" and "de_running d = None"
  shows "identity_of ` set (st_certs (de_store t)) = identity_of ` set (st_certs (de_store d)) \<and>
    (\<forall>lib path now s e. (\<exists>r. snd (start_server lib path now s) = Inr r) \<longleftrightarrow>
       (\<exists>r. snd (start_server (lib\<lparr>sl_read := (\<lambda>p. Inl e)\<rparr>) path now s) = Inr r) \<and>
       (\<forall>cfg. sl_load lib path = Inr cfg \<longrightarrow> loaded lib cfg \<noteq> Inl (DecryptFailed NoncePanic)))"
proof -
  let ?known = "identity_of ` set (st_certs (de_store d))"
  have "accounted ?known usable d" using assms(3) by (simp add: accounted_def explained_def list_all_iff)
  moreover have "\<not> has_issuer usable c" for c using assms(1) by (force simp: has_issuer_def)
  ultimately have old: "identity_of ` set (st_certs (de_store t)) \<subseteq> ?known"
    using run_accounted [OF assms(2)] by (auto simp: accounted_def list_all_iff explained_def)
  moreover have "identity_of c = identity_of c'" if "cert_le c c'" for c c'
    using that by (cases c; cases c') (simp add: cert_le_def identity_of_def)
  then have kept: "?known \<subseteq> identity_of ` set (st_certs (de_store t))"
    using run_evolves [OF assms(2)] unfolding evolves_def certs_le_def image_subset_iff by (metis image_eqI)
  moreover have "(\<exists>r. snd (start_server lib path now s) = Inr r) \<longleftrightarrow>
      (\<exists>r. snd (start_server (lib\<lparr>sl_read := (\<lambda>p. Inl e)\<rparr>) path now s) = Inr r) \<and>
      (\<forall>cfg. sl_load lib path = Inr cfg \<longrightarrow> loaded lib cfg \<noteq> Inl (DecryptFailed NoncePanic))" for lib path now s e
    unfolding starts_iff by (auto simp: sl_load_frame loaded_def load_authority_def)
  ultimately show ?thesis using equalityI [OF old kept] by simp
qed

text \<open>
  The self-check and the server agree about TLS: when the report on a configuration does not
  fail at the threshold \<open>high\<close> (or a lower one), a server started with that configuration
  listens with TLS, with the configured certificate and key.
\<close>

theorem checked_server_uses_tls:
  assumes "\<not> fails_threshold (rp_checks (security_report h clock tg)) sev" and "sev \<le> SeverityHigh"
    and "\<not> is_zero (tg_now tg)" and "sl_load lib path = Inr (tg_config tg)"
    and "start_server lib path now s = (s', Inr r)"
  shows "ru_listener r = TlsHttp (srv_address (cf_server (tg_config tg)))
    (tls_cert_file (srv_tls (cf_server (tg_config tg)))) (tls_key_file (srv_tls (cf_server (tg_config tg))))"
proof -
  have rep: "security_report h clock tg = run_checks (run_check h tg) default_checks"
    using assms(3) by (simp add: security_report_def)
  have "tls_configured (tg_config tg)"
  proof (rule ccontr)
    assume "\<not> tls_configured (tg_config tg)"
    then have "fails_threshold (rp_checks (run_checks (run_check h tg) default_checks)) sev"
      using assms(2) by (intro fails_up_to [of APITLSCheck]) (simp_all add: api_tls_check_def Let_def default_checks_def)
    with assms(1) rep show False by simp
  qed
  moreover have "ru_listener r = listener_of (cf_server (tg_config tg))"
    using assms(4,5) by (auto simp: start_server_def server_of_def split: sum.splits option.splits prod.splits if_splits)
  ultimately show ?thesis by (simp add: listener_of_def tls_configured_def)
qed

text \<open>
  The exit status tells a supervisor only of a start that failed: a process whose listener
  cannot be opened (the port is taken, a TLS file is missing) exits with status 0, like one
  that was stopped.
\<close>

theorem failed_listener_exits_zero:
  "(snd (snd (server_main lib False path now reqs s)) \<noteq> 0) = (\<exists>x. snd (start_server lib path now s) = Inl x) \<and>
   (start_server lib path now s = (s', Inr r) \<longrightarrow> sl_listen lib (ru_listener r) = Some x \<longrightarrow>
      server_main lib False path now reqs s = (s', False, 0))"
  by (auto simp: server_main_def split: sum.splits prod.splits if_splits)


section \<open>Witnesses\<close>

definition demo_process :: "(string \<Rightarrow> string + string) \<Rightarrow> config \<Rightarrow> server_lib" where
  "demo_process files cfg =
     \<lparr>sl_viper = \<lparr>vp_exists = (\<lambda>p. False), vp_read = (\<lambda>p. None), vp_unmarshal = (\<lambda>ds f c. Inr cfg)\<rparr>,
      sl_float = (\<lambda>x. None), sl_getenv = (\<lambda>k. []),
      sl_otel = \<lparr>ot_resource = (\<lambda>_ _ _. None), ot_trace_exporter = (\<lambda>_ _ _. None),
        ot_metric_exporter = (\<lambda>_ _ _. None), ot_prometheus = None\<rparr>,
      sl_ping = (\<lambda>dsn. None), sl_files = \<lparr>fs_glob = (\<lambda>p. Inr []), fs_is_file = (\<lambda>p. False), fs_read = Inl\<rparr>,
      sl_manifests = (\<lambda>b. []), sl_parse_time = (\<lambda>t. None), sl_sha = demo_sha, sl_x509 = demo_lib,
      sl_cipher = demo_suite, sl_read = files, sl_listen = (\<lambda>l. None)\<rparr>"

lemma demo_process_simps [simp]:
  "sl_listen (demo_process files cfg) l = None" "sl_read (demo_process files cfg) = files"
  by (simp_all add: demo_process_def)

lemma demo_normal: "normalize_telemetry f (\<lambda>k. []) default_telemetry = default_telemetry"
  by (simp add: normalize_telemetry_def env_otlp_def env_attributes_def env_sampling_def fill_defaults_def to_lower_def
      default_telemetry_def Let_def)

lemma demo_sl_load: "cf_telemetry cfg = default_telemetry \<Longrightarrow> sl_load (demo_process files cfg) p = Inr cfg"
  by (cases cfg) (simp add: sl_load_def load_config_def demo_process_def bindE_def demo_normal)

lemma demo_default: "cf_telemetry default_config = default_telemetry"
  by (simp add: default_config_def)

lemma demo_telemetry:
  "snd (configure_telemetry (sl_otel (demo_process files cfg)) default_telemetry n) = Inr [MeterProvider [PrometheusReader]]"
  by (simp add: demo_process_def configure_telemetry_def Let_def default_telemetry_def configure_settings_def
      configure_traces_def configure_metrics_def bindE_def)

lemma demo_open: "open_database (sl_ping (demo_process files cfg)) (cf_database default_config) = None"
  by (simp add: open_database_def demo_process_def default_config_def)

lemma demo_rbac: "load_and_apply fs decode pt now (cf_rbac default_config) s = (s, no_result, None)"
  by (simp add: load_and_apply_def default_config_def Let_def)

lemma demo_no_panic: "\<not> load_panics (demo_process files cfg) p"
  by (auto simp: load_panics_def demo_process_def load_authority_def load_key_def demo_lib_def is_encrypted_block_def
      split: sum.split option.split private_key.split)

lemma demo_start:
  assumes "cf_telemetry cfg = default_telemetry" and "cf_database cfg = cf_database default_config"
    and "cf_rbac cfg = cf_rbac default_config"
  shows "start_server (demo_process files cfg) p now s = (migrate s, Inr (server_of (demo_process files cfg) cfg))"
  by (simp add: start_server_def demo_sl_load assms demo_telemetry demo_open demo_rbac demo_no_panic)

lemma demo_started:
  assumes "cf_telemetry cfg = default_telemetry" and "cf_database cfg = cf_database default_config"
    and "cf_rbac cfg = cf_rbac default_config"
  shows "deployment_run sha (\<lambda>lib. lib = demo_process files cfg) \<lparr>de_store = s, de_running = None\<rparr>
    \<lparr>de_store = migrate s, de_running = Some (server_of (demo_process files cfg) cfg)\<rparr>"
  by (rule deployment_run.Then [OF deployment_run.Here])
    (rule deployment_step.Started [where path = "[]" and now = 0, OF refl],
      simp_all add: demo_start [OF assms])

theorem deployment_keeps_store_inv_witness:
  "store_inv (migrate (empty_store True)) \<and> set schema_tables \<subseteq> set (st_tables (migrate (empty_store True)))"
proof -
  have "deployment_run demo_sha (\<lambda>lib. lib = demo_process Inl default_config) \<lparr>de_store = empty_store True, de_running = None\<rparr>
      \<lparr>de_store = migrate (empty_store True), de_running = Some (server_of (demo_process Inl default_config) default_config)\<rparr>"
    by (rule demo_started) (simp_all add: default_config_def)
  from deployment_keeps_store_inv [OF this] show ?thesis by simp
qed


theorem revoked_across_restarts_witness:
  "\<exists>c. certificate_status demo_env \<lparr>sv_store = migrate (sv_store (fst (revoke_certificate_handler demo_sha demo_env
      demo_cert_server (Inr demo_revoke)))), sv_metrics = []\<rparr> ''1f'' = reply 200 (IssuedBody c) \<and>
    ic_revoked_at c \<noteq> None"
proof -
  let ?r = "revoke_certificate_handler demo_sha demo_env demo_cert_server (Inr demo_revoke)"
  let ?d = "\<lparr>de_store = sv_store demo_cert_server, de_running = None\<rparr>"
  have sv: "\<lparr>sv_store = sv_store demo_cert_server, sv_metrics = sv_metrics demo_cert_server\<rparr> = demo_cert_server" by simp
  have ok: "rs_status (snd ?r) = 200"
    using revoke_handler_known [of demo_cert_server demo_revoke demo_sha demo_env]
    by (simp add: demo_revoke_def row_exists_def demo_cert_def)
  have run: "deployment_run demo_sha (\<lambda>lib. lib = demo_process Inl default_config) (?d\<lparr>de_store := sv_store (fst ?r)\<rparr>)
      \<lparr>de_store = migrate (sv_store (fst ?r)), de_running = Some (server_of (demo_process Inl default_config) default_config)\<rparr>"
    using demo_started [of default_config] by (simp add: default_config_def)
  have "\<exists>c. certificate_status demo_env \<lparr>sv_store = migrate (sv_store (fst ?r)), sv_metrics = []\<rparr> (rq_serial demo_revoke) =
      reply 200 (IssuedBody c) \<and> ic_serial c = rq_serial demo_revoke \<and> ic_revoked_at c \<noteq> None"
    using revoked_across_restarts [of ?d demo_sha demo_env "sv_metrics demo_cert_server" demo_revoke "fst ?r" "snd ?r", OF _ _ _ _ ok run, of demo_env "[]"]
    by (simp add: sv)
  then show ?thesis by (auto simp: demo_revoke_def)
qed

definition demo_ca_config :: config where
  "demo_ca_config = default_config\<lparr>cf_pki := (cf_pki default_config)\<lparr>pki_default_lifetime := hour\<rparr>\<rparr>"

definition demo_loaded :: file_authority where
  "demo_loaded = \<lparr>fa_cert = demo_ca_cert\<lparr>ct_raw := ''/pki/intermediate.crt''\<rparr>, fa_key = SignerKey ''/pki/intermediate.key.enc'',
     fa_chain = ''/pki/ca-chain.crt'', fa_root = ''/pki/root-ca.crt'',
     fa_ca_id = hex_encode (demo_sha ''/pki/intermediate.crt'')\<rparr>"

lemma demo_load: "loaded (demo_process Inr demo_ca_config) demo_ca_config = Inr demo_loaded"
  by (simp add: loaded_def demo_process_def demo_ca_config_def default_config_def pki_files_of_def load_authority_def
      load_key_def demo_lib_def is_encrypted_block_def parse_private_key_def contents_or_empty_def demo_loaded_def)


definition demo_host_server :: running where
  "demo_host_server = server_of (demo_process Inr demo_ca_config) demo_ca_config"

lemma demo_ca_deps:
  "ru_deps demo_host_server = \<lparr>dp_lifetime = hour, dp_renew_before = pki_renew_before (cf_pki default_config),
     dp_authority = file_signer demo_lib demo_loaded\<rparr>"
  using demo_load by (simp add: demo_host_server_def server_of_def server_authority_def loaded_def demo_ca_config_def)
    (simp add: demo_process_def)

lemma demo_ca_sign:
  "au_sign (dp_authority (ru_deps demo_host_server)) (clk demo_env 1) (draw demo_env) (cq_csr_pem demo_cert_request)
     (cq_dns_names demo_cert_request) (dp_lifetime (ru_deps demo_host_server)) = Inr demo_issued"
proof -
  have ne: "trim_space ''node.local'' \<noteq> []" by code_simp
  show ?thesis
    unfolding demo_ca_deps
    using ne by (simp add: demo_cert_request_def file_signer_def sign_csr_def Let_def demo_lib_def demo_csr_def demo_env_def
        demo_issued_def leaf_template_def demo_ff)
qed

definition demo_after :: server where
  "demo_after = fst (serve demo_sha demo_env (ru_deps demo_host_server)
     \<lparr>sv_store = migrate (sv_store demo_server), sv_metrics = ru_metrics demo_host_server\<rparr> (PostRequest (Inr demo_cert_request)))"

lemma demo_after_certs:
  "st_certs (sv_store demo_after) =
     [issued_row demo_env (ru_deps demo_host_server) demo_issued ''en'' ''node'' (cq_dns_names demo_cert_request)]"
proof -
  let ?s = "migrate (sv_store demo_server)" and ?dp = "ru_deps demo_host_server"
  have tabs: "set schema_tables \<subseteq> set (st_tables ?s)" by (rule migrate_tables)
  note in_tabs = schema_in_tables [OF tabs]
  have rows: "st_enrollments ?s = [demo_enrollment]" "st_certs ?s = []" by (simp_all add: migrate_def)
  have en: "get_enrollment ?s (cq_enrollment_id demo_cert_request) = Inr demo_enrollment"
    using in_tabs by (simp add: get_enrollment_def rows)
  obtain s' where iss: "issue demo_env ?dp ?s demo_cert_request (en_id demo_enrollment) (en_hostname demo_enrollment) =
      (s', Inr demo_issued)"
    using in_tabs issue_Inr [of ?s demo_env ?dp demo_cert_request "en_id demo_enrollment" "en_hostname demo_enrollment" _ demo_issued]
      demo_ca_sign by (auto simp: rows row_exists_def)
  then have "st_certs s' = [issued_row demo_env ?dp demo_issued ''en'' ''node'' (cq_dns_names demo_cert_request)]"
    using issue_certs [OF iss] by (simp add: rows demo_enrollment_def)
  then show ?thesis
    using iss by (simp add: demo_after_def request_certificate_def en record_audit_frame)
qed

theorem every_certificate_has_an_issuer_witness:
  "\<exists>c. st_certs (sv_store demo_after) = [c] \<and> ic_serial c = ''ff'' \<and>
     (\<exists>lib path cfg fa. lib = demo_process Inr demo_ca_config \<and> sl_load lib path = Inr cfg \<and> loaded lib cfg = Inr fa \<and>
        issued_by lib cfg fa c)"
proof -
  let ?d = "\<lparr>de_store = sv_store demo_server, de_running = None\<rparr>"
  let ?c = "issued_row demo_env (ru_deps demo_host_server) demo_issued ''en'' ''node'' (cq_dns_names demo_cert_request)"
  let ?t = "\<lparr>de_store = sv_store demo_after, de_running = Some (demo_host_server\<lparr>ru_metrics := sv_metrics demo_after\<rparr>)\<rparr>"
  have "deployment_run demo_sha (\<lambda>lib. lib = demo_process Inr demo_ca_config) ?d
      \<lparr>de_store = migrate (sv_store demo_server), de_running = Some demo_host_server\<rparr>"
    unfolding demo_host_server_def by (rule demo_started) (simp_all add: demo_ca_config_def default_config_def)
  then have run: "deployment_run demo_sha (\<lambda>lib. lib = demo_process Inr demo_ca_config) ?d ?t"
    by (rule deployment_run.Then)
      (rule deployment_step.Served [where e = demo_env and req = "PostRequest (Inr demo_cert_request)"],
       simp_all add: demo_after_def prod_eq_iff)
  have "identity_of ?c \<notin> identity_of ` set (st_certs (de_store ?d))" by simp
  with every_certificate_has_an_issuer [OF run, of ?c]
  have "\<exists>lib path cfg fa. lib = demo_process Inr demo_ca_config \<and> sl_load lib path = Inr cfg \<and> loaded lib cfg = Inr fa \<and>
      issued_by lib cfg fa ?c"
    by (simp add: demo_after_certs)
  then show ?thesis by (simp add: demo_after_certs issued_row_def demo_issued_def)
qed


theorem no_ca_no_certificate_witness:
  "identity_of ` set (st_certs (sv_store (fst (serve demo_sha demo_env (ru_deps (server_of (demo_process Inl default_config) default_config))
     \<lparr>sv_store = migrate (sv_store demo_server), sv_metrics = []\<rparr> (PostRequest (Inr demo_cert_request)))))) = {}"
proof -
  let ?d = "\<lparr>de_store = sv_store demo_server, de_running = None\<rparr>"
  let ?r = "server_of (demo_process Inl default_config) default_config"
  let ?u = "serve demo_sha demo_env (ru_deps ?r) \<lparr>sv_store = migrate (sv_store demo_server), sv_metrics = []\<rparr>
     (PostRequest (Inr demo_cert_request))"
  let ?t = "\<lparr>de_store = sv_store (fst ?u), de_running = Some (?r\<lparr>ru_metrics := sv_metrics (fst ?u)\<rparr>)\<rparr>"
  have none: "\<exists>x. loaded lib cfg = Inl x" if "lib = demo_process Inl default_config" for lib cfg
    by (simp add: that loaded_def load_authority_def demo_process_def)
  have "deployment_run demo_sha (\<lambda>lib. lib = demo_process Inl default_config) ?d
      \<lparr>de_store = migrate (sv_store demo_server), de_running = Some ?r\<rparr>"
    by (rule demo_started) (simp_all add: default_config_def)
  then have "deployment_run demo_sha (\<lambda>lib. lib = demo_process Inl default_config) ?d ?t"
    by (rule deployment_run.Then)
      (rule deployment_step.Served [where e = demo_env and req = "PostRequest (Inr demo_cert_request)"],
       simp_all add: prod_eq_iff server_of_def)
  from no_ca_no_certificate [OF none this] show ?thesis by simp
qed

definition demo_tls_config :: config where
  "demo_tls_config = default_config\<lparr>cf_server := \<lparr>srv_address = '':8443'', srv_tls = \<lparr>tls_cert_file = ''c'', tls_key_file = ''k''\<rparr>\<rparr>\<rparr>"

definition demo_tls_target :: target where
  "demo_tls_target = \<lparr>tg_config = demo_tls_config, tg_config_path = [], tg_store = None, tg_now = 50\<rparr>"

definition demo_safe_host :: host where
  "demo_safe_host = demo_host\<lparr>ho_stat := (\<lambda>p. StatAbsent), ho_read := Inr, ho_sqlite := (\<lambda>d. ProbeTables schema_tables)\<rparr>"

lemma demo_report_passes: "\<not> fails_threshold (rp_checks (security_report demo_safe_host 0 demo_tls_target)) SeverityHigh"
  by code_simp

lemma demo_tls_fields:
  "tg_config demo_tls_target = demo_tls_config" "cf_telemetry demo_tls_config = default_telemetry"
  "cf_database demo_tls_config = cf_database default_config" "cf_rbac demo_tls_config = cf_rbac default_config"
  "srv_address (cf_server demo_tls_config) = '':8443''"
  "tls_cert_file (srv_tls (cf_server demo_tls_config)) = ''c''" "tls_key_file (srv_tls (cf_server demo_tls_config)) = ''k''"
  by (simp_all add: demo_tls_target_def demo_tls_config_def demo_default)

theorem checked_server_uses_tls_witness:
  "ru_listener (server_of (demo_process Inl demo_tls_config) demo_tls_config) = TlsHttp '':8443'' ''c'' ''k''"
proof -
  have go: "start_server (demo_process Inl demo_tls_config) [] 0 (empty_store True) =
      (migrate (empty_store True), Inr (server_of (demo_process Inl demo_tls_config) demo_tls_config))"
    by (rule demo_start) (simp_all add: demo_tls_fields)
  have load: "sl_load (demo_process Inl demo_tls_config) [] = Inr (tg_config demo_tls_target)"
    by (simp add: demo_tls_fields demo_sl_load)
  have "\<not> is_zero (tg_now demo_tls_target)" by (simp add: demo_tls_target_def is_zero_def zero_time_def)
  from checked_server_uses_tls [OF demo_report_passes order_refl this load go] show ?thesis
    unfolding demo_tls_fields .
qed

theorem failed_listener_exits_zero_witness:
  "server_main (demo_process Inl default_config\<lparr>sl_listen := (\<lambda>l. Some ''address already in use'')\<rparr>) False [] 0 [] (empty_store True) =
     (migrate (empty_store True), False, 0)"
proof -
  let ?lib = "demo_process Inl default_config\<lparr>sl_listen := (\<lambda>l. Some ''address already in use'')\<rparr>"
  have "start_server ?lib [] 0 (empty_store True) = (migrate (empty_store True), Inr (server_of ?lib default_config))"
    using demo_no_panic [of Inl default_config "cf_pki default_config"]
    by (simp add: start_server_def sl_load_frame demo_sl_load demo_default demo_telemetry demo_open demo_rbac load_panics_def)
  with failed_listener_exits_zero [of ?lib "[]" 0 "[]" "empty_store True" "migrate (empty_store True)"
      "server_of ?lib default_config" "''address already in use''"] show ?thesis by simp
qed

end
