(* ===== verification/Programs.thy ===== *)
theory Programs
  imports Deployment Admin_Ca
begin

text \<open>
  The exit statuses of the command line programs (\<open>cmd/ironroot-admin\<close>, \<open>cmd/ironroot-client\<close>,
  \<open>cmd/ironroot-dev\<close>), and what the status of the self-check means for the server that is started
  afterwards with the same configuration file.
\<close>

section \<open>Exit statuses\<close>

text \<open>
  An error that carries an exit code (\<open>errors.As\<close> finds an \<open>ExitError\<close>), or any other one: of the
  command, of the flag parser, or of the context.
\<close>

datatype program_error = Coded exit_error | Uncoded string

fun admin_status :: "program_error option \<Rightarrow> int" where
  "admin_status None = 0"
| "admin_status (Some (Coded e)) = exit_code (Some e)"
| "admin_status (Some (Uncoded e)) = 1"

fun client_program_status :: "string option \<Rightarrow> int" where
  "client_program_status None = 0"
| "client_program_status (Some e) = 1"

fun dev_program_status :: "string option \<Rightarrow> int" where
  "dev_program_status None = 0"
| "dev_program_status (Some e) = 1"

text \<open>The program \<open>ironroot-admin security-check\<close>.\<close>

definition security_check_status ::
  "admin_lib \<Rightarrow> (check_report \<Rightarrow> string) \<Rightarrow> (database_config \<Rightarrow> store option) \<Rightarrow> host \<Rightarrow> fault \<Rightarrow> gotime \<Rightarrow> check_flags \<Rightarrow> disk \<Rightarrow> int" where
  "security_check_status lib json open_store h fault now f d =
     admin_status (map_option Coded (snd (snd (security_check_command lib json open_store h fault now f d))))"

lemma status_zero: "admin_status (map_option Coded x) = 0 \<longleftrightarrow> x = None"
  by (cases x rule: exit_code.cases) auto

text \<open>Status 0: the configuration was read, the flags are well-formed and no check failed at the threshold.\<close>

lemma security_check_passed:
  assumes "security_check_status lib json open_store h fault now f d = 0"
  obtains cfg sev where "adm_load lib (kf_config f) = Inr cfg" and "parse_severity (kf_fail_on f) = Some sev"
    and "\<not> fails_threshold (rp_checks (security_report h now \<lparr>tg_config = cfg, tg_config_path = kf_config f,
          tg_store = (if db_driver (cf_database cfg) = [] then None else open_store (cf_database cfg)), tg_now = now\<rparr>)) sev"
  using assms that
  by (auto simp: security_check_status_def status_zero security_check_command_def Let_def
      split: sum.splits option.splits if_splits)

section \<open>Properties\<close>

text \<open>
  C37. The self-check as a gate before the start: when \<open>ironroot-admin security-check\<close> with a
  threshold up to \<open>high\<close> exits with status 0, a server started with the same configuration file
  listens with TLS, with a certificate and a key file.
\<close>

theorem passed_check_means_tls:
  assumes "security_check_status lib json open_store h fault now f d = 0"
    and "parse_severity (kf_fail_on f) = Some sev" and "sev \<le> SeverityHigh" and "\<not> is_zero now"
    and "sl_load process (kf_config f) = adm_load lib (kf_config f)"
    and "start_server process (kf_config f) start s = (s', Inr r)"
  shows "\<exists>address cert key. ru_listener r = TlsHttp address cert key \<and> cert \<noteq> [] \<and> key \<noteq> []"
proof -
  from assms(1) obtain cfg where cfg: "adm_load lib (kf_config f) = Inr cfg"
    and ok: "\<not> fails_threshold (rp_checks (security_report h now \<lparr>tg_config = cfg, tg_config_path = kf_config f,
          tg_store = (if db_driver (cf_database cfg) = [] then None else open_store (cf_database cfg)), tg_now = now\<rparr>)) sev"
    by (rule security_check_passed) (use assms(2) in auto)
  have tls: "ru_listener r = TlsHttp (srv_address (cf_server cfg)) (tls_cert_file (srv_tls (cf_server cfg)))
      (tls_key_file (srv_tls (cf_server cfg)))"
    using checked_server_uses_tls [OF ok assms(3) _ _ assms(6)] assms(4,5) cfg by simp
  moreover have "ru_listener r = listener_of (cf_server cfg)"
    using assms(5,6) cfg by (auto simp: start_server_def server_of_def split: sum.splits option.splits prod.splits if_splits)
  ultimately show ?thesis by (auto simp: listener_of_def split: if_splits)
qed

definition demo_gate :: admin_lib where
  "demo_gate = \<lparr>adm_load = (\<lambda>p. Inr demo_tls_config), adm_open = (\<lambda>c. None), adm_scan = Some, adm_align = (\<lambda>t. t)\<rparr>"

definition demo_gate_flags :: check_flags where
  "demo_gate_flags = default_check_flags\<lparr>kf_fail_on := ''high''\<rparr>"

lemma demo_gate_passes: "security_check_status demo_gate (\<lambda>r. []) (\<lambda>c. None) demo_safe_host no_fault 50 demo_gate_flags d = 0"
proof -
  have "parse_output_format ''table'' = Some OutputTable" "parse_severity ''high'' = Some SeverityHigh" by code_simp+
  moreover have "\<not> fails_threshold (rp_checks (security_report demo_safe_host 50 \<lparr>tg_config = demo_tls_config, tg_config_path = [],
      tg_store = None, tg_now = 50\<rparr>)) SeverityHigh"
    using demo_report_passes by (simp add: security_report_def demo_tls_target_def is_zero_def zero_time_def)
  ultimately show ?thesis
    by (simp add: security_check_status_def security_check_command_def demo_gate_def demo_gate_flags_def
        default_check_flags_def Let_def)
qed

theorem passed_check_means_tls_witness:
  "\<exists>address cert key. ru_listener (server_of (demo_process Inl demo_tls_config) demo_tls_config) = TlsHttp address cert key \<and>
     cert \<noteq> [] \<and> key \<noteq> []"
proof -
  have go: "start_server (demo_process Inl demo_tls_config) (kf_config demo_gate_flags) 0 (empty_store True) =
      (migrate (empty_store True), Inr (server_of (demo_process Inl demo_tls_config) demo_tls_config))"
    by (rule demo_start) (simp_all add: demo_tls_fields)
  have sev: "parse_severity (kf_fail_on demo_gate_flags) = Some SeverityHigh"
    unfolding demo_gate_flags_def by simp code_simp
  have "sl_load (demo_process Inl demo_tls_config) (kf_config demo_gate_flags) = adm_load demo_gate (kf_config demo_gate_flags)"
    by (simp add: demo_gate_def demo_gate_flags_def default_check_flags_def demo_sl_load demo_tls_fields)
  moreover have "\<not> is_zero 50" by (simp add: is_zero_def zero_time_def)
  ultimately show ?thesis by (intro passed_check_means_tls [OF demo_gate_passes sev order_refl _ _ go])
qed

end
