(* ===== verification/Metrics.thy ===== *)
theory Metrics
  imports Api_Properties Security_Checks
begin

text \<open>
  The labelled metrics of \<open>internal/telemetry/metrics.go\<close> and \<open>helpers.go\<close>: what a request, a
  command, a query, an exporter and a security check add to which series. An instrument holds one
  value per set of labels; the OpenTelemetry SDK adds the values up. Durations (the histograms)
  are left out.
\<close>

section \<open>Commands, queries, exporters\<close>

definition record_command :: "string \<Rightarrow> 'e option \<Rightarrow> measurement list" where
  "record_command name err =
     (let labels = [(''command'', sanitize_label name), (''status'', if err = None then ''success'' else ''error'')]
      in adds CLICommandResults 1 labels #
         (if err = None then [] else [adds CLICommandErrors 1 labels]))"

definition record_database :: "string \<Rightarrow> 'e option \<Rightarrow> measurement list" where
  "record_database operation err =
     (if err = None then []
      else [adds DatabaseErrors 1 [(''operation'', sanitize_label operation)]])"

definition record_exporter :: "string \<Rightarrow> 'e option \<Rightarrow> measurement list" where
  "record_exporter signal err =
     (if err = None then []
      else [adds OTelExportFailures 1 [(''signal'', sanitize_label signal)]])"

section \<open>Security checks\<close>

definition check_measurement :: "check_result \<Rightarrow> measurement" where
  "check_measurement r =
     adds SecurityCheckResults 1
       [(''severity'', severity_name (ck_severity r)), (''status'', status_name (ck_status r)), (''category'', ck_category r)]"

text \<open>\<open>Runner.Run\<close> records every result before it sorts them.\<close>

definition check_measurements :: "('c \<Rightarrow> check_result) \<Rightarrow> 'c list \<Rightarrow> measurement list" where
  "check_measurements f checks = map (\<lambda>c. check_measurement (f c)) checks"

section \<open>The series of a run\<close>

lemma certificate_labels_iff [simp]:
  "certificate_labels i s = certificate_labels i' s' \<longleftrightarrow> i = i' \<and> s = s'"
  by (simp add: certificate_labels_def)

lemma middleware_label_sets [simp]:
  "label_sets (middleware_measurements req n) APIRequests = {metric_attrs req n}"
  "label_sets (middleware_measurements req n) ActiveCertificates = {}"
  by (simp_all add: middleware_measurements_def)

lemma middleware_series [simp]: "series (middleware_measurements req n) ActiveCertificates ls = 0"
  by (simp add: middleware_measurements_def)

text \<open>The requests of a run with their answers.\<close>

fun answers ::
  "(string \<Rightarrow> char list) \<Rightarrow> dependencies \<Rightarrow> server \<Rightarrow> (env \<times> http_request) list \<Rightarrow> (http_request \<times> response) list" where
  "answers sha dp sv [] = []"
| "answers sha dp sv ((e, req) # reqs) =
     (case serve sha e dp sv req of (sv', r) \<Rightarrow> (req, r) # answers sha dp sv' reqs)"

fun issued_answer :: "http_request \<times> response \<Rightarrow> bool" where
  "issued_answer (PostRequest b, r) = (rs_status r = 201)" | "issued_answer _ = False"

fun renewed_answer :: "http_request \<times> response \<Rightarrow> bool" where
  "renewed_answer (PostRenew n b, r) = (rs_status r = 201)" | "renewed_answer _ = False"

fun revoked_answer :: "http_request \<times> response \<Rightarrow> bool" where
  "revoked_answer (PostRevoke b, r) = (rs_status r = 200)" | "revoked_answer _ = False"

definition how_many :: "('a \<Rightarrow> bool) \<Rightarrow> 'a list \<Rightarrow> int" where
  "how_many P xs = int (length (filter P xs))"

lemma how_many_simps [simp]:
  "how_many P [] = 0" "how_many P (x # xs) = (if P x then 1 else 0) + how_many P xs" "0 \<le> how_many P xs"
  by (simp_all add: how_many_def)

text \<open>
  What measurements say of the gauge: its series, with the number of issued, renewed and
  revoked certificates they stand for.
\<close>

definition gauge_reads :: "dependencies \<Rightarrow> measurement list \<Rightarrow> int \<Rightarrow> int \<Rightarrow> int \<Rightarrow> bool" where
  "gauge_reads dp ms i n r \<longleftrightarrow>
     label_sets ms ActiveCertificates \<subseteq> {certificate_labels (issuer_label dp) ''issued'',
       certificate_labels (issuer_label dp) ''renewed'', certificate_labels ''unknown'' ''revoked''} \<and>
     series ms ActiveCertificates (certificate_labels (issuer_label dp) ''issued'') = i \<and>
     series ms ActiveCertificates (certificate_labels (issuer_label dp) ''renewed'') = n \<and>
     series ms ActiveCertificates (certificate_labels ''unknown'' ''revoked'') = - r"

lemma gauge_reads_append:
  "gauge_reads dp ms i n r \<Longrightarrow> gauge_reads dp ms' i' n' r' \<Longrightarrow> gauge_reads dp (ms @ ms') (i + i') (n + n') (r + r')"
  by (auto simp: gauge_reads_def)

lemma issue_codes: "issue e dp s q i subj = (s', Inl (n, err)) \<Longrightarrow> n \<noteq> 201"
  by (auto simp: issue_def split: sum.splits)

text \<open>One handler: what it adds to the meter and to the stored certificates.\<close>

definition step_reads :: "dependencies \<Rightarrow> http_request \<Rightarrow> server \<Rightarrow> server \<Rightarrow> response \<Rightarrow> bool" where
  "step_reads dp req sv sv' r \<longleftrightarrow>
     (\<exists>ms. sv_metrics sv' = sv_metrics sv @ ms \<and>
        gauge_reads dp ms (how_many issued_answer [(req, r)]) (how_many renewed_answer [(req, r)]) (how_many revoked_answer [(req, r)])) \<and>
     int (length (st_certs (sv_store sv'))) =
       int (length (st_certs (sv_store sv))) + how_many issued_answer [(req, r)] + how_many renewed_answer [(req, r)]"

lemmas step_defs = step_reads_def gauge_reads_def write_error_def reply_def record_audit_frame

lemma enroll_reads: "enroll_handler sha e sv b = (sv', r) \<Longrightarrow> step_reads dp (PostEnroll b) sv sv' r"
  by (auto simp: enroll_handler_def validate_and_enroll_def step_defs certs_frame Let_def
      split: sum.splits prod.splits if_splits option.splits)

lemma request_reads: "request_certificate sha e dp sv b = (sv', r) \<Longrightarrow> step_reads dp (PostRequest b) sv sv' r"
  by (auto simp: request_certificate_def step_defs dest: issue_codes issue_certs split: sum.splits prod.splits if_splits)

lemma renew_reads: "renew_certificate sha e dp sv n b = (sv', r) \<Longrightarrow> step_reads dp (PostRenew n b) sv sv' r"
  by (auto simp: renew_certificate_def step_defs dest: issue_codes issue_certs split: sum.splits prod.splits if_splits)

lemma revoke_reads: "revoke_certificate_handler sha e sv b = (sv', r) \<Longrightarrow> step_reads dp (PostRevoke b) sv sv' r"
  by (auto simp: revoke_certificate_handler_def revoke_certificate_def step_defs Let_def need_def row_update_def
      split: sum.splits prod.splits if_splits option.splits)

lemma dispatch_reads: "dispatch sha e dp sv req = (sv', r) \<Longrightarrow> step_reads dp req sv sv' r"
  by (cases req)
    (simp_all add: enroll_reads request_reads renew_reads revoke_reads, auto simp: step_reads_def gauge_reads_def)

lemma serve_reads:
  assumes "serve sha e dp sv req = (sv', r)"
  shows "step_reads dp req sv sv' r"
proof -
  obtain sv1 where d: "dispatch sha e dp sv req = (sv1, r)" and sv': "sv' = tally (middleware_measurements req (rs_status r)) sv1"
    using assms by (auto simp: serve_def split: prod.splits)
  have "gauge_reads dp (middleware_measurements req (rs_status r)) 0 0 0" by (simp add: gauge_reads_def)
  then show ?thesis
    using dispatch_reads [OF d] gauge_reads_append [of dp _ _ _ _ "middleware_measurements req (rs_status r)" 0 0 0]
    unfolding step_reads_def sv' by fastforce
qed

lemma run_reads:
  "\<exists>ms. sv_metrics (serve_all sha dp sv reqs) = sv_metrics sv @ ms \<and>
     gauge_reads dp ms (how_many issued_answer (answers sha dp sv reqs)) (how_many renewed_answer (answers sha dp sv reqs))
       (how_many revoked_answer (answers sha dp sv reqs)) \<and>
     int (length (st_certs (sv_store (serve_all sha dp sv reqs)))) =
       int (length (st_certs (sv_store sv))) + how_many issued_answer (answers sha dp sv reqs) + how_many renewed_answer (answers sha dp sv reqs)"
proof (induction reqs arbitrary: sv)
  case Nil
  show ?case by (simp add: gauge_reads_def)
next
  case (Cons x reqs)
  obtain e req where x: "x = (e, req)" by (cases x)
  obtain sv' r where s: "serve sha e dp sv req = (sv', r)" by (cases "serve sha e dp sv req")
  from serve_reads [OF s] obtain ms where ms: "sv_metrics sv' = sv_metrics sv @ ms"
    and read: "gauge_reads dp ms (how_many issued_answer [(req, r)]) (how_many renewed_answer [(req, r)]) (how_many revoked_answer [(req, r)])"
    and certs: "int (length (st_certs (sv_store sv'))) =
       int (length (st_certs (sv_store sv))) + how_many issued_answer [(req, r)] + how_many renewed_answer [(req, r)]"
    by (auto simp: step_reads_def simp del: how_many_simps)
  from Cons.IH [of sv'] obtain ms' where "sv_metrics (serve_all sha dp sv' reqs) = sv_metrics sv' @ ms'"
    and read': "gauge_reads dp ms' (how_many issued_answer (answers sha dp sv' reqs)) (how_many renewed_answer (answers sha dp sv' reqs))
       (how_many revoked_answer (answers sha dp sv' reqs))"
    and "int (length (st_certs (sv_store (serve_all sha dp sv' reqs)))) =
       int (length (st_certs (sv_store sv'))) + how_many issued_answer (answers sha dp sv' reqs) + how_many renewed_answer (answers sha dp sv' reqs)"
    by blast
  then show ?case
    using gauge_reads_append [OF read read'] ms certs by (intro exI [of _ "ms @ ms'"]) (simp add: x s)
qed

section \<open>Properties\<close>

text \<open>
  C38. The gauge of active certificates has at most three series, and none of them is the number of
  active certificates. For every run of the server: one counts the confirmed requests and one the
  confirmed renewals, and together they are the number of certificates stored in the run, revoked
  or not; a revocation changes neither, it makes the series of the issuer \<open>unknown\<close> with status
  \<open>revoked\<close> negative. Only the sum over the series, which \<open>docs/observability/metrics.md\<close> does not
  take, subtracts the confirmed revocations from the certificates stored.
\<close>

theorem active_gauge_is_split:
  "\<exists>ms. sv_metrics (serve_all sha dp sv reqs) = sv_metrics sv @ ms \<and>
     label_sets ms ActiveCertificates \<subseteq> {certificate_labels (issuer_label dp) ''issued'',
       certificate_labels (issuer_label dp) ''renewed'', certificate_labels ''unknown'' ''revoked''} \<and>
     series ms ActiveCertificates (certificate_labels (issuer_label dp) ''issued'') =
       how_many issued_answer (answers sha dp sv reqs) \<and>
     series ms ActiveCertificates (certificate_labels (issuer_label dp) ''renewed'') =
       how_many renewed_answer (answers sha dp sv reqs) \<and>
     series ms ActiveCertificates (certificate_labels (issuer_label dp) ''issued'') +
       series ms ActiveCertificates (certificate_labels (issuer_label dp) ''renewed'') =
       int (length (st_certs (sv_store (serve_all sha dp sv reqs)))) - int (length (st_certs (sv_store sv))) \<and>
     series ms ActiveCertificates (certificate_labels ''unknown'' ''revoked'') =
       - how_many revoked_answer (answers sha dp sv reqs)"
  using run_reads [of sha dp sv reqs] unfolding gauge_reads_def by (elim ex_forward) simp

text \<open>
  One stored certificate, revoked in the run: no certificate is active, and the only series of the
  gauge that is not zero is minus one.
\<close>

theorem active_gauge_is_split_witness:
  "let sv = serve_all demo_sha demo_deps demo_cert_server [(demo_env, PostRevoke (Inr demo_revoke))]
   in filter (\<lambda>c. ic_revoked_at c = None) (st_certs (sv_store sv)) = [] \<and>
      series (sv_metrics sv) ActiveCertificates (certificate_labels (issuer_label demo_deps) ''issued'') = 0 \<and>
      series (sv_metrics sv) ActiveCertificates (certificate_labels (issuer_label demo_deps) ''renewed'') = 0 \<and>
      series (sv_metrics sv) ActiveCertificates (certificate_labels ''unknown'' ''revoked'') = - 1"
proof -
  let ?reqs = "[(demo_env, PostRevoke (Inr demo_revoke))]"
  let ?r = "revoke_certificate_handler demo_sha demo_env demo_cert_server (Inr demo_revoke)"
  have known: "rs_status (snd ?r) = 200"
    "st_certs (sv_store (fst ?r)) = row_update ic_serial (rq_serial demo_revoke) (\<lambda>c. c\<lparr>ic_revoked_at := Some (clk demo_env 0)\<rparr>) [demo_cert]"
    using revoke_handler_known [of demo_cert_server demo_revoke demo_sha demo_env]
    by (simp_all add: demo_revoke_def row_exists_def demo_cert_def)
  have served: "serve demo_sha demo_env demo_deps demo_cert_server (PostRevoke (Inr demo_revoke)) =
      (tally (middleware_measurements (PostRevoke (Inr demo_revoke)) 200) (fst ?r), snd ?r)"
    using known(1) by (cases ?r) (simp add: serve_def)
  have answers: "answers demo_sha demo_deps demo_cert_server ?reqs = [(PostRevoke (Inr demo_revoke), snd ?r)]"
    by (simp add: served)
  have "filter (\<lambda>c. ic_revoked_at c = None) (st_certs (sv_store (serve_all demo_sha demo_deps demo_cert_server ?reqs))) = []"
    by (simp add: served known(2)) (simp add: row_update_def demo_revoke_def demo_cert_def)
  moreover have "sv_metrics demo_cert_server = []" by (simp add: demo_cert_server_def)
  moreover have "how_many issued_answer (answers sha dp sv r) = 0" "how_many renewed_answer (answers sha dp sv r) = 0"
      "how_many revoked_answer (answers sha dp sv r) = 1"
    if "answers sha dp sv r = [(PostRevoke (Inr demo_revoke), snd ?r)]" for sha dp sv r
    using that known(1) by simp_all
  note counts = this [OF answers]
  ultimately show ?thesis
    using active_gauge_is_split [of demo_sha demo_deps demo_cert_server ?reqs] unfolding counts Let_def by simp
qed

text \<open>
  The request counter has a series for every path that was asked for: status queries for \<open>n\<close>
  different serials, which need no permission and leave the store as it is, create at least \<open>n\<close>
  series.
\<close>

theorem request_series_unbounded:
  assumes "distinct serials"
  shows "length serials \<le> card (label_sets (sv_metrics (serve_all sha dp sv (map (\<lambda>n. (e, GetCertificate n)) serials))) APIRequests) \<and>
    sv_store (serve_all sha dp sv (map (\<lambda>n. (e, GetCertificate n)) serials)) = sv_store sv"
proof -
  let ?all = "\<lambda>sv. serve_all sha dp sv (map (\<lambda>n. (e, GetCertificate n)) serials)"
  let ?routes = "\<lambda>sv. (\<lambda>ls. the (map_of ls ''route'')) ` label_sets (sv_metrics sv) APIRequests"
  have "?routes (?all sv) = ?routes sv \<union> (\<lambda>n. status_path @ n) ` set serials" for sv
    by (induction serials arbitrary: sv) (auto simp: serve_def image_Un metric_attrs_def)
  then have "(\<lambda>n. status_path @ n) ` set serials \<subseteq> ?routes (?all sv)" by blast
  moreover have fin: "finite (label_sets (sv_metrics (?all sv)) APIRequests)" by (simp add: label_sets_def)
  ultimately have "card ((\<lambda>n. status_path @ n) ` set serials) \<le> card (?routes (?all sv))"
    by (intro card_mono finite_imageI)
  also have "\<dots> \<le> card (label_sets (sv_metrics (?all sv)) APIRequests)" using fin by (rule card_image_le)
  also have "card ((\<lambda>n. status_path @ n) ` set serials) = length serials"
    using assms by (simp add: card_image inj_on_def distinct_card)
  moreover have "sv_store (?all sv) = sv_store sv" for sv
    by (induction serials arbitrary: sv) simp_all
  ultimately show ?thesis by simp
qed

text \<open>
  The alert of \<open>docs/observability/metrics.md\<close> on failed checks of severity critical or high fires
  exactly when the report fails at the threshold high, and the counter of each status is the
  number in the summary of the report.
\<close>

definition matched :: "measurement list \<Rightarrow> instrument \<Rightarrow> ((string \<times> string) list \<Rightarrow> bool) \<Rightarrow> int" where
  "matched ms name p = sum_list (map me_value (filter (\<lambda>m. me_instrument m = name \<and> p (me_labels m)) ms))"

definition alert_labels :: "(string \<times> string) list \<Rightarrow> bool" where
  "alert_labels ls \<longleftrightarrow>
     (map_of ls ''severity'' = Some ''critical'' \<or> map_of ls ''severity'' = Some ''high'') \<and> map_of ls ''status'' = Some ''fail''"

lemma matched_checks:
  "matched (check_measurements f checks) SecurityCheckResults p =
     int (length (filter (\<lambda>c. p (me_labels (check_measurement (f c)))) checks))"
  by (induction checks) (simp_all add: matched_def check_measurements_def check_measurement_def)

lemma alert_labels_check:
  "alert_labels (me_labels (check_measurement r)) \<longleftrightarrow> ck_status r = StatusFail \<and> SeverityHigh \<le> ck_severity r"
  by (cases "ck_severity r"; cases "ck_status r")
    (simp_all add: check_measurement_def alert_labels_def less_eq_severity_def)

lemma sorted_count: "length (filter P (sort_results rs)) = length (filter P rs)"
  by (metis mset_filter mset_sort_results size_mset)

lemma status_label: "map_of (me_labels (check_measurement r)) ''status'' = Some ''fail'' \<longleftrightarrow> ck_status r = StatusFail"
  by (cases "ck_status r") (simp_all add: check_measurement_def)

theorem check_metrics_match_report:
  "(0 < matched (check_measurements f checks) SecurityCheckResults alert_labels \<longleftrightarrow>
      fails_threshold (rp_checks (run_checks f checks)) SeverityHigh) \<and>
   matched (check_measurements f checks) SecurityCheckResults (\<lambda>ls. map_of ls ''status'' = Some ''fail'') =
     int (cs_failed (rp_summary (run_checks f checks)))"
proof -
  have "0 < length (filter (\<lambda>c. ck_status (f c) = StatusFail \<and> SeverityHigh \<le> ck_severity (f c)) checks) \<longleftrightarrow>
      fails_threshold (rp_checks (run_checks f checks)) SeverityHigh"
    by (auto simp: run_checks_def Let_def fails_threshold_iff sort_results_def filter_empty_conv)
  moreover have "length (filter (\<lambda>c. ck_status (f c) = StatusFail) checks) = cs_failed (rp_summary (run_checks f checks))"
    by (simp add: run_checks_def Let_def summarize_counts sorted_count filter_map comp_def)
  ultimately show ?thesis
    by (simp add: matched_checks alert_labels_check status_label del: length_greater_0_conv)
qed

text \<open>
  Commands: over any list of runs the results count every run and the errors every failed one, the
  errors are the results with status error, and the labels are short texts of safe characters.
\<close>

lemma command_counts:
  fixes runs :: "(string \<times> 'e option) list"
  shows "let ms = concat (map (\<lambda>(n, e). record_command n e) runs)
   in total ms CLICommandResults = int (length runs) \<and>
      total ms CLICommandErrors = int (length (filter (\<lambda>(n, e). e \<noteq> None) runs)) \<and>
      (\<forall>n. series ms CLICommandErrors [(''command'', n), (''status'', ''error'')] =
           series ms CLICommandResults [(''command'', n), (''status'', ''error'')]) \<and>
      (\<forall>m \<in> set ms. \<exists>n s. me_labels m = [(''command'', n), (''status'', s)] \<and> length n \<le> 80 \<and>
           list_all label_char n \<and> (s = ''success'' \<or> s = ''error''))"
  unfolding Let_def
  by (induction runs) (auto simp: record_command_def Let_def sanitize_label_ok split: if_splits)

end
