(* ===== verification/Hierarchy.thy ===== *)
theory Hierarchy
  imports Status Store_Invariant
begin

text \<open>
  The CA hierarchy of \<open>internal/api/status.go\<close> (\<open>caHierarchyStatus\<close>, \<open>legacyCAHierarchy\<close>,
  \<open>buildCAHierarchy\<close>, \<open>certificateCountsByCA\<close>): root CAs with their intermediates, their roles
  and token policies, and the numbers of certificates each has issued.
\<close>

section \<open>Records\<close>

record hierarchy_summary =
  hs_roots :: nat
  hs_intermediates :: nat
  hs_active :: nat
  hs_disabled :: nat
  hs_retired :: nat
  hs_policies :: nat
  hs_roles :: nat
  hs_pending :: nat

record role_status =
  rs_id :: string
  rs_name :: string
  rs_subject :: string
  rs_permissions :: "string list"

record policy_status =
  ps_id :: string
  ps_name :: string
  ps_types :: "string list"
  ps_dns :: "string list"
  ps_max_ttl :: string
  ps_limit :: int
  ps_renewal :: bool
  ps_approval :: bool
  ps_expires :: gotime

record intermediate_status =
  is_id :: string
  is_name :: string
  is_environment :: string
  is_owner :: string
  is_namespace :: string
  is_fingerprint :: string
  is_status :: string
  is_max_ttl :: string
  is_dns :: "string list"
  is_usages :: "string list"
  is_approval :: bool
  is_limit :: int
  is_renewal :: bool
  is_not_before :: gotime
  is_not_after :: gotime
  is_active_certs :: nat
  is_revoked_certs :: nat
  is_roles :: "role_status list"
  is_policies :: "policy_status list"

record root_status =
  os_id :: string
  os_name :: string
  os_environment :: string
  os_fingerprint :: string
  os_status :: string
  os_trust_domain :: string
  os_not_before :: gotime
  os_not_after :: gotime
  os_intermediates :: "intermediate_status list"

record hierarchy =
  hi_roots :: "root_status list"
  hi_summary :: hierarchy_summary
  hi_warnings :: "string list"
  hi_legacy :: bool

section \<open>Building it\<close>

text \<open>A Go map from strings to lists or numbers, where a missing key reads as empty or zero.\<close>

definition group_append :: "('a \<Rightarrow> string) \<Rightarrow> ('a \<Rightarrow> 'b) \<Rightarrow> 'a list \<Rightarrow> string \<Rightarrow> 'b list" where
  "group_append key val xs = fold (\<lambda>x m. m(key x := m (key x) @ [val x])) xs (\<lambda>_. [])"

definition role_status_of :: "ca_role \<Rightarrow> role_status" where
  "role_status_of r = \<lparr>rs_id = ro_id r, rs_name = ro_name r, rs_subject = ro_subject r,
     rs_permissions = split_names (ro_permissions r)\<rparr>"

definition policy_status_of :: "ca_token_policy \<Rightarrow> policy_status" where
  "policy_status_of p = \<lparr>ps_id = tp_id p, ps_name = tp_name p, ps_types = split_names (tp_certificate_types p),
     ps_dns = split_names (tp_allowed_dns p), ps_max_ttl = show_duration (tp_max_ttl p), ps_limit = tp_issuance_limit p,
     ps_renewal = tp_renewal_allowed p, ps_approval = tp_require_approval p, ps_expires = tp_expires_at p\<rparr>"

definition root_status_of :: "root_ca \<Rightarrow> root_status" where
  "root_status_of r = \<lparr>os_id = rt_id r, os_name = rt_name r, os_environment = rt_environment r,
     os_fingerprint = rt_fingerprint r, os_status = rt_status r, os_trust_domain = rt_trust_domain r,
     os_not_before = rt_not_before r, os_not_after = rt_not_after r, os_intermediates = []\<rparr>"

text \<open>The pair of maps from CA ids to numbers of active and of revoked certificates.\<close>

definition certificate_counts ::
  "gotime \<Rightarrow> issued_certificate list \<Rightarrow> (string \<Rightarrow> nat) \<times> (string \<Rightarrow> nat)" where
  "certificate_counts now certs =
     fold (\<lambda>c (active, revoked).
         if ic_revoked_at c \<noteq> None \<or> now > ic_not_after c
         then (active, revoked(ic_ca_id c := revoked (ic_ca_id c) + 1))
         else (active(ic_ca_id c := active (ic_ca_id c) + 1), revoked))
       certs ((\<lambda>_. 0), (\<lambda>_. 0))"

definition intermediate_status_of ::
  "(string \<Rightarrow> nat) \<Rightarrow> (string \<Rightarrow> nat) \<Rightarrow> (string \<Rightarrow> role_status list) \<Rightarrow> (string \<Rightarrow> policy_status list) \<Rightarrow>
     intermediate_ca \<Rightarrow> intermediate_status" where
  "intermediate_status_of active revoked roles policies i =
     \<lparr>is_id = im_id i, is_name = im_name i, is_environment = im_environment i, is_owner = im_owner i,
      is_namespace = im_namespace i, is_fingerprint = im_fingerprint i, is_status = im_status i,
      is_max_ttl = show_duration (im_max_ttl i), is_dns = split_names (im_allowed_dns i),
      is_usages = split_names (im_allowed_usages i), is_approval = im_require_approval i,
      is_limit = im_issuance_limit i, is_renewal = im_renewal_allowed i, is_not_before = im_not_before i,
      is_not_after = im_not_after i, is_active_certs = active (im_id i), is_revoked_certs = revoked (im_id i),
      is_roles = roles (im_id i), is_policies = policies (im_id i)\<rparr>"

text \<open>\<open>rootIndex\<close>: the position of a root by its id; a repeated id points to its last position.\<close>

definition root_index :: "root_ca list \<Rightarrow> string \<Rightarrow> nat option" where
  "root_index roots = fold (\<lambda>(i, r) m. m(rt_id r \<mapsto> i)) (zip [0..<length roots] roots) Map.empty"

definition count_issuer :: "intermediate_ca \<Rightarrow> hierarchy_summary \<Rightarrow> hierarchy_summary" where
  "count_issuer i s =
     (let s1 = (if im_status i = ''active'' then s\<lparr>hs_active := hs_active s + 1\<rparr>
                else if im_status i = ''disabled'' then s\<lparr>hs_disabled := hs_disabled s + 1\<rparr>
                else if im_status i = ''retired'' then s\<lparr>hs_retired := hs_retired s + 1\<rparr> else s)
      in if im_require_approval i then s1\<lparr>hs_pending := hs_pending s1 + 1\<rparr> else s1)"

definition add_intermediate :: "nat \<Rightarrow> intermediate_status \<Rightarrow> root_status list \<Rightarrow> root_status list" where
  "add_intermediate idx item items =
     items[idx := (items ! idx)\<lparr>os_intermediates := os_intermediates (items ! idx) @ [item]\<rparr>]"

definition build_hierarchy ::
  "gotime \<Rightarrow> root_ca list \<Rightarrow> intermediate_ca list \<Rightarrow> ca_role list \<Rightarrow> ca_token_policy list \<Rightarrow>
     issued_certificate list \<Rightarrow> hierarchy" where
  "build_hierarchy now roots intermediates roles policies certs =
     (let index = root_index roots;
          roles_by = group_append ro_intermediate_id role_status_of roles;
          policies_by = group_append tp_intermediate_id policy_status_of policies;
          (active, revoked) = certificate_counts now certs;
          summary = \<lparr>hs_roots = length roots, hs_intermediates = length intermediates, hs_active = 0, hs_disabled = 0,
            hs_retired = 0, hs_policies = length policies, hs_roles = length roles, hs_pending = 0\<rparr>;
          step = (\<lambda>i items.
            (case index (im_root_id i) of
               None \<Rightarrow> items
             | Some idx \<Rightarrow> add_intermediate idx (intermediate_status_of active revoked roles_by policies_by i) items))
      in \<lparr>hi_roots = fold step intermediates (map root_status_of roots),
          hi_summary = fold count_issuer intermediates summary, hi_warnings = [], hi_legacy = False\<rparr>)"

definition legacy_root :: "ca_config \<Rightarrow> root_ca" where
  "legacy_root c = \<lparr>rt_id = ''legacy-root-'' @ cc_id c, rt_name = cc_name c @ '' Root'', rt_environment = ''legacy'',
     rt_fingerprint = cc_root_fingerprint c, rt_status = cc_status c, rt_trust_domain = [],
     rt_created_at = cc_created_at c, rt_not_before = cc_not_before c, rt_not_after = cc_not_after c\<rparr>"

definition legacy_intermediate :: "ca_config \<Rightarrow> intermediate_ca" where
  "legacy_intermediate c = \<lparr>im_id = cc_id c, im_root_id = ''legacy-root-'' @ cc_id c, im_name = cc_name c,
     im_environment = ''legacy'', im_owner = [], im_namespace = [], im_fingerprint = cc_intermediate_fingerprint c,
     im_status = cc_status c, im_max_ttl = 0, im_allowed_dns = [], im_allowed_usages = [], im_require_approval = False,
     im_issuance_limit = 0, im_renewal_allowed = True, im_created_at = cc_created_at c,
     im_not_before = cc_not_before c, im_not_after = cc_not_after c\<rparr>"

definition no_hierarchy :: hierarchy where
  "no_hierarchy = \<lparr>hi_roots = [], hi_summary = \<lparr>hs_roots = 0, hs_intermediates = 0, hs_active = 0, hs_disabled = 0,
     hs_retired = 0, hs_policies = 0, hs_roles = 0, hs_pending = 0\<rparr>,
     hi_warnings = [''No multi-root CA hierarchy metadata has been registered yet.''], hi_legacy = False\<rparr>"

definition legacy_hierarchy :: "gotime \<Rightarrow> store \<Rightarrow> issued_certificate list \<Rightarrow> hierarchy" where
  "legacy_hierarchy now s certs =
     (case list_ca_configs s of
        Inl _ \<Rightarrow> no_hierarchy
      | Inr configs \<Rightarrow>
          if configs = [] then no_hierarchy
          else (let h = build_hierarchy now (map legacy_root configs) (map legacy_intermediate configs) [] [] certs
                in h\<lparr>hi_legacy := True, hi_warnings := hi_warnings h @
                     [''Rendered legacy ca_config rows as a one-root-per-issuer hierarchy.'']\<rparr>))"

definition ca_hierarchy :: "gotime \<Rightarrow> store \<Rightarrow> db_error + hierarchy" where
  "ca_hierarchy now s =
     bindE (list_root_cas s) (\<lambda>roots.
     bindE (list_intermediate_cas s) (\<lambda>intermediates.
     bindE (list_ca_roles s) (\<lambda>roles.
     bindE (list_ca_token_policies s) (\<lambda>policies.
       let certs = certificates_or_none s
       in if roots = [] \<and> intermediates = [] then Inr (legacy_hierarchy now s certs)
          else Inr (build_hierarchy now roots intermediates roles policies certs)))))"

section \<open>Lemmas\<close>

lemma group_append_filter: "group_append key val xs k = map val (filter (\<lambda>x. key x = k) xs)"
proof -
  have "fold (\<lambda>x m. m(key x := m (key x) @ [val x])) xs m k = m k @ map val (filter (\<lambda>x. key x = k) xs)" for m
    by (induction xs arbitrary: m) auto
  then show ?thesis by (simp add: group_append_def)
qed

lemma certificate_counts_length:
  "fst (certificate_counts now certs) k =
     length (filter (\<lambda>c. ic_ca_id c = k \<and> ic_revoked_at c = None \<and> now \<le> ic_not_after c) certs) \<and>
   snd (certificate_counts now certs) k =
     length (filter (\<lambda>c. ic_ca_id c = k \<and> (ic_revoked_at c \<noteq> None \<or> ic_not_after c < now)) certs)"
proof -
  define f where "f = (\<lambda>(c :: issued_certificate) (active, revoked).
         if ic_revoked_at c \<noteq> None \<or> now > ic_not_after c
         then (active, revoked(ic_ca_id c := revoked (ic_ca_id c) + (1::nat)))
         else (active(ic_ca_id c := active (ic_ca_id c) + (1::nat)), revoked))"
  let ?a = "\<lambda>c. ic_ca_id c = k \<and> ic_revoked_at c = None \<and> now \<le> ic_not_after c"
  let ?r = "\<lambda>c. ic_ca_id c = k \<and> (ic_revoked_at c \<noteq> None \<or> ic_not_after c < now)"
  have "fst (fold f certs (a, r)) k = a k + length (filter ?a certs) \<and>
    snd (fold f certs (a, r)) k = r k + length (filter ?r certs)" for a r
  proof (induction certs arbitrary: a r)
    case (Cons c cs)
    show ?case
    proof (cases "ic_revoked_at c \<noteq> None \<or> now > ic_not_after c")
      case True
      then have "f c (a, r) = (a, r(ic_ca_id c := r (ic_ca_id c) + 1))" unfolding f_def by simp
      moreover have "filter ?a (c # cs) = filter ?a cs"
        and "length (filter ?r (c # cs)) = (if ic_ca_id c = k then 1 else 0) + length (filter ?r cs)"
        using True by auto
      ultimately show ?thesis
        using Cons.IH [of a "r(ic_ca_id c := r (ic_ca_id c) + 1)"] by (simp only: fold_simps) simp
    next
      case False
      then have "f c (a, r) = (a(ic_ca_id c := a (ic_ca_id c) + 1), r)" unfolding f_def by simp
      moreover have "filter ?r (c # cs) = filter ?r cs"
        and "length (filter ?a (c # cs)) = (if ic_ca_id c = k then 1 else 0) + length (filter ?a cs)"
        using False by auto
      ultimately show ?thesis
        using Cons.IH [of "a(ic_ca_id c := a (ic_ca_id c) + 1)" r] by (simp only: fold_simps) simp
    qed
  qed simp
  from this [of "\<lambda>_. 0" "\<lambda>_. 0"] show ?thesis by (simp add: certificate_counts_def f_def)
qed

lemma fold_index_None:
  "fold (\<lambda>(i, r) m. m(rt_id r \<mapsto> i)) xs m k = None \<longleftrightarrow> m k = None \<and> k \<notin> rt_id ` snd ` set xs"
  by (induction xs arbitrary: m) (auto split: if_splits)

lemma fold_index_Some:
  "fold (\<lambda>(i, r) m. m(rt_id r \<mapsto> i)) xs m k = Some j \<Longrightarrow> (\<exists>r. (j, r) \<in> set xs \<and> rt_id r = k) \<or> m k = Some j"
proof (induction xs arbitrary: m)
  case (Cons x xs)
  obtain i r where x: "x = (i, r)" by (cases x)
  from Cons.prems have "fold (\<lambda>(i, r) m. m(rt_id r \<mapsto> i)) xs (m(rt_id r \<mapsto> i)) k = Some j"
    unfolding x fold_simps prod.case .
  from Cons.IH [OF this] show ?case by (auto simp: x split: if_splits)
qed simp

lemma root_index_Some:
  "root_index roots k = Some i \<Longrightarrow> i < length roots \<and> rt_id (roots ! i) = k"
  unfolding root_index_def by (drule fold_index_Some) (auto simp: set_zip)

lemma root_index_None: "root_index roots k = None \<longleftrightarrow> \<not> row_exists rt_id k roots"
proof -
  have "snd ` set (zip [0..<length roots] roots) = set roots"
    by (metis length_map length_upt map_snd_zip minus_nat.diff_0 set_map)
  then show ?thesis unfolding root_index_def fold_index_None row_exists_iff by simp
qed

lemma root_index_distinct:
  assumes "distinct (map rt_id roots)"
  shows "root_index roots k = Some j \<longleftrightarrow> j < length roots \<and> rt_id (roots ! j) = k"
proof
  assume j: "j < length roots \<and> rt_id (roots ! j) = k"
  then have "row_exists rt_id k roots" by (auto simp: row_exists_iff)
  then obtain i where i: "root_index roots k = Some i" using root_index_None [of roots k] by fastforce
  with j root_index_Some [OF i] assms have "i = j" by (metis length_map nth_eq_iff_index_eq nth_map)
  with i show "root_index roots k = Some j" by simp
qed (rule root_index_Some)

lemma fold_add_intermediate:
  fixes item :: "intermediate_ca \<Rightarrow> intermediate_status"
  assumes "\<And>k j. index k = Some j \<Longrightarrow> j < length items"
  defines "step \<equiv> \<lambda>i items. (case index (im_root_id i) of None \<Rightarrow> items | Some idx \<Rightarrow> add_intermediate idx (item i) items)"
  shows "length (fold step ims items) = length items \<and>
    (\<forall>j < length items. fold step ims items ! j =
       (items ! j)\<lparr>os_intermediates := os_intermediates (items ! j) @ map item (filter (\<lambda>i. index (im_root_id i) = Some j) ims)\<rparr>)"
  using assms(1)
proof (induction ims arbitrary: items)
  case (Cons i ims)
  have len: "length (step i items) = length items"
    by (simp add: step_def add_intermediate_def split: option.splits)
  have "step i items ! j = (items ! j)\<lparr>os_intermediates := os_intermediates (items ! j) @
      (if index (im_root_id i) = Some j then [item i] else [])\<rparr>" if "j < length items" for j
    using that Cons.prems by (auto simp: step_def add_intermediate_def nth_list_update split: option.splits)
  moreover have "length (fold step ims (step i items)) = length (step i items) \<and>
    (\<forall>j < length (step i items). fold step ims (step i items) ! j =
       (step i items ! j)\<lparr>os_intermediates := os_intermediates (step i items ! j) @ map item (filter (\<lambda>i. index (im_root_id i) = Some j) ims)\<rparr>)"
    by (rule Cons.IH) (use Cons.prems len in auto)
  ultimately show ?case using len by simp
qed simp

lemma hierarchy_roots:
  assumes "distinct (map rt_id roots)"
  shows "map (\<lambda>r. (os_id r, map is_id (os_intermediates r))) (hi_roots (build_hierarchy now roots ims roles pols certs)) =
    map (\<lambda>r. (rt_id r, map im_id (filter (\<lambda>i. im_root_id i = rt_id r) ims))) roots"
proof -
  obtain active revoked where ar: "certificate_counts now certs = (active, revoked)" by fastforce
  let ?item = "intermediate_status_of active revoked (group_append ro_intermediate_id role_status_of roles)
    (group_append tp_intermediate_id policy_status_of pols)"
  let ?items = "map root_status_of roots"
  let ?step = "\<lambda>i items. (case root_index roots (im_root_id i) of None \<Rightarrow> items | Some idx \<Rightarrow> add_intermediate idx (?item i) items)"
  have roots: "hi_roots (build_hierarchy now roots ims roles pols certs) = fold ?step ims ?items"
    by (simp add: build_hierarchy_def Let_def ar)
  have b: "\<And>k j. root_index roots k = Some j \<Longrightarrow> j < length ?items"
    by (simp add: root_index_distinct [OF assms])
  note f = fold_add_intermediate [where index = "root_index roots" and items = ?items and item = ?item and ims = ims, OF b]
  show ?thesis
    unfolding roots
  proof (rule nth_equalityI)
    show "length (map (\<lambda>r. (os_id r, map is_id (os_intermediates r))) (fold ?step ims ?items)) =
        length (map (\<lambda>r. (rt_id r, map im_id (filter (\<lambda>i. im_root_id i = rt_id r) ims))) roots)"
      using f by simp
  next
    fix j assume "j < length (map (\<lambda>r. (os_id r, map is_id (os_intermediates r))) (fold ?step ims ?items))"
    then have j: "j < length roots" using f by simp
    have flt: "filter (\<lambda>i. root_index roots (im_root_id i) = Some j) ims = filter (\<lambda>i. im_root_id i = rt_id (roots ! j)) ims"
      using j by (intro filter_cong) (auto simp: root_index_distinct [OF assms])
    have "fold ?step ims ?items ! j = (root_status_of (roots ! j))\<lparr>os_intermediates :=
        map ?item (filter (\<lambda>i. im_root_id i = rt_id (roots ! j)) ims)\<rparr>"
      using f j by (simp add: flt root_status_of_def)
    then show "map (\<lambda>r. (os_id r, map is_id (os_intermediates r))) (fold ?step ims ?items) ! j =
        map (\<lambda>r. (rt_id r, map im_id (filter (\<lambda>i. im_root_id i = rt_id r) ims))) roots ! j"
      using f j by (simp add: root_status_of_def intermediate_status_of_def o_def)
  qed
qed

text \<open>Grouping by distinct keys that cover all elements loses and repeats none.\<close>

lemma mset_group:
  "distinct ks \<Longrightarrow> mset (concat (map (\<lambda>k. filter (\<lambda>x. g x = k) xs) ks)) = mset (filter (\<lambda>x. g x \<in> set ks) xs)"
proof (induction ks)
  case (Cons k ks)
  have "mset (filter (\<lambda>x. g x = k) xs) + mset (filter (\<lambda>x. g x \<in> set ks) xs) = mset (filter (\<lambda>x. g x \<in> set (k # ks)) xs)"
    using Cons.prems by (induction xs) auto
  then show ?case using Cons by simp
qed simp

section \<open>Properties\<close>

text \<open>
  C21. The hierarchy shows every intermediate CA of the store exactly once, below the root it
  belongs to, when the references of the store resolve; without a registered root or
  intermediate the legacy view is shown instead.
\<close>

theorem hierarchy_complete:
  assumes "store_inv s" and "st_fk s" and "st_roots s \<noteq> []" and "ca_hierarchy now s = Inr h"
  shows "mset (concat (map (\<lambda>r. map is_id (os_intermediates r)) (hi_roots h))) = mset (map im_id (st_intermediates s)) \<and>
    map os_id (hi_roots h) = map rt_id (sort_key (\<lambda>c. (rt_environment c, rt_name c)) (st_roots s)) \<and>
    list_all (\<lambda>r. \<exists>i \<in> set (st_roots s). rt_id i = os_id r \<and>
      set (map is_id (os_intermediates r)) = im_id ` {m \<in> set (st_intermediates s). im_root_id m = rt_id i}) (hi_roots h)"
proof -
  let ?roots = "sort_key (\<lambda>c. (rt_environment c, rt_name c)) (st_roots s)"
  let ?ims = "sort_key (\<lambda>c. (im_environment c, im_name c)) (st_intermediates s)"
  have "?roots \<noteq> []" using assms(3) by (metis set_empty set_sort)
  then obtain roles pols where h: "h = build_hierarchy now ?roots ?ims roles pols (certificates_or_none s)"
    using assms(4)
    by (auto simp: ca_hierarchy_def bindE_eq_Inr list_root_cas_def list_intermediate_cas_def Let_def)
  have d: "distinct (map rt_id ?roots)"
    using assms(1) by (simp add: store_inv_def keys_ok_def distinct_map)
  note hr = hierarchy_roots [OF d, of now ?ims roles pols "certificates_or_none s", folded h]
  have ids: "map os_id (hi_roots h) = map rt_id ?roots"
    using arg_cong [OF hr, of "map fst"] by (simp add: o_def)
  have ims: "map (\<lambda>r. map is_id (os_intermediates r)) (hi_roots h) =
      map (\<lambda>r. map im_id (filter (\<lambda>i. im_root_id i = rt_id r) ?ims)) ?roots"
    using arg_cong [OF hr, of "map snd"] by (simp add: o_def)
  have "set (map im_root_id ?ims) \<subseteq> set (map rt_id ?roots)"
    using assms(1,2) by (auto simp: inv_defs list_all_iff row_exists_iff)
  then have "filter (\<lambda>x. im_root_id x \<in> set (map rt_id ?roots)) ?ims = ?ims" by (intro filter_True) auto
  then have "mset (concat (map (\<lambda>k. filter (\<lambda>x. im_root_id x = k) ?ims) (map rt_id ?roots))) = mset ?ims"
    using mset_group [OF d, of im_root_id ?ims] by simp
  then have "image_mset im_id (mset (concat (map (\<lambda>k. filter (\<lambda>x. im_root_id x = k) ?ims) (map rt_id ?roots)))) =
      image_mset im_id (mset ?ims)" by simp
  then have a: "mset (concat (map (\<lambda>r. map is_id (os_intermediates r)) (hi_roots h))) = mset (map im_id (st_intermediates s))"
    unfolding ims mset_map [symmetric] map_concat by (simp add: o_def)
  have "list_all (\<lambda>p. \<exists>i \<in> set (st_roots s). rt_id i = fst p \<and>
      set (snd p) = im_id ` {m \<in> set (st_intermediates s). im_root_id m = rt_id i})
      (map (\<lambda>r. (os_id r, map is_id (os_intermediates r))) (hi_roots h))"
    unfolding hr by (auto simp: list_all_iff)
  then show ?thesis using a ids by (simp add: list_all_iff)
qed

definition demo_hierarchy_store :: store where
  "demo_hierarchy_store = (migrate (empty_store True))\<lparr>st_roots := [demo_root],
     st_intermediates := [(legacy_intermediate \<lparr>cc_id = ''i'', cc_name = ''Web'', cc_root_fingerprint = ''fp'',
       cc_intermediate_fingerprint = ''ifp'', cc_status = ''active'', cc_created_at = 0, cc_not_before = 0,
       cc_not_after = 9\<rparr>)\<lparr>im_root_id := ''r''\<rparr>]\<rparr>"

theorem hierarchy_complete_witness:
  "\<exists>h. ca_hierarchy 0 demo_hierarchy_store = Inr h \<and>
     mset (concat (map (\<lambda>r. map is_id (os_intermediates r)) (hi_roots h))) = {#''i''#}"
proof -
  have inv: "store_inv demo_hierarchy_store" "st_fk demo_hierarchy_store" "st_roots demo_hierarchy_store \<noteq> []"
    by (simp_all add: demo_hierarchy_store_def migrate_def empty_store_def inv_defs demo_root_def legacy_intermediate_def
        root_status_ok_def intermediate_status_ok_def row_exists_def)
  obtain h where h: "ca_hierarchy 0 demo_hierarchy_store = Inr h"
    by (simp add: ca_hierarchy_def demo_hierarchy_store_def list_root_cas_def list_intermediate_cas_def list_ca_roles_def
        list_ca_token_policies_def need_def migrate_def empty_store_def schema_tables_def Let_def)
  show ?thesis
    using h hierarchy_complete [OF inv h]
    by (simp add: demo_hierarchy_store_def migrate_def empty_store_def legacy_intermediate_def)
qed

text \<open>
  The number shown as revoked for a CA includes certificates that only expired: it is the number
  of its certificates that are revoked or past their end.
\<close>

theorem revoked_count_includes_expired:
  "snd (certificate_counts now certs) k =
     length (filter (\<lambda>c. ic_ca_id c = k \<and> ic_revoked_at c \<noteq> None) certs) +
     length (filter (\<lambda>c. ic_ca_id c = k \<and> ic_revoked_at c = None \<and> ic_not_after c < now) certs) \<and>
   fst (certificate_counts now certs) k + snd (certificate_counts now certs) k =
     length (filter (\<lambda>c. ic_ca_id c = k) certs)"
  unfolding certificate_counts_length [THEN conjunct1] certificate_counts_length [THEN conjunct2]
  by (induction certs) auto

end
