(* ===== verification/Status_Properties.thy ===== *)
theory Status_Properties
  imports Hierarchy Enrollment
begin

text \<open>What the status endpoints say about the store.\<close>

section \<open>Summaries as counts\<close>

definition counted :: "certificate_summary \<Rightarrow> gotime \<Rightarrow> duration \<Rightarrow> issued_certificate list \<Rightarrow> certificate_summary" where
  "counted z now rb cs =
     z\<lparr>sm_active := sm_active z + length (filter (\<lambda>c. ic_revoked_at c = None \<and> now \<le> ic_not_after c) cs),
       sm_expiring_soon := sm_expiring_soon z + length (filter (\<lambda>c. ic_revoked_at c = None \<and> now \<le> ic_not_after c \<and>
         time_sub (ic_not_after c) now \<le> rb) cs),
       sm_issued_today := sm_issued_today z + length (filter (\<lambda>c. start_of_day now < ic_created_at c) cs),
       sm_revoked_today := sm_revoked_today z + length (filter (\<lambda>c. case ic_revoked_at c of None \<Rightarrow> False | Some t \<Rightarrow> start_of_day now < t) cs),
       sm_revoked := sm_revoked z + length (filter (\<lambda>c. ic_revoked_at c \<noteq> None) cs),
       sm_expired := sm_expired z + length (filter (\<lambda>c. ic_revoked_at c = None \<and> ic_not_after c < now) cs)\<rparr>"

lemma counted_step:
  "counted (count_certificate now rb c z) now rb cs = counted z now rb (c # cs)"
proof (cases "ic_revoked_at c")
  case None
  then show ?thesis
    by (cases z; cases "now > ic_not_after c"; cases "time_sub (ic_not_after c) now \<le> rb")
      (simp_all add: counted_def count_certificate_def Let_def)
next
  case (Some t)
  then show ?thesis
    by (cases z; cases "start_of_day now < t") (simp_all add: counted_def count_certificate_def Let_def)
qed

lemma fold_count_certificate: "fold (count_certificate now rb) cs z = counted z now rb cs"
proof (induction cs arbitrary: z)
  case Nil
  show ?case by (cases z) (simp add: counted_def)
next
  case (Cons c cs)
  then show ?case by (simp add: counted_step)
qed

lemma certificates_seen_counts:
  "fst (certificates_seen cs) k = length (filter (\<lambda>c. ic_enrollment_id c = k) cs)"
proof -
  define f where "f = (\<lambda>(c :: issued_certificate) (counts :: string \<Rightarrow> nat, seen).
         (counts(ic_enrollment_id c := counts (ic_enrollment_id c) + 1),
          if ic_created_at c > seen (ic_enrollment_id c) then seen(ic_enrollment_id c := ic_created_at c) else seen))"
  have "fst (fold f cs (a, b)) k = a k + length (filter (\<lambda>c. ic_enrollment_id c = k) cs)" for a b
  proof (induction cs arbitrary: a b)
    case (Cons c cs)
    obtain b' where "f c (a, b) = (a(ic_enrollment_id c := a (ic_enrollment_id c) + 1), b')"
      unfolding f_def by simp
    moreover have "length (filter (\<lambda>c. ic_enrollment_id c = k) (c # cs)) =
        (if ic_enrollment_id c = k then 1 else 0) + length (filter (\<lambda>c. ic_enrollment_id c = k) cs)" by simp
    ultimately show ?case
      using Cons.IH [of "a(ic_enrollment_id c := a (ic_enrollment_id c) + 1)" b'] by (simp only: fold_simps) simp
  qed simp
  from this [of "\<lambda>_. 0" "\<lambda>_. zero_time"] show ?thesis by (simp add: certificates_seen_def f_def)
qed

lemma trim_split_names:
  "xs \<noteq> [] \<Longrightarrow> (\<And>x. x \<in> set xs \<Longrightarrow> x \<noteq> [] \<and> trim_space x = x \<and> CHR '','' \<notin> set x) \<Longrightarrow>
    split_names (join '','' xs) = xs"
proof -
  assume ne: "xs \<noteq> []" and xs: "\<And>x. x \<in> set xs \<Longrightarrow> x \<noteq> [] \<and> trim_space x = x \<and> CHR '','' \<notin> set x"
  have s: "split_on (CHR '','') (join '','' xs) = xs" using split_on_join [OF ne] xs by blast
  have m: "filter (\<lambda>p. p \<noteq> []) (map trim_space xs) = xs"
    using xs by (induction xs) auto
  have "trim_space (join '','' xs) \<noteq> []"
  proof
    assume a: "trim_space (join '','' xs) = []"
    have blank: "trim_space s = [] \<Longrightarrow> c \<in> set s \<Longrightarrow> is_space c" for s c
      unfolding trim_space_def by (metis dropWhile_eq_Nil_conv rev_is_Nil_conv hd_dropWhile dropWhile_append3
          empty_iff list.set(1) rev_rev_ident set_rev set_dropWhileD dropWhile.simps(1) append_Nil2 list.set_sel(1))
    obtain x ys where x: "xs = x # ys" using ne by (cases xs) auto
    have "set x \<subseteq> set (join '','' xs)" by (cases ys) (auto simp: x)
    then have "\<And>c. c \<in> set x \<Longrightarrow> is_space c" using blank [OF a] by blast
    then have "dropWhile is_space x = []" by simp
    then have "trim_space x = []" by (simp only: trim_space_def rev.simps dropWhile.simps)
    then show False using xs [of x] by (simp add: x)
  qed
  then show ?thesis by (simp add: split_names_def s m)
qed

section \<open>Properties\<close>

text \<open>
  C25. The certificate summary and the certificate listing agree: the counters of active, revoked and
  expired certificates are the numbers of items listed with that status and add up to the
  total; every certificate listed as due for renewal is counted as expiring soon.
\<close>

theorem summary_matches_listing:
  "let items = map (\<lambda>c. certificate_item_of now c rb) certs; sum = summarize_certificates now certs rb
   in sm_active sum = length (filter (\<lambda>i. ci_status i = ''active'') items) \<and>
      sm_revoked sum = length (filter (\<lambda>i. ci_status i = ''revoked'') items) \<and>
      sm_expired sum = length (filter (\<lambda>i. ci_status i = ''expired'') items) \<and>
      sm_total sum = sm_active sum + sm_revoked sum + sm_expired sum \<and>
      length (filter (\<lambda>i. ci_renewal_status i = ''due'') items) \<le> sm_expiring_soon sum \<and>
      sm_expiring_soon sum \<le> sm_active sum \<and> sm_revoked_today sum \<le> sm_revoked sum \<and> sm_renewed_today sum = 0"
proof -
  have e: "summarize_certificates now certs rb = counted (no_certificates\<lparr>sm_total := length certs\<rparr>) now rb certs"
    by (simp add: summarize_certificates_def fold_count_certificate)
  show ?thesis
    unfolding e Let_def
  proof (intro conjI)
    let ?z = "no_certificates\<lparr>sm_total := length certs\<rparr>"
    note d = counted_def no_certificates_def certificate_item_of_def
    show "sm_active (counted ?z now rb certs) =
        length (filter (\<lambda>i. ci_status i = ''active'') (map (\<lambda>c. certificate_item_of now c rb) certs))"
      by (auto simp: d filter_map o_def intro!: arg_cong [of _ _ length] filter_cong)
    show "sm_revoked (counted ?z now rb certs) =
        length (filter (\<lambda>i. ci_status i = ''revoked'') (map (\<lambda>c. certificate_item_of now c rb) certs))"
      by (auto simp: d filter_map o_def intro!: arg_cong [of _ _ length] filter_cong)
    show "sm_expired (counted ?z now rb certs) =
        length (filter (\<lambda>i. ci_status i = ''expired'') (map (\<lambda>c. certificate_item_of now c rb) certs))"
      by (auto simp: d filter_map o_def intro!: arg_cong [of _ _ length] filter_cong)
    show "sm_total (counted ?z now rb certs) = sm_active (counted ?z now rb certs) +
        sm_revoked (counted ?z now rb certs) + sm_expired (counted ?z now rb certs)"
      by (simp add: d) (induction certs, auto)
    show "length (filter (\<lambda>i. ci_renewal_status i = ''due'') (map (\<lambda>c. certificate_item_of now c rb) certs)) \<le>
        sm_expiring_soon (counted ?z now rb certs)"
      by (simp add: d filter_map o_def) (induction certs, auto)
    show "sm_expiring_soon (counted ?z now rb certs) \<le> sm_active (counted ?z now rb certs)"
      by (simp add: d) (induction certs, auto)
    show "sm_revoked_today (counted ?z now rb certs) \<le> sm_revoked (counted ?z now rb certs)"
      by (simp add: d) (induction certs, auto split: option.splits)
    show "sm_renewed_today (counted ?z now rb certs) = 0" by (simp add: d)
  qed
qed

text \<open>
  The security summary takes its status from the oldest security-check entry it reads, because
  each entry sets the status anew and the entries come newest first: a newer entry that mentions
  a critical finding is counted, and the status still says \<open>warning\<close>.
\<close>

theorem security_status_from_oldest_entry:
  assumes "is_security_log old"
  shows "sc_status (summarize_security (logs @ [old])) =
      (if mentions old ''critical'' then ''critical'' else if mentions old ''high'' then ''high'' else ''warning'') \<and>
    sc_critical (summarize_security (logs @ [old])) =
      length (filter (\<lambda>l. is_security_log l \<and> mentions l ''critical'') (logs @ [old]))"
proof -
  have "sc_critical (fold count_security_log ls z) =
      sc_critical z + length (filter (\<lambda>l. is_security_log l \<and> mentions l ''critical'') ls)" for ls z
    by (induction ls arbitrary: z) (auto simp: count_security_log_def Let_def)
  then show ?thesis using assms by (simp add: summarize_security_def) (auto simp: count_security_log_def Let_def)
qed

definition security_entry :: "string \<Rightarrow> audit_log" where
  "security_entry meta = \<lparr>al_id = ''i'', al_action = ''security-check'', al_actor = ''admin'', al_target = [],
     al_metadata = meta, al_trace_id = [], al_prev_hash = [], al_hash = [], al_created_at = 0\<rparr>"

theorem security_status_from_oldest_entry_witness:
  "sc_status (summarize_security [security_entry ''critical: root key online'', security_entry ''ok'']) = ''warning'' \<and>
   sc_critical (summarize_security [security_entry ''critical: root key online'', security_entry ''ok'']) = 1"
proof -
  have "is_security_log (security_entry ''ok'')" by (simp add: is_security_log_def security_entry_def)
  moreover have "mentions (security_entry ''critical: root key online'') ''critical''"
      "\<not> mentions (security_entry ''ok'') ''critical''" "\<not> mentions (security_entry ''ok'') ''high''"
      "is_security_log (security_entry ''critical: root key online'')"
    by (simp_all add: mentions_def security_entry_def is_security_log_def char_eval)
  ultimately show ?thesis
    using security_status_from_oldest_entry [of "security_entry ''ok''" "[security_entry ''critical: root key online'']"]
    by simp
qed

text \<open>
  The token listing gives nothing of a token's hash away: two stores that differ only in the
  hashes of their tokens answer alike.
\<close>

theorem token_listing_hides_hashes:
  assumes "map (\<lambda>t. t\<lparr>bt_token_hash := []\<rparr>) ts = map (\<lambda>t. t\<lparr>bt_token_hash := []\<rparr>) us"
  shows "status_tokens scan now (s\<lparr>st_tokens := ts\<rparr>) = status_tokens scan now (s\<lparr>st_tokens := us\<rparr>)"
proof -
  let ?h = "\<lambda>t. t\<lparr>bt_token_hash := []\<rparr>"
  let ?item = "\<lambda>t. token_item_of now (fst (bootstrap_token_usage scan s (bt_id t))) t"
  have k: "map ?h (sort_key bt_created_at xs) = sort_key bt_created_at (map ?h xs)" for xs
  proof (induction xs)
    case (Cons x xs)
    have ins: "map ?h (insort_key bt_created_at x ys) = insort_key bt_created_at (?h x) (map ?h ys)" for ys
      by (induction ys) auto
    show ?case using Cons by (simp add: ins)
  qed simp
  have u: "bootstrap_token_usage scan (s\<lparr>st_tokens := xs\<rparr>) i = bootstrap_token_usage scan s i" for xs i
    by (simp add: bootstrap_token_usage_def token_enrollments_def)
  have o: "map ?h (order_desc bt_created_at ts) = map ?h (order_desc bt_created_at us)"
    using assms k [of "rev ts"] k [of "rev us"] by (simp add: order_desc_def flip: rev_map)
  have m: "map ?item xs = map ?item (map ?h xs)" for xs by (simp add: token_item_of_def o_def)
  have "map ?item (order_desc bt_created_at ts) = map ?item (map ?h (order_desc bt_created_at ts))" by (rule m)
  also have "\<dots> = map ?item (map ?h (order_desc bt_created_at us))" by (simp only: o)
  also have "\<dots> = map ?item (order_desc bt_created_at us)" by (rule m [symmetric])
  finally show ?thesis by (simp add: status_tokens_def list_bootstrap_tokens_def need_def u)
qed

theorem token_listing_hides_hashes_witness:
  "status_tokens Some 5 (demo_store\<lparr>st_tokens := [demo_token]\<rparr>) =
   status_tokens Some 5 (demo_store\<lparr>st_tokens := [demo_token\<lparr>bt_token_hash := ''other''\<rparr>]\<rparr>)"
  by (rule token_listing_hides_hashes) simp

text \<open>
  An enrollment is listed as active exactly when the store holds a certificate that was issued
  for it, with the number of these certificates.
\<close>

theorem enrollment_listing_counts:
  "status_enrollments s =
     bindE (list_enrollments s) (\<lambda>ens. Inr (map (\<lambda>en.
       let n = length (filter (\<lambda>c. ic_enrollment_id c = en_id en) (certificates_or_none s))
       in \<lparr>ei_id = en_id en, ei_hostname = en_hostname en, ei_machine_id = en_machine_id en,
           ei_status = (if n = 0 then ''pending'' else ''active''), ei_created_at = en_created_at en,
           ei_last_seen_at = snd (certificates_seen (certificates_or_none s)) (en_id en),
           ei_certificate_count = n, ei_failed_attempts = 0\<rparr>) ens))"
proof -
  obtain counts seen where cs: "certificates_seen (certificates_or_none s) = (counts, seen)" by fastforce
  have n: "counts k = length (filter (\<lambda>c. ic_enrollment_id c = k) (certificates_or_none s))" for k
    using certificates_seen_counts [of "certificates_or_none s" k] by (simp add: cs)
  have "enrollment_item_of counts seen = (\<lambda>en.
       let n = length (filter (\<lambda>c. ic_enrollment_id c = en_id en) (certificates_or_none s))
       in \<lparr>ei_id = en_id en, ei_hostname = en_hostname en, ei_machine_id = en_machine_id en,
           ei_status = (if n = 0 then ''pending'' else ''active''), ei_created_at = en_created_at en,
           ei_last_seen_at = seen (en_id en), ei_certificate_count = n, ei_failed_attempts = 0\<rparr>)"
    by (rule ext) (simp add: enrollment_item_of_def n Let_def)
  then show ?thesis by (simp add: status_enrollments_def cs)
qed

text \<open>
  DNS names survive the column they are stored in: the list joined by commas when the certificate
  is stored is the list that is shown, as long as no name is blank, has spaces around it or a
  comma in it.
\<close>

theorem names_roundtrip:
  assumes "xs \<noteq> []" and "list_all (\<lambda>x. x \<noteq> [] \<and> trim_space x = x \<and> CHR '','' \<notin> set x) xs"
  shows "ci_dns_names (certificate_item_of now (issued_row e dp i enrollment subject xs) rb) = xs"
  using trim_split_names [OF assms(1)] assms(2)
  by (simp add: certificate_item_of_def issued_row_def list_all_iff)

theorem names_roundtrip_witness:
  "ci_dns_names (certificate_item_of 0 (issued_row demo_env
     \<lparr>dp_lifetime = hour, dp_renew_before = minute, dp_authority = disabled_authority\<rparr>
     \<lparr>is_serial = ''1'', is_cert_pem = [], is_not_before = 0, is_not_after = 1\<rparr> ''e'' ''s'' [''a.local'', ''b.local'']) 0)
   = [''a.local'', ''b.local'']"
proof (rule names_roundtrip)
  show "list_all (\<lambda>x. x \<noteq> [] \<and> trim_space x = x \<and> CHR '','' \<notin> set x) [''a.local'', ''b.local'']" by code_simp
qed simp

section \<open>Reading certificates\<close>

lemma pem_loop_fuel:
  assumes "\<And>s b r. decode s = Some (b, r) \<Longrightarrow> length r < length s"
  shows "length s < n \<Longrightarrow> pem_loop decode parse s = Some (parse_pem_loop decode parse n s)"
proof (induction n arbitrary: s)
  case (Suc n)
  show ?case
  proof (cases "decode s")
    case None
    then show ?thesis by (simp add: pem_loop.simps)
  next
    case (Some br)
    obtain b r where br: "br = (b, r)" by (cases br)
    with Some assms Suc.prems have "length r < n" by fastforce
    from Suc.IH [OF this] Some br show ?thesis
      by (simp add: pem_loop.simps [of decode parse s] split: sum.split)
  qed
qed simp

text \<open>
  C40. The loop that reads the certificates of a PEM file ends, because each block it decodes leaves
  less text, and it returns what the model with fuel computes.
\<close>

theorem pem_loop_returns:
  assumes "\<And>s b r. decode s = Some (b, r) \<Longrightarrow> length r < length s"
  shows "pem_loop decode parse s = Some (parse_pem_certificates decode parse s)"
  unfolding parse_pem_certificates_def by (rule pem_loop_fuel [OF assms]) simp_all

definition demo_decode :: "string \<Rightarrow> (pem_block \<times> string) option" where
  "demo_decode s =
     (if s = [] then None
      else Some (\<lparr>pb_type = (if hd s = CHR ''C'' then ''CERTIFICATE'' else ''KEY''), pb_headers = [], pb_bytes = [hd s]\<rparr>, tl s))"

theorem pem_loop_returns_witness:
  "pem_loop demo_decode (\<lambda>b. Inl ''bad'') ''KCK'' = Some (parse_pem_certificates demo_decode (\<lambda>b. Inl ''bad'') ''KCK'')"
proof (rule pem_loop_returns)
  show "demo_decode s = Some (b, r) \<Longrightarrow> length r < length s" for s b r
    by (cases s) (auto simp: demo_decode_def)
qed

end
