(* ===== verification/Api_Client.thy ===== *)
theory Api_Client
  imports Api
begin

text \<open>
  The HTTP client of \<open>pkg/client/client.go\<close>, and the server of theory \<open>Api\<close> seen from its end of
  the wire. A network is what sending a request does to the world (its state is a type
  parameter) and what comes back; \<open>net/http\<close> and the decoding of JSON are parameters. Encoding
  is written out, so that the bytes a command sends are those of the model.
\<close>

section \<open>Requests as JSON\<close>

text \<open>The values of the pairs are JSON texts.\<close>

definition json_object :: "(string \<times> string) list \<Rightarrow> string" where
  "json_object kvs = CHR 0x7B # join '','' (map (\<lambda>(k, v). json_string k @ CHR 0x3A # v) kvs) @ [CHR 0x7D]"

definition json_array :: "string list \<Rightarrow> string" where
  "json_array xs = CHR ''['' # join '','' (map json_string xs) @ [CHR '']'']"

definition enroll_json :: "enroll_request \<Rightarrow> string" where
  "enroll_json r =
     json_object ([(''token'', json_string (er_token r)), (''hostname'', json_string (er_hostname r)),
       (''machine_id'', json_string (er_machine_id r))] @
       (if er_mac r = [] then [] else [(''mac'', json_string (er_mac r))]))"

definition certificate_request_json :: "certificate_request \<Rightarrow> string" where
  "certificate_request_json r =
     json_object [(''enrollment_id'', json_string (cq_enrollment_id r)), (''csr_pem'', json_string (cq_csr_pem r)),
       (''dns_names'', json_array (cq_dns_names r))]"

text \<open>A Go map is encoded with its keys sorted.\<close>

definition revoke_json :: "string \<Rightarrow> string \<Rightarrow> string" where
  "revoke_json serial reason = json_object [(''reason'', json_string reason), (''serial'', json_string serial)]"

definition certificate_response_json :: "certificate_response \<Rightarrow> string" where
  "certificate_response_json r =
     json_object [(''serial'', json_string (cs_serial r)), (''cert_pem'', json_string (cs_cert_pem r)),
       (''chain_pem'', json_string (cs_chain_pem r)), (''root_pem'', json_string (cs_root_pem r)),
       (''not_before'', json_string (cs_not_before r)), (''not_after'', json_string (cs_not_after r)),
       (''renew_before'', json_string (cs_renew_before r))]"

section \<open>The wire\<close>

record wire_request =
  wr_method :: string
  wr_url :: string
  wr_body :: string

text \<open>\<open>ws_body\<close> is the outcome of reading the whole body.\<close>

record wire_response =
  ws_code :: int
  ws_status :: string
  ws_body :: "string + string"

text \<open>\<open>Inl\<close>: the URL could not be parsed or the request not be sent.\<close>

type_synonym 'w network = "'w \<Rightarrow> wire_request \<Rightarrow> 'w \<times> (string + wire_response)"

datatype client_error = Transport string | ReadBody string | ServerReturned string string | BadJson string

text \<open>
  The decoders of the responses. \<open>jc_late\<close> is the order in which \<open>return out, c.post(..., &out)\<close>
  evaluates its operands, which the Go specification leaves open: whether the variable is loaded
  after the call (as the gc compiler does) or before.
\<close>

record json_codec =
  jc_enrolled :: "string \<Rightarrow> string + string"
  jc_certificate :: "string \<Rightarrow> string + certificate_response"
  jc_object :: "string \<Rightarrow> string + string"
  jc_late :: bool

record 'w api_client =
  ac_base_url :: string
  ac_http :: "'w network"

text \<open>\<open>strings.TrimRight(s, "/")\<close>.\<close>

definition trim_slashes :: "string \<Rightarrow> string" where
  "trim_slashes s = rev (dropWhile (\<lambda>c. c = CHR ''/'') (rev s))"

definition new_client :: "'w network \<Rightarrow> string \<Rightarrow> 'w api_client" where
  "new_client http base = \<lparr>ac_base_url = trim_slashes base, ac_http = http\<rparr>"

text \<open>\<open>do\<close> and \<open>getRaw\<close>: the body of a response below 300.\<close>

definition response_text :: "string + wire_response \<Rightarrow> client_error + string" where
  "response_text r =
     (case r of
        Inl e \<Rightarrow> Inl (Transport e)
      | Inr resp \<Rightarrow>
     (case ws_body resp of
        Inl e \<Rightarrow> Inl (ReadBody e)
      | Inr b \<Rightarrow> if ws_code resp \<ge> 300 then Inl (ServerReturned (ws_status resp) (trim_space b)) else Inr b))"

definition client_post :: "'w api_client \<Rightarrow> string \<Rightarrow> string \<Rightarrow> 'w \<Rightarrow> 'w \<times> (client_error + string)" where
  "client_post c path body w =
     (case ac_http c w \<lparr>wr_method = ''POST'', wr_url = ac_base_url c @ path, wr_body = body\<rparr> of
        (w', r) \<Rightarrow> (w', response_text r))"

definition client_get :: "'w api_client \<Rightarrow> string \<Rightarrow> 'w \<Rightarrow> 'w \<times> (client_error + string)" where
  "client_get c path w =
     (case ac_http c w \<lparr>wr_method = ''GET'', wr_url = ac_base_url c @ path, wr_body = []\<rparr> of
        (w', r) \<Rightarrow> (w', response_text r))"

text \<open>\<open>return out, c.post(..., &out)\<close> with the zero value \<open>z\<close> of \<open>out\<close>.\<close>

definition decoded :: "bool \<Rightarrow> 'a \<Rightarrow> (string \<Rightarrow> string + 'a) \<Rightarrow> client_error + string \<Rightarrow> client_error + 'a" where
  "decoded late z decode r =
     bindE r (\<lambda>b. case decode b of Inl e \<Rightarrow> Inl (BadJson e) | Inr x \<Rightarrow> Inr (if late then x else z))"

definition zero_response :: certificate_response where
  "zero_response = \<lparr>cs_serial = [], cs_cert_pem = [], cs_chain_pem = [], cs_root_pem = [], cs_not_before = [],
     cs_not_after = [], cs_renew_before = []\<rparr>"

section \<open>The calls\<close>

definition client_enroll ::
  "json_codec \<Rightarrow> 'w api_client \<Rightarrow> enroll_request \<Rightarrow> 'w \<Rightarrow> 'w \<times> (client_error + string)" where
  "client_enroll jc c req w =
     (case client_post c ''/v1/enroll'' (enroll_json req) w of
        (w', r) \<Rightarrow> (w', decoded (jc_late jc) [] (jc_enrolled jc) r))"

definition client_request_certificate ::
  "json_codec \<Rightarrow> 'w api_client \<Rightarrow> certificate_request \<Rightarrow> 'w \<Rightarrow> 'w \<times> (client_error + certificate_response)" where
  "client_request_certificate jc c req w =
     (case client_post c ''/v1/certificates/request'' (certificate_request_json req) w of
        (w', r) \<Rightarrow> (w', decoded (jc_late jc) zero_response (jc_certificate jc) r))"

definition client_renew_certificate ::
  "json_codec \<Rightarrow> 'w api_client \<Rightarrow> certificate_request \<Rightarrow> 'w \<Rightarrow> 'w \<times> (client_error + certificate_response)" where
  "client_renew_certificate jc c req w =
     (case client_post c ''/v1/certificates/renew'' (certificate_request_json req) w of
        (w', r) \<Rightarrow> (w', decoded (jc_late jc) zero_response (jc_certificate jc) r))"

text \<open>Without a place for the result nothing is decoded.\<close>

definition client_revoke_certificate :: "'w api_client \<Rightarrow> string \<Rightarrow> string \<Rightarrow> 'w \<Rightarrow> 'w \<times> (client_error + unit)" where
  "client_revoke_certificate c serial reason w =
     (case client_post c ''/v1/certificates/revoke'' (revoke_json serial reason) w of
        (w', r) \<Rightarrow> (w', bindE r (\<lambda>b. Inr ())))"

text \<open>The result is the JSON text of the decoded object; \<open>null\<close> is that of a nil map.\<close>

definition client_status :: "json_codec \<Rightarrow> 'w api_client \<Rightarrow> string \<Rightarrow> 'w \<Rightarrow> 'w \<times> (client_error + string)" where
  "client_status jc c serial w =
     (case client_get c (''/v1/certificates/status/'' @ serial) w of
        (w', r) \<Rightarrow> (w', decoded (jc_late jc) ''null'' (jc_object jc) r))"

definition client_audit :: "json_codec \<Rightarrow> 'w api_client \<Rightarrow> 'w \<Rightarrow> 'w \<times> (client_error + string)" where
  "client_audit jc c w =
     (case client_get c ''/v1/audit'' w of (w', r) \<Rightarrow> (w', decoded (jc_late jc) ''null'' (jc_object jc) r))"

definition client_root :: "'w api_client \<Rightarrow> 'w \<Rightarrow> 'w \<times> (client_error + string)" where
  "client_root c w = client_get c ''/v1/ca/root'' w"

section \<open>The server behind the wire\<close>

text \<open>
  The decoders and the encoder of the server's end, the text of a status line, the value of the
  query parameter \<open>serial\<close>, and the answers to requests theory \<open>Api\<close> does not model (the status
  API, unknown paths).
\<close>

record server_codec =
  sd_enroll :: "string \<Rightarrow> string + enroll_request"
  sd_certificate :: "string \<Rightarrow> string + certificate_request"
  sd_revoke :: "string \<Rightarrow> string + revoke_request"
  sd_render :: "body \<Rightarrow> string"
  sd_status_line :: "int \<Rightarrow> string"
  sd_serial :: "string \<Rightarrow> string"
  sd_other :: "wire_request \<Rightarrow> wire_response"

text \<open>The routes of \<open>NewRouter\<close>; a path parameter is one non-empty segment.\<close>

definition route_get :: "string \<Rightarrow> http_request option" where
  "route_get path =
     (if path = ''/healthz'' then Some GetHealth
      else if path = ''/readyz'' then Some GetReady
      else if path = ''/v1/ca/root'' then Some GetRoot
      else if path = ''/v1/ca/chain'' then Some GetChain
      else if path = ''/v1/audit'' then Some GetAudit
      else if has_prefix path status_path \<and> drop (length status_path) path \<noteq> [] \<and>
              CHR ''/'' \<notin> set (drop (length status_path) path)
           then Some (GetCertificate (drop (length status_path) path))
      else None)"

definition route_post :: "server_codec \<Rightarrow> string \<Rightarrow> string \<Rightarrow> string \<Rightarrow> http_request option" where
  "route_post sd path query body =
     (if path = ''/v1/enroll'' then Some (PostEnroll (sd_enroll sd body))
      else if path = ''/v1/certificates/request'' then Some (PostRequest (sd_certificate sd body))
      else if path = ''/v1/certificates/renew'' then Some (PostRenew (sd_serial sd query) (sd_certificate sd body))
      else if path = ''/v1/certificates/revoke'' then Some (PostRevoke (sd_revoke sd body))
      else None)"

definition route :: "server_codec \<Rightarrow> string \<Rightarrow> string \<Rightarrow> string \<Rightarrow> http_request option" where
  "route sd meth target body =
     (let (path, query) = (case cut (CHR ''?'') target of None \<Rightarrow> (target, []) | Some (p, q) \<Rightarrow> (p, q))
      in if meth = ''GET'' then route_get path
         else if meth = ''POST'' then route_post sd path query body else None)"

text \<open>A network on which the server of theory \<open>Api\<close> answers at \<open>base\<close>.\<close>

definition server_network ::
  "(string \<Rightarrow> char list) \<Rightarrow> dependencies \<Rightarrow> server_codec \<Rightarrow> env \<Rightarrow> string \<Rightarrow> server network" where
  "server_network sha dp sd e base sv req =
     (if \<not> has_prefix (wr_url req) base then (sv, Inl ''no such host'')
      else case route sd (wr_method req) (drop (length base) (wr_url req)) (wr_body req) of
        None \<Rightarrow> (sv, Inr (sd_other sd req))
      | Some hreq \<Rightarrow>
          (case serve sha e dp sv hreq of
             (sv', resp) \<Rightarrow> (sv', Inr \<lparr>ws_code = rs_status resp, ws_status = sd_status_line sd (rs_status resp),
                               ws_body = Inr (sd_render sd (rs_body resp))\<rparr>)))"

section \<open>Lemmas\<close>

lemma response_text_answer:
  "response_text (Inr \<lparr>ws_code = n, ws_status = s, ws_body = Inr b\<rparr>) =
     (if n \<ge> 300 then Inl (ServerReturned s (trim_space b)) else Inr b)"
  by (simp add: response_text_def)

lemma routes [simp]:
  "route sd ''POST'' ''/v1/enroll'' b = Some (PostEnroll (sd_enroll sd b))"
  "route sd ''POST'' ''/v1/certificates/request'' b = Some (PostRequest (sd_certificate sd b))"
  "route sd ''POST'' ''/v1/certificates/renew'' b = Some (PostRenew (sd_serial sd []) (sd_certificate sd b))"
  "route sd ''POST'' ''/v1/certificates/revoke'' b = Some (PostRevoke (sd_revoke sd b))"
  "route sd ''GET'' ''/v1/ca/root'' b = Some GetRoot"
  by (simp_all add: route_def route_get_def route_post_def)

text \<open>What the client of a server gets for a request to a known path.\<close>

lemma post_to_server:
  assumes "route sd ''POST'' path body = Some hreq"
  shows "client_post \<lparr>ac_base_url = base, ac_http = server_network sha dp sd e base\<rparr> path body sv =
    (case serve sha e dp sv hreq of (sv', resp) \<Rightarrow>
       (sv', if rs_status resp \<ge> 300
             then Inl (ServerReturned (sd_status_line sd (rs_status resp)) (trim_space (sd_render sd (rs_body resp))))
             else Inr (sd_render sd (rs_body resp))))"
  using assms
  by (simp add: client_post_def server_network_def response_text_answer split: prod.split)

lemma new_client_plain: "trim_slashes base = base \<Longrightarrow> new_client http base = \<lparr>ac_base_url = base, ac_http = http\<rparr>"
  by (simp add: new_client_def)

end
