(* ===== verification/Client_Cli.thy ===== *)
theory Client_Cli
  imports Api_Client Ca_Local Paths
begin

text \<open>
  The client command line of \<open>internal/cli/client/client.go\<close>: keys and requests, the output
  directory, the files of a certificate, and the commands \<open>trust install\<close>, \<open>enroll\<close>,
  \<open>request-cert\<close>, \<open>renew\<close> and \<open>status\<close>. A command maps the disk, the owners of files and
  the network to what they become, what it printed and its error. Spans, command metrics and the
  trace id of \<open>--debug\<close> (a flag the commands receive before it is parsed) are not modelled.
\<close>

section \<open>Library\<close>

datatype meta_value = MText string | MTexts "string list" | MFlag bool | MKey "(string \<times> json_value) list"

text \<open>
  \<open>kl_user\<close> and \<open>kl_group\<close> are the lookups with the conversion of the id they return,
  \<open>kl_blocks\<close> the successive results of \<open>pem.Decode\<close>. Go iterates over maps in a random order:
  \<open>kl_check_order\<close>, \<open>kl_write_order\<close> and \<open>kl_bundle_order\<close> are those of the three loops over
  files.
\<close>

record client_lib =
  kl_local :: local_lib
  kl_codec :: json_codec
  kl_create_csr :: "dist_name \<Rightarrow> string list \<Rightarrow> string \<Rightarrow> string + char list"
  kl_pkcs1 :: "string \<Rightarrow> char list"
  kl_uuid_ok :: "string \<Rightarrow> bool"
  kl_user :: "string \<Rightarrow> int option"
  kl_group :: "string \<Rightarrow> int option"
  kl_getenv :: "string \<Rightarrow> string"
  kl_home :: string
  kl_os :: string
  kl_hostname :: string
  kl_mac :: string
  kl_algorithm :: "public_key \<Rightarrow> string"
  kl_blocks :: "string \<Rightarrow> pem_block list"
  kl_render :: "(string \<times> meta_value) list \<Rightarrow> string + string"
  kl_check_order :: "(string \<times> string) list \<Rightarrow> (string \<times> string) list"
  kl_write_order :: "(string \<times> string) list \<Rightarrow> (string \<times> string) list"
  kl_bundle_order :: "(string \<times> string) list \<Rightarrow> (string \<times> string) list"

datatype cli_error =
    EnrollmentIdMissing | EnrollmentIdNotUuid | CliCurve string | CliKeyType string | CliRsaTooSmall
  | CliLibrary string | CliKey key_error | ApiFailed client_error | BadFormat string | OutputDir string string
  | NotWritable string string | RefusingOverwrite string | NoCertificateInResponse | BadMode string
  | UnknownOwner string | UnknownGroup string | WriteFailed string string | ChownFailed string string
  | CliOs string

section \<open>Arguments\<close>

definition validate_enrollment_id :: "client_lib \<Rightarrow> string \<Rightarrow> cli_error option" where
  "validate_enrollment_id lib v =
     (if trim_space v = [] then Some EnrollmentIdMissing
      else if \<not> kl_uuid_ok lib v then Some EnrollmentIdNotUuid else None)"

definition split_csv :: "string \<Rightarrow> string list" where
  "split_csv v =
     (let out = filter (\<lambda>s. s \<noteq> []) (map trim_space (split_on (CHR '','') v))
      in if out = [] then [''localhost''] else out)"

definition unsafe_char :: "char \<Rightarrow> bool" where
  "unsafe_char c \<longleftrightarrow> c = CHR ''/'' \<or> c = CHR 0x5C \<or> c = CHR '':'' \<or> c = CHR 0x00"

definition safe_path_name :: "string \<Rightarrow> string" where
  "safe_path_name v =
     (let t = trim_space v
      in if t = [] then ''localhost'' else map (\<lambda>c. if unsafe_char c then CHR ''_'' else c) t)"

definition default_dir_for :: "string \<Rightarrow> string \<Rightarrow> string \<Rightarrow> string" where
  "default_dir_for goos home dns =
     (if goos = ''darwin''
      then join_path [home, ''Library'', ''Application Support'', ''ironroot'', ''certs'', safe_path_name dns]
      else join_path [home, ''.local'', ''share'', ''ironroot'', ''certs'', safe_path_name dns])"

text \<open>An empty \<open>kl_home\<close> is a failing or empty \<open>os.UserHomeDir\<close>.\<close>

definition default_output_dir :: "client_lib \<Rightarrow> string \<Rightarrow> string" where
  "default_output_dir lib dns =
     (if kl_home lib = [] then join_path [''.'', ''certs'', safe_path_name dns]
      else default_dir_for (kl_os lib) (kl_home lib) dns)"

definition key_password_from :: "client_lib \<Rightarrow> string \<Rightarrow> string \<Rightarrow> string" where
  "key_password_from lib value env_name =
     (if value \<noteq> [] then value
      else if env_name \<noteq> [] then trim_space (kl_getenv lib env_name) else [])"

text \<open>The file \<open>machine-id\<close> of systemd or of D-Bus, or else the host name.\<close>

fun first_machine_id :: "disk \<Rightarrow> string list \<Rightarrow> string option" where
  "first_machine_id d [] = None"
| "first_machine_id d (p # ps) =
     (case read_file d p of
        Inr b \<Rightarrow> if trim_space b \<noteq> [] then Some (trim_space b) else first_machine_id d ps
      | Inl e \<Rightarrow> first_machine_id d ps)"

definition load_machine_id :: "client_lib \<Rightarrow> disk \<Rightarrow> string" where
  "load_machine_id lib d =
     (case first_machine_id d [''/etc/machine-id'', ''/var/lib/dbus/machine-id''] of
        Some i \<Rightarrow> i | None \<Rightarrow> kl_hostname lib)"

section \<open>File modes and owners\<close>

text \<open>\<open>strconv.ParseUint(s, 8, 32)\<close>.\<close>

definition parse_octal :: "string \<Rightarrow> nat option" where
  "parse_octal s =
     (if s = [] \<or> \<not> list_all (\<lambda>c. 48 \<le> code c \<and> code c \<le> 55) s then None
      else (let n = foldl (\<lambda>v c. v * 8 + (code c - 48)) 0 s in if n < 2 ^ 32 then Some n else None))"

text \<open>384 is \<open>0o600\<close>, 420 is \<open>0o644\<close>.\<close>

definition output_modes :: "string \<Rightarrow> cli_error + (nat \<times> nat)" where
  "output_modes v =
     (if trim_space v = [] then Inr (384, 420)
      else (case parse_octal v of None \<Rightarrow> Inl (BadMode v) | Some m \<Rightarrow> Inr (m, m)))"

text \<open>
  The mode a file gets from \<open>os.FileMode\<close>: the permission bits and, for Go's bits 23, 22 and
  20, setuid, setgid and sticky.
\<close>

definition file_mode :: "nat \<Rightarrow> nat" where
  "file_mode m =
     m mod 512 + (if bit m 23 then 2048 else 0) + (if bit m 22 then 1024 else 0) + (if bit m 20 then 512 else 0)"

definition resolve_owner_group :: "client_lib \<Rightarrow> string \<Rightarrow> string \<Rightarrow> cli_error + (int \<times> int \<times> bool)" where
  "resolve_owner_group lib owner grp =
     (if owner = [] \<and> grp = [] then Inr (-1, -1, False)
      else
        bindE (if owner = [] then Inr (-1)
               else (case kl_user lib owner of
                       Some u \<Rightarrow> Inr u
                     | None \<Rightarrow> (case atoi owner of None \<Rightarrow> Inl (UnknownOwner owner) | Some u \<Rightarrow> Inr u))) (\<lambda>uid.
        bindE (if grp = [] then Inr (-1)
               else (case kl_group lib grp of
                       Some g \<Rightarrow> Inr g
                     | None \<Rightarrow> (case atoi grp of None \<Rightarrow> Inl (UnknownGroup grp) | Some g \<Rightarrow> Inr g))) (\<lambda>gid.
        Inr (uid, gid, True))))"

section \<open>Keys and certificate requests\<close>

record key_metadata =
  km_type :: string
  km_curve :: string
  km_rsa_bits :: int
  km_encrypted :: bool

text \<open>\<open>omitempty\<close> leaves out an empty curve and zero bits.\<close>

definition key_metadata_json :: "key_metadata \<Rightarrow> (string \<times> json_value) list" where
  "key_metadata_json k =
     [(''type'', JString (km_type k))] @ (if km_curve k = [] then [] else [(''curve'', JString (km_curve k))]) @
     (if km_rsa_bits k = 0 then [] else [(''rsa_bits'', JInt (km_rsa_bits k))]) @ [(''encrypted'', JBool (km_encrypted k))]"

definition cli_result :: "(string + 'a) \<Rightarrow> cli_error + 'a" where
  "cli_result r = (case r of Inl e \<Rightarrow> Inl (CliLibrary e) | Inr x \<Rightarrow> Inr x)"

definition marshal_private_key_pem :: "client_lib \<Rightarrow> string \<Rightarrow> string \<Rightarrow> cli_error + string" where
  "marshal_private_key_pem lib key password =
     (let l = kl_local lib
      in bindE (cli_result (ll_marshal_pkcs8 l key)) (\<lambda>der.
           if password \<noteq> [] then
             (case encrypt_private_key (ll_cipher l) (ll_salt l) (ll_nonce l) der password of
                Inl e \<Rightarrow> Inl (CliKey e) | Inr b \<Rightarrow> Inr (pem_encode (ll_x509 l) b))
           else Inr (pem_text l ''PRIVATE KEY'' der)))"

definition create_csr :: "client_lib \<Rightarrow> string \<Rightarrow> string list \<Rightarrow> string \<Rightarrow> cli_error + string" where
  "create_csr lib common_name dns key =
     bindE (cli_result (kl_create_csr lib (blank_name\<lparr>dn_common_name := common_name\<rparr>) dns key)) (\<lambda>der.
       Inr (pem_text (kl_local lib) ''CERTIFICATE REQUEST'' der))"

text \<open>What \<open>generateKeyAndCSR\<close> and \<open>generateRSAKeyAndCSR\<close> do with the generated key.\<close>

definition key_and_csr ::
  "client_lib \<Rightarrow> string \<Rightarrow> string list \<Rightarrow> string \<Rightarrow> key_metadata \<Rightarrow> string + (string \<times> public_key) \<Rightarrow>
     cli_error + (string \<times> string \<times> key_metadata)" where
  "key_and_csr lib common_name dns password meta generated =
     bindE (cli_result generated) (\<lambda>(key, pub).
     bindE (marshal_private_key_pem lib key password) (\<lambda>key_pem.
     bindE (create_csr lib common_name dns key) (\<lambda>csr_pem.
     Inr (key_pem, csr_pem, meta))))"

definition generate_key_and_csr ::
  "client_lib \<Rightarrow> string \<Rightarrow> string list \<Rightarrow> string \<Rightarrow> string \<Rightarrow> int \<Rightarrow> string \<Rightarrow>
     cli_error + (string \<times> string \<times> key_metadata)" where
  "generate_key_and_csr lib common_name dns key_type curve rsa_bits password =
     (let kt = (if to_lower (trim_space key_type) = [] then ''ecdsa'' else key_type); t = to_lower kt;
          meta = \<lparr>km_type = t, km_curve = [], km_rsa_bits = 0, km_encrypted = (password \<noteq> [])\<rparr>
      in if t = ''ecdsa'' then
           (case (if curve = [] then Some P256 else elliptic_curve curve) of
              None \<Rightarrow> Inl (CliCurve curve)
            | Some c \<Rightarrow> key_and_csr lib common_name dns password (meta\<lparr>km_curve := curve_name c\<rparr>)
                          (ll_generate_ecdsa (kl_local lib) c))
         else if t = ''rsa'' then
           (if rsa_bits < 2048 then Inl CliRsaTooSmall
            else key_and_csr lib common_name dns password (meta\<lparr>km_rsa_bits := rsa_bits\<rparr>)
                   (ll_generate_rsa (kl_local lib) rsa_bits))
         else Inl (CliKeyType kt))"

text \<open>\<open>ca.GenerateKeyAndCSR\<close>, used by \<open>renew\<close>: always RSA with 2048 bits, never encrypted.\<close>

definition generate_rsa_csr :: "client_lib \<Rightarrow> string \<Rightarrow> string list \<Rightarrow> cli_error + (string \<times> string)" where
  "generate_rsa_csr lib common_name dns =
     bindE (cli_result (ll_generate_rsa (kl_local lib) 2048)) (\<lambda>(key, pub).
     bindE (create_csr lib common_name dns key) (\<lambda>csr_pem.
     Inr (pem_text (kl_local lib) ''RSA PRIVATE KEY'' (kl_pkcs1 lib key), csr_pem)))"

section \<open>The files of a certificate\<close>

record output_options =
  oo_dns :: "string list"
  oo_enrollment :: string
  oo_overwrite :: bool
  oo_bundle :: bool
  oo_format :: string
  oo_chmod :: string
  oo_owner :: string
  oo_group :: string
  oo_key :: key_metadata

definition parse_pem_certificate :: "client_lib \<Rightarrow> string \<Rightarrow> cli_error + certificate" where
  "parse_pem_certificate lib v =
     (case pem_decode (ll_x509 (kl_local lib)) v of
        None \<Rightarrow> Inl NoCertificateInResponse
      | Some b \<Rightarrow>
          if pb_type b \<noteq> ''CERTIFICATE'' then Inl NoCertificateInResponse
          else cli_result (parse_certificate (ll_x509 (kl_local lib)) (pb_bytes b)))"

definition first_certificate :: "client_lib \<Rightarrow> string \<Rightarrow> certificate option" where
  "first_certificate lib v =
     (case find (\<lambda>b. pb_type b = ''CERTIFICATE'') (kl_blocks lib v) of
        None \<Rightarrow> None
      | Some b \<Rightarrow> (case parse_certificate (ll_x509 (kl_local lib)) (pb_bytes b) of Inl e \<Rightarrow> None | Inr c \<Rightarrow> Some c))"

text \<open>The pairs in the order of the keys, as \<open>json.MarshalIndent\<close> writes a map.\<close>

definition certificate_metadata ::
  "client_lib \<Rightarrow> gotime \<Rightarrow> certificate_response \<Rightarrow> output_options \<Rightarrow> cli_error + string" where
  "certificate_metadata lib now resp opts =
     bindE (parse_pem_certificate lib (cs_cert_pem resp)) (\<lambda>cert.
       let issuer = (case first_certificate lib (cs_chain_pem resp) of None \<Rightarrow> [] | Some c \<Rightarrow> ct_subject c)
       in bindE (cli_result (kl_render lib
            [(''algorithm'', MText (kl_algorithm lib (ct_public cert))), (''bundle_written'', MFlag (oo_bundle opts)),
             (''dns_names'', MTexts (oo_dns opts)), (''enrollment_id'', MText (oo_enrollment opts)),
             (''fingerprint'', MText (colon_fingerprint (ll_sha (kl_local lib)) (ct_raw cert))),
             (''issued_at'', MText (rfc3339 now)), (''issuer'', MText issuer), (''key'', MKey (key_metadata_json (oo_key opts))),
             (''not_after'', MText (cs_not_after resp)), (''not_before'', MText (cs_not_before resp)),
             (''renew_before'', MText (cs_renew_before resp)), (''serial'', MText (cs_serial resp))]))
          (\<lambda>body. Inr (body @ [CHR 0x0A])))"

definition certificate_fingerprints :: "client_lib \<Rightarrow> certificate_response \<Rightarrow> string" where
  "certificate_fingerprints lib resp =
     (case parse_pem_certificate lib (cs_cert_pem resp) of
        Inl e \<Rightarrow> ''tls.crt SHA256: unavailable'' @ [CHR 0x0A]
      | Inr c \<Rightarrow> ''tls.crt SHA256: '' @ colon_fingerprint (ll_sha (kl_local lib)) (ct_raw c) @ [CHR 0x0A])"

definition certificate_readme :: "bool \<Rightarrow> string" where
  "certificate_readme bundle =
     text_lines ([''This directory contains a certificate issued by IronRoot.'', [], ''Files:'',
       ''- tls.key       -> private key. Never share this file.'',
       ''- tls.crt       -> issued server certificate.'',
       ''- ca-chain.crt  -> Intermediate and Root CA chain.''] @
       (if bundle then [''- fullchain.crt -> tls.crt plus CA chain, useful for nginx and Caddy''] else []) @
       [''- metadata.json -> issuance metadata and expiration details.'',
        ''- fingerprints.txt -> SHA-256 fingerprints for debugging.'', [], ''Nginx example:'',
        ''ssl_certificate fullchain.crt;'', ''ssl_certificate_key tls.key;'', [], ''Caddy example:'',
        ''tls tls.crt tls.key''])"

definition certificate_files ::
  "client_lib \<Rightarrow> gotime \<Rightarrow> string \<Rightarrow> certificate_response \<Rightarrow> output_options \<Rightarrow> cli_error + (string \<times> string) list" where
  "certificate_files lib now key resp opts =
     bindE (certificate_metadata lib now resp opts) (\<lambda>metadata.
       Inr ([(''tls.key'', key), (''tls.crt'', cs_cert_pem resp), (''ca-chain.crt'', cs_chain_pem resp)] @
            (if oo_bundle opts then [(''fullchain.crt'', cs_cert_pem resp @ cs_chain_pem resp)] else []) @
            [(''metadata.json'', metadata), (''fingerprints.txt'', certificate_fingerprints lib resp),
             (''README.txt'', certificate_readme (oo_bundle opts))]))"

section \<open>Writing\<close>

text \<open>
  The owners of files: \<open>Some (uid, gid)\<close> after a change, \<open>-1\<close> for an id left alone. \<open>chown\<close> is
  the outcome of \<open>os.Chown\<close>.
\<close>

type_synonym owners = "string \<Rightarrow> (int \<times> int) option"
type_synonym chown = "string \<Rightarrow> int \<Rightarrow> int \<Rightarrow> string option"

definition write_test_name :: string where "write_test_name = ''.ironroot-write-test''"

text \<open>
  The result of removing the test file is ignored: it stays when its directory is not writable,
  which a test file of an earlier run in it allows.
\<close>

definition validate_output_writable :: "fault \<Rightarrow> string \<Rightarrow> (cli_error, unit) io" where
  "validate_output_writable fault out =
     io_bind (io_write (NotWritable out) fault (join_path [out, write_test_name]) ''ok'' 384) (\<lambda>_ d.
       (if fault out = None then d(join_path [out, write_test_name] := None) else d, Inr ()))"

fun first_existing :: "disk \<Rightarrow> string \<Rightarrow> (string \<times> string) list \<Rightarrow> string option" where
  "first_existing d out [] = None"
| "first_existing d out ((n, b) # fs) =
     (if exists_path d (join_path [out, n]) then Some (join_path [out, n]) else first_existing d out fs)"

fun write_all ::
  "fault \<Rightarrow> chown \<Rightarrow> string \<Rightarrow> nat \<Rightarrow> nat \<Rightarrow> (int \<times> int \<times> bool) \<Rightarrow> (string \<times> string) list \<Rightarrow> disk \<Rightarrow> owners \<Rightarrow>
     disk \<times> owners \<times> cli_error option" where
  "write_all fault chown out key_mode cert_mode own [] d os = (d, os, None)"
| "write_all fault chown out key_mode cert_mode (uid, gid, change) ((n, body) # fs) d os =
     (let path = join_path [out, n]; mode = (if n = ''tls.key'' then key_mode else cert_mode)
      in case write_file fault d path body (file_mode mode) of
           Inl e \<Rightarrow> (d, os, Some (WriteFailed path e))
         | Inr d' \<Rightarrow>
             if \<not> change then write_all fault chown out key_mode cert_mode (uid, gid, change) fs d' os
             else (case chown path uid gid of
                     Some e \<Rightarrow> (d', os, Some (ChownFailed path e))
                   | None \<Rightarrow> write_all fault chown out key_mode cert_mode (uid, gid, change) fs d' (os(path \<mapsto> (uid, gid)))))"

text \<open>\<open>writeCertificateOutput\<close> up to its write loop: the files, their modes and their owner.\<close>

definition plan_output ::
  "client_lib \<Rightarrow> fault \<Rightarrow> gotime \<Rightarrow> string \<Rightarrow> string \<Rightarrow> certificate_response \<Rightarrow> output_options \<Rightarrow>
     (cli_error, (string \<times> string) list \<times> (nat \<times> nat) \<times> (int \<times> int \<times> bool)) io" where
  "plan_output lib fault now out key resp opts =
     (if to_lower (oo_format opts) \<noteq> ''pem'' \<and> oo_format opts \<noteq> [] then io_fail (BadFormat (oo_format opts))
      else
        io_bind (io_mkdir (OutputDir out) fault out) (\<lambda>_.
        io_bind (validate_output_writable fault out) (\<lambda>_.
        io_bind (io_lift (certificate_files lib now key resp opts)) (\<lambda>files.
        io_bind (\<lambda>d. (d, if oo_overwrite opts then Inr ()
                          else (case first_existing d out (kl_check_order lib files) of
                                  None \<Rightarrow> Inr () | Some p \<Rightarrow> Inl (RefusingOverwrite p)))) (\<lambda>_.
        io_bind (io_lift (output_modes (oo_chmod opts))) (\<lambda>modes.
        io_bind (io_lift (resolve_owner_group lib (oo_owner opts) (oo_group opts))) (\<lambda>own.
        io_return (files, modes, own))))))))"

definition write_certificate_output ::
  "client_lib \<Rightarrow> fault \<Rightarrow> chown \<Rightarrow> gotime \<Rightarrow> string \<Rightarrow> string \<Rightarrow> certificate_response \<Rightarrow> output_options \<Rightarrow>
     disk \<Rightarrow> owners \<Rightarrow> disk \<times> owners \<times> cli_error option" where
  "write_certificate_output lib fault chown now out key resp opts d os =
     (case plan_output lib fault now out key resp opts d of
        (d1, Inl e) \<Rightarrow> (d1, os, Some e)
      | (d1, Inr (files, (key_mode, cert_mode), own)) \<Rightarrow>
          write_all fault chown out key_mode cert_mode own (kl_write_order lib files) d1 os)"

definition bundle_files :: "string \<Rightarrow> certificate_response \<Rightarrow> (string \<times> string) list" where
  "bundle_files key resp =
     [(''tls.key'', key), (''tls.crt'', cs_cert_pem resp), (''ca-chain.crt'', cs_chain_pem resp),
      (''root-ca.crt'', cs_root_pem resp)]"

definition write_bundle ::
  "client_lib \<Rightarrow> fault \<Rightarrow> string \<Rightarrow> string \<Rightarrow> certificate_response \<Rightarrow> (cli_error, string) io" where
  "write_bundle lib fault out key resp =
     io_bind (io_mkdir CliOs fault out) (\<lambda>_.
     io_bind (io_each (\<lambda>(n, b). io_write CliOs fault (join_path [out, n]) b (if n = ''tls.key'' then 384 else 420))
                (kl_bundle_order lib (bundle_files key resp))) (\<lambda>_.
     io_return (certificate_response_json resp @ [CHR 0x0A])))"

section \<open>Commands\<close>

text \<open>The world of a command: disk, owners, network; and what it returns with it.\<close>

type_synonym 'w cli_state = "disk \<times> owners \<times> 'w"
type_synonym 'w cli_result = "'w cli_state \<times> string \<times> cli_error option"

definition trust_install :: "client_lib \<Rightarrow> 'w network \<Rightarrow> fault \<Rightarrow> string \<Rightarrow> string \<Rightarrow> 'w cli_state \<Rightarrow> 'w cli_result" where
  "trust_install lib http fault url out st =
     (case st of (d, os, w) \<Rightarrow>
        (case client_root (new_client http url) w of
           (w', Inl e) \<Rightarrow> ((d, os, w'), [], Some (ApiFailed e))
         | (w', Inr rc) \<Rightarrow>
             (case io_bind (io_mkdir CliOs fault out)
                     (\<lambda>_. io_write CliOs fault (join_path [out, ''root-ca.crt'']) rc 420) d of
                (d', Inl e) \<Rightarrow> ((d', os, w'), [], Some e)
              | (d', Inr u) \<Rightarrow> ((d', os, w'), [], None))))"

definition enroll_command ::
  "client_lib \<Rightarrow> 'w network \<Rightarrow> string \<Rightarrow> string \<Rightarrow> string \<Rightarrow> 'w cli_state \<Rightarrow> 'w cli_result" where
  "enroll_command lib http url token override st =
     (case st of (d, os, w) \<Rightarrow>
        let hostname = (if trim_space override \<noteq> [] then trim_space override else kl_hostname lib);
            req = \<lparr>er_token = token, er_hostname = hostname, er_machine_id = load_machine_id lib d, er_mac = kl_mac lib\<rparr>
        in case client_enroll (kl_codec lib) (new_client http url) req w of
             (w', Inl e) \<Rightarrow> ((d, os, w'), [], Some (ApiFailed e))
           | (w', Inr i) \<Rightarrow> ((d, os, w'), json_object [(''enrollment_id'', json_string i)] @ [CHR 0x0A], None))"

record request_flags =
  qf_url :: string
  qf_dns :: string
  qf_out :: string
  qf_enrollment :: string
  qf_overwrite :: bool
  qf_bundle :: bool
  qf_key_type :: string
  qf_curve :: string
  qf_format :: string
  qf_key_password :: string
  qf_key_password_env :: string
  qf_chmod :: string
  qf_owner :: string
  qf_group :: string
  qf_rsa_bits :: int

definition default_request_flags :: "string \<Rightarrow> string \<Rightarrow> request_flags" where
  "default_request_flags dns enrollment =
     \<lparr>qf_url = ''http://localhost:8443'', qf_dns = dns, qf_out = [], qf_enrollment = enrollment, qf_overwrite = False,
      qf_bundle = True, qf_key_type = ''ecdsa'', qf_curve = ''p256'', qf_format = ''pem'', qf_key_password = [],
      qf_key_password_env = [], qf_chmod = [], qf_owner = [], qf_group = [], qf_rsa_bits = 2048\<rparr>"

definition success_text :: "string \<Rightarrow> certificate_response \<Rightarrow> bool \<Rightarrow> string" where
  "success_text out resp bundle =
     text_lines ([''Certificate generated successfully.'', [], ''Files written to:'', out, [], ''Generated:'',
       ''- tls.key'', ''- tls.crt''] @ (if bundle then [''- fullchain.crt''] else []) @
       [''- ca-chain.crt'', ''- metadata.json'', ''- fingerprints.txt'', ''- README.txt'', [],
        ''Serial: '' @ cs_serial resp, ''Expires: '' @ cs_not_after resp, [], ''Next steps:'',
        ''- Install the Root CA trust bundle if this is a local or private trust domain.'',
        ''- Configure nginx, Caddy, Podman, Kubernetes, or your service with tls.crt/fullchain.crt and tls.key.'',
        ''- Test HTTPS with the requested DNS name.''])"

definition request_options :: "request_flags \<Rightarrow> string list \<Rightarrow> key_metadata \<Rightarrow> output_options" where
  "request_options f names info =
     \<lparr>oo_dns = names, oo_enrollment = qf_enrollment f, oo_overwrite = qf_overwrite f, oo_bundle = qf_bundle f,
      oo_format = qf_format f, oo_chmod = qf_chmod f, oo_owner = qf_owner f, oo_group = qf_group f, oo_key = info\<rparr>"

definition request_target :: "client_lib \<Rightarrow> request_flags \<Rightarrow> string" where
  "request_target lib f =
     (if trim_space (qf_out f) = [] then default_output_dir lib (hd (split_csv (qf_dns f))) else qf_out f)"

definition request_cert ::
  "client_lib \<Rightarrow> 'w network \<Rightarrow> fault \<Rightarrow> chown \<Rightarrow> gotime \<Rightarrow> request_flags \<Rightarrow> 'w cli_state \<Rightarrow> 'w cli_result" where
  "request_cert lib http fault chown now f st =
     (case st of (d, os, w) \<Rightarrow>
        (case validate_enrollment_id lib (qf_enrollment f) of
           Some e \<Rightarrow> (st, [], Some e)
         | None \<Rightarrow>
        (let names = split_csv (qf_dns f)
         in case generate_key_and_csr lib (hd names) names (qf_key_type f) (qf_curve f) (qf_rsa_bits f)
                   (key_password_from lib (qf_key_password f) (qf_key_password_env f)) of
              Inl e \<Rightarrow> (st, [], Some e)
            | Inr (key, csr, info) \<Rightarrow>
        (case client_request_certificate (kl_codec lib) (new_client http (qf_url f))
                \<lparr>cq_enrollment_id = qf_enrollment f, cq_csr_pem = csr, cq_dns_names = names\<rparr> w of
           (w', Inl e) \<Rightarrow> ((d, os, w'), [], Some (ApiFailed e))
         | (w', Inr resp) \<Rightarrow>
        (case write_certificate_output lib fault chown now (request_target lib f) key resp
                (request_options f names info) d os of
           (d', os', Some e) \<Rightarrow> ((d', os', w'), [], Some e)
         | (d', os', None) \<Rightarrow> ((d', os', w'), success_text (request_target lib f) resp (qf_bundle f), None))))))"

text \<open>The flags \<open>--cert\<close> and \<open>--key\<close> of \<open>renew\<close> are ignored by the code and left out.\<close>

definition renew_command ::
  "client_lib \<Rightarrow> 'w network \<Rightarrow> fault \<Rightarrow> string \<Rightarrow> string \<Rightarrow> string \<Rightarrow> string \<Rightarrow> 'w cli_state \<Rightarrow> 'w cli_result" where
  "renew_command lib http fault url dns out enrollment st =
     (case st of (d, os, w) \<Rightarrow>
        (case validate_enrollment_id lib enrollment of
           Some e \<Rightarrow> (st, [], Some e)
         | None \<Rightarrow>
        (let names = split_csv dns
         in case generate_rsa_csr lib (hd names) names of
              Inl e \<Rightarrow> (st, [], Some e)
            | Inr (key, csr) \<Rightarrow>
        (case client_renew_certificate (kl_codec lib) (new_client http url)
                \<lparr>cq_enrollment_id = enrollment, cq_csr_pem = csr, cq_dns_names = names\<rparr> w of
           (w', Inl e) \<Rightarrow> ((d, os, w'), [], Some (ApiFailed e))
         | (w', Inr resp) \<Rightarrow>
        (case write_bundle lib fault (if out = [] then default_output_dir lib (hd names) else out) key resp d of
           (d', Inl e) \<Rightarrow> ((d', os, w'), [], Some e)
         | (d', Inr printed) \<Rightarrow> ((d', os, w'), printed, None))))))"

definition status_command :: "client_lib \<Rightarrow> 'w network \<Rightarrow> string \<Rightarrow> string \<Rightarrow> 'w cli_state \<Rightarrow> 'w cli_result" where
  "status_command lib http url serial st =
     (case st of (d, os, w) \<Rightarrow>
        (case client_status (kl_codec lib) (new_client http url) serial w of
           (w', Inl e) \<Rightarrow> ((d, os, w'), [], Some (ApiFailed e))
         | (w', Inr t) \<Rightarrow> ((d, os, w'), t @ [CHR 0x0A], None)))"

section \<open>Administration over the API\<close>

text \<open>\<open>revoke-cert\<close> of \<open>internal/cli/admin/admin.go\<close>.\<close>

definition revoke_cert_command :: "'w network \<Rightarrow> string \<Rightarrow> string \<Rightarrow> string \<Rightarrow> 'w \<Rightarrow> 'w \<times> client_error option" where
  "revoke_cert_command http url serial reason w =
     (case client_revoke_certificate (new_client http url) serial reason w of
        (w', Inl e) \<Rightarrow> (w', Some e) | (w', Inr u) \<Rightarrow> (w', None))"

definition migration_status_text :: string where
  "migration_status_text =
     json_object [(''status'', json_string ''multiple CA generations supported in schema; promotion API deferred'')] @ [CHR 0x0A]"

end
