(* ===== verification/Client_Properties.thy ===== *)
theory Client_Properties
  imports Client_Cli Api_Properties Ca_Local_Properties Security_Checks
begin

text \<open>
  What the client commands guarantee: which files they can change, what is on the disk after a
  request, alone and against the modelled server, and what is lost when they fail half-way.
\<close>

section \<open>Lemmas\<close>

definition output_names :: "string list" where
  "output_names = [''tls.key'', ''tls.crt'', ''ca-chain.crt'', ''fullchain.crt'', ''metadata.json'', ''fingerprints.txt'',
     ''README.txt'', ''root-ca.crt'', write_test_name]"

lemma output_names_plain: "n \<in> set output_names \<Longrightarrow> plain_name n"
proof -
  have "list_all plain_name output_names" by code_simp
  then show "n \<in> set output_names \<Longrightarrow> plain_name n" by (simp add: list_all_iff)
qed

lemma certificate_files_names:
  "certificate_files lib now key resp opts = Inr files \<Longrightarrow> set (map fst files) \<subseteq> set output_names"
  by (auto simp: certificate_files_def bindE_eq_Inr output_names_def)

lemma certificate_files_distinct:
  "certificate_files lib now key resp opts = Inr files \<Longrightarrow> distinct (map fst files)"
  by (auto simp: certificate_files_def bindE_eq_Inr)

lemma bundle_files_names: "set (map fst (bundle_files key resp)) \<subseteq> set output_names"
  by (simp add: bundle_files_def output_names_def)

lemma first_existing_None:
  "first_existing d out fs = None \<longleftrightarrow> (\<forall>n \<in> set (map fst fs). \<not> exists_path d (join_path [out, n]))"
  by (induction fs) (auto split: if_splits)

text \<open>The write loop leaves every path alone that is not one of its files.\<close>

lemma write_all_frame:
  "(\<forall>n \<in> set (map fst fs). join_path [out, n] \<noteq> p) \<Longrightarrow>
    fst (write_all fault chown out km cm own fs d os) p = d p"
proof (induction fs arbitrary: d os)
  case Nil
  then show ?case by (cases own) simp
next
  case (Cons f fs)
  obtain n b where f: "f = (n, b)" by (cases f)
  obtain uid gid change where own: "own = (uid, gid, change)" by (cases own) auto
  show ?case
    using Cons.prems Cons.IH write_other [of fault d "join_path [out, n]" b _ _ p]
    by (auto simp: f own Let_def split: sum.split option.split)
qed

text \<open>A loop without error has written every file.\<close>

lemma write_all_written:
  assumes "write_all fault chown out km cm own fs d os = (d', os', None)"
    and "distinct (map fst fs)" and "\<forall>n \<in> set (map fst fs). plain_name n" and "(n, body) \<in> set fs"
  shows "read_file d' (join_path [out, n]) = Inr body"
  using assms
proof (induction fs arbitrary: d os)
  case (Cons f fs)
  obtain m b where f: "f = (m, b)" by (cases f)
  obtain uid gid change where own: "own = (uid, gid, change)" by (cases own) auto
  from Cons.prems(1) obtain d1 os1 where w: "write_file fault d (join_path [out, m]) b (file_mode (if m = ''tls.key'' then km else cm)) = Inr d1"
    and r: "write_all fault chown out km cm own fs d1 os1 = (d', os', None)"
    by (auto simp: f own Let_def split: sum.splits if_splits option.splits)
  show ?case
  proof (cases "n = m")
    case True
    have "\<forall>k \<in> set (map fst fs). join_path [out, k] \<noteq> join_path [out, m]"
    proof
      fix k assume k: "k \<in> set (map fst fs)"
      with Cons.prems(2) have "k \<noteq> m" by (auto simp: f)
      moreover have "plain_name k" "plain_name m" using Cons.prems(3) k by (auto simp: f)
      ultimately show "join_path [out, k] \<noteq> join_path [out, m]" by (simp add: join_path_inject)
    qed
    then have "d' (join_path [out, m]) = d1 (join_path [out, m])"
      using write_all_frame [of fs out "join_path [out, m]" fault chown km cm own d1 os1] r by simp
    moreover have "b = body" using Cons.prems(2,4) True imageI [of "(m, body)" "set fs" fst] by (auto simp: f)
    ultimately show ?thesis using read_after_write [OF w] True by (simp add: read_file_def)
  next
    case False
    then have "(n, body) \<in> set fs" using Cons.prems(4) by (simp add: f)
    then show ?thesis using Cons.IH [OF r] Cons.prems(2,3) by (simp add: f)
  qed
qed simp

lemma io_bind_keeps:
  "(\<And>d. d p = v \<Longrightarrow> fst (m d) p = v) \<Longrightarrow> (\<And>x d. d p = v \<Longrightarrow> fst (f x d) p = v) \<Longrightarrow> d p = v \<Longrightarrow>
    fst (io_bind m f d) p = v"
  by (simp add: io_bind_def split: prod.split sum.split) (metis fst_conv)

text \<open>Planning changes no path but the test file and missing directories.\<close>

lemma plan_output_disk:
  assumes "plan_output lib fault now out key resp opts d = (d', r)"
    and "d p = Some (File c m)" and "p \<noteq> join_path [out, write_test_name]"
  shows "d' p = Some (File c m)"
proof -
  let ?v = "Some (File c m)"
  have mk: "fst (io_mkdir err fault out e) p = ?v" if "e p = ?v" for e and err :: "string \<Rightarrow> cli_error"
    using keeps_files_intros(4) [of err fault out] that by (simp add: keeps_files_def)
  have wr: "fst (validate_output_writable fault out e) p = ?v" if "e p = ?v" for e
    using that assms(3) by (auto simp: validate_output_writable_def io_bind_def io_write_def io_update_def
        split: sum.splits prod.splits dest: write_other [of fault _ _ _ _ _ p])
  have "fst (plan_output lib fault now out key resp opts d) p = ?v"
    unfolding plan_output_def
    by (auto intro!: io_bind_keeps [of p ?v] simp: mk wr assms(2))
  with assms(1) show ?thesis by simp
qed

lemma plan_output_Inr:
  assumes "plan_output lib fault now out key resp opts d = (d', Inr (files, modes, own))"
  shows "certificate_files lib now key resp opts = Inr files"
    and "\<not> oo_overwrite opts \<Longrightarrow> first_existing d' out (kl_check_order lib files) = None"
    and "output_modes (oo_chmod opts) = Inr modes"
proof -
  have "certificate_files lib now key resp opts = Inr files \<and>
    (\<not> oo_overwrite opts \<longrightarrow> first_existing d' out (kl_check_order lib files) = None) \<and>
    output_modes (oo_chmod opts) = Inr modes"
    using assms by (auto simp: plan_output_def io_bind_Inr split: if_splits option.splits)
  then show "certificate_files lib now key resp opts = Inr files"
    "\<not> oo_overwrite opts \<Longrightarrow> first_existing d' out (kl_check_order lib files) = None"
    "output_modes (oo_chmod opts) = Inr modes" by simp_all
qed

text \<open>Without \<open>--overwrite\<close> the output keeps every file that was there, the test file aside.\<close>

lemma output_keeps_files:
  assumes "\<not> oo_overwrite opts" and "\<And>fs. set (kl_check_order lib fs) = set fs"
    and "\<And>fs. set (kl_write_order lib fs) = set fs"
    and "d p = Some (File c m)" and "p \<noteq> join_path [out, write_test_name]"
  shows "fst (write_certificate_output lib fault chown now out key resp opts d os) p = Some (File c m)"
proof -
  obtain d1 r where plan: "plan_output lib fault now out key resp opts d = (d1, r)" by fastforce
  have d1: "d1 p = Some (File c m)" by (rule plan_output_disk [OF plan assms(4,5)])
  show ?thesis
  proof (cases r)
    case (Inl e)
    then show ?thesis using plan d1 by (simp add: write_certificate_output_def)
  next
    case (Inr x)
    obtain files km cm own where x: "x = (files, (km, cm), own)" by (cases x) auto
    have "first_existing d1 out (kl_check_order lib files) = None"
      using plan_output_Inr(2) plan Inr x assms(1) by simp
    then have "\<forall>n \<in> set (map fst files). \<not> exists_path d1 (join_path [out, n])"
      by (simp add: first_existing_None assms(2))
    then have "\<forall>n \<in> set (map fst (kl_write_order lib files)). join_path [out, n] \<noteq> p"
      using d1 assms(3) by (auto simp: exists_path_def)
    then show ?thesis
      using plan Inr x d1 write_all_frame by (simp add: write_certificate_output_def)
  qed
qed

section \<open>What a request can change\<close>

lemma files_spare_probe:
  assumes "certificate_files lib now key resp opts = Inr files" and "n \<in> set (map fst files)"
  shows "join_path [out, n] \<noteq> join_path [out, write_test_name]"
proof -
  have "n \<in> set output_names" using certificate_files_names [OF assms(1)] assms(2) by blast
  then have "plain_name n" by (rule output_names_plain)
  moreover have "plain_name write_test_name" by code_simp
  moreover have "n \<noteq> write_test_name"
    using assms by (auto simp: certificate_files_def bindE_eq_Inr write_test_name_def split: if_splits)
  ultimately show ?thesis by (simp add: join_path_inject)
qed

text \<open>What becomes of a file that has the name of the test file.\<close>

definition probed :: "string \<Rightarrow> nat \<Rightarrow> node option set" where
  "probed c m = {Some (File c m), Some (File ''ok'' m), None}"

lemma io_bind_within:
  assumes "d p \<in> A" and "\<And>d. d p \<in> A \<Longrightarrow> fst (m d) p \<in> B" and "\<And>x d. d p \<in> B \<Longrightarrow> fst (f x d) p \<in> C" and "B \<subseteq> C"
  shows "fst (io_bind m f d) p \<in> C"
  using assms by (simp add: io_bind_def split: prod.split sum.split) (metis fst_conv subsetD)

lemma plan_probe_fate:
  assumes "d p = Some (File c m)" and "p = join_path [out, write_test_name]"
  shows "fst (plan_output lib fault now out key resp opts d) p \<in> probed c m"
proof -
  have mk: "fst (io_mkdir (OutputDir out) fault out e) p \<in> {Some (File c m)}" if "e p \<in> {Some (File c m)}" for e
    using keeps_files_intros(4) [of "OutputDir out" fault out] that by (simp add: keeps_files_def)
  have wr: "fst (validate_output_writable fault out e) p \<in> probed c m" if "e p \<in> {Some (File c m)}" for e
    using that by (auto simp: validate_output_writable_def io_bind_def io_write_def io_update_def write_file_def
        probed_def assms(2) split: sum.splits prod.splits option.splits)
  have ro: "fst (io_bind (io_lift x1) (\<lambda>files. io_bind (\<lambda>d. (d, y files d)) (\<lambda>_. io_bind (io_lift x2) (\<lambda>modes.
      io_bind (io_lift x3) (\<lambda>own. io_return (files, modes, own))))) e) p \<in> probed c m"
    if "e p \<in> probed c m" for e x2 x3 and x1 :: "cli_error + (string \<times> string) list" and y :: "(string \<times> string) list \<Rightarrow> disk \<Rightarrow> cli_error + unit"
    using that by (simp add: io_bind_def split: prod.splits sum.splits)
  have later: "fst (io_bind (validate_output_writable fault out) (\<lambda>_. io_bind (io_lift x1) (\<lambda>files. io_bind (\<lambda>d. (d, y files d))
      (\<lambda>_. io_bind (io_lift x2) (\<lambda>modes. io_bind (io_lift x3) (\<lambda>own. io_return (files, modes, own)))))) e) p \<in> probed c m"
    if "e p \<in> {Some (File c m)}" for e x2 x3 and x1 :: "cli_error + (string \<times> string) list" and y :: "(string \<times> string) list \<Rightarrow> disk \<Rightarrow> cli_error + unit"
    by (rule io_bind_within [where A = "{Some (File c m)}" and B = "probed c m"]) (use that in \<open>auto intro: wr ro\<close>)
  show ?thesis
  proof (cases "to_lower (oo_format opts) \<noteq> ''pem'' \<and> oo_format opts \<noteq> []")
    case True
    then show ?thesis using assms(1) by (simp add: plan_output_def probed_def)
  next
    case False
    show ?thesis
      unfolding plan_output_def if_not_P [OF False]
    proof (rule io_bind_within [where A = "{Some (File c m)}" and B = "{Some (File c m)}"])
      show "d p \<in> {Some (File c m)}" using assms(1) by simp
      show "{Some (File c m)} \<subseteq> probed c m" by (simp add: probed_def)
    qed (erule mk later)+
  qed
qed

lemma probe_fate:
  assumes "d p = Some (File c m)" and "p = join_path [out, write_test_name]" and "\<And>fs. set (kl_write_order lib fs) = set fs"
  shows "fst (write_certificate_output lib fault chown now out key resp opts d os) p \<in> probed c m"
proof -
  obtain d1 r where plan: "plan_output lib fault now out key resp opts d = (d1, r)" by fastforce
  have "fst (plan_output lib fault now out key resp opts d) p \<in> probed c m" by (rule plan_probe_fate) (use assms in simp_all)
  with plan have d1: "d1 p \<in> probed c m" by simp
  show ?thesis
  proof (cases r)
    case (Inl e)
    then show ?thesis using plan d1 by (simp add: write_certificate_output_def)
  next
    case (Inr x)
    obtain files km cm own where x: "x = (files, (km, cm), own)" by (cases x) auto
    have files: "certificate_files lib now key resp opts = Inr files" using plan_output_Inr(1) plan Inr x by simp
    have "\<forall>n \<in> set (map fst (kl_write_order lib files)). join_path [out, n] \<noteq> p"
      using files_spare_probe [OF files, of _ out] assms(2,3) by (simp add: image_iff)
    then show ?thesis
      using plan Inr x d1 write_all_frame by (simp add: write_certificate_output_def)
  qed
qed

text \<open>
  C31. Without \<open>--overwrite\<close> a certificate request leaves every file as it was, whatever the server
  answers and wherever it fails, with one exception: a file called \<open>.ironroot-write-test\<close> in the
  output directory, which the command uses to test that it can write there. That file is kept
  when the test is not reached or cannot be written, and is otherwise overwritten and removed
  (or left overwritten, when it cannot be removed). The loops visit each file, in any order.
\<close>

theorem request_keeps_files:
  assumes "\<not> qf_overwrite f" and "\<And>fs. set (kl_check_order lib fs) = set fs"
    and "\<And>fs. set (kl_write_order lib fs) = set fs" and "d p = Some (File c m)"
  shows "fst (fst (request_cert lib http fault chown now f (d, os, w))) p \<in>
    (if p = join_path [request_target lib f, write_test_name] then {Some (File c m), Some (File ''ok'' m), None}
     else {Some (File c m)})"
proof (cases "p = join_path [request_target lib f, write_test_name]")
  case True
  have "fst (write_certificate_output lib fault chown now (request_target lib f) key resp
      (request_options f (split_csv (qf_dns f)) info) d os) p \<in> probed c m" for key resp info
    by (rule probe_fate) (use assms True in simp_all)
  moreover have "d p \<in> probed c m" using assms(4) by (simp add: probed_def)
  ultimately have "fst (fst (request_cert lib http fault chown now f (d, os, w))) p \<in> probed c m"
    by (auto simp: request_cert_def Let_def split: option.split sum.split prod.split) (metis fst_conv)+
  with True show ?thesis by (simp add: probed_def)
next
  case False
  have "fst (write_certificate_output lib fault chown now (request_target lib f) key resp
      (request_options f (split_csv (qf_dns f)) info) d os) p = Some (File c m)" for key resp info
    by (rule output_keeps_files) (use assms False in \<open>simp_all add: request_options_def\<close>)
  then have "fst (fst (request_cert lib http fault chown now f (d, os, w))) p = Some (File c m)"
    using assms(4) by (auto simp: request_cert_def Let_def split: option.split sum.split prod.split) (metis fst_conv)+
  with False show ?thesis by simp
qed

section \<open>A request to the server\<close>

text \<open>An answer below 300 to a certificate request comes with a stored certificate.\<close>

lemma issued_below_300:
  assumes "set schema_tables \<subseteq> set (st_tables (sv_store sv))"
    and "request_certificate sha e dp sv (Inr req) = (sv', r)" and "rs_status r < 300"
  shows "\<exists>en i. row_find en_id (st_enrollments (sv_store sv)) (cq_enrollment_id req) = Some en \<and>
    au_sign (dp_authority dp) (clk e 1) (draw e) (cq_csr_pem req) (cq_dns_names req) (dp_lifetime dp) = Inr i \<and>
    \<not> row_exists ic_serial (is_serial i) (st_certs (sv_store sv)) \<and>
    rs_body r = CertificateBody (cert_response dp i) \<and>
    st_certs (sv_store sv') = st_certs (sv_store sv) @ [issued_row e dp i (en_id en) (en_hostname en) (cq_dns_names req)]"
proof -
  note tabs = schema_in_tables [OF assms(1)]
  have nb: "trim_space (cq_enrollment_id req) \<noteq> []" using assms(2,3) by (auto simp: request_certificate_def)
  show ?thesis
  proof (cases "get_enrollment (sv_store sv) (cq_enrollment_id req)")
    case (Inl err)
    then show ?thesis using assms(2,3) nb by (auto simp: request_certificate_def)
  next
    case (Inr en)
    obtain s1 x where x: "issue e dp (sv_store sv) req (en_id en) (en_hostname en) = (s1, x)" by fastforce
    show ?thesis
    proof (cases x)
      case (Inl y)
      then show ?thesis
        using issue_cases [OF x] assms(2,3) nb Inr x by (auto simp: request_certificate_def)
    next
      case i: (Inr i)
      have "row_find en_id (st_enrollments (sv_store sv)) (cq_enrollment_id req) = Some en"
        using Inr tabs by (auto simp: get_enrollment_def split: option.splits)
      moreover have "r = reply 201 (CertificateBody (cert_response dp i))"
        and "st_certs (sv_store sv') = st_certs s1"
        using assms(2) nb Inr x i by (auto simp: request_certificate_def frame)
      ultimately show ?thesis
        using x i issue_Inr [of "sv_store sv" e dp req "en_id en" "en_hostname en" s1 i] tabs by simp
    qed
  qed
qed

lemma serve_certs: "serve sha e dp sv hreq = (sv', r) \<Longrightarrow>
    \<exists>sv1. dispatch sha e dp sv hreq = (sv1, r) \<and> sv_store sv' = sv_store sv1"
  by (cases "dispatch sha e dp sv hreq") (auto simp: serve_def Let_def)

text \<open>
  The request against the modelled server: what the client got and what the server stored. The
  last premises say that this request and this response survive JSON.
\<close>

lemma request_over_the_wire:
  assumes "set schema_tables \<subseteq> set (st_tables (sv_store sv))" and "jc_late jc" and "trim_slashes url = url"
    and "client_request_certificate jc (new_client (server_network sha dp sd e url) url) req sv = (sv', Inr resp)"
    and "sd_certificate sd (certificate_request_json req) = Inr req"
    and "\<And>i. au_sign (dp_authority dp) (clk e 1) (draw e) (cq_csr_pem req) (cq_dns_names req) (dp_lifetime dp) = Inr i \<Longrightarrow>
      jc_certificate jc (sd_render sd (CertificateBody (cert_response dp i))) = Inr (cert_response dp i)"
  shows "\<exists>en i. row_find en_id (st_enrollments (sv_store sv)) (cq_enrollment_id req) = Some en \<and>
    au_sign (dp_authority dp) (clk e 1) (draw e) (cq_csr_pem req) (cq_dns_names req) (dp_lifetime dp) = Inr i \<and>
    resp = cert_response dp i \<and>
    st_certs (sv_store sv') = st_certs (sv_store sv) @ [issued_row e dp i (en_id en) (en_hostname en) (cq_dns_names req)]"
proof -
  let ?hreq = "PostRequest (Inr req)"
  obtain sv1 r where sv: "serve sha e dp sv ?hreq = (sv1, r)" by fastforce
  have "client_post (new_client (server_network sha dp sd e url) url) ''/v1/certificates/request'' (certificate_request_json req) sv =
      (sv1, if rs_status r \<ge> 300
             then Inl (ServerReturned (sd_status_line sd (rs_status r)) (trim_space (sd_render sd (rs_body r))))
             else Inr (sd_render sd (rs_body r)))"
    using post_to_server [of sd "''/v1/certificates/request''" "certificate_request_json req" ?hreq url sha dp e sv] assms(3,5) sv
    by (simp add: new_client_plain)
  then have st: "rs_status r < 300" and "sv' = sv1" and dec: "jc_certificate jc (sd_render sd (rs_body r)) = Inr resp"
    using assms(2,4) by (auto simp: client_request_certificate_def decoded_def bindE_eq_Inr split: if_splits sum.splits)
  moreover obtain sv2 where "request_certificate sha e dp sv (Inr req) = (sv2, r)" and "sv_store sv1 = sv_store sv2"
    using serve_certs [OF sv] by auto
  ultimately show ?thesis
    using issued_below_300 [OF assms(1) _ st, of sha e dp req sv2] assms(6) by fastforce
qed

text \<open>The parts of a successful \<open>request-cert\<close>.\<close>

lemma request_cert_run:
  assumes "request_cert lib http fault chown now f (d, os, w) = ((d', os', w'), out, None)"
  obtains key csr info resp where
    "generate_key_and_csr lib (hd (split_csv (qf_dns f))) (split_csv (qf_dns f)) (qf_key_type f) (qf_curve f) (qf_rsa_bits f)
       (key_password_from lib (qf_key_password f) (qf_key_password_env f)) = Inr (key, csr, info)"
    "client_request_certificate (kl_codec lib) (new_client http (qf_url f))
       \<lparr>cq_enrollment_id = qf_enrollment f, cq_csr_pem = csr, cq_dns_names = split_csv (qf_dns f)\<rparr> w = (w', Inr resp)"
    "write_certificate_output lib fault chown now (request_target lib f) key resp
       (request_options f (split_csv (qf_dns f)) info) d os = (d', os', None)"
  using assms by (auto simp: request_cert_def Let_def split: option.splits sum.splits prod.splits)

lemma output_written:
  assumes "write_certificate_output lib fault chown now out key resp opts d os = (d', os', None)"
    and "\<And>fs. mset (kl_write_order lib fs) = mset fs"
  shows "read_file d' (join_path [out, ''tls.key'']) = Inr key \<and>
    read_file d' (join_path [out, ''tls.crt'']) = Inr (cs_cert_pem resp) \<and>
    read_file d' (join_path [out, ''ca-chain.crt'']) = Inr (cs_chain_pem resp)"
proof -
  obtain d1 files km cm own where plan: "plan_output lib fault now out key resp opts d = (d1, Inr (files, (km, cm), own))"
    and w: "write_all fault chown out km cm own (kl_write_order lib files) d1 os = (d', os', None)"
    using assms(1) by (auto simp: write_certificate_output_def split: prod.splits sum.splits)
  note files = plan_output_Inr(1) [OF plan]
  have set: "set (kl_write_order lib files) = set files" using assms(2) by (rule mset_eq_setD)
  have "mset (map fst (kl_write_order lib files)) = mset (map fst files)" using assms(2) by (simp add: mset_map)
  then have dist: "distinct (map fst (kl_write_order lib files))"
    using certificate_files_distinct [OF files] by (metis mset_eq_imp_distinct_iff)
  have plain: "\<forall>n \<in> set (map fst (kl_write_order lib files)). plain_name n"
    using certificate_files_names [OF files] output_names_plain set by auto
  note written = write_all_written [OF w dist plain]
  have "(''tls.key'', key) \<in> set files" "(''tls.crt'', cs_cert_pem resp) \<in> set files" "(''ca-chain.crt'', cs_chain_pem resp) \<in> set files"
    using files by (auto simp: certificate_files_def bindE_eq_Inr)
  then show ?thesis using written set by blast
qed

text \<open>The key and CSR a command generates, and the request it sends.\<close>

definition generated :: "client_lib \<Rightarrow> request_flags \<Rightarrow> cli_error + (string \<times> string \<times> key_metadata)" where
  "generated lib f =
     generate_key_and_csr lib (hd (split_csv (qf_dns f))) (split_csv (qf_dns f)) (qf_key_type f) (qf_curve f) (qf_rsa_bits f)
       (key_password_from lib (qf_key_password f) (qf_key_password_env f))"

definition request_of :: "request_flags \<Rightarrow> string \<Rightarrow> certificate_request" where
  "request_of f csr = \<lparr>cq_enrollment_id = qf_enrollment f, cq_csr_pem = csr, cq_dns_names = split_csv (qf_dns f)\<rparr>"

text \<open>
  C8. A \<open>request-cert\<close> that ends without an error has left on the disk the generated key, the
  certificate the server stored for the enrollment, and the server's chain: \<open>tls.crt\<close> is the
  certificate of the row the server added, issued for the request made with \<open>tls.key\<close>.
\<close>

theorem request_installs_issued:
  assumes "set schema_tables \<subseteq> set (st_tables (sv_store sv))" and "jc_late (kl_codec lib)"
    and "trim_slashes (qf_url f) = qf_url f" and "\<And>fs. mset (kl_write_order lib fs) = mset fs"
    and "\<And>key csr info. generated lib f = Inr (key, csr, info) \<Longrightarrow>
      sd_certificate sd (certificate_request_json (request_of f csr)) = Inr (request_of f csr)"
    and "\<And>csr i. au_sign (dp_authority dp) (clk e 1) (draw e) csr (split_csv (qf_dns f)) (dp_lifetime dp) = Inr i \<Longrightarrow>
      jc_certificate (kl_codec lib) (sd_render sd (CertificateBody (cert_response dp i))) = Inr (cert_response dp i)"
    and "request_cert lib (server_network sha dp sd e (qf_url f)) fault chown now f (d, os, sv) = ((d', os', sv'), out, None)"
  shows "\<exists>key csr info row i.
    generated lib f = Inr (key, csr, info) \<and>
    au_sign (dp_authority dp) (clk e 1) (draw e) csr (split_csv (qf_dns f)) (dp_lifetime dp) = Inr i \<and>
    st_certs (sv_store sv') = st_certs (sv_store sv) @ [row] \<and>
    ic_serial row = is_serial i \<and> ic_pem row = is_cert_pem i \<and> ic_enrollment_id row = qf_enrollment f \<and>
    read_file d' (join_path [request_target lib f, ''tls.key'']) = Inr key \<and>
    read_file d' (join_path [request_target lib f, ''tls.crt'']) = Inr (ic_pem row) \<and>
    read_file d' (join_path [request_target lib f, ''ca-chain.crt'']) = Inr (au_chain (dp_authority dp))"
  using assms(7)
proof (rule request_cert_run)
  fix key csr info resp
  let ?req = "request_of f csr"
  assume gen0: "generate_key_and_csr lib (hd (split_csv (qf_dns f))) (split_csv (qf_dns f)) (qf_key_type f) (qf_curve f)
      (qf_rsa_bits f) (key_password_from lib (qf_key_password f) (qf_key_password_env f)) = Inr (key, csr, info)"
    and call: "client_request_certificate (kl_codec lib) (new_client (server_network sha dp sd e (qf_url f)) (qf_url f))
      \<lparr>cq_enrollment_id = qf_enrollment f, cq_csr_pem = csr, cq_dns_names = split_csv (qf_dns f)\<rparr> sv = (sv', Inr resp)"
    and wr: "write_certificate_output lib fault chown now (request_target lib f) key resp
      (request_options f (split_csv (qf_dns f)) info) d os = (d', os', None)"
  have gen: "generated lib f = Inr (key, csr, info)" using gen0 by (simp add: generated_def)
  obtain en i where "row_find en_id (st_enrollments (sv_store sv)) (qf_enrollment f) = Some en"
    and "au_sign (dp_authority dp) (clk e 1) (draw e) csr (split_csv (qf_dns f)) (dp_lifetime dp) = Inr i"
    and resp: "resp = cert_response dp i"
    and "st_certs (sv_store sv') = st_certs (sv_store sv) @ [issued_row e dp i (en_id en) (en_hostname en) (split_csv (qf_dns f))]"
    using request_over_the_wire [OF assms(1,2,3) call [folded request_of_def] assms(5) [OF gen]] assms(6) by (auto simp: request_of_def)
  moreover from this(1) have "en_id en = qf_enrollment f" by (auto dest: row_find_SomeD)
  ultimately show ?thesis
    using gen output_written [OF wr assms(4)] by (auto simp: issued_row_def cert_response_def)
qed

lemma request_issues:
  assumes "set schema_tables \<subseteq> set (st_tables (sv_store sv))" and "trim_space (cq_enrollment_id req) \<noteq> []"
    and "row_find en_id (st_enrollments (sv_store sv)) (cq_enrollment_id req) = Some en"
    and "au_sign (dp_authority dp) (clk e 1) (draw e) (cq_csr_pem req) (cq_dns_names req) (dp_lifetime dp) = Inr i"
    and "\<not> row_exists ic_serial (is_serial i) (st_certs (sv_store sv))"
  shows "\<exists>sv'. request_certificate sha e dp sv (Inr req) = (sv', reply 201 (CertificateBody (cert_response dp i))) \<and>
    st_certs (sv_store sv') = st_certs (sv_store sv) @ [issued_row e dp i (en_id en) (en_hostname en) (cq_dns_names req)]"
proof -
  note tabs = schema_in_tables [OF assms(1)]
  have "get_enrollment (sv_store sv) (cq_enrollment_id req) = Inr en"
    using assms(3) tabs by (simp add: get_enrollment_def)
  moreover obtain s' where "issue e dp (sv_store sv) req (en_id en) (en_hostname en) = (s', Inr i)"
    and "st_certs s' = st_certs (sv_store sv) @ [issued_row e dp i (en_id en) (en_hostname en) (cq_dns_names req)]"
    using issue_Inr [of "sv_store sv" e dp req "en_id en" "en_hostname en" _ i] tabs assms(4,5) by simp
  ultimately show ?thesis using assms(2) by (simp add: request_certificate_def frame)
qed

lemma tls_key_names: "plain_name write_test_name" "plain_name ''tls.key''" "plain_name ''tls.crt''" "''tls.key'' \<noteq> write_test_name"
  by (simp_all add: output_names_plain output_names_def) (simp add: write_test_name_def)

lemma existing_key_refused:
  assumes "\<not> oo_overwrite opts" and "\<And>fs. set (kl_check_order lib fs) = set fs"
    and "d (join_path [out, ''tls.key'']) = Some (File old m)"
  shows "snd (snd (write_certificate_output lib fault chown now out key resp opts d os)) \<noteq> None"
proof (cases "plan_output lib fault now out key resp opts d")
  case (Pair d1 r)
  have d1: "exists_path d1 (join_path [out, ''tls.key''])"
    using plan_output_disk [OF Pair assms(3)] tls_key_names by (simp add: join_path_inject exists_path_def)
  show ?thesis
  proof (cases r)
    case (Inl e)
    then show ?thesis using Pair by (simp add: write_certificate_output_def)
  next
    case (Inr x)
    obtain files modes own where x: "x = (files, modes, own)" by (cases x) auto
    note plan = plan_output_Inr [OF Pair [unfolded Inr x]]
    have "''tls.key'' \<in> set (map fst files)" using plan(1) by (auto simp: certificate_files_def bindE_eq_Inr)
    moreover have "\<forall>n \<in> set (map fst files). \<not> exists_path d1 (join_path [out, n])"
      using plan(2) assms(1,2) by (simp add: first_existing_None)
    ultimately show ?thesis using d1 by blast
  qed
qed

text \<open>A request the server grants, seen from the client: the row is stored, whatever is made of the answer.\<close>

lemma request_stored:
  assumes "set schema_tables \<subseteq> set (st_tables (sv_store sv))" and "trim_space (cq_enrollment_id q) \<noteq> []"
    and "trim_slashes url = url" and "sd_certificate sd (certificate_request_json q) = Inr q"
    and "row_find en_id (st_enrollments (sv_store sv)) (cq_enrollment_id q) = Some en"
    and "au_sign (dp_authority dp) (clk e 1) (draw e) (cq_csr_pem q) (cq_dns_names q) (dp_lifetime dp) = Inr i"
    and "\<not> row_exists ic_serial (is_serial i) (st_certs (sv_store sv))"
  obtains sv' r where "client_request_certificate jc (new_client (server_network sha dp sd e url) url) q sv = (sv', r)"
    and "st_certs (sv_store sv') = st_certs (sv_store sv) @ [issued_row e dp i (en_id en) (en_hostname en) (cq_dns_names q)]"
proof -
  let ?row = "issued_row e dp i (en_id en) (en_hostname en) (cq_dns_names q)"
  obtain sv1 where req: "request_certificate sha e dp sv (Inr q) = (sv1, reply 201 (CertificateBody (cert_response dp i)))"
    and certs: "st_certs (sv_store sv1) = st_certs (sv_store sv) @ [?row]"
    using request_issues [of sv q en dp e i sha] assms by auto
  obtain sv2 where serve: "serve sha e dp sv (PostRequest (Inr q)) = (sv2, reply 201 (CertificateBody (cert_response dp i)))"
    and "sv_store sv2 = sv_store sv1"
    using req by (simp add: serve_def Let_def reply_def)
  then have "st_certs (sv_store sv2) = st_certs (sv_store sv) @ [?row]" using certs by simp
  moreover have "client_post (new_client (server_network sha dp sd e url) url) ''/v1/certificates/request''
      (certificate_request_json q) sv = (sv2, Inr (sd_render sd (CertificateBody (cert_response dp i))))"
    using post_to_server [of sd "''/v1/certificates/request''" _ "PostRequest (Inr q)" url sha dp e sv]
      assms(3,4) serve by (simp add: new_client_plain reply_def)
  ultimately show ?thesis using that by (simp add: client_request_certificate_def)
qed

text \<open>
  C32. The other way round the order matters: the certificate is requested before the output is
  looked at. With a key already at the target and no \<open>--overwrite\<close> the command fails and keeps
  that key, but the server has issued and stored a certificate, and the key it belongs to is
  nowhere on the disk.
\<close>

theorem refused_request_still_issues:
  assumes "set schema_tables \<subseteq> set (st_tables (sv_store sv))" and "validate_enrollment_id lib (qf_enrollment f) = None"
    and "trim_slashes (qf_url f) = qf_url f" and "generated lib f = Inr (key, csr, info)"
    and "sd_certificate sd (certificate_request_json (request_of f csr)) = Inr (request_of f csr)"
    and "row_find en_id (st_enrollments (sv_store sv)) (qf_enrollment f) = Some en"
    and "au_sign (dp_authority dp) (clk e 1) (draw e) csr (split_csv (qf_dns f)) (dp_lifetime dp) = Inr i"
    and "\<not> row_exists ic_serial (is_serial i) (st_certs (sv_store sv))"
    and "\<not> qf_overwrite f" and "\<And>fs. set (kl_check_order lib fs) = set fs" and "\<And>fs. set (kl_write_order lib fs) = set fs"
    and "d (join_path [request_target lib f, ''tls.key'']) = Some (File old m)"
  shows "\<exists>d' os' sv' err row.
    request_cert lib (server_network sha dp sd e (qf_url f)) fault chown now f (d, os, sv) = ((d', os', sv'), [], Some err) \<and>
    d' (join_path [request_target lib f, ''tls.key'']) = Some (File old m) \<and>
    st_certs (sv_store sv') = st_certs (sv_store sv) @ [row] \<and> ic_serial row = is_serial i \<and> ic_revoked_at row = None"
proof -
  let ?net = "server_network sha dp sd e (qf_url f)" and ?key = "join_path [request_target lib f, ''tls.key'']"
  let ?row = "issued_row e dp i (en_id en) (en_hostname en) (split_csv (qf_dns f))"
  have "trim_space (qf_enrollment f) \<noteq> []" using assms(2) by (auto simp: validate_enrollment_id_def split: if_splits)
  then obtain sv2 r where call: "client_request_certificate (kl_codec lib) (new_client ?net (qf_url f)) (request_of f csr) sv = (sv2, r)"
    and certs2: "st_certs (sv_store sv2) = st_certs (sv_store sv) @ [?row]"
    using request_stored [of sv "request_of f csr" "qf_url f" sd en dp e i "kl_codec lib" sha] assms(1,3,5-8)
    by (auto simp: request_of_def)
  have row: "ic_serial ?row = is_serial i" "ic_revoked_at ?row = None" by (simp_all add: issued_row_def)
  show ?thesis
  proof (cases r)
    case (Inl err)
    then have "request_cert lib ?net fault chown now f (d, os, sv) = ((d, os, sv2), [], Some (ApiFailed err))"
      using assms(2,4) call by (simp add: request_cert_def Let_def generated_def request_of_def)
    then show ?thesis using assms(12) certs2 row by blast
  next
    case (Inr resp)
    obtain d' os' eo where w: "write_certificate_output lib fault chown now (request_target lib f) key resp
        (request_options f (split_csv (qf_dns f)) info) d os = (d', os', eo)" by (metis prod_cases3)
    have "?key \<noteq> join_path [request_target lib f, write_test_name]"
      using tls_key_names by (simp add: join_path_inject)
    then have kept: "d' ?key = Some (File old m)"
      using output_keeps_files [of "request_options f (split_csv (qf_dns f)) info" lib d ?key old m] assms(9-12) w
      by (simp add: request_options_def) (metis fst_conv)
    have "eo \<noteq> None"
      using existing_key_refused [of "request_options f (split_csv (qf_dns f)) info" lib d "request_target lib f" old m] assms(9,10,12) w
      by (simp add: request_options_def) (metis snd_conv)
    then obtain err where "eo = Some err" by blast
    then have "request_cert lib ?net fault chown now f (d, os, sv) = ((d', os', sv2), [], Some err)"
      using assms(2,4) call Inr w by (simp add: request_cert_def Let_def generated_def request_of_def)
    then show ?thesis using kept certs2 row by blast
  qed
qed

section \<open>Renewal\<close>

text \<open>
  \<open>renew\<close> replaces the files of the old certificate without asking and without a temporary
  copy, in a random order. When the key comes first and \<open>tls.crt\<close> cannot be written, the
  directory is left with the new key beside the old certificate.
\<close>

theorem interrupted_renewal_mismatch:
  assumes "validate_enrollment_id lib enrollment = None"
    and "generate_rsa_csr lib (hd (split_csv dns)) (split_csv dns) = Inr (key, csr)"
    and "client_renew_certificate (kl_codec lib) (new_client http url)
      \<lparr>cq_enrollment_id = enrollment, cq_csr_pem = csr, cq_dns_names = split_csv dns\<rparr> w = (w', Inr resp)"
    and "kl_bundle_order lib (bundle_files key resp) = (''tls.key'', key) # (''tls.crt'', cs_cert_pem resp) # rest"
    and "out \<noteq> []" and "is_dir d out"
    and "d (join_path [out, ''tls.key'']) = Some (File old_key mk)" and "d (join_path [out, ''tls.crt'']) = Some (File old_cert mc)"
    and "fault (join_path [out, ''tls.key'']) = None" and "fault (join_path [out, ''tls.crt'']) = Some err"
  shows "\<exists>d'. renew_command lib http fault url dns out enrollment (d, os, w) = ((d', os, w'), [], Some (CliOs err)) \<and>
    d' (join_path [out, ''tls.key'']) = Some (File key mk) \<and> d' (join_path [out, ''tls.crt'']) = Some (File old_cert mc)"
proof -
  let ?kp = "join_path [out, ''tls.key'']" and ?cp = "join_path [out, ''tls.crt'']"
  have "?kp \<noteq> ?cp" using tls_key_names by (simp add: join_path_inject)
  then have "write_bundle lib fault out key resp d = (d(?kp \<mapsto> File key mk), Inl (CliOs err))"
    using assms(4,6-10)
    by (simp add: write_bundle_def io_bind_def io_mkdir_def io_update_def mkdir_all_def io_write_def write_file_def)
  then show ?thesis
    using assms(1-3,5,8) \<open>?kp \<noteq> ?cp\<close> by (simp add: renew_command_def Let_def)
qed

section \<open>Where certificates go by default\<close>

definition certs_parts :: "client_lib \<Rightarrow> string list" where
  "certs_parts lib =
     (if kl_home lib = [] then [''.'']
      else if kl_os lib = ''darwin'' then [kl_home lib, ''Library'', ''Application Support'', ''ironroot'']
      else [kl_home lib, ''.local'', ''share'', ''ironroot''])"

text \<open>The directory \<open>certs\<close> all default output directories are meant to be in.\<close>

definition certs_dir :: "client_lib \<Rightarrow> string" where
  "certs_dir lib = join_path (certs_parts lib @ [''certs''])"

lemma default_output_parts: "default_output_dir lib v = join_path (certs_parts lib @ [''certs'', safe_path_name v])"
  by (simp add: default_output_dir_def default_dir_for_def certs_parts_def)

lemma certs_parts_nonempty: "[] \<notin> set (certs_parts lib)" "certs_parts lib \<noteq> []"
  by (simp_all add: certs_parts_def)

lemma join_path_nonempty: "[] \<notin> set ps \<Longrightarrow> ps \<noteq> [] \<Longrightarrow> join_path ps = clean_path (join ''/'' ps)"
proof -
  assume "[] \<notin> set ps" "ps \<noteq> []"
  then have "filter (\<lambda>p. p \<noteq> []) ps = ps" by (auto simp: filter_id_conv)
  with \<open>ps \<noteq> []\<close> show ?thesis by (simp add: join_path_def)
qed

lemma join_append2: "ps \<noteq> [] \<Longrightarrow> qs \<noteq> [] \<Longrightarrow> join sep (ps @ qs) = join sep ps @ sep @ join sep qs"
  by (induction sep ps rule: join.induct) (auto simp: join_cons)

lemma join_nonempty: "[] \<notin> set ps \<Longrightarrow> ps \<noteq> [] \<Longrightarrow> join sep ps \<noteq> []"
  by (induction sep ps rule: join.induct) auto

lemma clean_dir_prefix: "p \<noteq> [] \<Longrightarrow> clean_path (dir_prefix p) = clean_path p"
proof (cases "path_parts p = []")
  case True
  have "clean_path [] = ''.''" "clean_path ''/'' = ''/''" by code_simp+
  then show "p \<noteq> [] \<Longrightarrow> clean_path (dir_prefix p) = clean_path p"
    using True by (simp add: dir_prefix_clean clean_path_parts [of p])
next
  case False
  assume p: "p \<noteq> []"
  have "path_parts (clean_path p @ ''/'') = path_parts p" "is_abs (clean_path p @ ''/'') = is_abs p"
    using path_parts_slash_end [OF clean_path_nonempty] is_abs_append [OF clean_path_nonempty] path_parts_clean [of p] by simp_all
  then have "clean_path (clean_path p @ ''/'') = clean_path p"
    by (simp add: clean_path_parts [of "clean_path p @ ''/''"]) (simp add: clean_path_parts)
  then show ?thesis using p False by (simp add: dir_prefix_clean)
qed

lemma safe_path_plain:
  assumes "trim_space v \<notin> {''.'', ''..''}"
  shows "plain_name (safe_path_name v)"
proof -
  let ?g = "\<lambda>c. if unsafe_char c then CHR ''_'' else c"
  have dot: "?g c = CHR ''.'' \<longleftrightarrow> c = CHR ''.''" for c by (simp add: unsafe_char_def)
  have "map ?g t = ''.'' \<longleftrightarrow> t = ''.''" "map ?g t = ''..'' \<longleftrightarrow> t = ''..''" for t
    using dot by (auto simp: map_eq_Cons_conv)
  moreover have "CHR ''/'' \<notin> set (map ?g t)" for t
  proof -
    have "CHR ''/'' \<noteq> ?g c" for c by (auto simp: unsafe_char_def)
    then show ?thesis by (simp add: image_iff unsafe_char_def)
  qed
  ultimately show ?thesis using assms by (simp add: plain_name_def safe_path_name_def Let_def)
qed

lemma clean_parts_up: "plain_name n \<Longrightarrow> clean_parts r acc (ps @ [n, ''..'']) = clean_parts r acc ps"
  by (induction r acc ps rule: clean_parts.induct) (auto simp: plain_name_def split: list.splits)

lemma clean_up:
  assumes "plain_name n" and "p \<noteq> []"
  shows "clean_path (p @ ''/'' @ n @ ''/..'') = clean_path p"
proof -
  have n: "CHR ''/'' \<notin> set n" using assms(1) by (simp add: plain_name_def)
  have "split_on (CHR ''/'') (p @ ''/'' @ n @ ''/..'') = split_on (CHR ''/'') p @ [n, ''..'']"
    using split_on_snoc [of "CHR ''/''" "''..''" "p @ ''/'' @ n"] split_on_snoc [OF n, of p] by simp
  moreover have "is_abs (p @ ''/'' @ n @ ''/..'') = is_abs p" using assms(2) by (rule is_abs_append)
  ultimately show ?thesis by (simp add: clean_path_def clean_parts_up [OF assms(1)])
qed

text \<open>
  The default output directory for a DNS name is a directory of its own in \<open>certs\<close>, since the
  path separators of the name are replaced, unless the name is a dot name: for \<open>..\<close> the files go
  into the parent of \<open>certs\<close>.
\<close>

theorem default_dir_contained:
  "(trim_space v \<notin> {''.'', ''..''} \<longrightarrow> dir_of (default_output_dir lib v) = certs_dir lib) \<and>
   (trim_space v = ''..'' \<longrightarrow> default_output_dir lib v = dir_of (certs_dir lib))"
proof -
  let ?p = "join ''/'' (certs_parts lib)" and ?q = "join ''/'' (certs_parts lib @ [''certs''])"
  note ne = certs_parts_nonempty [of lib]
  have q: "?q = ?p @ ''/certs''" using join_append2 [OF ne(2), of "[''certs'']" "''/''"] by simp
  have pn: "?p \<noteq> []" and qn: "?q \<noteq> []" using ne by (simp_all add: join_nonempty)
  have certs: "certs_dir lib = clean_path ?q" using ne by (simp add: certs_dir_def join_path_nonempty)
  have plain: "plain_name ''certs''" by (simp add: plain_name_def)
  have "dir_of (default_output_dir lib v) = certs_dir lib" if "trim_space v \<notin> {''.'', ''..''}"
  proof -
    note n = safe_path_plain [OF that]
    have "default_output_dir lib v = join_path [?q, safe_path_name v]"
      using ne n join_append2 [of "certs_parts lib @ [''certs'']" "[safe_path_name v]" "''/''"] qn
      by (subst join_path_nonempty) (auto simp: default_output_parts join_path_nonempty plain_name_def)
    then show ?thesis using dir_of_join [OF n] clean_dir_prefix [OF qn] certs by simp
  qed
  moreover have "default_output_dir lib v = dir_of (certs_dir lib)" if "trim_space v = ''..''"
  proof -
    have s: "safe_path_name v = ''..''" using that by (simp add: safe_path_name_def unsafe_char_def)
    have "default_output_dir lib v = clean_path (?p @ ''/'' @ ''certs'' @ ''/..'')"
      using ne join_append2 [OF ne(2), of "[''certs'', ''..'']" "''/''"]
      by (simp add: default_output_parts join_path_nonempty s)
    also have "\<dots> = clean_path ?p" by (rule clean_up [OF plain pn])
    also have "\<dots> = dir_of (join_path [?p, ''certs''])" using dir_of_join [OF plain] clean_dir_prefix [OF pn] by simp
    also have "join_path [?p, ''certs''] = certs_dir lib" using pn certs q by (simp add: join_path_nonempty)
    finally show ?thesis .
  qed
  ultimately show ?thesis by blast
qed

section \<open>Witnesses\<close>

definition demo_client_issued :: issued where
  "demo_client_issued = \<lparr>is_serial = ''ff'', is_cert_pem = demo_pem_encode \<lparr>pb_type = ''CERTIFICATE'', pb_headers = [], pb_bytes = ''c''\<rparr>,
     is_not_before = 0, is_not_after = hour\<rparr>"

definition demo_client_deps :: dependencies where
  "demo_client_deps = \<lparr>dp_lifetime = hour, dp_renew_before = minute,
     dp_authority = \<lparr>au_sign = (\<lambda>now serial csr dns life. Inr demo_client_issued), au_chain = ''chain'', au_root = ''root'',
       au_ca_id = ''ca''\<rparr>\<rparr>"

definition demo_client :: client_lib where
  "demo_client =
     \<lparr>kl_local = demo_local,
      kl_codec = \<lparr>jc_enrolled = Inr, jc_certificate = (\<lambda>_. Inr (cert_response demo_client_deps demo_client_issued)),
        jc_object = Inr, jc_late = True\<rparr>,
      kl_create_csr = (\<lambda>n dns k. Inr ''csr''), kl_pkcs1 = (\<lambda>k. k), kl_uuid_ok = (\<lambda>i. True), kl_user = (\<lambda>n. None),
      kl_group = (\<lambda>n. None), kl_getenv = (\<lambda>n. []), kl_home = ''/home/u'', kl_os = ''linux'', kl_hostname = ''node'',
      kl_mac = [], kl_algorithm = key_algorithm, kl_blocks = (\<lambda>t. []), kl_render = (\<lambda>fields. Inr ''{}''),
      kl_check_order = rev, kl_write_order = (\<lambda>fs. fs), kl_bundle_order = (\<lambda>fs. fs)\<rparr>"

definition demo_flags :: request_flags where
  "demo_flags = (default_request_flags ''node.local'' ''en'')\<lparr>qf_out := ''.''\<rparr>"

definition demo_server_codec :: server_codec where
  "demo_server_codec =
     \<lparr>sd_enroll = Inl, sd_certificate = (\<lambda>_. Inr (request_of demo_flags (pem_text demo_local ''CERTIFICATE REQUEST'' ''csr''))),
      sd_revoke = Inl, sd_render = (\<lambda>b. []), sd_status_line = show_int, sd_serial = (\<lambda>q. q),
      sd_other = (\<lambda>r. \<lparr>ws_code = 404, ws_status = ''404 Not Found'', ws_body = Inr []\<rparr>)\<rparr>"

lemma demo_flag_values:
  "split_csv (qf_dns demo_flags) = [''node.local'']" "request_target demo_client demo_flags = ''.''"
  "trim_slashes (qf_url demo_flags) = qf_url demo_flags"
  "validate_enrollment_id demo_client (qf_enrollment demo_flags) = None"
proof -
  have "split_csv ''node.local'' = [''node.local'']" "trim_space ''.'' = ''.''" "trim_space ''en'' = ''en''"
    "trim_slashes ''http://localhost:8443'' = ''http://localhost:8443''" by code_simp+
  then show "split_csv (qf_dns demo_flags) = [''node.local'']" "request_target demo_client demo_flags = ''.''"
    "trim_slashes (qf_url demo_flags) = qf_url demo_flags"
    "validate_enrollment_id demo_client (qf_enrollment demo_flags) = None"
    by (simp_all add: demo_flags_def default_request_flags_def request_target_def validate_enrollment_id_def demo_client_def)
qed

lemma demo_generated:
  "\<exists>info. generated demo_client demo_flags =
     Inr (pem_text demo_local ''PRIVATE KEY'' ''k'', pem_text demo_local ''CERTIFICATE REQUEST'' ''csr'', info)"
proof -
  have "to_lower (trim_space ''ecdsa'') \<noteq> []" "to_lower ''ecdsa'' = ''ecdsa''" "elliptic_curve ''p256'' = Some P256" by code_simp+
  then show ?thesis
    by (simp add: generated_def generate_key_and_csr_def key_and_csr_def Let_def demo_flags_def default_request_flags_def
        key_password_from_def marshal_private_key_pem_def create_csr_def cli_result_def demo_client_def demo_local_def)
qed

lemma demo_fields:
  "sd_certificate demo_server_codec s = Inr (request_of demo_flags (pem_text demo_local ''CERTIFICATE REQUEST'' ''csr''))"
  "row_find en_id (st_enrollments (sv_store demo_server)) (qf_enrollment demo_flags) = Some demo_enrollment"
  "au_sign (dp_authority demo_client_deps) now serial csr dns life = Inr demo_client_issued"
  "\<not> row_exists ic_serial k (st_certs (sv_store demo_server))" "\<not> qf_overwrite demo_flags" "qf_enrollment demo_flags = ''en''"
  "kl_check_order demo_client fs = rev fs" "kl_write_order demo_client fs = fs" "jc_late (kl_codec demo_client)"
  "jc_certificate (kl_codec demo_client) t = Inr (cert_response demo_client_deps demo_client_issued)"
  "row_find en_id [demo_enrollment] ''en'' = Some demo_enrollment" "\<not> row_exists ic_serial k []"
  by (simp_all add: demo_server_codec_def row_find_def demo_enrollment_def demo_client_deps_def row_exists_def demo_client_def
      demo_flags_def default_request_flags_def)

lemma here: "n \<in> set output_names \<Longrightarrow> join_path [''.'', n] = n"
  by (rule join_path_here) (rule output_names_plain)

lemma io_bind_check: "io_bind (\<lambda>d. (d, r d)) f d = (case r d of Inl e \<Rightarrow> (d, Inl e) | Inr x \<Rightarrow> f x d)"
  by (simp add: io_bind_def split: sum.split)

lemma write_file_here: "plain_name n \<Longrightarrow> d n = None \<Longrightarrow> write_file no_fault d n c m = Inr (d(n \<mapsto> File c m))"
  by (simp add: write_file_def no_fault_def parent_path_def split_on_no_sep plain_name_def)

lemma write_all_here:
  "set (map fst fs) \<subseteq> set output_names \<Longrightarrow> distinct (map fst fs) \<Longrightarrow> \<forall>n \<in> set (map fst fs). d n = None \<Longrightarrow>
    \<exists>d' os'. write_all no_fault chown ''.'' km cm (u, g, False) fs d os = (d', os', None)"
proof (induction fs arbitrary: d)
  case (Cons f fs)
  obtain n b where f: "f = (n, b)" by (cases f)
  have n: "join_path [''.'', n] = n" "plain_name n" "d n = None"
    using Cons.prems(1,3) here output_names_plain by (auto simp: f)
  have wf: "write_file no_fault d n b mo = Inr (d(n \<mapsto> File b mo))" for mo
    using n(2,3) by (rule write_file_here)
  let ?d = "d(n \<mapsto> File b (file_mode (if n = ''tls.key'' then km else cm)))"
  have "\<forall>k \<in> set (map fst fs). ?d k = None" using Cons.prems(2,3) by (simp add: f image_iff) (metis fst_conv)
  then have "\<exists>d' os'. write_all no_fault chown ''.'' km cm (u, g, False) fs ?d os = (d', os', None)"
    using Cons.IH Cons.prems(1,2) by (simp add: f)
  moreover have "write_all no_fault chown ''.'' km cm (u, g, False) (f # fs) d os = write_all no_fault chown ''.'' km cm (u, g, False) fs ?d os"
    unfolding f write_all.simps Let_def n(1) wf sum.case by simp
  ultimately show ?case by simp
qed simp

text \<open>The current directory with none of the names that the command uses.\<close>

definition free_here :: "disk \<Rightarrow> bool" where
  "free_here d \<longleftrightarrow> d ''.'' = Some Dir \<and> (\<forall>n \<in> set output_names. d n = None)"

lemma free_here_simps: "free_here d \<Longrightarrow> d ''.'' = Some Dir" "free_here d \<Longrightarrow> n \<in> set output_names \<Longrightarrow> d n = None"
  by (simp_all add: free_here_def)

lemma demo_writable:
  assumes "free_here d"
  shows "validate_output_writable no_fault ''.'' d = (d, Inr ())"
proof -
  have n: "plain_name write_test_name" "join_path [''.'', write_test_name] = write_test_name"
    by (simp_all add: output_names_plain here output_names_def)
  have f: "d write_test_name = None" using assms by (rule free_here_simps) (simp add: output_names_def)
  then have "d(write_test_name := None) = d" by (rule fun_upd_idem)
  then show ?thesis using n f by (simp add: validate_output_writable_def io_bind_write no_fault_def)
qed

lemma demo_nothing_there:
  assumes "set (map fst fs) \<subseteq> set output_names" and "free_here d"
  shows "first_existing d ''.'' (kl_check_order demo_client fs) = None"
proof -
  have ex: "n \<in> set output_names \<Longrightarrow> \<not> exists_path d (join_path [''.'', n])" for n
    using here [of n] free_here_simps(2) [OF assms(2)] by (simp add: exists_path_def)
  have "set (map fst (kl_check_order demo_client fs)) = set (map fst fs)" by (simp add: demo_fields)
  then show ?thesis using assms(1) ex unfolding first_existing_None by blast
qed

lemma demo_output_written:
  assumes "free_here d"
  shows "\<exists>d' os'. write_certificate_output demo_client no_fault (\<lambda>p u g. None) 0 ''.'' key
     (cert_response demo_client_deps demo_client_issued) (request_options demo_flags [''node.local''] info) d os = (d', os', None)"
proof -
  let ?resp = "cert_response demo_client_deps demo_client_issued" and ?opts = "request_options demo_flags [''node.local''] info"
  have low: "to_lower ''pem'' = ''pem''" by code_simp
  obtain c where "parse_pem_certificate demo_client (cs_cert_pem ?resp) = Inr c"
    by (simp add: parse_pem_certificate_def cert_response_def demo_client_issued_def demo_client_def demo_local_def
        demo_pem_roundtrip cli_result_def demo_lib_def)
  then obtain m where files: "certificate_files demo_client 0 key ?resp ?opts = Inr
      [(''tls.key'', key), (''tls.crt'', cs_cert_pem ?resp), (''ca-chain.crt'', cs_chain_pem ?resp),
       (''fullchain.crt'', cs_cert_pem ?resp @ cs_chain_pem ?resp), (''metadata.json'', m),
       (''fingerprints.txt'', certificate_fingerprints demo_client ?resp), (''README.txt'', certificate_readme True)]"
    by (simp add: certificate_files_def certificate_metadata_def Let_def cli_result_def demo_client_def request_options_def
        demo_flags_def default_request_flags_def)
  have opts: "oo_format ?opts = ''pem''" "\<not> oo_overwrite ?opts" "oo_chmod ?opts = []" "oo_owner ?opts = []" "oo_group ?opts = []"
    by (simp_all add: request_options_def demo_flags_def default_request_flags_def)
  define fs where "fs = [(''tls.key'', key), (''tls.crt'', cs_cert_pem ?resp), (''ca-chain.crt'', cs_chain_pem ?resp),
       (''fullchain.crt'', cs_cert_pem ?resp @ cs_chain_pem ?resp), (''metadata.json'', m),
       (''fingerprints.txt'', certificate_fingerprints demo_client ?resp), (''README.txt'', certificate_readme True)]"
  note files = files [folded fs_def]
  have names: "set (map fst fs) \<subseteq> set output_names" "distinct (map fst fs)"
    by (simp_all add: fs_def output_names_def)
  have mk: "io_mkdir (OutputDir ''.'') no_fault ''.'' d = (d, Inr ())"
    by (simp add: io_mkdir_def io_update_def mkdir_all_def no_fault_def is_dir_def free_here_simps(1) [OF assms])
  have plan: "plan_output demo_client no_fault 0 ''.'' key ?resp ?opts d =
      (d, Inr (fs, (384, 420), (-1, -1, False)))"
  proof -
    have mk': "io_bind (io_mkdir (OutputDir ''.'') no_fault ''.'') f d = f () d"
      for f :: "unit \<Rightarrow> (cli_error, (string \<times> string) list \<times> (nat \<times> nat) \<times> (int \<times> int \<times> bool)) io"
      using mk by (rule io_bind_step)
    have w': "io_bind (validate_output_writable no_fault ''.'') f d = f () d"
      for f :: "unit \<Rightarrow> (cli_error, (string \<times> string) list \<times> (nat \<times> nat) \<times> (int \<times> int \<times> bool)) io"
      using demo_writable [OF assms] by (rule io_bind_step)
    show ?thesis
      unfolding plan_output_def opts low
      by (simp add: mk' w' io_bind_lift io_bind_check files demo_nothing_there [OF names(1) assms] opts
          output_modes_def resolve_owner_group_def)
  qed
  from names have "\<exists>d' os'. write_all no_fault (\<lambda>p u g. None) ''.'' 384 420 (-1, -1, False) fs d os = (d', os', None)"
    by (rule write_all_here) (use free_here_simps(2) [OF assms] names(1) in blast)
  then show ?thesis
    using plan by (simp add: write_certificate_output_def demo_fields)
qed

definition demo_client_net :: "server network" where
  "demo_client_net = server_network demo_sha demo_client_deps demo_server_codec demo_env (qf_url demo_flags)"

lemma demo_request:
  assumes "free_here d"
  shows "\<exists>d' os' sv' out. request_cert demo_client demo_client_net no_fault (\<lambda>p u g. None) 0 demo_flags
    (d, Map.empty, demo_server) = ((d', os', sv'), out, None)"
proof -
  let ?net = "server_network demo_sha demo_client_deps demo_server_codec demo_env (qf_url demo_flags)"
  let ?csr = "pem_text demo_local ''CERTIFICATE REQUEST'' ''csr''"
  obtain info where g: "generated demo_client demo_flags = Inr (pem_text demo_local ''PRIVATE KEY'' ''k'', ?csr, info)"
    using demo_generated by blast
  have "trim_space (cq_enrollment_id (request_of demo_flags ?csr)) \<noteq> []"
    using demo_find(2) by (simp add: request_of_def demo_fields demo_cert_request_def)
  then obtain sv1 where req: "request_certificate demo_sha demo_env demo_client_deps demo_server (Inr (request_of demo_flags ?csr)) =
      (sv1, reply 201 (CertificateBody (cert_response demo_client_deps demo_client_issued)))"
    using request_issues [of demo_server "request_of demo_flags ?csr" demo_enrollment demo_client_deps demo_env demo_client_issued demo_sha]
    by (auto simp: request_of_def demo_fields)
  then obtain sv2 where "serve demo_sha demo_env demo_client_deps demo_server (PostRequest (Inr (request_of demo_flags ?csr))) =
      (sv2, reply 201 (CertificateBody (cert_response demo_client_deps demo_client_issued)))"
    by (simp add: serve_def Let_def reply_def)
  then have call: "client_request_certificate (kl_codec demo_client) (new_client ?net (qf_url demo_flags)) (request_of demo_flags ?csr) demo_server =
      (sv2, Inr (cert_response demo_client_deps demo_client_issued))"
    using post_to_server [of demo_server_codec "''/v1/certificates/request''" "certificate_request_json (request_of demo_flags ?csr)"
        "PostRequest (Inr (request_of demo_flags ?csr))" "qf_url demo_flags" demo_sha demo_client_deps demo_env demo_server]
    by (simp add: client_request_certificate_def new_client_plain demo_flag_values demo_fields reply_def decoded_def)
  obtain d' os' where w: "write_certificate_output demo_client no_fault (\<lambda>p u g. None) 0 (request_target demo_client demo_flags)
      (pem_text demo_local ''PRIVATE KEY'' ''k'') (cert_response demo_client_deps demo_client_issued)
      (request_options demo_flags (split_csv (qf_dns demo_flags)) info) d Map.empty = (d', os', None)"
    using demo_output_written [OF assms] by (metis demo_flag_values(1,2))
  have "request_cert demo_client ?net no_fault (\<lambda>p u g. None) 0 demo_flags (d, Map.empty, demo_server) =
      ((d', os', sv2), success_text (request_target demo_client demo_flags) (cert_response demo_client_deps demo_client_issued) (qf_bundle demo_flags), None)"
    using demo_flag_values(4) g call w by (simp add: request_cert_def Let_def generated_def request_of_def)
  then show ?thesis unfolding demo_client_net_def by blast
qed

theorem request_installs_issued_witness:
  "\<exists>d' os' sv' out row. request_cert demo_client
       (server_network demo_sha demo_client_deps demo_server_codec demo_env (qf_url demo_flags)) no_fault (\<lambda>p u g. None) 0 demo_flags
       (empty_disk, Map.empty, demo_server) = ((d', os', sv'), out, None) \<and>
     st_certs (sv_store sv') = [row] \<and> ic_enrollment_id row = ''en'' \<and> read_file d' ''tls.crt'' = Inr (ic_pem row)"
proof -
  obtain info where g: "generated demo_client demo_flags =
      Inr (pem_text demo_local ''PRIVATE KEY'' ''k'', pem_text demo_local ''CERTIFICATE REQUEST'' ''csr'', info)"
    using demo_generated by blast
  have "free_here empty_disk" using output_names_plain by (auto simp: free_here_def empty_disk_def plain_name_def)
  then obtain d' os' sv' out where run: "request_cert demo_client
      (server_network demo_sha demo_client_deps demo_server_codec demo_env (qf_url demo_flags)) no_fault (\<lambda>p u g. None) 0 demo_flags
      (empty_disk, Map.empty, demo_server) = ((d', os', sv'), out, None)"
    using demo_request unfolding demo_client_net_def by blast
  have "\<exists>key csr info row i. generated demo_client demo_flags = Inr (key, csr, info) \<and>
    au_sign (dp_authority demo_client_deps) (clk demo_env 1) (draw demo_env) csr (split_csv (qf_dns demo_flags)) (dp_lifetime demo_client_deps) = Inr i \<and>
    st_certs (sv_store sv') = st_certs (sv_store demo_server) @ [row] \<and>
    ic_serial row = is_serial i \<and> ic_pem row = is_cert_pem i \<and> ic_enrollment_id row = qf_enrollment demo_flags \<and>
    read_file d' (join_path [request_target demo_client demo_flags, ''tls.key'']) = Inr key \<and>
    read_file d' (join_path [request_target demo_client demo_flags, ''tls.crt'']) = Inr (ic_pem row) \<and>
    read_file d' (join_path [request_target demo_client demo_flags, ''ca-chain.crt'']) = Inr (au_chain (dp_authority demo_client_deps))"
    by (rule request_installs_issued [OF demo_server_simps(1) demo_fields(9) demo_flag_values(3) _ _ _ run]) (simp_all add: demo_fields g)
  then show ?thesis
    using run by (auto simp: demo_fields demo_flag_values here output_names_def)
qed

text \<open>A request that succeeds beside a file of the user.\<close>

theorem request_keeps_files_witness:
  "\<exists>d' os' sv' out. request_cert demo_client demo_client_net no_fault (\<lambda>p u g. None) 0 demo_flags
      (empty_disk(''notes'' \<mapsto> File ''mine'' 420), Map.empty, demo_server) = ((d', os', sv'), out, None) \<and>
     d' ''notes'' = Some (File ''mine'' 420)"
proof -
  let ?d = "empty_disk(''notes'' \<mapsto> File ''mine'' 420)"
  have n: "n \<noteq> ''notes''" if "n \<in> set output_names" for n
    using that by (auto simp: output_names_def write_test_name_def)
  have "free_here ?d" using output_names_plain n by (auto simp: free_here_def empty_disk_def plain_name_def)
  then obtain d' os' sv' out where run: "request_cert demo_client demo_client_net no_fault (\<lambda>p u g. None) 0 demo_flags
      (?d, Map.empty, demo_server) = ((d', os', sv'), out, None)"
    using demo_request by blast
  have "''notes'' \<noteq> join_path [request_target demo_client demo_flags, write_test_name]"
    by (simp add: demo_flag_values here output_names_def) (simp add: write_test_name_def)
  moreover have "set (kl_check_order demo_client fs) = set fs" "set (kl_write_order demo_client fs) = set fs" for fs
    by (simp_all add: demo_fields)
  ultimately have "d' ''notes'' = Some (File ''mine'' 420)"
    using request_keeps_files [of demo_flags demo_client ?d "''notes''" "''mine''" 420 demo_client_net no_fault "\<lambda>p u g. None" 0
        Map.empty demo_server] run demo_fields(5) by simp
  with run show ?thesis by blast
qed

theorem refused_request_still_issues_witness:
  "\<exists>d' os' sv' err row. request_cert demo_client
       (server_network demo_sha demo_client_deps demo_server_codec demo_env (qf_url demo_flags)) no_fault (\<lambda>p u g. None) 0 demo_flags
       ([''.'' \<mapsto> Dir, ''tls.key'' \<mapsto> File ''old'' 384], Map.empty, demo_server) = ((d', os', sv'), [], Some err) \<and>
     d' ''tls.key'' = Some (File ''old'' 384) \<and> st_certs (sv_store sv') = [row]"
proof -
  obtain info where g: "generated demo_client demo_flags =
     Inr (pem_text demo_local ''PRIVATE KEY'' ''k'', pem_text demo_local ''CERTIFICATE REQUEST'' ''csr'', info)"
    using demo_generated by blast
  have k: "join_path [request_target demo_client demo_flags, ''tls.key''] = ''tls.key''"
    by (simp add: demo_flag_values here output_names_def)
  have "\<exists>d' os' sv' err row. request_cert demo_client
       (server_network demo_sha demo_client_deps demo_server_codec demo_env (qf_url demo_flags)) no_fault (\<lambda>p u g. None) 0 demo_flags
       ([''.'' \<mapsto> Dir, ''tls.key'' \<mapsto> File ''old'' 384], Map.empty, demo_server) = ((d', os', sv'), [], Some err) \<and>
     d' (join_path [request_target demo_client demo_flags, ''tls.key'']) = Some (File ''old'' 384) \<and>
     st_certs (sv_store sv') = st_certs (sv_store demo_server) @ [row] \<and> ic_serial row = is_serial demo_client_issued \<and>
     ic_revoked_at row = None"
    by (rule refused_request_still_issues [OF demo_server_simps(1) demo_flag_values(4,3) g demo_fields(1), where en = demo_enrollment])
      (simp_all add: demo_fields k)
  then show ?thesis unfolding k by auto
qed

definition demo_answer :: "unit network" where
  "demo_answer w r = (w, Inr \<lparr>ws_code = 201, ws_status = ''201 Created'', ws_body = Inr []\<rparr>)"

definition demo_fault :: fault where
  "demo_fault p = (if p = ''tls.crt'' then Some ''disk full'' else None)"

definition demo_renew_disk :: disk where
  "demo_renew_disk = [''.'' \<mapsto> Dir, ''tls.key'' \<mapsto> File ''old key'' 384, ''tls.crt'' \<mapsto> File ''old cert'' 420]"

theorem interrupted_renewal_mismatch_witness:
  "\<exists>d'. renew_command demo_client demo_answer demo_fault ''http://ca'' ''node.local'' ''.'' ''en'' (demo_renew_disk, Map.empty, ()) =
      ((d', Map.empty, ()), [], Some (CliOs ''disk full'')) \<and>
     d' ''tls.key'' = Some (File (pem_text demo_local ''RSA PRIVATE KEY'' ''rsa'') 384) \<and> d' ''tls.crt'' = Some (File ''old cert'' 420)"
proof -
  have v: "validate_enrollment_id demo_client ''en'' = None" "split_csv ''node.local'' = [''node.local'']"
    using demo_flag_values(4,1) by (simp_all add: demo_flags_def default_request_flags_def)
  have g: "generate_rsa_csr demo_client (hd (split_csv ''node.local'')) (split_csv ''node.local'') =
      Inr (pem_text demo_local ''RSA PRIVATE KEY'' ''rsa'', pem_text demo_local ''CERTIFICATE REQUEST'' ''csr'')"
    by (simp add: generate_rsa_csr_def create_csr_def cli_result_def demo_client_def demo_local_def)
  have h: "join_path [''.'', ''tls.key''] = ''tls.key''" "join_path [''.'', ''tls.crt''] = ''tls.crt''"
    by (simp_all add: here output_names_def)
  let ?resp = "cert_response demo_client_deps demo_client_issued"
  have call: "client_renew_certificate (kl_codec demo_client) (new_client demo_answer ''http://ca'') req () = ((), Inr ?resp)" for req
    by (simp add: client_renew_certificate_def client_post_def new_client_def demo_answer_def response_text_def decoded_def demo_fields)
  have "\<exists>d'. renew_command demo_client demo_answer demo_fault ''http://ca'' ''node.local'' ''.'' ''en'' (demo_renew_disk, Map.empty, ()) =
      ((d', Map.empty, ()), [], Some (CliOs ''disk full'')) \<and>
     d' (join_path [''.'', ''tls.key'']) = Some (File (pem_text demo_local ''RSA PRIVATE KEY'' ''rsa'') 384) \<and>
     d' (join_path [''.'', ''tls.crt'']) = Some (File ''old cert'' 420)"
    by (rule interrupted_renewal_mismatch [OF v(1) g call]) (simp_all add: h bundle_files_def demo_client_def is_dir_def demo_renew_disk_def demo_fault_def)
  then show ?thesis unfolding h .
qed

theorem default_dir_contained_witness:
  "default_output_dir demo_client ''..'' = dir_of (certs_dir demo_client) \<and>
   dir_of (default_output_dir demo_client ''a/b'') = certs_dir demo_client"
proof -
  have "trim_space ''..'' = ''..''" "trim_space ''a/b'' = ''a/b''" by code_simp+
  then show ?thesis
    using default_dir_contained [of "''..''" demo_client] default_dir_contained [of "''a/b''" demo_client] by simp
qed

end
