(* ===== verification/Irtop_Config.thy ===== *)
theory Irtop_Config
  imports Config Files "HOL-Library.List_Lexorder" "HOL-Library.Char_ord"
begin

text \<open>
  The configuration of the terminal monitor: the views and their indexes
  (\<open>internal/irtop/views.go\<close>), profiles (\<open>profile.go\<close>), reading and validating the profile file
  (\<open>config.go\<close>) and the flags of \<open>cmd/irtop/main.go\<close> that override it. The YAML library is a
  parameter: the nodes of a document, its strict decoding into the file's structure, and the
  keys each profile sets.
\<close>

section \<open>Views\<close>

datatype view =
    ViewOverview | ViewCertificates | ViewEnrollments | ViewTokens | ViewCAHealth | ViewSecurity | ViewTelemetry
  | ViewAuditLog | ViewServer | ViewHelp

record view_spec =
  vs_view :: view
  vs_name :: string
  vs_tab :: string
  vs_help :: string
  vs_key :: string
  vs_aliases :: "string list"

definition main_view_specs :: "view_spec list" where
  "main_view_specs =
     [\<lparr>vs_view = ViewOverview, vs_name = ''overview'', vs_tab = ''1 Overview'', vs_help = ''overview'', vs_key = ''1'',
        vs_aliases = []\<rparr>,
      \<lparr>vs_view = ViewCertificates, vs_name = ''certificates'', vs_tab = ''2 Certs'', vs_help = ''certificates'',
        vs_key = ''2'', vs_aliases = [''certs'']\<rparr>,
      \<lparr>vs_view = ViewEnrollments, vs_name = ''enrollments'', vs_tab = ''3 Enroll'', vs_help = ''enrollments'',
        vs_key = ''3'', vs_aliases = []\<rparr>,
      \<lparr>vs_view = ViewTokens, vs_name = ''tokens'', vs_tab = ''4 Tokens'', vs_help = ''tokens'', vs_key = ''4'',
        vs_aliases = []\<rparr>,
      \<lparr>vs_view = ViewCAHealth, vs_name = ''ca'', vs_tab = ''5 CA'', vs_help = ''CA health'', vs_key = ''5'',
        vs_aliases = [''ca-health'', ''ca_health'']\<rparr>,
      \<lparr>vs_view = ViewSecurity, vs_name = ''security'', vs_tab = ''6 Security'', vs_help = ''security'', vs_key = ''6'',
        vs_aliases = []\<rparr>,
      \<lparr>vs_view = ViewTelemetry, vs_name = ''telemetry'', vs_tab = ''7 Telemetry'', vs_help = ''telemetry'',
        vs_key = ''7'', vs_aliases = [''otel'']\<rparr>,
      \<lparr>vs_view = ViewAuditLog, vs_name = ''audit'', vs_tab = ''8 Audit'', vs_help = ''audit log'', vs_key = ''8'',
        vs_aliases = [''audit-log'', ''audit_log'']\<rparr>,
      \<lparr>vs_view = ViewServer, vs_name = ''server'', vs_tab = ''9 Server'', vs_help = ''server'', vs_key = ''9'',
        vs_aliases = []\<rparr>]"

text \<open>The indexes built when the package is loaded; a later entry replaces an earlier one.\<close>

definition view_by_name :: "string \<Rightarrow> view option" where
  "view_by_name =
     fold (\<lambda>s m. fold (\<lambda>a m. m(a \<mapsto> vs_view s)) (vs_aliases s) (m(vs_name s \<mapsto> vs_view s, vs_key s \<mapsto> vs_view s)))
       main_view_specs Map.empty"

definition view_by_key :: "string \<Rightarrow> view option" where
  "view_by_key = fold (\<lambda>s m. m(vs_key s \<mapsto> vs_view s)) main_view_specs Map.empty"

definition name_by_view :: "view \<Rightarrow> string option" where
  "name_by_view = fold (\<lambda>s m. m(vs_view s \<mapsto> vs_name s)) main_view_specs Map.empty"

definition normalize_view_name :: "string \<Rightarrow> string" where
  "normalize_view_name name = to_lower (trim_space name)"

definition parse_view :: "string \<Rightarrow> view" where
  "parse_view name = (case view_by_name (normalize_view_name name) of Some v \<Rightarrow> v | None \<Rightarrow> ViewOverview)"

definition valid_view_name :: "string \<Rightarrow> bool" where
  "valid_view_name v \<longleftrightarrow> view_by_name (normalize_view_name v) \<noteq> None"

definition view_for_key :: "string \<Rightarrow> view option" where
  "view_for_key key = view_by_key key"

definition view_name :: "view \<Rightarrow> string" where
  "view_name v =
     (if v = ViewHelp then ''help'' else case name_by_view v of Some n \<Rightarrow> n | None \<Rightarrow> ''overview'')"

section \<open>Profiles\<close>

record top_config =
  tc_server :: string
  tc_endpoint :: string
  tc_token :: string
  tc_ca_file :: string
  tc_insecure :: bool \<comment> \<open>\<open>InsecureSkipVerify\<close>\<close>
  tc_refresh :: duration
  tc_default_view :: string
  tc_output :: string

definition default_refresh :: duration where "default_refresh = 5 * second"

definition default_top_config :: top_config where
  "default_top_config =
     \<lparr>tc_server = [], tc_endpoint = [], tc_token = [], tc_ca_file = [], tc_insecure = False,
      tc_refresh = default_refresh, tc_default_view = ''overview'', tc_output = ''tui''\<rparr>"

record profile =
  pf_name :: string
  pf_config :: top_config

record profile_set =
  ps_profiles :: "profile list"
  ps_active :: int

definition active_index :: "profile_set \<Rightarrow> int" where
  "active_index p = (if ps_active p < 0 \<or> ps_active p \<ge> int (length (ps_profiles p)) then 0 else ps_active p)"

definition active_config :: "profile_set \<Rightarrow> top_config" where
  "active_config p =
     (if ps_profiles p = [] then default_top_config else pf_config (ps_profiles p ! nat (active_index p)))"

definition set_active_config :: "profile_set \<Rightarrow> top_config \<Rightarrow> profile_set" where
  "set_active_config p cfg =
     (if ps_profiles p = [] then p
      else let i = nat (active_index p)
           in p\<lparr>ps_profiles := (ps_profiles p)[i := (ps_profiles p ! i)\<lparr>pf_config := cfg\<rparr>]\<rparr>)"

text \<open>What goes wrong before the monitor starts. A place is a file and a profile in it.\<close>

type_synonym place = "string \<times> string"

datatype top_error =
    HomeUnknown string | MissingConfig string bool | ReadConfig string string | ParseYaml string string
  | NotAMapping string | ProfilesNotMapping string | NoProfiles string | EmptyProfileName string
  | DuplicateProfile string string | ProfileNotMapping string string | MissingValue place string
  | ServerAndEndpoint place | BadRefresh place duration | BadDefaultView place string | BadOutput place string
  | DefaultProfileUnknown string string | ProfileNotFound string

fun find_profile :: "string \<Rightarrow> int \<Rightarrow> profile list \<Rightarrow> int option" where
  "find_profile name i [] = None"
| "find_profile name i (p # ps) = (if pf_name p = name then Some i else find_profile name (i + 1) ps)"

definition select_profile :: "string \<Rightarrow> profile_set \<Rightarrow> top_error + profile_set" where
  "select_profile name p =
     (let name = trim_space name
      in if name = [] then Inr p
         else case find_profile name 0 (ps_profiles p) of
           Some i \<Rightarrow> Inr (p\<lparr>ps_active := i\<rparr>)
         | None \<Rightarrow> Inl (ProfileNotFound name))"

section \<open>Checking a profile\<close>

definition validate_config :: "place \<Rightarrow> top_config \<Rightarrow> top_error option" where
  "validate_config w cfg =
     (let server = trim_space (tc_server cfg); endpoint = trim_space (tc_endpoint cfg)
      in if server \<noteq> [] \<and> endpoint \<noteq> [] \<and> server \<noteq> endpoint then Some (ServerAndEndpoint w)
         else if server = [] \<and> endpoint = [] then Some (MissingValue w ''server'')
         else if tc_refresh cfg \<le> 0 then Some (BadRefresh w (tc_refresh cfg))
         else if tc_default_view cfg = [] then Some (MissingValue w ''default_view'')
         else if \<not> valid_view_name (tc_default_view cfg) then Some (BadDefaultView w (tc_default_view cfg))
         else if tc_output cfg = [] then Some (MissingValue w ''output'')
         else if tc_output cfg \<noteq> ''tui'' \<and> tc_output cfg \<noteq> ''text'' then Some (BadOutput w (tc_output cfg))
         else None)"

definition normalize_top_config :: "top_config \<Rightarrow> top_config" where
  "normalize_top_config cfg =
     (let cfg = cfg\<lparr>tc_server := trim_space (tc_server cfg), tc_endpoint := trim_space (tc_endpoint cfg),
          tc_ca_file := trim_space (tc_ca_file cfg), tc_default_view := trim_space (tc_default_view cfg),
          tc_output := trim_space (tc_output cfg)\<rparr>;
          cfg = (if tc_server cfg = [] then cfg\<lparr>tc_server := tc_endpoint cfg\<rparr> else cfg)
      in cfg\<lparr>tc_endpoint := []\<rparr>)"

text \<open>\<open>home\<close> is the outcome of \<open>os.UserHomeDir\<close>.\<close>

definition expand_path :: "string + string \<Rightarrow> string \<Rightarrow> string" where
  "expand_path home path =
     (case home of
        Inl e \<Rightarrow> path
      | Inr h \<Rightarrow>
          if path = ''~'' then h
          else if has_prefix path ''~/'' then join_path [h, trim_prefix path ''~/'']
          else path)"

section \<open>The profile file\<close>

datatype node_kind = MappingNode | SequenceNode | ScalarNode | AliasNode

datatype yaml_node = YamlNode (yn_kind: node_kind) (yn_value: string) (yn_content: "yaml_node list")

record config_file =
  cfl_default :: string
  cfl_profiles :: "(string \<times> top_config) list"

text \<open>
  \<open>yl_nodes\<close> gives the content of the root node (empty for an empty document), \<open>yl_decode\<close>
  decodes with known fields only, \<open>yl_fields\<close> lists for each profile the keys it sets, in the
  order in which the map is visited.
\<close>

record config_lib =
  yl_home :: "string + string"
  yl_nodes :: "string \<Rightarrow> string + yaml_node list"
  yl_decode :: "string \<Rightarrow> string + config_file"
  yl_fields :: "string \<Rightarrow> string + (string \<times> string list) list"

text \<open>Keys and values alternate in the content of a mapping.\<close>

fun node_pairs :: "yaml_node list \<Rightarrow> (yaml_node \<times> yaml_node) list" where
  "node_pairs (k # v # ns) = (k, v) # node_pairs ns"
| "node_pairs ns = []"

definition mapping_value :: "yaml_node \<Rightarrow> string \<Rightarrow> yaml_node option" where
  "mapping_value node key =
     map_option snd (find (\<lambda>(k, v). yn_value k = key) (node_pairs (yn_content node)))"

fun check_profile_nodes :: "string \<Rightarrow> string list \<Rightarrow> (yaml_node \<times> yaml_node) list \<Rightarrow> top_error option" where
  "check_profile_nodes path seen [] = None"
| "check_profile_nodes path seen ((k, v) # ns) =
     (let name = trim_space (yn_value k)
      in if name = [] then Some (EmptyProfileName path)
         else if name \<in> set seen then Some (DuplicateProfile path name)
         else if yn_kind v \<noteq> MappingNode then Some (ProfileNotMapping path name)
         else check_profile_nodes path (name # seen) ns)"

definition validate_profile_yaml :: "config_lib \<Rightarrow> string \<Rightarrow> string \<Rightarrow> top_error option" where
  "validate_profile_yaml lib path data =
     (case yl_nodes lib data of
        Inl e \<Rightarrow> Some (ParseYaml path e)
      | Inr [] \<Rightarrow> None
      | Inr (doc # rest) \<Rightarrow>
          if yn_kind doc \<noteq> MappingNode then Some (NotAMapping path)
          else (case mapping_value doc ''profiles'' of
                  None \<Rightarrow> None
                | Some n \<Rightarrow>
                    if yn_kind n \<noteq> MappingNode then Some (ProfilesNotMapping path)
                    else check_profile_nodes path [] (node_pairs (yn_content n))))"

definition missing_field :: "string list \<Rightarrow> string option" where
  "missing_field keys =
     (if ''server'' \<notin> set keys \<and> ''endpoint'' \<notin> set keys then Some ''server''
      else find (\<lambda>f. f \<notin> set keys) [''refresh'', ''default_view'', ''output''])"

fun require_fields :: "string \<Rightarrow> (string \<times> string list) list \<Rightarrow> top_error option" where
  "require_fields path [] = None"
| "require_fields path ((name, keys) # ps) =
     (case missing_field keys of
        Some f \<Rightarrow> Some (MissingValue (path, name) f)
      | None \<Rightarrow> require_fields path ps)"

definition require_profile_fields :: "config_lib \<Rightarrow> string \<Rightarrow> string \<Rightarrow> top_error option" where
  "require_profile_fields lib path data =
     (case yl_fields lib data of Inl e \<Rightarrow> Some (ParseYaml path e) | Inr ps \<Rightarrow> require_fields path ps)"

text \<open>
  The loop of \<open>buildProfileSet\<close> over the sorted names, at index \<open>i\<close>: the profiles, the active
  index, and whether the default profile was found.
\<close>

fun build_profiles ::
  "string + string \<Rightarrow> string \<Rightarrow> string \<Rightarrow> int \<Rightarrow> int \<times> bool \<Rightarrow> (string \<times> top_config) list \<Rightarrow>
     top_error + (profile list \<times> int \<times> bool)" where
  "build_profiles home path def i st [] = Inr ([], st)"
| "build_profiles home path def i st ((name, cfg) # rest) =
     (if trim_space name = [] then Inl (EmptyProfileName path)
      else case validate_config (path, name) cfg of
        Some e \<Rightarrow> Inl e
      | None \<Rightarrow>
          let cfg = normalize_top_config cfg;
              cfg = cfg\<lparr>tc_ca_file := expand_path home (tc_ca_file cfg)\<rparr>
          in bindE (build_profiles home path def (i + 1) (if def = name then (i, True) else st) rest) (\<lambda>(ps, st').
               Inr (\<lparr>pf_name = name, pf_config = cfg\<rparr> # ps, st')))"

definition build_profile_set :: "config_lib \<Rightarrow> string \<Rightarrow> config_file \<Rightarrow> top_error + profile_set" where
  "build_profile_set lib path raw =
     bindE (build_profiles (yl_home lib) path (cfl_default raw) 0 (0, cfl_default raw = [])
              (sort_key fst (cfl_profiles raw))) (\<lambda>(ps, active, found).
       if \<not> found then Inl (DefaultProfileUnknown path (cfl_default raw))
       else Inr \<lparr>ps_profiles = ps, ps_active = active\<rparr>)"

definition parse_profiles :: "config_lib \<Rightarrow> string \<Rightarrow> string \<Rightarrow> top_error + profile_set" where
  "parse_profiles lib path data =
     (case validate_profile_yaml lib path data of
        Some e \<Rightarrow> Inl e
      | None \<Rightarrow>
     (case yl_decode lib data of
        Inl e \<Rightarrow> Inl (ParseYaml path e)
      | Inr raw \<Rightarrow>
          if cfl_profiles raw = [] then Inl (NoProfiles path)
          else (case require_profile_fields lib path data of
                  Some e \<Rightarrow> Inl e
                | None \<Rightarrow> build_profile_set lib path raw)))"

definition default_config_path :: "config_lib \<Rightarrow> top_error + string" where
  "default_config_path lib =
     (case yl_home lib of Inl e \<Rightarrow> Inl (HomeUnknown e) | Inr h \<Rightarrow> Inr (join_path [h, ''.ironroot'', ''config'']))"

definition load_profiles :: "config_lib \<Rightarrow> disk \<Rightarrow> string \<Rightarrow> top_error + profile_set" where
  "load_profiles lib d path =
     bindE (if path = [] then default_config_path lib else Inr path) (\<lambda>p.
       let p = expand_path (yl_home lib) p
       in if \<not> exists_path d p then Inl (MissingConfig p (path = []))
          else (case read_file d p of
                  Inl e \<Rightarrow> Inl (ReadConfig p e)
                | Inr data \<Rightarrow> parse_profiles lib p data))"

definition load_top_config :: "config_lib \<Rightarrow> disk \<Rightarrow> string \<Rightarrow> top_config \<times> top_error option" where
  "load_top_config lib d path =
     (case load_profiles lib d path of
        Inl e \<Rightarrow> (default_top_config, Some e) | Inr ps \<Rightarrow> (active_config ps, None))"

definition is_missing_default_config :: "top_error \<Rightarrow> bool" where
  "is_missing_default_config e \<longleftrightarrow> (case e of MissingConfig p is_default \<Rightarrow> is_default | _ \<Rightarrow> False)"

section \<open>Flags\<close>

record top_flags =
  tf_config :: string
  tf_profile :: string
  tf_server :: string
  tf_ca_file :: string
  tf_refresh :: duration
  tf_insecure :: bool
  tf_token :: string
  tf_output :: string

definition apply_flag_overrides :: "top_flags \<Rightarrow> top_config \<Rightarrow> top_config" where
  "apply_flag_overrides f cfg =
     (let cfg = (if tf_server f \<noteq> [] then cfg\<lparr>tc_server := tf_server f\<rparr> else cfg);
          cfg = (if tf_ca_file f \<noteq> [] then cfg\<lparr>tc_ca_file := tf_ca_file f\<rparr> else cfg);
          cfg = (if tf_refresh f > 0 then cfg\<lparr>tc_refresh := tf_refresh f\<rparr> else cfg);
          cfg = (if tf_insecure f then cfg\<lparr>tc_insecure := True\<rparr> else cfg);
          cfg = (if tf_token f \<noteq> [] then cfg\<lparr>tc_token := tf_token f\<rparr> else cfg);
          cfg = (if tf_output f \<noteq> [] then cfg\<lparr>tc_output := tf_output f\<rparr> else cfg)
      in if tc_output cfg = [] then cfg\<lparr>tc_output := ''tui''\<rparr> else cfg)"

definition load_profiles_for_flags :: "config_lib \<Rightarrow> disk \<Rightarrow> top_flags \<Rightarrow> top_error + profile_set" where
  "load_profiles_for_flags lib d f =
     (case load_profiles lib d (tf_config f) of
        Inr ps \<Rightarrow> Inr ps
      | Inl e \<Rightarrow>
          if tf_config f \<noteq> [] \<or> tf_profile f \<noteq> [] \<or> tf_server f = [] \<or> \<not> is_missing_default_config e then Inl e
          else Inr \<lparr>ps_profiles = [\<lparr>pf_name = ''cli'', pf_config = default_top_config\<lparr>tc_server := tf_server f\<rparr>\<rparr>],
                    ps_active = 0\<rparr>)"

definition top_telemetry_from_env :: "(string \<Rightarrow> string) \<Rightarrow> telemetry_config" where
  "top_telemetry_from_env getenv =
     (let t = (cf_telemetry default_config)\<lparr>tel_service_name := ''irtop''\<rparr>;
          v = getenv ''OTEL_EXPORTER_OTLP_ENDPOINT'';
          t = (if v \<noteq> [] then t\<lparr>tel_enabled := True, tel_otlp_endpoint := v,
                 tel_exporter := (tel_exporter t)\<lparr>ex_endpoint := v\<rparr>\<rparr> else t);
          p = getenv ''OTEL_EXPORTER_OTLP_PROTOCOL'';
          t = (if p \<noteq> [] then t\<lparr>tel_otlp_protocol := p, tel_exporter := (tel_exporter t)\<lparr>ex_protocol := p\<rparr>\<rparr> else t);
          n = getenv ''OTEL_SERVICE_NAME''
      in if n \<noteq> [] then t\<lparr>tel_service_name := n\<rparr> else t)"

end
