(* ===== verification/Irtop_Client.thy ===== *)
theory Irtop_Client
  imports Irtop_Config Api_Client
begin

text \<open>
  The status data of the terminal monitor (\<open>internal/irtop/types.go\<close>) and the client that reads
  it (\<open>internal/irtop/client.go\<close>): checking the address of a profile, its TLS settings, the
  request for the overview and the nine concurrent requests for the details. URL parsing,
  certificate pools and JSON decoding are parameters.
\<close>

section \<open>Status data\<close>

text \<open>Each record is followed by its zero value where the program uses it.\<close>

record top_server =
  tsv_status :: string
  tsv_version :: string
  tsv_api_health :: string
  tsv_readiness :: string
  tsv_database_type :: string
  tsv_api_address :: string
  tsv_tls :: bool
  tsv_go_version :: string
  tsv_goroutines :: int

definition zero_server :: top_server where
  "zero_server =
     \<lparr>tsv_status = [], tsv_version = [], tsv_api_health = [], tsv_readiness = [], tsv_database_type = [],
      tsv_api_address = [], tsv_tls = False, tsv_go_version = [], tsv_goroutines = 0\<rparr>"

record top_cert_summary =
  tcs_active :: int
  tcs_expiring_soon :: int
  tcs_issued_today :: int
  tcs_renewed_today :: int
  tcs_revoked_today :: int
  tcs_revoked :: int
  tcs_expired :: int
  tcs_total :: int

definition zero_cert_summary :: top_cert_summary where
  "zero_cert_summary =
     \<lparr>tcs_active = 0, tcs_expiring_soon = 0, tcs_issued_today = 0, tcs_renewed_today = 0,
      tcs_revoked_today = 0, tcs_revoked = 0, tcs_expired = 0, tcs_total = 0\<rparr>"

record top_enroll_summary =
  tes_successful :: int
  tes_failed :: int
  tes_pending :: int
  tes_invalid_token :: int
  tes_total :: int

definition zero_enroll_summary :: top_enroll_summary where
  "zero_enroll_summary =
     \<lparr>tes_successful = 0, tes_failed = 0, tes_pending = 0, tes_invalid_token = 0, tes_total = 0\<rparr>"

record top_security =
  tse_status :: string
  tse_critical :: int
  tse_high :: int
  tse_warnings :: int
  tse_message :: string

definition zero_security :: top_security where
  "zero_security =
     \<lparr>tse_status = [], tse_critical = 0, tse_high = 0, tse_warnings = 0, tse_message = []\<rparr>"

record top_telemetry =
  tte_enabled :: bool
  tte_traces :: bool
  tte_metrics :: bool
  tte_logs :: bool
  tte_otlp_endpoint :: string
  tte_otlp_protocol :: string
  tte_prometheus :: bool
  tte_prometheus_path :: string
  tte_exporter_status :: string

definition zero_telemetry :: top_telemetry where
  "zero_telemetry =
     \<lparr>tte_enabled = False, tte_traces = False, tte_metrics = False, tte_logs = False,
      tte_otlp_endpoint = [], tte_otlp_protocol = [], tte_prometheus = False, tte_prometheus_path = [],
      tte_exporter_status = []\<rparr>"

record top_ca =
  tca_root_fingerprint :: string
  tca_root_expires :: gotime
  tca_intermediate_fingerprint :: string
  tca_intermediate_expires :: gotime
  tca_active_issuer :: string
  tca_disabled_issuers :: int
  tca_retired_issuers :: int
  tca_chain_status :: string
  tca_warnings :: "string list"

definition zero_ca :: top_ca where
  "zero_ca =
     \<lparr>tca_root_fingerprint = [], tca_root_expires = zero_time, tca_intermediate_fingerprint = [],
      tca_intermediate_expires = zero_time, tca_active_issuer = [], tca_disabled_issuers = 0,
      tca_retired_issuers = 0, tca_chain_status = [], tca_warnings = []\<rparr>"

record top_overview =
  tov_server :: top_server
  tov_certificates :: top_cert_summary
  tov_enrollments :: top_enroll_summary
  tov_security :: top_security
  tov_telemetry :: top_telemetry
  tov_ca :: top_ca

definition zero_overview :: top_overview where
  "zero_overview =
     \<lparr>tov_server = zero_server, tov_certificates = zero_cert_summary,
      tov_enrollments = zero_enroll_summary, tov_security = zero_security, tov_telemetry = zero_telemetry,
      tov_ca = zero_ca\<rparr>"

record top_role =
  trl_id :: string
  trl_name :: string
  trl_subject :: string
  trl_permissions :: "string list"

record top_policy =
  tpo_id :: string
  tpo_name :: string
  tpo_certificate_types :: "string list"
  tpo_allowed_dns :: "string list"
  tpo_max_ttl :: string
  tpo_issuance_limit :: int
  tpo_renewal_allowed :: bool
  tpo_require_approval :: bool
  tpo_expires_at :: gotime

record top_intermediate =
  tim_id :: string
  tim_name :: string
  tim_environment :: string
  tim_owner :: string
  tim_namespace :: string
  tim_fingerprint :: string
  tim_status :: string
  tim_max_ttl :: string
  tim_allowed_dns :: "string list"
  tim_allowed_usages :: "string list"
  tim_require_approval :: bool
  tim_issuance_limit :: int
  tim_renewal_allowed :: bool
  tim_not_before :: gotime
  tim_not_after :: gotime
  tim_active_certs :: int
  tim_revoked_certs :: int
  tim_roles :: "top_role list"
  tim_policies :: "top_policy list"

record top_root =
  trt_id :: string
  trt_name :: string
  trt_environment :: string
  trt_fingerprint :: string
  trt_status :: string
  trt_trust_domain :: string
  trt_not_before :: gotime
  trt_not_after :: gotime
  trt_intermediates :: "top_intermediate list"

record top_hierarchy_summary =
  ths_roots :: int
  ths_intermediates :: int
  ths_active_issuers :: int
  ths_disabled_issuers :: int
  ths_retired_issuers :: int
  ths_policies :: int
  ths_roles :: int
  ths_pending :: int

definition zero_hierarchy_summary :: top_hierarchy_summary where
  "zero_hierarchy_summary =
     \<lparr>ths_roots = 0, ths_intermediates = 0, ths_active_issuers = 0, ths_disabled_issuers = 0,
      ths_retired_issuers = 0, ths_policies = 0, ths_roles = 0, ths_pending = 0\<rparr>"

record top_hierarchy =
  thi_roots :: "top_root list"
  thi_summary :: top_hierarchy_summary
  thi_warnings :: "string list"
  thi_legacy :: bool

definition zero_hierarchy :: top_hierarchy where
  "zero_hierarchy =
     \<lparr>thi_roots = [], thi_summary = zero_hierarchy_summary, thi_warnings = [], thi_legacy = False\<rparr>"

record top_certificate =
  tce_serial :: string
  tce_dns_names :: "string list"
  tce_issuer :: string
  tce_status :: string
  tce_created_at :: gotime
  tce_expires_at :: gotime
  tce_days_remaining :: int
  tce_enrollment_id :: string
  tce_renewal_status :: string

record top_enrollment =
  ten_id :: string
  ten_hostname :: string
  ten_machine_id :: string
  ten_status :: string
  ten_created_at :: gotime
  ten_last_seen_at :: gotime
  ten_certificate_count :: int
  ten_failed_attempts :: int

record top_token =
  ttk_id :: string
  ttk_host :: string
  ttk_status :: string
  ttk_created_at :: gotime
  ttk_expires_at :: gotime
  ttk_used :: bool
  ttk_revoked :: bool
  ttk_usage_count :: int
  ttk_last_used_at :: "gotime option"

record top_audit =
  tau_timestamp :: gotime
  tau_actor :: string
  tau_action :: string
  tau_target :: string
  tau_result :: string
  tau_severity :: string

record snapshot =
  sn_overview :: top_overview
  sn_server :: top_server
  sn_ca :: top_ca
  sn_certificates :: "top_certificate list"
  sn_enrollments :: "top_enrollment list"
  sn_tokens :: "top_token list"
  sn_security :: top_security
  sn_telemetry :: top_telemetry
  sn_hierarchy :: top_hierarchy
  sn_audit :: "top_audit list"
  sn_updated_at :: gotime

definition zero_snapshot :: snapshot where
  "zero_snapshot =
     \<lparr>sn_overview = zero_overview, sn_server = zero_server, sn_ca = zero_ca, sn_certificates = [],
      sn_enrollments = [], sn_tokens = [], sn_security = zero_security, sn_telemetry = zero_telemetry,
      sn_hierarchy = zero_hierarchy, sn_audit = [], sn_updated_at = zero_time\<rparr>"

section \<open>The client\<close>

datatype tls_choice = DefaultTls | SkipVerify | RootPool string

record top_client =
  cl_base_url :: string
  cl_token :: string
  cl_tls :: tls_choice

datatype client_fault =
    ServerMissing | UrlUnparsed string string | NoScheme string | BadScheme string | NoHost string
  | CaUnreadable string string | CaInvalid string | RequestRejected string | HttpsToHttp string | Connection string
  | ServerSaid string | NotDecoded string | ProfileUnusable string | NoProfilesConfigured

text \<open>
  \<open>ml_parse_url\<close> gives scheme and host; \<open>ml_append_certs\<close> says whether a file holds a certificate;
  \<open>ml_reject_url\<close> is the error of \<open>http.NewRequest\<close>; \<open>ml_quote\<close> is the verb \<open>%q\<close>. A decoder
  takes the body (or the error of reading it) and gives the value it has filled in and its
  error; it is only used on zero values.
\<close>

type_synonym 'a decoder = "string + string \<Rightarrow> 'a \<times> string option"

record monitor_lib =
  ml_config :: config_lib
  ml_parse_url :: "string \<Rightarrow> string + (string \<times> string)"
  ml_append_certs :: "string \<Rightarrow> bool"
  ml_reject_url :: "string \<Rightarrow> string option"
  ml_quote :: "string \<Rightarrow> string"
  ml_overview :: "top_overview decoder"
  ml_server :: "top_server decoder"
  ml_ca :: "top_ca decoder"
  ml_certificates :: "top_certificate list decoder"
  ml_enrollments :: "top_enrollment list decoder"
  ml_tokens :: "top_token list decoder"
  ml_security :: "top_security decoder"
  ml_telemetry :: "top_telemetry decoder"
  ml_hierarchy :: "top_hierarchy decoder"
  ml_audit :: "top_audit list decoder"

definition validate_top_config :: "monitor_lib \<Rightarrow> top_config \<Rightarrow> client_fault option" where
  "validate_top_config lib cfg =
     (if trim_space (tc_server cfg) = [] then Some ServerMissing
      else case ml_parse_url lib (tc_server cfg) of
        Inl e \<Rightarrow> Some (UrlUnparsed (tc_server cfg) e)
      | Inr (scheme, host) \<Rightarrow>
          if scheme = [] then Some (NoScheme (tc_server cfg))
          else if scheme \<noteq> ''http'' \<and> scheme \<noteq> ''https'' then Some (BadScheme scheme)
          else if host = [] then Some (NoHost (tc_server cfg)) else None)"

definition client_tls_config :: "monitor_lib \<Rightarrow> disk \<Rightarrow> top_config \<Rightarrow> client_fault + tls_choice" where
  "client_tls_config lib d cfg =
     (if tc_insecure cfg then Inr SkipVerify
      else if tc_ca_file cfg = [] then Inr DefaultTls
      else case read_file d (tc_ca_file cfg) of
        Inl e \<Rightarrow> Inl (CaUnreadable (tc_ca_file cfg) e)
      | Inr pem \<Rightarrow> if ml_append_certs lib pem then Inr (RootPool pem) else Inl (CaInvalid (tc_ca_file cfg)))"

definition new_client_checked :: "monitor_lib \<Rightarrow> disk \<Rightarrow> top_config \<Rightarrow> client_fault + top_client" where
  "new_client_checked lib d cfg =
     (let cfg = cfg\<lparr>tc_ca_file := expand_path (yl_home (ml_config lib)) (tc_ca_file cfg)\<rparr>
      in case validate_top_config lib cfg of
        Some e \<Rightarrow> Inl e
      | None \<Rightarrow>
          bindE (client_tls_config lib d cfg) (\<lambda>tls.
          Inr \<lparr>cl_base_url = trim_slashes (tc_server cfg), cl_token = tc_token cfg, cl_tls = tls\<rparr>))"

definition new_top_client :: "monitor_lib \<Rightarrow> disk \<Rightarrow> top_config \<Rightarrow> top_client" where
  "new_top_client lib d cfg =
     (case new_client_checked lib d cfg of
        Inl e \<Rightarrow> \<lparr>cl_base_url = trim_slashes (tc_server cfg), cl_token = [], cl_tls = DefaultTls\<rparr>
      | Inr c \<Rightarrow> c)"

section \<open>Requests\<close>

text \<open>
  A network stands for the whole \<open>http.Client\<close>: it is handed a request and gives the last answer.
  The client is built without \<open>CheckRedirect\<close> and from a clone of \<open>http.DefaultTransport\<close>, so
  it follows up to ten redirects, to other hosts too, and the proxy of the environment; what is
  sent on the way is inside the network.
\<close>

record top_request =
  rq_url :: string
  rq_authorization :: "string option"

type_synonym 'w top_network = "tls_choice \<Rightarrow> 'w \<Rightarrow> top_request \<Rightarrow> 'w \<times> (string + wire_response)"

definition friendly_connection_error :: "string \<Rightarrow> string \<Rightarrow> client_fault" where
  "friendly_connection_error server e =
     (if contains e ''server gave HTTP response to HTTPS client'' then HttpsToHttp server else Connection e)"

definition request_for :: "top_client \<Rightarrow> string \<Rightarrow> top_request" where
  "request_for c path =
     \<lparr>rq_url = cl_base_url c @ path,
      rq_authorization = (if cl_token c \<noteq> [] then Some (''Bearer '' @ cl_token c) else None)\<rparr>"

definition top_get ::
  "monitor_lib \<Rightarrow> 'w top_network \<Rightarrow> top_client \<Rightarrow> string \<Rightarrow> 'a decoder \<Rightarrow> 'a \<Rightarrow> 'w \<Rightarrow> 'w \<times> 'a \<times> client_fault option" where
  "top_get lib net c path decode out w =
     (case ml_reject_url lib (cl_base_url c @ path) of
        Some e \<Rightarrow> (w, out, Some (RequestRejected e))
      | None \<Rightarrow>
     (case net (cl_tls c) w (request_for c path) of
        (w', Inl e) \<Rightarrow> (w', out, Some (friendly_connection_error (cl_base_url c) e))
      | (w', Inr resp) \<Rightarrow>
          if ws_code resp \<ge> 300 then (w', out, Some (ServerSaid (ws_status resp)))
          else (case decode (ws_body resp) of (v, e) \<Rightarrow> (w', v, map_option NotDecoded e))))"

text \<open>
  The details are fetched by nine goroutines, each into a field of its own; their errors are
  dropped. \<open>sched\<close> is the order in which the requests are answered.
\<close>

datatype detail = DServer | DCa | DCertificates | DEnrollments | DTokens | DSecurity | DTelemetry | DHierarchy | DAudit

definition detail_requests :: "(detail \<times> string) list" where
  "detail_requests =
     [(DServer, ''/v1/status/server''), (DCa, ''/v1/status/ca''), (DCertificates, ''/v1/status/certificates''),
      (DEnrollments, ''/v1/status/enrollments''), (DTokens, ''/v1/status/tokens''), (DSecurity, ''/v1/status/security''),
      (DTelemetry, ''/v1/status/telemetry''), (DHierarchy, ''/v1/status/ca-hierarchy''), (DAudit, ''/v1/audit/recent'')]"

fun fetch_detail :: "monitor_lib \<Rightarrow> 'w top_network \<Rightarrow> top_client \<Rightarrow> detail \<times> string \<Rightarrow> 'w \<times> snapshot \<Rightarrow> 'w \<times> snapshot" where
  "fetch_detail lib net c (k, path) (w, s) =
     (case k of
        DServer \<Rightarrow> (case top_get lib net c path (ml_server lib) (sn_server s) w of (w', v, e) \<Rightarrow> (w', s\<lparr>sn_server := v\<rparr>))
      | DCa \<Rightarrow> (case top_get lib net c path (ml_ca lib) (sn_ca s) w of (w', v, e) \<Rightarrow> (w', s\<lparr>sn_ca := v\<rparr>))
      | DCertificates \<Rightarrow>
          (case top_get lib net c path (ml_certificates lib) (sn_certificates s) w of (w', v, e) \<Rightarrow> (w', s\<lparr>sn_certificates := v\<rparr>))
      | DEnrollments \<Rightarrow>
          (case top_get lib net c path (ml_enrollments lib) (sn_enrollments s) w of (w', v, e) \<Rightarrow> (w', s\<lparr>sn_enrollments := v\<rparr>))
      | DTokens \<Rightarrow> (case top_get lib net c path (ml_tokens lib) (sn_tokens s) w of (w', v, e) \<Rightarrow> (w', s\<lparr>sn_tokens := v\<rparr>))
      | DSecurity \<Rightarrow> (case top_get lib net c path (ml_security lib) (sn_security s) w of (w', v, e) \<Rightarrow> (w', s\<lparr>sn_security := v\<rparr>))
      | DTelemetry \<Rightarrow>
          (case top_get lib net c path (ml_telemetry lib) (sn_telemetry s) w of (w', v, e) \<Rightarrow> (w', s\<lparr>sn_telemetry := v\<rparr>))
      | DHierarchy \<Rightarrow>
          (case top_get lib net c path (ml_hierarchy lib) (sn_hierarchy s) w of (w', v, e) \<Rightarrow> (w', s\<lparr>sn_hierarchy := v\<rparr>))
      | DAudit \<Rightarrow> (case top_get lib net c path (ml_audit lib) (sn_audit s) w of (w', v, e) \<Rightarrow> (w', s\<lparr>sn_audit := v\<rparr>)))"

definition snapshot_details ::
  "monitor_lib \<Rightarrow> 'w top_network \<Rightarrow> top_client \<Rightarrow> (detail \<times> string) list \<Rightarrow> 'w \<times> snapshot \<Rightarrow> 'w \<times> snapshot" where
  "snapshot_details lib net c sched = fold (fetch_detail lib net c) sched"

definition client_snapshot ::
  "monitor_lib \<Rightarrow> 'w top_network \<Rightarrow> top_client \<Rightarrow> (detail \<times> string) list \<Rightarrow> gotime \<Rightarrow> 'w \<Rightarrow>
     'w \<times> snapshot \<times> client_fault option" where
  "client_snapshot lib net c sched now w =
     (case top_get lib net c ''/v1/status/overview'' (ml_overview lib) zero_overview w of
        (w', v, Some e) \<Rightarrow> (w', zero_snapshot\<lparr>sn_overview := v\<rparr>, Some e)
      | (w', v, None) \<Rightarrow>
          (case snapshot_details lib net c sched (w', zero_snapshot\<lparr>sn_overview := v\<rparr>) of
             (w'', s) \<Rightarrow> (w'', s\<lparr>sn_updated_at := now\<rparr>, None)))"

definition mask_token :: "string \<Rightarrow> string" where
  "mask_token t =
     (if t = [] then [] else if length t \<le> 8 then ''********''
      else take 4 t @ ''...'' @ drop (length t - 4) t)"

end
