(* ===== verification/Irtop_Model.thy ===== *)
theory Irtop_Model
  imports Irtop_Client
begin

text \<open>
  The state of the terminal monitor and its update function (\<open>internal/irtop/model.go\<close>), and the
  programs that the Bubble Tea runtime makes of it: it delivers one message at a time to
  \<open>Update\<close>, and runs the returned commands concurrently, so that their messages arrive later, in
  any order.
\<close>

section \<open>State and messages\<close>

datatype load_state = StateLoading | StateLoaded | StateEmpty | StateError

record model =
  mo_client :: "top_client option"
  mo_profiles :: "profile list"
  mo_active :: int
  mo_cursor :: int
  mo_selecting :: bool
  mo_refresh :: duration
  mo_view :: view
  mo_snapshot :: snapshot
  mo_err :: "client_fault option"
  mo_state :: load_state
  mo_width :: int
  mo_height :: int

text \<open>A refresh captures client, profile index, view and profile name when it is made.\<close>

datatype tea_command = Quit | Refresh "top_client option" int view string | TickAfter duration

datatype message = WindowSize int int | KeyPress string | TickMsg | SnapshotMsg int snapshot "client_fault option"

definition new_model :: "top_client option \<Rightarrow> duration \<Rightarrow> view \<Rightarrow> model" where
  "new_model c refresh v =
     \<lparr>mo_client = c, mo_profiles = [], mo_active = 0, mo_cursor = 0, mo_selecting = False,
      mo_refresh = (if refresh \<le> 0 then default_refresh else refresh), mo_view = v, mo_snapshot = zero_snapshot,
      mo_err = None, mo_state = StateLoading, mo_width = 0, mo_height = 0\<rparr>"

definition checked_client :: "client_fault + top_client \<Rightarrow> top_client option" where
  "checked_client r = (case r of Inl e \<Rightarrow> None | Inr c \<Rightarrow> Some c)"

definition checked_fault :: "client_fault + top_client \<Rightarrow> client_fault option" where
  "checked_fault r = (case r of Inl e \<Rightarrow> Some e | Inr c \<Rightarrow> None)"

definition new_profile_model :: "monitor_lib \<Rightarrow> disk \<Rightarrow> profile_set \<Rightarrow> model" where
  "new_profile_model lib d ps =
     (if ps_profiles ps = [] then
        (new_model None default_refresh ViewOverview)\<lparr>mo_err := Some NoProfilesConfigured, mo_state := StateError\<rparr>
      else
        let active = active_index ps;
            cfg = pf_config (ps_profiles ps ! nat active);
            r = new_client_checked lib d cfg;
            m = (new_model (checked_client r) (tc_refresh cfg) (parse_view (tc_default_view cfg)))
                  \<lparr>mo_profiles := ps_profiles ps, mo_active := active, mo_cursor := active\<rparr>
        in (case checked_fault r of
              None \<Rightarrow> m
            | Some e \<Rightarrow> m\<lparr>mo_err := Some e, mo_state := StateError\<rparr>))"

definition in_profiles :: "model \<Rightarrow> int \<Rightarrow> bool" where
  "in_profiles m i \<longleftrightarrow> 0 \<le> i \<and> i < int (length (mo_profiles m))"

definition active_profile_name :: "model \<Rightarrow> string" where
  "active_profile_name m =
     (if in_profiles m (mo_active m) then pf_name (mo_profiles m ! nat (mo_active m)) else ''default'')"

definition zero_top_config :: top_config where
  "zero_top_config =
     \<lparr>tc_server = [], tc_endpoint = [], tc_token = [], tc_ca_file = [], tc_insecure = False, tc_refresh = 0,
      tc_default_view = [], tc_output = []\<rparr>"

definition model_config :: "model \<Rightarrow> top_config" where
  "model_config m =
     (if in_profiles m (mo_active m) then pf_config (mo_profiles m ! nat (mo_active m)) else zero_top_config)"

definition refresh_now :: "model \<Rightarrow> tea_command" where
  "refresh_now m = Refresh (mo_client m) (mo_active m) (mo_view m) (active_profile_name m)"

definition init_commands :: "model \<Rightarrow> tea_command list" where
  "init_commands m = [refresh_now m, TickAfter (mo_refresh m)]"

definition snapshot_empty :: "snapshot \<Rightarrow> bool" where
  "snapshot_empty s \<longleftrightarrow>
     tsv_status (tov_server (sn_overview s)) = [] \<and> tsv_status (sn_server s) = [] \<and> sn_certificates s = [] \<and>
     sn_enrollments s = [] \<and> sn_tokens s = [] \<and> tca_chain_status (sn_ca s) = [] \<and>
     thi_roots (sn_hierarchy s) = [] \<and> tse_status (sn_security s) = [] \<and>
     tte_exporter_status (sn_telemetry s) = [] \<and> sn_audit s = []"

section \<open>Update\<close>

text \<open>Go's \<open>%\<close>: the remainder has the sign of the dividend.\<close>

definition go_mod :: "int \<Rightarrow> int \<Rightarrow> int" where
  "go_mod a b = a - quot a b * b"

definition activate_profile :: "monitor_lib \<Rightarrow> disk \<Rightarrow> int \<Rightarrow> model \<Rightarrow> model \<times> tea_command list" where
  "activate_profile lib d i m =
     (if \<not> in_profiles m i \<or> i = mo_active m then (m, [])
      else
        let cfg = pf_config (mo_profiles m ! nat i);
            r = new_client_checked lib d cfg;
            m = m\<lparr>mo_client := checked_client r, mo_active := i, mo_cursor := i, mo_refresh := tc_refresh cfg,
                  mo_view := parse_view (tc_default_view cfg), mo_snapshot := zero_snapshot, mo_err := checked_fault r\<rparr>
        in if checked_fault r \<noteq> None then (m\<lparr>mo_state := StateError\<rparr>, [])
           else let m = m\<lparr>mo_state := StateLoading\<rparr> in (m, [refresh_now m]))"

definition update_selector :: "monitor_lib \<Rightarrow> disk \<Rightarrow> string \<Rightarrow> model \<Rightarrow> model \<times> tea_command list" where
  "update_selector lib d k m =
     (let n = int (length (mo_profiles m))
      in if k = ''q'' \<or> k = ''ctrl+c'' then (m, [Quit])
         else if k = ''esc'' \<or> k = ''p'' then (m\<lparr>mo_selecting := False\<rparr>, [])
         else if k = ''up'' \<or> k = ''k'' then
           (if n > 0 then m\<lparr>mo_cursor := go_mod (mo_cursor m - 1 + n) n\<rparr> else m, [])
         else if k = ''down'' \<or> k = ''j'' then
           (if n > 0 then m\<lparr>mo_cursor := go_mod (mo_cursor m + 1) n\<rparr> else m, [])
         else if k = ''enter'' then
           (let m = m\<lparr>mo_selecting := False\<rparr> in activate_profile lib d (mo_cursor m) m)
         else (m, []))"

definition update_key :: "monitor_lib \<Rightarrow> disk \<Rightarrow> string \<Rightarrow> model \<Rightarrow> model \<times> tea_command list" where
  "update_key lib d k m =
     (let n = int (length (mo_profiles m))
      in if mo_selecting m then update_selector lib d k m
         else if k = ''q'' \<or> k = ''ctrl+c'' then (m, [Quit])
         else if k = ''p'' then
           (if n > 1 then m\<lparr>mo_selecting := True, mo_cursor := mo_active m\<rparr> else m, [])
         else if k = ''['' then
           (if n > 1 then activate_profile lib d (go_mod (mo_active m - 1 + n) n) m else (m, []))
         else if k = '']'' then
           (if n > 1 then activate_profile lib d (go_mod (mo_active m + 1) n) m else (m, []))
         else if k = ''?'' \<or> k = ''esc'' then
           (m\<lparr>mo_view := (if mo_view m = ViewHelp then ViewOverview else ViewHelp)\<rparr>, [])
         else if k = ''r'' then (m, [refresh_now m])
         else (case view_for_key k of Some v \<Rightarrow> m\<lparr>mo_view := v\<rparr> | None \<Rightarrow> m, []))"

definition update_snapshot :: "int \<Rightarrow> snapshot \<Rightarrow> client_fault option \<Rightarrow> model \<Rightarrow> model" where
  "update_snapshot i s e m =
     (if i \<noteq> mo_active m then m
      else
        let m = m\<lparr>mo_err := e\<rparr>
        in if e = None then m\<lparr>mo_snapshot := s, mo_state := (if snapshot_empty s then StateEmpty else StateLoaded)\<rparr>
           else if is_zero (sn_updated_at (mo_snapshot m)) then m\<lparr>mo_state := StateError\<rparr> else m)"

fun update :: "monitor_lib \<Rightarrow> disk \<Rightarrow> message \<Rightarrow> model \<Rightarrow> model \<times> tea_command list" where
  "update lib d (WindowSize w h) m = (m\<lparr>mo_width := w, mo_height := h\<rparr>, [])"
| "update lib d (KeyPress k) m = update_key lib d k m"
| "update lib d TickMsg m = (m, [refresh_now m, TickAfter (mo_refresh m)])"
| "update lib d (SnapshotMsg i s e) m = (update_snapshot i s e m, [])"

section \<open>The running program\<close>

text \<open>
  A session holds the commands that have been started. An event is a key, a resize, or the
  arrival of what a command sends: a tick, the end of the program, the outcome of a refresh.
\<close>

record session =
  se_model :: model
  se_pending :: "tea_command list"
  se_running :: bool

datatype event = Resized int int | Pressed string | Ticked duration | Stopped
  | Answered "top_client option" int view string snapshot "client_fault option"

definition deliver :: "monitor_lib \<Rightarrow> disk \<Rightarrow> message \<Rightarrow> session \<Rightarrow> session" where
  "deliver lib d msg s =
     (case update lib d msg (se_model s) of
        (m, cs) \<Rightarrow> s\<lparr>se_model := m, se_pending := se_pending s @ cs\<rparr>)"

definition complete :: "tea_command \<Rightarrow> session \<Rightarrow> session" where
  "complete c s = s\<lparr>se_pending := remove1 c (se_pending s)\<rparr>"

text \<open>What a refresh answers: without a client, an error that names the profile.\<close>

definition refresh_answer ::
  "(top_client \<Rightarrow> snapshot \<Rightarrow> client_fault option \<Rightarrow> bool) \<Rightarrow> top_client option \<Rightarrow> string \<Rightarrow> snapshot \<Rightarrow> client_fault option \<Rightarrow> bool" where
  "refresh_answer answers c name s e =
     (case c of None \<Rightarrow> s = zero_snapshot \<and> e = Some (ProfileUnusable name) | Some cl \<Rightarrow> answers cl s e)"

inductive monitor_step ::
  "monitor_lib \<Rightarrow> (top_client \<Rightarrow> snapshot \<Rightarrow> client_fault option \<Rightarrow> bool) \<Rightarrow> session \<Rightarrow> event \<Rightarrow> session \<Rightarrow> bool"
  for lib answers where
  resize: "se_running s \<Longrightarrow> monitor_step lib answers s (Resized w h) (deliver lib d (WindowSize w h) s)"
| key: "se_running s \<Longrightarrow> monitor_step lib answers s (Pressed k) (deliver lib d (KeyPress k) s)"
| tick: "se_running s \<Longrightarrow> TickAfter t \<in> set (se_pending s) \<Longrightarrow>
    monitor_step lib answers s (Ticked t) (deliver lib d TickMsg (complete (TickAfter t) s))"
| answer: "se_running s \<Longrightarrow> Refresh c i v n \<in> set (se_pending s) \<Longrightarrow> refresh_answer answers c n sn e \<Longrightarrow>
    monitor_step lib answers s (Answered c i v n sn e)
      (deliver lib d (SnapshotMsg i sn e) (complete (Refresh c i v n) s))"
| stop: "se_running s \<Longrightarrow> Quit \<in> set (se_pending s) \<Longrightarrow> monitor_step lib answers s Stopped (s\<lparr>se_running := False\<rparr>)"

definition start_session :: "monitor_lib \<Rightarrow> disk \<Rightarrow> profile_set \<Rightarrow> session" where
  "start_session lib d ps =
     (let m = new_profile_model lib d ps in \<lparr>se_model = m, se_pending = init_commands m, se_running = True\<rparr>)"

inductive monitor_run ::
  "monitor_lib \<Rightarrow> (top_client \<Rightarrow> snapshot \<Rightarrow> client_fault option \<Rightarrow> bool) \<Rightarrow> session \<Rightarrow> session \<Rightarrow> bool"
  for lib answers s0 where
  start: "monitor_run lib answers s0 s0"
| step: "monitor_run lib answers s0 s \<Longrightarrow> monitor_step lib answers s ev s' \<Longrightarrow> monitor_run lib answers s0 s'"

text \<open>The answers of a network: some schedule of the detail requests, in some state of the world.\<close>

definition network_answers ::
  "monitor_lib \<Rightarrow> 'w top_network \<Rightarrow> top_client \<Rightarrow> snapshot \<Rightarrow> client_fault option \<Rightarrow> bool" where
  "network_answers lib net c s e \<longleftrightarrow>
     (\<exists>sched now w w'. set sched = set detail_requests \<and> distinct sched \<and> \<not> is_zero now \<and>
        client_snapshot lib net c sched now w = (w', s, e))"

inductive_cases monitor_stepE: "monitor_step lib answers s ev s'"

end
