(* ===== verification/Irtop_View.thy ===== *)
theory Irtop_View
  imports Irtop_Model
begin

text \<open>
  The screens of the terminal monitor (\<open>View\<close> and the functions below it in
  \<open>internal/irtop/model.go\<close>) and the program of \<open>cmd/irtop/main.go\<close>. The styles of the terminal
  library are a parameter: functions on text, some with a width. Times decoded from the server
  are in UTC; the time of a refresh is local, \<open>sy_offset\<close> seconds from UTC. Padding counts
  characters, which on ASCII text are bytes.
\<close>

section \<open>Text\<close>

record styles =
  sy_title :: "string \<Rightarrow> string"
  sy_subtle :: "string \<Rightarrow> string"
  sy_warn :: "string \<Rightarrow> string"
  sy_ok :: "string \<Rightarrow> string"
  sy_bad :: "string \<Rightarrow> string"
  sy_table_head :: "string \<Rightarrow> string"
  sy_table_row :: "string \<Rightarrow> string"
  sy_tab :: "string \<Rightarrow> string"
  sy_active_tab :: "string \<Rightarrow> string"
  sy_header :: "int \<Rightarrow> string \<Rightarrow> string"
  sy_tabs :: "int \<Rightarrow> string \<Rightarrow> string"
  sy_footer :: "int \<Rightarrow> string \<Rightarrow> string"
  sy_panel :: "int \<Rightarrow> string \<Rightarrow> string"
  sy_alert :: "int \<Rightarrow> string \<Rightarrow> string"
  sy_body :: "int \<Rightarrow> int \<Rightarrow> string \<Rightarrow> string"
  sy_screen :: "int \<Rightarrow> int \<Rightarrow> string \<Rightarrow> string"
  sy_beside :: "string \<Rightarrow> string \<Rightarrow> string" \<comment> \<open>two blocks side by side, two spaces between\<close>
  sy_width :: "string \<Rightarrow> int"
  sy_offset :: int

abbreviation newline :: string where "newline \<equiv> [CHR 0x0A]"

text \<open>The verbs \<open>%-ns\<close>, \<open>%nd\<close>, \<open>%.ns\<close> and \<open>%t\<close>.\<close>

definition pad_right :: "nat \<Rightarrow> string \<Rightarrow> string" where
  "pad_right n s = s @ replicate (n - length s) CHR '' ''"

definition pad_left :: "nat \<Rightarrow> string \<Rightarrow> string" where
  "pad_left n s = replicate (n - length s) CHR '' '' @ s"

definition show_truth :: "bool \<Rightarrow> string" where
  "show_truth b = (if b then ''true'' else ''false'')"

definition empty_or :: "string \<Rightarrow> string \<Rightarrow> string" where
  "empty_or s fallback = (if s = [] then fallback else s)"

definition go_max :: "int \<Rightarrow> int \<Rightarrow> int" where
  "go_max a b = (if a > b then a else b)"

definition short_text :: "string \<Rightarrow> string" where
  "short_text s = (if length s \<le> 14 then s else take 14 s)"

definition truncate_text :: "string \<Rightarrow> nat \<Rightarrow> string" where
  "truncate_text s n = (if length s \<le> n then s else if n \<le> 1 then take n s else take (n - 1) s @ ''.'')"

definition calendar_day :: "gotime \<Rightarrow> string" where
  "calendar_day t =
     (let (y, m, d) = civil (t div second div 86400)
      in pad0 4 (show_int y) @ ''-'' @ pad0 2 (show_int m) @ ''-'' @ pad0 2 (show_int d))"

definition time_of_day :: "gotime \<Rightarrow> string" where
  "time_of_day t =
     (let r = (t div second) mod 86400
      in pad0 2 (show_int (r div 3600)) @ '':'' @ pad0 2 (show_int (r mod 3600 div 60)) @ '':'' @ pad0 2 (show_int (r mod 60)))"

definition date_text :: "gotime \<Rightarrow> string" where
  "date_text t = (if is_zero t then ''n/a'' else calendar_day t)"

definition panel_content_width :: "int \<Rightarrow> int" where
  "panel_content_width w = go_max 16 (w - 4)"

definition panel :: "styles \<Rightarrow> int \<Rightarrow> string \<Rightarrow> string \<Rightarrow> string" where
  "panel st w title body = sy_panel st (panel_content_width w) (sy_title st ('' '' @ title @ '' '') @ newline @ body)"

definition alert_box :: "styles \<Rightarrow> int \<Rightarrow> string \<Rightarrow> string \<Rightarrow> string" where
  "alert_box st w title body = sy_alert st (panel_content_width w) (sy_bad st ('' '' @ title @ '' '') @ newline @ body)"

definition metric_line :: "styles \<Rightarrow> string \<Rightarrow> string \<Rightarrow> string \<Rightarrow> string \<Rightarrow> string" where
  "metric_line st ll lv rl rv =
     (let left = sy_subtle st (ll @ '': '') @ lv
      in if rl = [] then left else pad_right 42 left @ '' '' @ sy_subtle st (rl @ '': '') @ rv)"

definition status_badge :: "styles \<Rightarrow> string \<Rightarrow> string" where
  "status_badge st s =
     (if to_lower s \<in> {''healthy'', ''ready'', ''valid'', ''pass'', ''active'', ''ok''} then sy_ok st s
      else if to_lower s \<in> {''critical'', ''high'', ''failed'', ''error'', ''unconfigured'', ''revoked'', ''expired''}
        then sy_bad st (empty_or s ''unknown'')
      else if s = [] then sy_warn st ''unknown'' else sy_warn st s)"

definition bool_badge :: "styles \<Rightarrow> bool \<Rightarrow> string" where
  "bool_badge st b = (if b then sy_ok st ''on'' else sy_subtle st ''off'')"

definition bool_word :: "bool \<Rightarrow> string" where
  "bool_word b = (if b then ''yes'' else ''no'')"

definition warn_number :: "styles \<Rightarrow> int \<Rightarrow> string" where
  "warn_number st v = (if v > 0 then sy_warn st (show_int v) else sy_ok st ''0'')"

section \<open>Messages\<close>

definition fault_text :: "monitor_lib \<Rightarrow> client_fault \<Rightarrow> string" where
  "fault_text lib f =
     (case f of
        ServerMissing \<Rightarrow> ''server URL is required. For local development use http://localhost:8443. For production use https://ironroot.example.com:8443''
      | UrlUnparsed s e \<Rightarrow> ''invalid server URL '' @ ml_quote lib s @ '': '' @ e
      | NoScheme s \<Rightarrow> ''server URL '' @ ml_quote lib s @ '' is missing a scheme. Use http://localhost:8443 for local development or https://ironroot.example.com:8443 for production''
      | BadScheme s \<Rightarrow> ''server URL scheme '' @ ml_quote lib s @ '' is not supported. Use http or https''
      | NoHost s \<Rightarrow> ''server URL '' @ ml_quote lib s @ '' is missing a host''
      | CaUnreadable p e \<Rightarrow> ''failed to read CA file '' @ ml_quote lib p @ '': '' @ e
      | CaInvalid p \<Rightarrow> ''failed to load CA certificates from '' @ ml_quote lib p
      | RequestRejected e \<Rightarrow> e
      | HttpsToHttp s \<Rightarrow> join newline
          [''could not connect to IronRoot API.'', '''', ''The server URL uses HTTPS:'', s, '''',
           ''But the server appears to be responding with plain HTTP.'', '''', ''For local development, try:'',
           ''irtop --server http://localhost:8443'', '''', ''For production, enable TLS on ironroot-server and use:'',
           ''irtop --server https://<host>:8443 --ca-file ./root-ca.crt'', '''',
           ''Do not use --insecure-skip-verify unless you understand the risk'']
      | Connection e \<Rightarrow> e
      | ServerSaid s \<Rightarrow> ''server returned '' @ s
      | NotDecoded e \<Rightarrow> e
      | ProfileUnusable n \<Rightarrow> ''active profile '' @ ml_quote lib n @ '' is not usable''
      | NoProfilesConfigured \<Rightarrow> ''no irtop profiles configured'')"

section \<open>Screens\<close>

definition content_width :: "model \<Rightarrow> int" where
  "content_width m = (if mo_width m \<le> 0 then 80 else go_max 40 (mo_width m - 4))"

definition loading_view :: "styles \<Rightarrow> model \<Rightarrow> string" where
  "loading_view st m =
     panel st (content_width m) ''Loading'' (join newline
       [''Loading IronRoot status...'', '''', ''Profile: '' @ active_profile_name m,
        ''Server:  '' @ empty_or (tc_server (model_config m)) ''not configured''])"

definition startup_error_view :: "styles \<Rightarrow> monitor_lib \<Rightarrow> model \<Rightarrow> string" where
  "startup_error_view st lib m =
     alert_box st (content_width m) ''Startup Error''
       (''Startup failed before irtop could display data.'' @
        (case mo_err m of None \<Rightarrow> [] | Some e \<Rightarrow> newline @ newline @ fault_text lib e) @
        newline @ newline @ ''Press r to retry, p to switch profiles, or q to quit.'')"

definition empty_view :: "styles \<Rightarrow> model \<Rightarrow> string" where
  "empty_view st m =
     panel st (content_width m) ''No Data'' (join newline
       [''IronRoot returned an empty status snapshot.'', '''', ''Press r to refresh or p to switch profiles.''])"

definition selector_line :: "styles \<Rightarrow> model \<Rightarrow> int \<Rightarrow> profile \<Rightarrow> string" where
  "selector_line st m i p =
     (let line = (if i = mo_cursor m then ''> '' else ''  '') @ pad_right 18 (pf_name p) @ '' '' @ tc_server (pf_config p) @
            (if i = mo_active m then '' active'' else [])
      in if i = mo_cursor m then sy_active_tab st line else line)"

definition profile_selector_view :: "styles \<Rightarrow> model \<Rightarrow> string" where
  "profile_selector_view st m =
     (if mo_profiles m = [] then alert_box st (content_width m) ''Profiles'' ''No profiles are configured.''
      else panel st (content_width m) ''Profiles'' (join newline
        ([''Use up/down or k/j to choose a profile. Press enter to switch.'', ''''] @
         map (\<lambda>(i, p). selector_line st m (int i) p) (zip [0..<length (mo_profiles m)] (mo_profiles m)))))"

definition overview_view :: "styles \<Rightarrow> model \<Rightarrow> string" where
  "overview_view st m =
     (let ov = sn_overview (mo_snapshot m); sv = tov_server ov; ce = tov_certificates ov; en = tov_enrollments ov;
          se = tov_security ov; te = tov_telemetry ov
      in if tsv_status sv = [] then panel st (content_width m) ''Waiting'' ''Waiting for IronRoot status...''
         else
           let w = content_width m; pw = go_max 34 (quot (w - 2) 2); ww = go_max 34 w
           in join (newline @ newline)
             [panel st ww ''IronRoot'' (join newline
                [metric_line st ''Server'' (status_badge st (tsv_status sv)) ''Version'' (empty_or (tsv_version sv) ''dev''),
                 metric_line st ''API'' (tsv_api_health sv @ ''/'' @ tsv_readiness sv) ''CA''
                   (empty_or (tca_chain_status (tov_ca ov)) ''unknown'')]),
              sy_beside st
                (panel st pw ''Certificates'' (join newline
                  [metric_line st ''Active'' (show_int (tcs_active ce)) ''Expiring'' (warn_number st (tcs_expiring_soon ce)),
                   metric_line st ''Issued today'' (show_int (tcs_issued_today ce)) ''Revoked'' (warn_number st (tcs_revoked ce))]))
                (panel st pw ''Enrollments'' (join newline
                  [metric_line st ''Success'' (show_int (tes_successful en)) ''Failed'' (warn_number st (tes_failed en)),
                   metric_line st ''Pending'' (show_int (tes_pending en)) ''Invalid tokens''
                     (warn_number st (tes_invalid_token en))])),
              sy_beside st
                (panel st pw ''Security'' (join newline
                  [metric_line st ''Status'' (status_badge st (tse_status se)) ''Critical'' (warn_number st (tse_critical se)),
                   metric_line st ''High'' (warn_number st (tse_high se)) ''Warnings'' (warn_number st (tse_warnings se))]))
                (panel st pw ''Telemetry'' (join newline
                  [metric_line st ''Enabled'' (bool_badge st (tte_enabled te)) ''Exporter''
                     (empty_or (tte_exporter_status te) ''unknown''),
                   metric_line st ''Traces'' (bool_badge st (tte_traces te)) ''Metrics'' (bool_badge st (tte_metrics te))]))])"

definition certificates_view :: "styles \<Rightarrow> model \<Rightarrow> string" where
  "certificates_view st m =
     panel st (content_width m) ''Certificates'' (join newline
       (sy_table_head st ''SERIAL          DNS                    STATUS   EXPIRES      DAYS  ISSUER'' #
        map (\<lambda>c. sy_table_row st (pad_right 15 (short_text (tce_serial c)) @ '' '' @
             pad_right 22 (truncate_text (join '','' (tce_dns_names c)) 22) @ '' '' @ pad_right 8 (tce_status c) @ '' '' @
             pad_right 12 (date_text (tce_expires_at c)) @ '' '' @ pad_left 4 (show_int (tce_days_remaining c)) @ ''  '' @
             take 12 (tce_issuer c)))
          (sn_certificates (mo_snapshot m))))"

definition enrollments_view :: "styles \<Rightarrow> model \<Rightarrow> string" where
  "enrollments_view st m =
     panel st (content_width m) ''Enrollments'' (join newline
       (sy_table_head st ''ENROLLMENT ID                         HOST                 STATUS   CERTS  CREATED'' #
        map (\<lambda>e. sy_table_row st (pad_right 37 (ten_id e) @ '' '' @ pad_right 20 (truncate_text (ten_hostname e) 20) @ '' '' @
             pad_right 8 (ten_status e) @ '' '' @ pad_left 5 (show_int (ten_certificate_count e)) @ ''  '' @
             date_text (ten_created_at e)))
          (sn_enrollments (mo_snapshot m))))"

definition tokens_view :: "styles \<Rightarrow> model \<Rightarrow> string" where
  "tokens_view st m =
     panel st (content_width m) ''Bootstrap Tokens'' (join newline
       (sy_table_head st ''TOKEN ID                              HOST                 STATUS   USED  EXPIRES'' #
        map (\<lambda>t. sy_table_row st (pad_right 37 (ttk_id t) @ '' '' @ pad_right 20 (truncate_text (ttk_host t) 20) @ '' '' @
             pad_right 8 (ttk_status t) @ '' '' @ pad_right 5 (show_truth (ttk_used t)) @ '' '' @ date_text (ttk_expires_at t)))
          (sn_tokens (mo_snapshot m))))"

text \<open>The tree of authorities.\<close>

definition intermediate_lines :: "styles \<Rightarrow> bool \<Rightarrow> top_intermediate \<Rightarrow> string list" where
  "intermediate_lines st is_last i =
     (let owner = empty_or (tim_owner i) ''unowned'' @ (if tim_namespace i \<noteq> [] then ''/'' @ tim_namespace i else [])
      in [''   '' @ (if is_last then ''`-'' else ''|-'') @ '' '' @ status_badge st (tim_status i) @ '' '' @ tim_name i @ '' '' @
            sy_subtle st owner,
          ''      certs active='' @ show_int (tim_active_certs i) @ '' revoked='' @ show_int (tim_revoked_certs i) @ '' ttl='' @
            empty_or (tim_max_ttl i) ''n/a'' @ '' renew='' @ bool_word (tim_renewal_allowed i) @ '' approval='' @
            bool_word (tim_require_approval i)] @
         (if tim_allowed_dns i \<noteq> [] then [sy_subtle st (''      dns '' @ truncate_text (join '', '' (tim_allowed_dns i)) 72)] else []) @
         (if tim_policies i \<noteq> [] \<or> tim_roles i \<noteq> [] then
            [sy_subtle st (''      access policies='' @ show_nat (length (tim_policies i)) @ '' roles='' @ show_nat (length (tim_roles i)))]
          else []))"

definition root_lines :: "styles \<Rightarrow> top_root \<Rightarrow> string list" where
  "root_lines st r =
     [status_badge st (trt_status r) @ '' '' @ sy_title st (trt_name r) @ '' '' @
        sy_subtle st (''['' @ empty_or (trt_environment r) ''unknown'' @ '']''),
      sy_subtle st (''   root '' @ short_text (trt_fingerprint r) @ ''  expires '' @ date_text (trt_not_after r) @ ''  trust '' @
        empty_or (trt_trust_domain r) ''n/a'')] @
     concat (map (\<lambda>(k, i). intermediate_lines st (k = length (trt_intermediates r) - 1) i)
       (zip [0..<length (trt_intermediates r)] (trt_intermediates r)))"

definition hierarchy_tree :: "styles \<Rightarrow> top_hierarchy \<Rightarrow> string list" where
  "hierarchy_tree st h =
     [sy_table_head st ''Trust hierarchy'',
      metric_line st ''Roots'' (show_int (ths_roots (thi_summary h))) ''Intermediates'' (show_int (ths_intermediates (thi_summary h))),
      metric_line st ''Policies'' (show_int (ths_policies (thi_summary h))) ''RBAC roles'' (show_int (ths_roles (thi_summary h)))] @
     (if thi_legacy h then [sy_warn st ''legacy ca_config projection''] else []) @
     concat (map (root_lines st) (thi_roots h)) @
     map (\<lambda>w. sy_warn st (''warning: '' @ w)) (thi_warnings h)"

definition ca_view :: "styles \<Rightarrow> model \<Rightarrow> string" where
  "ca_view st m =
     (let sn = mo_snapshot m;
          ca = (if tca_active_issuer (sn_ca sn) = [] then tov_ca (sn_overview sn) else sn_ca sn);
          h = sn_hierarchy sn
      in panel st (content_width m) ''CA Health'' (join newline
        ([metric_line st ''Root fingerprint'' (short_text (tca_root_fingerprint ca)) ''Root expires'' (date_text (tca_root_expires ca)),
          metric_line st ''Intermediate'' (short_text (tca_intermediate_fingerprint ca)) ''Intermediate expires''
            (date_text (tca_intermediate_expires ca)),
          metric_line st ''Active issuer'' (short_text (tca_active_issuer ca)) ''Chain'' (status_badge st (tca_chain_status ca)),
          metric_line st ''Disabled issuers'' (show_int (tca_disabled_issuers ca)) ''Retired issuers''
            (show_int (tca_retired_issuers ca))] @
         map (\<lambda>w. sy_warn st (''warning: '' @ w)) (tca_warnings ca) @
         (if thi_roots h \<noteq> [] then '''' # hierarchy_tree st h
          else map (\<lambda>w. sy_warn st (''hierarchy: '' @ w)) (thi_warnings h)))))"

definition security_view :: "styles \<Rightarrow> model \<Rightarrow> string" where
  "security_view st m =
     (let sn = mo_snapshot m; s = (if tse_status (sn_security sn) = [] then tov_security (sn_overview sn) else sn_security sn)
      in panel st (content_width m) ''Security'' (join newline
        [metric_line st ''Status'' (status_badge st (tse_status s)) ''Critical'' (warn_number st (tse_critical s)),
         metric_line st ''High'' (warn_number st (tse_high s)) ''Warnings'' (warn_number st (tse_warnings s)), '''', tse_message s]))"

definition telemetry_view :: "styles \<Rightarrow> model \<Rightarrow> string" where
  "telemetry_view st m =
     (let sn = mo_snapshot m;
          t = (if tte_exporter_status (sn_telemetry sn) = [] then tov_telemetry (sn_overview sn) else sn_telemetry sn)
      in panel st (content_width m) ''Telemetry'' (join newline
        [metric_line st ''Enabled'' (bool_badge st (tte_enabled t)) ''Exporter'' (empty_or (tte_exporter_status t) ''unknown''),
         metric_line st ''Traces'' (bool_badge st (tte_traces t)) ''Metrics'' (bool_badge st (tte_metrics t)),
         metric_line st ''Logs'' (bool_badge st (tte_logs t)) ''Prometheus'' (bool_badge st (tte_prometheus t)),
         metric_line st ''OTLP'' (empty_or (tte_otlp_endpoint t) ''not configured'') ''Protocol'' (empty_or (tte_otlp_protocol t) ''n/a''),
         metric_line st ''Metrics path'' (empty_or (tte_prometheus_path t) ''n/a'') '''' '''']))"

definition audit_view :: "styles \<Rightarrow> model \<Rightarrow> string" where
  "audit_view st m =
     panel st (content_width m) ''Recent Audit Events'' (join newline
       (sy_table_head st ''TIME                  SEVERITY  ACTION                    ACTOR      TARGET'' #
        map (\<lambda>e. sy_table_row st (pad_right 21 (calendar_day (tau_timestamp e) @ '' '' @ time_of_day (tau_timestamp e)) @ '' '' @
             pad_right 9 (tau_severity e) @ '' '' @ pad_right 25 (truncate_text (tau_action e) 25) @ '' '' @
             pad_right 10 (truncate_text (tau_actor e) 10) @ '' '' @ tau_target e))
          (sn_audit (mo_snapshot m))))"

definition server_view :: "styles \<Rightarrow> model \<Rightarrow> string" where
  "server_view st m =
     (let sn = mo_snapshot m; s = (if tsv_status (sn_server sn) = [] then tov_server (sn_overview sn) else sn_server sn)
      in panel st (content_width m) ''Server'' (join newline
        [metric_line st ''Status'' (status_badge st (tsv_status s)) ''Version'' (empty_or (tsv_version s) ''dev''),
         metric_line st ''API'' (tsv_api_health s @ '' / '' @ tsv_readiness s) ''Address'' (empty_or (tsv_api_address s) ''unknown''),
         metric_line st ''TLS'' (bool_badge st (tsv_tls s)) ''Database'' (empty_or (tsv_database_type s) ''unknown''),
         metric_line st ''Go'' (empty_or (tsv_go_version s) ''unknown'') ''Goroutines'' (show_int (tsv_goroutines s))]))"

definition help_view :: "styles \<Rightarrow> model \<Rightarrow> string" where
  "help_view st m =
     panel st (content_width m) ''Help'' (join newline
       ([''q       quit'', ''?       help'', ''r       refresh now''] @
        map (\<lambda>s. vs_key s @ ''       '' @ vs_help s) main_view_specs @
        [''p       profile selector'', ''[ / ]   previous / next profile'', ''/       search/filter (planned)'',
         ''s       sort (planned)'', ''enter   details (planned)'', ''esc     back'']))"

definition render_body :: "styles \<Rightarrow> monitor_lib \<Rightarrow> model \<Rightarrow> string" where
  "render_body st lib m =
     (case mo_state m of
        StateLoading \<Rightarrow> loading_view st m
      | StateError \<Rightarrow> startup_error_view st lib m
      | StateEmpty \<Rightarrow> empty_view st m
      | StateLoaded \<Rightarrow>
          (case mo_view m of
             ViewCertificates \<Rightarrow> certificates_view st m | ViewEnrollments \<Rightarrow> enrollments_view st m
           | ViewTokens \<Rightarrow> tokens_view st m | ViewCAHealth \<Rightarrow> ca_view st m | ViewSecurity \<Rightarrow> security_view st m
           | ViewTelemetry \<Rightarrow> telemetry_view st m | ViewAuditLog \<Rightarrow> audit_view st m | ViewServer \<Rightarrow> server_view st m
           | ViewHelp \<Rightarrow> help_view st m | ViewOverview \<Rightarrow> overview_view st m))"

definition header_line :: "styles \<Rightarrow> model \<Rightarrow> int \<Rightarrow> string" where
  "header_line st m w =
     (let sv = tov_server (sn_overview (mo_snapshot m)); upd = sn_updated_at (mo_snapshot m);
          updated = (if is_zero upd then ''not refreshed'' else time_of_day (upd + sy_offset st * second));
          left = '' IRONROOT TOP '';
          mid = '' '' @ status_badge st (empty_or (tsv_status sv) ''connecting'') @ ''  profile '' @
            sy_title st (active_profile_name m) @ ''  version '' @ empty_or (tsv_version sv) ''dev'' @ ''  api '' @
            empty_or (tsv_api_health sv) ''unknown'' @ ''/'' @ empty_or (tsv_readiness sv) ''unknown'' @ '' '';
          right = sy_subtle st (''updated '' @ updated);
          gap = go_max 1 (w - sy_width st left - sy_width st mid - sy_width st right)
      in sy_header st w (sy_title st left @ mid @ replicate (nat gap) CHR '' '' @ right))"

definition tab_line :: "styles \<Rightarrow> model \<Rightarrow> int \<Rightarrow> string" where
  "tab_line st m w =
     sy_tabs st w (join '' '' (map (\<lambda>s. (if vs_view s = mo_view m then sy_active_tab st else sy_tab st) (vs_tab s)) main_view_specs))"

definition frame :: "styles \<Rightarrow> model \<Rightarrow> string \<Rightarrow> string" where
  "frame st m content =
     (if mo_width m \<le> 0 \<or> mo_height m \<le> 0 then content
      else
        let inner = go_max 40 (mo_width m - 4); height = go_max 1 (mo_height m - 5);
            footer = '' q quit  ? help  r refresh  1-9 views'' @
              (if length (mo_profiles m) > 1 then ''  p profiles  [ ] switch'' else [])
        in sy_screen st (mo_width m) (mo_height m) (join newline
             [header_line st m inner, tab_line st m inner, sy_body st inner height content, sy_footer st inner footer]))"

definition model_view :: "styles \<Rightarrow> monitor_lib \<Rightarrow> model \<Rightarrow> string" where
  "model_view st lib m =
     (if mo_selecting m then frame st m (profile_selector_view st m)
      else frame st m (render_body st lib m @
        (case mo_err m of
           Some e \<Rightarrow> if mo_state m \<noteq> StateError
             then newline @ newline @ alert_box st (content_width m) ''API error'' (fault_text lib e) else []
         | None \<Rightarrow> [])))"

definition render_text :: "styles \<Rightarrow> snapshot \<Rightarrow> string" where
  "render_text st s = overview_view st ((new_model None default_refresh ViewOverview)\<lparr>mo_snapshot := s\<rparr>)"

section \<open>The program\<close>

text \<open>
  \<open>main\<close> after its flags are parsed: what it prints, and its exit status or the model it runs.
  \<open>telemetry_error\<close> is the outcome of \<open>telemetry.Configure\<close> on the configuration from the
  environment.
\<close>

datatype outcome = Exit int | RunProgram profile_set

definition irtop_main ::
  "styles \<Rightarrow> monitor_lib \<Rightarrow> 'w top_network \<Rightarrow> (telemetry_config \<Rightarrow> string option) \<Rightarrow> (string \<Rightarrow> string) \<Rightarrow> (top_error \<Rightarrow> string) \<Rightarrow>
     (detail \<times> string) list \<Rightarrow> gotime \<Rightarrow> disk \<Rightarrow> top_flags \<Rightarrow> 'w \<Rightarrow> 'w \<times> string \<times> string \<times> outcome" where
  "irtop_main st lib net telemetry_error getenv message sched now d f w =
     (case load_profiles_for_flags (ml_config lib) d f of
        Inl e \<Rightarrow> (w, [], ''Failed to load irtop config: '' @ message e @ newline, Exit 2)
      | Inr ps \<Rightarrow>
     (case select_profile (tf_profile f) ps of
        Inl e \<Rightarrow> (w, [], message e @ newline, Exit 2)
      | Inr ps \<Rightarrow>
          let cfg = apply_flag_overrides f (active_config ps);
              ps = set_active_config ps cfg;
              warning = (if tc_insecure cfg then ''Warning: TLS verification is disabled for this irtop session.'' @ newline else [])
          in case telemetry_error (top_telemetry_from_env getenv) of
               Some e \<Rightarrow> (w, [], ''Failed to initialize telemetry: '' @ e @ newline, Exit 2)
             | None \<Rightarrow>
                 if tc_output cfg = ''text'' then
                   (case new_client_checked lib d cfg of
                      Inl e \<Rightarrow> (w, [], warning @ fault_text lib e @ newline, Exit 2)
                    | Inr c \<Rightarrow>
                        (case client_snapshot lib net c sched now w of
                           (w', s, Some e) \<Rightarrow> (w', [], warning @ ''Failed to read IronRoot status: '' @ fault_text lib e @ newline, Exit 1)
                         | (w', s, None) \<Rightarrow> (w', render_text st s @ newline, warning, Exit 0)))
                 else if tc_output cfg = ''tui'' \<or> tc_output cfg = [] then (w, [], warning, RunProgram ps)
                 else (w, [], warning @ ''Unsupported output mode '' @ ml_quote lib (tc_output cfg) @ ''. Use tui or text.'' @ newline, Exit 2)))"

section \<open>What the screens cannot show\<close>

text \<open>Two models that differ in the tokens of profiles and client only.\<close>

definition without_token :: "profile \<Rightarrow> profile" where
  "without_token p = p\<lparr>pf_config := (pf_config p)\<lparr>tc_token := []\<rparr>\<rparr>"

definition without_tokens :: "model \<Rightarrow> model" where
  "without_tokens m =
     m\<lparr>mo_profiles := map without_token (mo_profiles m), mo_client := map_option (\<lambda>c. c\<lparr>cl_token := []\<rparr>) (mo_client m)\<rparr>"

lemma without_tokens_fields [simp]:
  "mo_active (without_tokens m) = mo_active m" "mo_cursor (without_tokens m) = mo_cursor m"
  "mo_selecting (without_tokens m) = mo_selecting m" "mo_view (without_tokens m) = mo_view m"
  "mo_snapshot (without_tokens m) = mo_snapshot m" "mo_err (without_tokens m) = mo_err m"
  "mo_state (without_tokens m) = mo_state m" "mo_width (without_tokens m) = mo_width m"
  "mo_height (without_tokens m) = mo_height m" "length (mo_profiles (without_tokens m)) = length (mo_profiles m)"
  "in_profiles (without_tokens m) i = in_profiles m i" "(mo_profiles (without_tokens m) = []) = (mo_profiles m = [])"
  by (simp_all add: without_tokens_def in_profiles_def)

lemma without_token_shown [simp]:
  "pf_name (without_token p) = pf_name p" "tc_server (pf_config (without_token p)) = tc_server (pf_config p)"
  "selector_line st (without_tokens m) i (without_token p) = selector_line st m i p"
  by (simp_all add: without_token_def selector_line_def)

lemma without_tokens_nth [simp]:
  "in_profiles m i \<Longrightarrow> mo_profiles (without_tokens m) ! nat i = without_token (mo_profiles m ! nat i)"
  by (auto simp: in_profiles_def without_tokens_def)

lemma without_tokens_names [simp]:
  "active_profile_name (without_tokens m) = active_profile_name m"
  "tc_server (model_config (without_tokens m)) = tc_server (model_config m)"
  "content_width (without_tokens m) = content_width m"
  by (simp_all add: active_profile_name_def model_config_def content_width_def)

lemma selector_lines_without:
  "map (\<lambda>(i, p). selector_line st (without_tokens m) (int i) p) (zip [0..<n] (map without_token ps)) =
     map (\<lambda>(i, p). selector_line st m (int i) p) (zip [0..<n] ps)"
  by (simp add: zip_map2 case_prod_unfold)

lemma selector_without: "profile_selector_view st (without_tokens m) = profile_selector_view st m"
proof -
  have "mo_profiles (without_tokens m) = map without_token (mo_profiles m)" by (simp add: without_tokens_def)
  then show ?thesis by (simp add: profile_selector_view_def selector_lines_without)
qed

lemma views_without:
  "startup_error_view st lib (without_tokens m) = startup_error_view st lib m"
  "loading_view st (without_tokens m) = loading_view st m"
  "empty_view st (without_tokens m) = empty_view st m"
  "certificates_view st (without_tokens m) = certificates_view st m"
  "enrollments_view st (without_tokens m) = enrollments_view st m"
  "tokens_view st (without_tokens m) = tokens_view st m"
  "ca_view st (without_tokens m) = ca_view st m"
  "security_view st (without_tokens m) = security_view st m"
  "telemetry_view st (without_tokens m) = telemetry_view st m"
  "audit_view st (without_tokens m) = audit_view st m"
  "server_view st (without_tokens m) = server_view st m"
  "help_view st (without_tokens m) = help_view st m"
  "overview_view st (without_tokens m) = overview_view st m"
  by (simp_all only: startup_error_view_def loading_view_def empty_view_def certificates_view_def enrollments_view_def tokens_view_def ca_view_def
      security_view_def telemetry_view_def audit_view_def server_view_def help_view_def overview_view_def without_tokens_fields without_tokens_names)

lemma body_without: "render_body st lib (without_tokens m) = render_body st lib m"
  by (simp only: render_body_def views_without without_tokens_fields)

lemma frame_without: "frame st (without_tokens m) content = frame st m content"
  by (simp only: frame_def header_line_def tab_line_def without_tokens_fields without_tokens_names)

text \<open>
  No screen shows an access token: the screen is the same whatever tokens the profiles and the
  client hold.
\<close>

theorem screen_hides_tokens: "model_view st lib (without_tokens m) = model_view st lib m"
  by (simp only: model_view_def frame_without selector_without body_without without_tokens_fields without_tokens_names)

end
