(* ===== verification/Wire.thy ===== *)
theory Wire
  imports Hierarchy Irtop_Client
begin

text \<open>
  The JSON between the status endpoints and the monitor. The server encodes the structs of
  \<open>internal/api/status.go\<close> under their \<open>json\<close> tags, the monitor decodes into the structs of
  \<open>internal/irtop/types.go\<close> by its own tags; the two packages share no type. For each record
  there is the value the server sends (\<open>_json\<close>), whether a value fits the monitor's struct
  (\<open>_fits\<close>), and what the monitor reads from it (\<open>_seen\<close>). The text form of a value and of a time
  is \<open>encoding/json\<close>'s, a parameter.
\<close>

section \<open>Values\<close>

datatype json =
    JNull
  | JBool bool
  | JInt int
  | JText string
  | JList "json list"
  | JObject "(string \<times> json) list"

text \<open>\<open>wi_parse\<close> is the parsing half of \<open>Decode\<close>.\<close>

record wire =
  wi_text :: "json \<Rightarrow> string"
  wi_parse :: "string \<Rightarrow> string + json"
  wi_time :: "gotime \<Rightarrow> string"
  wi_read_time :: "string \<Rightarrow> gotime option"

section \<open>Encoding\<close>

text \<open>
  \<open>omitempty\<close> leaves a field out. Without it Go writes \<open>nil\<close> as \<open>null\<close> and an empty slice that
  was made as \<open>[]\<close>: \<open>slice_json\<close> is for slices that are \<open>nil\<close> when they are empty, \<open>made_json\<close> for
  those made. (\<open>splitNames\<close> gives \<open>nil\<close> for a blank text but an empty slice for a text of commas
  alone, where \<open>slice_json\<close> says \<open>null\<close>; a decoder reads both as the empty list.)
\<close>

definition omit :: "bool \<Rightarrow> string \<times> json \<Rightarrow> (string \<times> json) list" where
  "omit blank f = (if blank then [] else [f])"

definition slice_json :: "('a \<Rightarrow> json) \<Rightarrow> 'a list \<Rightarrow> json" where
  "slice_json f xs = (if xs = [] then JNull else JList (map f xs))"

definition made_json :: "('a \<Rightarrow> json) \<Rightarrow> 'a list \<Rightarrow> json" where
  "made_json f xs = JList (map f xs)"

definition time_json :: "wire \<Rightarrow> gotime \<Rightarrow> json" where
  "time_json w t = JText (wi_time w t)"

section \<open>Decoding\<close>

text \<open>A missing key and \<open>null\<close> leave the zero value; a value of another kind leaves it and is an error.\<close>

definition at_key :: "json \<Rightarrow> string \<Rightarrow> json" where
  "at_key j k =
     (case j of JObject fs \<Rightarrow> (case map_of fs k of None \<Rightarrow> JNull | Some v \<Rightarrow> v) | _ \<Rightarrow> JNull)"

definition text_of :: "json \<Rightarrow> string" where
  "text_of j = (case j of JText s \<Rightarrow> s | _ \<Rightarrow> [])"

definition list_of :: "(json \<Rightarrow> 'a) \<Rightarrow> json \<Rightarrow> 'a list" where
  "list_of f j = (case j of JList xs \<Rightarrow> map f xs | _ \<Rightarrow> [])"

definition time_of :: "wire \<Rightarrow> json \<Rightarrow> gotime option" where
  "time_of w j = (case j of JText s \<Rightarrow> wi_read_time w s | _ \<Rightarrow> None)"

definition text_at :: "json \<Rightarrow> string \<Rightarrow> string" where "text_at j k = text_of (at_key j k)"

definition int_at :: "json \<Rightarrow> string \<Rightarrow> int" where
  "int_at j k = (case at_key j k of JInt n \<Rightarrow> n | _ \<Rightarrow> 0)"

definition bool_at :: "json \<Rightarrow> string \<Rightarrow> bool" where
  "bool_at j k = (case at_key j k of JBool b \<Rightarrow> b | _ \<Rightarrow> False)"

definition list_at :: "(json \<Rightarrow> 'a) \<Rightarrow> json \<Rightarrow> string \<Rightarrow> 'a list" where
  "list_at f j k = list_of f (at_key j k)"

definition time_at :: "wire \<Rightarrow> json \<Rightarrow> string \<Rightarrow> gotime" where
  "time_at w j k = (case time_of w (at_key j k) of None \<Rightarrow> zero_time | Some t \<Rightarrow> t)"

definition pointer_at :: "wire \<Rightarrow> json \<Rightarrow> string \<Rightarrow> gotime option" where
  "pointer_at w j k = time_of w (at_key j k)"

fun is_text :: "json \<Rightarrow> bool" where
  "is_text (JText s) = True" | "is_text JNull = True" | "is_text j = False"

fun is_int :: "json \<Rightarrow> bool" where
  "is_int (JInt n) = True" | "is_int JNull = True" | "is_int j = False"

fun is_bool :: "json \<Rightarrow> bool" where
  "is_bool (JBool b) = True" | "is_bool JNull = True" | "is_bool j = False"

fun is_time :: "wire \<Rightarrow> json \<Rightarrow> bool" where
  "is_time w (JText s) = (wi_read_time w s \<noteq> None)" | "is_time w JNull = True" | "is_time w j = False"

fun is_list :: "(json \<Rightarrow> bool) \<Rightarrow> json \<Rightarrow> bool" where
  "is_list p (JList xs) = list_all p xs" | "is_list p JNull = True" | "is_list p j = False"

fun is_object :: "(string \<times> (json \<Rightarrow> bool)) list \<Rightarrow> json \<Rightarrow> bool" where
  "is_object shape (JObject fs) = list_all (\<lambda>(k, p). p (at_key (JObject fs) k)) shape"
| "is_object shape JNull = True"
| "is_object shape j = False"

text \<open>A decoder of the monitor: the value filled in and the error.\<close>

definition wire_decoder :: "wire \<Rightarrow> (json \<Rightarrow> bool) \<Rightarrow> (json \<Rightarrow> 'a) \<Rightarrow> 'a decoder" where
  "wire_decoder w fits seen body =
     (case body of
        Inl e \<Rightarrow> (seen JNull, Some e)
      | Inr txt \<Rightarrow>
          (case wi_parse w txt of
             Inl e \<Rightarrow> (seen JNull, Some e)
           | Inr j \<Rightarrow> (seen j, if fits j then None else Some ''json: cannot unmarshal'')))"

section \<open>The records\<close>

definition server_json :: "server_status \<Rightarrow> json" where
  "server_json r = JObject (
      [(''status'', JText (ss_status r)), (''version'', JText (ss_version r)),
       (''api_health'', JText (ss_api_health r)), (''readiness'', JText (ss_readiness r)),
       (''database_type'', JText (ss_database_type r)), (''api_address'', JText (ss_api_address r)),
       (''tls_enabled'', JBool (ss_tls_enabled r)), (''go_version'', JText (ss_go_version r)),
       (''goroutines'', JInt (ss_goroutines r))])"

definition server_fits :: "json \<Rightarrow> bool" where
  "server_fits = is_object
     [(''status'', is_text), (''version'', is_text), (''api_health'', is_text), (''readiness'', is_text),
      (''database_type'', is_text), (''api_address'', is_text), (''tls_enabled'', is_bool), (''go_version'', is_text),
      (''goroutines'', is_int)]"

definition server_seen :: "json \<Rightarrow> top_server" where
  "server_seen j =
     \<lparr>tsv_status = text_at j ''status'', tsv_version = text_at j ''version'',
      tsv_api_health = text_at j ''api_health'', tsv_readiness = text_at j ''readiness'',
      tsv_database_type = text_at j ''database_type'', tsv_api_address = text_at j ''api_address'',
      tsv_tls = bool_at j ''tls_enabled'', tsv_go_version = text_at j ''go_version'',
      tsv_goroutines = int_at j ''goroutines''\<rparr>"

definition cert_summary_json :: "certificate_summary \<Rightarrow> json" where
  "cert_summary_json r = JObject (
      [(''active'', JInt (int (sm_active r))), (''expiring_soon'', JInt (int (sm_expiring_soon r))),
       (''issued_today'', JInt (int (sm_issued_today r))), (''renewed_today'', JInt (int (sm_renewed_today r))),
       (''revoked_today'', JInt (int (sm_revoked_today r))), (''revoked'', JInt (int (sm_revoked r))),
       (''expired'', JInt (int (sm_expired r))), (''total'', JInt (int (sm_total r)))])"

definition cert_summary_fits :: "json \<Rightarrow> bool" where
  "cert_summary_fits = is_object
     [(''active'', is_int), (''expiring_soon'', is_int), (''issued_today'', is_int), (''renewed_today'', is_int),
      (''revoked_today'', is_int), (''revoked'', is_int), (''expired'', is_int), (''total'', is_int)]"

definition cert_summary_seen :: "json \<Rightarrow> top_cert_summary" where
  "cert_summary_seen j =
     \<lparr>tcs_active = int_at j ''active'', tcs_expiring_soon = int_at j ''expiring_soon'',
      tcs_issued_today = int_at j ''issued_today'', tcs_renewed_today = int_at j ''renewed_today'',
      tcs_revoked_today = int_at j ''revoked_today'', tcs_revoked = int_at j ''revoked'',
      tcs_expired = int_at j ''expired'', tcs_total = int_at j ''total''\<rparr>"

definition enroll_summary_json :: "enrollment_summary \<Rightarrow> json" where
  "enroll_summary_json r = JObject (
      [(''successful'', JInt (int (es_successful r))), (''failed'', JInt (int (es_failed r))),
       (''pending'', JInt (int (es_pending r))), (''invalid_token_attempts'', JInt (int (es_invalid_token r))),
       (''total'', JInt (int (es_total r)))])"

definition enroll_summary_fits :: "json \<Rightarrow> bool" where
  "enroll_summary_fits = is_object
     [(''successful'', is_int), (''failed'', is_int), (''pending'', is_int), (''invalid_token_attempts'', is_int),
      (''total'', is_int)]"

definition enroll_summary_seen :: "json \<Rightarrow> top_enroll_summary" where
  "enroll_summary_seen j =
     \<lparr>tes_successful = int_at j ''successful'', tes_failed = int_at j ''failed'',
      tes_pending = int_at j ''pending'', tes_invalid_token = int_at j ''invalid_token_attempts'',
      tes_total = int_at j ''total''\<rparr>"

definition security_json :: "security_summary \<Rightarrow> json" where
  "security_json r = JObject (
      [(''status'', JText (sc_status r)), (''critical_findings'', JInt (int (sc_critical r))),
       (''high_findings'', JInt (int (sc_high r))), (''warnings'', JInt (int (sc_warnings r))),
       (''message'', JText (sc_message r))])"

definition security_fits :: "json \<Rightarrow> bool" where
  "security_fits = is_object
     [(''status'', is_text), (''critical_findings'', is_int), (''high_findings'', is_int), (''warnings'', is_int),
      (''message'', is_text)]"

definition security_seen :: "json \<Rightarrow> top_security" where
  "security_seen j =
     \<lparr>tse_status = text_at j ''status'', tse_critical = int_at j ''critical_findings'',
      tse_high = int_at j ''high_findings'', tse_warnings = int_at j ''warnings'',
      tse_message = text_at j ''message''\<rparr>"

definition telemetry_json :: "telemetry_status \<Rightarrow> json" where
  "telemetry_json r = JObject (
      [(''enabled'', JBool (ts_enabled r)), (''traces_enabled'', JBool (ts_traces r)),
       (''metrics_enabled'', JBool (ts_metrics r)), (''logs_enabled'', JBool (ts_logs r)),
       (''otlp_endpoint'', JText (ts_endpoint r)), (''otlp_protocol'', JText (ts_protocol r)),
       (''prometheus_enabled'', JBool (ts_prometheus r)), (''prometheus_path'', JText (ts_prometheus_path r)),
       (''exporter_status'', JText (ts_exporter_status r))])"

definition telemetry_fits :: "json \<Rightarrow> bool" where
  "telemetry_fits = is_object
     [(''enabled'', is_bool), (''traces_enabled'', is_bool), (''metrics_enabled'', is_bool),
      (''logs_enabled'', is_bool), (''otlp_endpoint'', is_text), (''otlp_protocol'', is_text),
      (''prometheus_enabled'', is_bool), (''prometheus_path'', is_text), (''exporter_status'', is_text)]"

definition telemetry_seen :: "json \<Rightarrow> top_telemetry" where
  "telemetry_seen j =
     \<lparr>tte_enabled = bool_at j ''enabled'', tte_traces = bool_at j ''traces_enabled'',
      tte_metrics = bool_at j ''metrics_enabled'', tte_logs = bool_at j ''logs_enabled'',
      tte_otlp_endpoint = text_at j ''otlp_endpoint'', tte_otlp_protocol = text_at j ''otlp_protocol'',
      tte_prometheus = bool_at j ''prometheus_enabled'', tte_prometheus_path = text_at j ''prometheus_path'',
      tte_exporter_status = text_at j ''exporter_status''\<rparr>"

definition ca_json :: "wire \<Rightarrow> ca_status \<Rightarrow> json" where
  "ca_json w r = JObject (
      [(''root_fingerprint'', JText (ca_root_fingerprint r)), (''root_expires_at'', time_json w (ca_root_expires r)),
       (''intermediate_fingerprint'', JText (ca_intermediate_fingerprint r)),
       (''intermediate_expires_at'', time_json w (ca_intermediate_expires r)),
       (''active_issuer'', JText (ca_active_issuer r)), (''disabled_issuers'', JInt (int (ca_disabled_issuers r))),
       (''retired_issuers'', JInt (int (ca_retired_issuers r))), (''chain_status'', JText (ca_chain_status r)),
       (''warnings'', slice_json JText (ca_warnings r))])"

definition ca_fits :: "wire \<Rightarrow> json \<Rightarrow> bool" where
  "ca_fits w = is_object
     [(''root_fingerprint'', is_text), (''root_expires_at'', (is_time w)), (''intermediate_fingerprint'', is_text),
      (''intermediate_expires_at'', (is_time w)), (''active_issuer'', is_text), (''disabled_issuers'', is_int),
      (''retired_issuers'', is_int), (''chain_status'', is_text), (''warnings'', (is_list is_text))]"

definition ca_seen :: "wire \<Rightarrow> json \<Rightarrow> top_ca" where
  "ca_seen w j =
     \<lparr>tca_root_fingerprint = text_at j ''root_fingerprint'', tca_root_expires = time_at w j ''root_expires_at'',
      tca_intermediate_fingerprint = text_at j ''intermediate_fingerprint'',
      tca_intermediate_expires = time_at w j ''intermediate_expires_at'',
      tca_active_issuer = text_at j ''active_issuer'', tca_disabled_issuers = int_at j ''disabled_issuers'',
      tca_retired_issuers = int_at j ''retired_issuers'', tca_chain_status = text_at j ''chain_status'',
      tca_warnings = list_at text_of j ''warnings''\<rparr>"

definition overview_json :: "wire \<Rightarrow> overview \<Rightarrow> json" where
  "overview_json w r = JObject (
      [(''server'', server_json (ov_server r)), (''certificates'', cert_summary_json (ov_certificates r)),
       (''enrollments'', enroll_summary_json (ov_enrollments r)), (''security'', security_json (ov_security r)),
       (''telemetry'', telemetry_json (ov_telemetry r)), (''ca'', ca_json w (ov_ca r))])"

definition overview_fits :: "wire \<Rightarrow> json \<Rightarrow> bool" where
  "overview_fits w = is_object
     [(''server'', server_fits), (''certificates'', cert_summary_fits), (''enrollments'', enroll_summary_fits),
      (''security'', security_fits), (''telemetry'', telemetry_fits), (''ca'', (ca_fits w))]"

definition overview_seen :: "wire \<Rightarrow> json \<Rightarrow> top_overview" where
  "overview_seen w j =
     \<lparr>tov_server = server_seen (at_key j ''server''),
      tov_certificates = cert_summary_seen (at_key j ''certificates''),
      tov_enrollments = enroll_summary_seen (at_key j ''enrollments''),
      tov_security = security_seen (at_key j ''security''), tov_telemetry = telemetry_seen (at_key j ''telemetry''),
      tov_ca = ca_seen w (at_key j ''ca'')\<rparr>"

definition certificate_json :: "wire \<Rightarrow> certificate_item \<Rightarrow> json" where
  "certificate_json w r = JObject (
      [(''serial'', JText (ci_serial r)), (''dns_names'', slice_json JText (ci_dns_names r)),
       (''issuer'', JText (ci_issuer r)), (''status'', JText (ci_status r)),
       (''created_at'', time_json w (ci_created_at r)), (''expires_at'', time_json w (ci_expires_at r)),
       (''days_remaining'', JInt (ci_days_remaining r)), (''enrollment_id'', JText (ci_enrollment_id r)),
       (''renewal_status'', JText (ci_renewal_status r))])"

definition certificate_fits :: "wire \<Rightarrow> json \<Rightarrow> bool" where
  "certificate_fits w = is_object
     [(''serial'', is_text), (''dns_names'', (is_list is_text)), (''issuer'', is_text), (''status'', is_text),
      (''created_at'', (is_time w)), (''expires_at'', (is_time w)), (''days_remaining'', is_int),
      (''enrollment_id'', is_text), (''renewal_status'', is_text)]"

definition certificate_seen :: "wire \<Rightarrow> json \<Rightarrow> top_certificate" where
  "certificate_seen w j =
     \<lparr>tce_serial = text_at j ''serial'', tce_dns_names = list_at text_of j ''dns_names'',
      tce_issuer = text_at j ''issuer'', tce_status = text_at j ''status'',
      tce_created_at = time_at w j ''created_at'', tce_expires_at = time_at w j ''expires_at'',
      tce_days_remaining = int_at j ''days_remaining'', tce_enrollment_id = text_at j ''enrollment_id'',
      tce_renewal_status = text_at j ''renewal_status''\<rparr>"

definition enrollment_json :: "wire \<Rightarrow> enrollment_item \<Rightarrow> json" where
  "enrollment_json w r = JObject (
      [(''id'', JText (ei_id r)), (''hostname'', JText (ei_hostname r)), (''machine_id'', JText (ei_machine_id r)),
       (''status'', JText (ei_status r)), (''created_at'', time_json w (ei_created_at r)),
       (''last_seen_at'', time_json w (ei_last_seen_at r)),
       (''certificate_count'', JInt (int (ei_certificate_count r))),
       (''failed_attempts'', JInt (int (ei_failed_attempts r)))])"

definition enrollment_fits :: "wire \<Rightarrow> json \<Rightarrow> bool" where
  "enrollment_fits w = is_object
     [(''id'', is_text), (''hostname'', is_text), (''machine_id'', is_text), (''status'', is_text),
      (''created_at'', (is_time w)), (''last_seen_at'', (is_time w)), (''certificate_count'', is_int),
      (''failed_attempts'', is_int)]"

definition enrollment_seen :: "wire \<Rightarrow> json \<Rightarrow> top_enrollment" where
  "enrollment_seen w j =
     \<lparr>ten_id = text_at j ''id'', ten_hostname = text_at j ''hostname'',
      ten_machine_id = text_at j ''machine_id'', ten_status = text_at j ''status'',
      ten_created_at = time_at w j ''created_at'', ten_last_seen_at = time_at w j ''last_seen_at'',
      ten_certificate_count = int_at j ''certificate_count'',
      ten_failed_attempts = int_at j ''failed_attempts''\<rparr>"

definition token_json :: "wire \<Rightarrow> token_item \<Rightarrow> json" where
  "token_json w r = JObject (
      [(''id'', JText (ti_id r)), (''host'', JText (ti_host r)), (''status'', JText (ti_status r)),
       (''created_at'', time_json w (ti_created_at r)), (''expires_at'', time_json w (ti_expires_at r)),
       (''used'', JBool (ti_used r)), (''revoked'', JBool (ti_revoked r)),
       (''usage_count'', JInt (int (ti_usage_count r)))] @
      omit (ti_last_used_at r = None) (''last_used_at'', time_json w (the (ti_last_used_at r))))"

definition token_fits :: "wire \<Rightarrow> json \<Rightarrow> bool" where
  "token_fits w = is_object
     [(''id'', is_text), (''host'', is_text), (''status'', is_text), (''created_at'', (is_time w)),
      (''expires_at'', (is_time w)), (''used'', is_bool), (''revoked'', is_bool), (''usage_count'', is_int),
      (''last_used_at'', (is_time w))]"

definition token_seen :: "wire \<Rightarrow> json \<Rightarrow> top_token" where
  "token_seen w j =
     \<lparr>ttk_id = text_at j ''id'', ttk_host = text_at j ''host'', ttk_status = text_at j ''status'',
      ttk_created_at = time_at w j ''created_at'', ttk_expires_at = time_at w j ''expires_at'',
      ttk_used = bool_at j ''used'', ttk_revoked = bool_at j ''revoked'', ttk_usage_count = int_at j ''usage_count'',
      ttk_last_used_at = pointer_at w j ''last_used_at''\<rparr>"

definition audit_event_json :: "wire \<Rightarrow> audit_item \<Rightarrow> json" where
  "audit_event_json w r = JObject (
      [(''timestamp'', time_json w (ai_timestamp r)), (''actor'', JText (ai_actor r)),
       (''action'', JText (ai_action r)), (''target'', JText (ai_target r)), (''result'', JText (ai_result r)),
       (''severity'', JText (ai_severity r))])"

definition audit_event_fits :: "wire \<Rightarrow> json \<Rightarrow> bool" where
  "audit_event_fits w = is_object
     [(''timestamp'', (is_time w)), (''actor'', is_text), (''action'', is_text), (''target'', is_text),
      (''result'', is_text), (''severity'', is_text)]"

definition audit_event_seen :: "wire \<Rightarrow> json \<Rightarrow> top_audit" where
  "audit_event_seen w j =
     \<lparr>tau_timestamp = time_at w j ''timestamp'', tau_actor = text_at j ''actor'',
      tau_action = text_at j ''action'', tau_target = text_at j ''target'', tau_result = text_at j ''result'',
      tau_severity = text_at j ''severity''\<rparr>"

definition role_json :: "role_status \<Rightarrow> json" where
  "role_json r = JObject (
      [(''id'', JText (Hierarchy.rs_id r)), (''name'', JText (Hierarchy.rs_name r)),
       (''subject'', JText (Hierarchy.rs_subject r)),
       (''permissions'', slice_json JText (Hierarchy.rs_permissions r))])"

definition role_fits :: "json \<Rightarrow> bool" where
  "role_fits = is_object
     [(''id'', is_text), (''name'', is_text), (''subject'', is_text), (''permissions'', (is_list is_text))]"

definition role_seen :: "json \<Rightarrow> top_role" where
  "role_seen j =
     \<lparr>trl_id = text_at j ''id'', trl_name = text_at j ''name'', trl_subject = text_at j ''subject'',
      trl_permissions = list_at text_of j ''permissions''\<rparr>"

definition policy_json :: "wire \<Rightarrow> policy_status \<Rightarrow> json" where
  "policy_json w r = JObject (
      [(''id'', JText (ps_id r)), (''name'', JText (ps_name r)),
       (''certificate_types'', slice_json JText (ps_types r))] @
      omit (ps_dns r = []) (''allowed_dns'', slice_json JText (ps_dns r)) @
      [(''max_ttl'', JText (ps_max_ttl r)), (''issuance_limit'', JInt (ps_limit r)),
       (''renewal_allowed'', JBool (ps_renewal r)), (''require_approval'', JBool (ps_approval r)),
       (''expires_at'', time_json w (ps_expires r))])"

definition policy_fits :: "wire \<Rightarrow> json \<Rightarrow> bool" where
  "policy_fits w = is_object
     [(''id'', is_text), (''name'', is_text), (''certificate_types'', (is_list is_text)),
      (''allowed_dns'', (is_list is_text)), (''max_ttl'', is_text), (''issuance_limit'', is_int),
      (''renewal_allowed'', is_bool), (''require_approval'', is_bool), (''expires_at'', (is_time w))]"

definition policy_seen :: "wire \<Rightarrow> json \<Rightarrow> top_policy" where
  "policy_seen w j =
     \<lparr>tpo_id = text_at j ''id'', tpo_name = text_at j ''name'',
      tpo_certificate_types = list_at text_of j ''certificate_types'',
      tpo_allowed_dns = list_at text_of j ''allowed_dns'', tpo_max_ttl = text_at j ''max_ttl'',
      tpo_issuance_limit = int_at j ''issuance_limit'', tpo_renewal_allowed = bool_at j ''renewal_allowed'',
      tpo_require_approval = bool_at j ''require_approval'', tpo_expires_at = time_at w j ''expires_at''\<rparr>"

definition intermediate_json :: "wire \<Rightarrow> intermediate_status \<Rightarrow> json" where
  "intermediate_json w r = JObject (
      [(''id'', JText (is_id r)), (''name'', JText (is_name r)), (''environment'', JText (is_environment r))] @
      omit (is_owner r = []) (''owner'', JText (is_owner r)) @
      omit (is_namespace r = []) (''namespace'', JText (is_namespace r)) @
      [(''fingerprint'', JText (is_fingerprint r)), (''status'', JText (is_status r)),
       (''max_ttl'', JText (is_max_ttl r))] @
      omit (is_dns r = []) (''allowed_dns'', slice_json JText (is_dns r)) @
      omit (is_usages r = []) (''allowed_usages'', slice_json JText (is_usages r)) @
      [(''require_approval'', JBool (is_approval r)), (''issuance_limit'', JInt (is_limit r)),
       (''renewal_allowed'', JBool (is_renewal r)), (''not_before'', time_json w (Hierarchy.is_not_before r)),
       (''not_after'', time_json w (Hierarchy.is_not_after r)), (''active_certs'', JInt (int (is_active_certs r))),
       (''revoked_certs'', JInt (int (is_revoked_certs r)))] @
      omit (is_roles r = []) (''roles'', slice_json role_json (is_roles r)) @
      omit (is_policies r = []) (''token_policies'', slice_json (policy_json w) (is_policies r)))"

definition intermediate_fits :: "wire \<Rightarrow> json \<Rightarrow> bool" where
  "intermediate_fits w = is_object
     [(''id'', is_text), (''name'', is_text), (''environment'', is_text), (''owner'', is_text),
      (''namespace'', is_text), (''fingerprint'', is_text), (''status'', is_text), (''max_ttl'', is_text),
      (''allowed_dns'', (is_list is_text)), (''allowed_usages'', (is_list is_text)), (''require_approval'', is_bool),
      (''issuance_limit'', is_int), (''renewal_allowed'', is_bool), (''not_before'', (is_time w)),
      (''not_after'', (is_time w)), (''active_certs'', is_int), (''revoked_certs'', is_int),
      (''roles'', (is_list role_fits)), (''token_policies'', (is_list (policy_fits w)))]"

definition intermediate_seen :: "wire \<Rightarrow> json \<Rightarrow> top_intermediate" where
  "intermediate_seen w j =
     \<lparr>tim_id = text_at j ''id'', tim_name = text_at j ''name'', tim_environment = text_at j ''environment'',
      tim_owner = text_at j ''owner'', tim_namespace = text_at j ''namespace'',
      tim_fingerprint = text_at j ''fingerprint'', tim_status = text_at j ''status'',
      tim_max_ttl = text_at j ''max_ttl'', tim_allowed_dns = list_at text_of j ''allowed_dns'',
      tim_allowed_usages = list_at text_of j ''allowed_usages'', tim_require_approval = bool_at j ''require_approval'',
      tim_issuance_limit = int_at j ''issuance_limit'', tim_renewal_allowed = bool_at j ''renewal_allowed'',
      tim_not_before = time_at w j ''not_before'', tim_not_after = time_at w j ''not_after'',
      tim_active_certs = int_at j ''active_certs'', tim_revoked_certs = int_at j ''revoked_certs'',
      tim_roles = list_at role_seen j ''roles'', tim_policies = list_at (policy_seen w) j ''token_policies''\<rparr>"

definition root_json :: "wire \<Rightarrow> root_status \<Rightarrow> json" where
  "root_json w r = JObject (
      [(''id'', JText (os_id r)), (''name'', JText (os_name r)), (''environment'', JText (os_environment r)),
       (''fingerprint'', JText (os_fingerprint r)), (''status'', JText (os_status r))] @
      omit (os_trust_domain r = []) (''trust_domain'', JText (os_trust_domain r)) @
      [(''not_before'', time_json w (os_not_before r)), (''not_after'', time_json w (os_not_after r)),
       (''intermediates'', made_json (intermediate_json w) (os_intermediates r))])"

definition root_fits :: "wire \<Rightarrow> json \<Rightarrow> bool" where
  "root_fits w = is_object
     [(''id'', is_text), (''name'', is_text), (''environment'', is_text), (''fingerprint'', is_text),
      (''status'', is_text), (''trust_domain'', is_text), (''not_before'', (is_time w)), (''not_after'', (is_time w)),
      (''intermediates'', (is_list (intermediate_fits w)))]"

definition root_seen :: "wire \<Rightarrow> json \<Rightarrow> top_root" where
  "root_seen w j =
     \<lparr>trt_id = text_at j ''id'', trt_name = text_at j ''name'', trt_environment = text_at j ''environment'',
      trt_fingerprint = text_at j ''fingerprint'', trt_status = text_at j ''status'',
      trt_trust_domain = text_at j ''trust_domain'', trt_not_before = time_at w j ''not_before'',
      trt_not_after = time_at w j ''not_after'',
      trt_intermediates = list_at (intermediate_seen w) j ''intermediates''\<rparr>"

definition hierarchy_summary_json :: "hierarchy_summary \<Rightarrow> json" where
  "hierarchy_summary_json r = JObject (
      [(''root_cas'', JInt (int (hs_roots r))), (''intermediate_cas'', JInt (int (hs_intermediates r))),
       (''active_issuers'', JInt (int (hs_active r))), (''disabled_issuers'', JInt (int (hs_disabled r))),
       (''retired_issuers'', JInt (int (hs_retired r))), (''token_policies'', JInt (int (hs_policies r))),
       (''roles'', JInt (int (hs_roles r))), (''pending_approvals'', JInt (int (hs_pending r)))])"

definition hierarchy_summary_fits :: "json \<Rightarrow> bool" where
  "hierarchy_summary_fits = is_object
     [(''root_cas'', is_int), (''intermediate_cas'', is_int), (''active_issuers'', is_int),
      (''disabled_issuers'', is_int), (''retired_issuers'', is_int), (''token_policies'', is_int), (''roles'', is_int),
      (''pending_approvals'', is_int)]"

definition hierarchy_summary_seen :: "json \<Rightarrow> top_hierarchy_summary" where
  "hierarchy_summary_seen j =
     \<lparr>ths_roots = int_at j ''root_cas'', ths_intermediates = int_at j ''intermediate_cas'',
      ths_active_issuers = int_at j ''active_issuers'', ths_disabled_issuers = int_at j ''disabled_issuers'',
      ths_retired_issuers = int_at j ''retired_issuers'', ths_policies = int_at j ''token_policies'',
      ths_roles = int_at j ''roles'', ths_pending = int_at j ''pending_approvals''\<rparr>"

text \<open>
  The roots of a hierarchy are \<open>nil\<close> only where \<open>legacyCAHierarchy\<close> finds nothing, and then there is
  a warning.
\<close>

definition roots_json :: "wire \<Rightarrow> hierarchy \<Rightarrow> json" where
  "roots_json w r =
     (if hi_warnings r = [] then made_json (root_json w) (hi_roots r) else slice_json (root_json w) (hi_roots r))"

definition hierarchy_json :: "wire \<Rightarrow> hierarchy \<Rightarrow> json" where
  "hierarchy_json w r = JObject (
      [(''roots'', roots_json w r), (''summary'', hierarchy_summary_json (hi_summary r))] @
      omit (hi_warnings r = []) (''warnings'', slice_json JText (hi_warnings r)) @
      [(''legacy_fallback'', JBool (hi_legacy r))])"

definition hierarchy_fits :: "wire \<Rightarrow> json \<Rightarrow> bool" where
  "hierarchy_fits w = is_object
     [(''roots'', (is_list (root_fits w))), (''summary'', hierarchy_summary_fits), (''warnings'', (is_list is_text)),
      (''legacy_fallback'', is_bool)]"

definition hierarchy_seen :: "wire \<Rightarrow> json \<Rightarrow> top_hierarchy" where
  "hierarchy_seen w j =
     \<lparr>thi_roots = list_at (root_seen w) j ''roots'',
      thi_summary = hierarchy_summary_seen (at_key j ''summary''), thi_warnings = list_at text_of j ''warnings'',
      thi_legacy = bool_at j ''legacy_fallback''\<rparr>"

section \<open>What each end means\<close>

text \<open>The record of the monitor with the content of the record of the server.\<close>

definition server_shown :: "server_status \<Rightarrow> top_server" where
  "server_shown r =
     \<lparr>tsv_status = ss_status r, tsv_version = ss_version r, tsv_api_health = ss_api_health r,
      tsv_readiness = ss_readiness r, tsv_database_type = ss_database_type r, tsv_api_address = ss_api_address r,
      tsv_tls = ss_tls_enabled r, tsv_go_version = ss_go_version r, tsv_goroutines = ss_goroutines r\<rparr>"

definition cert_summary_shown :: "certificate_summary \<Rightarrow> top_cert_summary" where
  "cert_summary_shown r =
     \<lparr>tcs_active = int (sm_active r), tcs_expiring_soon = int (sm_expiring_soon r),
      tcs_issued_today = int (sm_issued_today r), tcs_renewed_today = int (sm_renewed_today r),
      tcs_revoked_today = int (sm_revoked_today r), tcs_revoked = int (sm_revoked r), tcs_expired = int (sm_expired r),
      tcs_total = int (sm_total r)\<rparr>"

definition enroll_summary_shown :: "enrollment_summary \<Rightarrow> top_enroll_summary" where
  "enroll_summary_shown r =
     \<lparr>tes_successful = int (es_successful r), tes_failed = int (es_failed r), tes_pending = int (es_pending r),
      tes_invalid_token = int (es_invalid_token r), tes_total = int (es_total r)\<rparr>"

definition security_shown :: "security_summary \<Rightarrow> top_security" where
  "security_shown r =
     \<lparr>tse_status = sc_status r, tse_critical = int (sc_critical r), tse_high = int (sc_high r),
      tse_warnings = int (sc_warnings r), tse_message = sc_message r\<rparr>"

definition telemetry_shown :: "telemetry_status \<Rightarrow> top_telemetry" where
  "telemetry_shown r =
     \<lparr>tte_enabled = ts_enabled r, tte_traces = ts_traces r, tte_metrics = ts_metrics r, tte_logs = ts_logs r,
      tte_otlp_endpoint = ts_endpoint r, tte_otlp_protocol = ts_protocol r, tte_prometheus = ts_prometheus r,
      tte_prometheus_path = ts_prometheus_path r, tte_exporter_status = ts_exporter_status r\<rparr>"

definition ca_shown :: "ca_status \<Rightarrow> top_ca" where
  "ca_shown r =
     \<lparr>tca_root_fingerprint = ca_root_fingerprint r, tca_root_expires = ca_root_expires r,
      tca_intermediate_fingerprint = ca_intermediate_fingerprint r,
      tca_intermediate_expires = ca_intermediate_expires r, tca_active_issuer = ca_active_issuer r,
      tca_disabled_issuers = int (ca_disabled_issuers r), tca_retired_issuers = int (ca_retired_issuers r),
      tca_chain_status = ca_chain_status r, tca_warnings = ca_warnings r\<rparr>"

definition overview_shown :: "overview \<Rightarrow> top_overview" where
  "overview_shown r =
     \<lparr>tov_server = server_shown (ov_server r), tov_certificates = cert_summary_shown (ov_certificates r),
      tov_enrollments = enroll_summary_shown (ov_enrollments r), tov_security = security_shown (ov_security r),
      tov_telemetry = telemetry_shown (ov_telemetry r), tov_ca = ca_shown (ov_ca r)\<rparr>"

definition certificate_shown :: "certificate_item \<Rightarrow> top_certificate" where
  "certificate_shown r =
     \<lparr>tce_serial = ci_serial r, tce_dns_names = ci_dns_names r, tce_issuer = ci_issuer r,
      tce_status = ci_status r, tce_created_at = ci_created_at r, tce_expires_at = ci_expires_at r,
      tce_days_remaining = ci_days_remaining r, tce_enrollment_id = ci_enrollment_id r,
      tce_renewal_status = ci_renewal_status r\<rparr>"

definition enrollment_shown :: "enrollment_item \<Rightarrow> top_enrollment" where
  "enrollment_shown r =
     \<lparr>ten_id = ei_id r, ten_hostname = ei_hostname r, ten_machine_id = ei_machine_id r,
      ten_status = ei_status r, ten_created_at = ei_created_at r, ten_last_seen_at = ei_last_seen_at r,
      ten_certificate_count = int (ei_certificate_count r), ten_failed_attempts = int (ei_failed_attempts r)\<rparr>"

definition token_shown :: "token_item \<Rightarrow> top_token" where
  "token_shown r =
     \<lparr>ttk_id = ti_id r, ttk_host = ti_host r, ttk_status = ti_status r, ttk_created_at = ti_created_at r,
      ttk_expires_at = ti_expires_at r, ttk_used = ti_used r, ttk_revoked = ti_revoked r,
      ttk_usage_count = int (ti_usage_count r), ttk_last_used_at = ti_last_used_at r\<rparr>"

definition audit_event_shown :: "audit_item \<Rightarrow> top_audit" where
  "audit_event_shown r =
     \<lparr>tau_timestamp = ai_timestamp r, tau_actor = ai_actor r, tau_action = ai_action r,
      tau_target = ai_target r, tau_result = ai_result r, tau_severity = ai_severity r\<rparr>"

definition role_shown :: "role_status \<Rightarrow> top_role" where
  "role_shown r =
     \<lparr>trl_id = Hierarchy.rs_id r, trl_name = Hierarchy.rs_name r, trl_subject = Hierarchy.rs_subject r,
      trl_permissions = Hierarchy.rs_permissions r\<rparr>"

definition policy_shown :: "policy_status \<Rightarrow> top_policy" where
  "policy_shown r =
     \<lparr>tpo_id = ps_id r, tpo_name = ps_name r, tpo_certificate_types = ps_types r, tpo_allowed_dns = ps_dns r,
      tpo_max_ttl = ps_max_ttl r, tpo_issuance_limit = ps_limit r, tpo_renewal_allowed = ps_renewal r,
      tpo_require_approval = ps_approval r, tpo_expires_at = ps_expires r\<rparr>"

definition intermediate_shown :: "intermediate_status \<Rightarrow> top_intermediate" where
  "intermediate_shown r =
     \<lparr>tim_id = is_id r, tim_name = is_name r, tim_environment = is_environment r, tim_owner = is_owner r,
      tim_namespace = is_namespace r, tim_fingerprint = is_fingerprint r, tim_status = is_status r,
      tim_max_ttl = is_max_ttl r, tim_allowed_dns = is_dns r, tim_allowed_usages = is_usages r,
      tim_require_approval = is_approval r, tim_issuance_limit = is_limit r, tim_renewal_allowed = is_renewal r,
      tim_not_before = Hierarchy.is_not_before r, tim_not_after = Hierarchy.is_not_after r,
      tim_active_certs = int (is_active_certs r), tim_revoked_certs = int (is_revoked_certs r),
      tim_roles = map role_shown (is_roles r), tim_policies = map policy_shown (is_policies r)\<rparr>"

definition root_shown :: "root_status \<Rightarrow> top_root" where
  "root_shown r =
     \<lparr>trt_id = os_id r, trt_name = os_name r, trt_environment = os_environment r,
      trt_fingerprint = os_fingerprint r, trt_status = os_status r, trt_trust_domain = os_trust_domain r,
      trt_not_before = os_not_before r, trt_not_after = os_not_after r,
      trt_intermediates = map intermediate_shown (os_intermediates r)\<rparr>"

definition hierarchy_summary_shown :: "hierarchy_summary \<Rightarrow> top_hierarchy_summary" where
  "hierarchy_summary_shown r =
     \<lparr>ths_roots = int (hs_roots r), ths_intermediates = int (hs_intermediates r),
      ths_active_issuers = int (hs_active r), ths_disabled_issuers = int (hs_disabled r),
      ths_retired_issuers = int (hs_retired r), ths_policies = int (hs_policies r), ths_roles = int (hs_roles r),
      ths_pending = int (hs_pending r)\<rparr>"

definition hierarchy_shown :: "hierarchy \<Rightarrow> top_hierarchy" where
  "hierarchy_shown r =
     \<lparr>thi_roots = map root_shown (hi_roots r), thi_summary = hierarchy_summary_shown (hi_summary r),
      thi_warnings = hi_warnings r, thi_legacy = hi_legacy r\<rparr>"

section \<open>The tags agree\<close>

text \<open>
  \<open>time.Time\<close> is written with nanoseconds and read back as the same instant. Go refuses to write a
  year above 9999, which no clock of the program gives.
\<close>

definition times_ok :: "wire \<Rightarrow> bool" where
  "times_ok w \<longleftrightarrow> (\<forall>t. wi_read_time w (wi_time w t) = Some t)"

lemma at_key_simps [simp]:
  "at_key (JObject []) k = JNull"
  "at_key (JObject ((k', v) # fs)) k = (if k' = k then v else at_key (JObject fs) k)"
  "at_key (JObject (omit b (k', v) @ fs)) k = (if k' = k \<and> \<not> b then v else at_key (JObject fs) k)"
  "at_key (JObject (omit b (k', v))) k = (if k' = k \<and> \<not> b then v else JNull)"
  by (simp_all add: at_key_def omit_def)

lemma time_read [simp]: "times_ok w \<Longrightarrow> time_of w (time_json w t) = Some t" "times_ok w \<Longrightarrow> is_time w (time_json w t)"
  "time_of w JNull = None"
  by (simp_all add: times_ok_def time_of_def time_json_def)

lemma slice_read [simp]:
  "list_of f (slice_json g xs) = map (\<lambda>x. f (g x)) xs" "is_list p (slice_json g xs) = list_all (\<lambda>x. p (g x)) xs"
  "list_of f (made_json g xs) = map (\<lambda>x. f (g x)) xs" "is_list p (made_json g xs) = list_all (\<lambda>x. p (g x)) xs"
  "list_of f JNull = []"
  by (simp_all add: list_of_def slice_json_def made_json_def list_all_iff)

lemma roots_read [simp]:
  "list_of f (roots_json w r) = map (\<lambda>x. f (root_json w x)) (hi_roots r)"
  "is_list p (roots_json w r) = list_all (\<lambda>x. p (root_json w x)) (hi_roots r)"
  by (simp_all add: roots_json_def)

lemma text_read [simp]: "text_of (JText s) = s" "text_of JNull = []"
  by (simp_all add: text_of_def)

lemma list_all_True [simp]: "list_all (\<lambda>x. True) xs"
  by (simp add: list_all_iff)

lemmas read_defs = text_at_def int_at_def bool_at_def list_at_def time_at_def pointer_at_def

lemma server_wire [simp]:
  "server_seen (server_json r) = server_shown r"
  "server_fits (server_json r)"
  by (simp_all add: server_json_def server_seen_def server_shown_def server_fits_def read_defs)

lemma cert_summary_wire [simp]:
  "cert_summary_seen (cert_summary_json r) = cert_summary_shown r"
  "cert_summary_fits (cert_summary_json r)"
  by (simp_all add: cert_summary_json_def cert_summary_seen_def cert_summary_shown_def cert_summary_fits_def read_defs)

lemma enroll_summary_wire [simp]:
  "enroll_summary_seen (enroll_summary_json r) = enroll_summary_shown r"
  "enroll_summary_fits (enroll_summary_json r)"
  by (simp_all add: enroll_summary_json_def enroll_summary_seen_def enroll_summary_shown_def enroll_summary_fits_def read_defs)

lemma security_wire [simp]:
  "security_seen (security_json r) = security_shown r"
  "security_fits (security_json r)"
  by (simp_all add: security_json_def security_seen_def security_shown_def security_fits_def read_defs)

lemma telemetry_wire [simp]:
  "telemetry_seen (telemetry_json r) = telemetry_shown r"
  "telemetry_fits (telemetry_json r)"
  by (simp_all add: telemetry_json_def telemetry_seen_def telemetry_shown_def telemetry_fits_def read_defs)

lemma ca_wire [simp]:
  "times_ok w \<Longrightarrow> ca_seen w (ca_json w r) = ca_shown r"
  "times_ok w \<Longrightarrow> ca_fits w (ca_json w r)"
  by (simp_all add: ca_json_def ca_seen_def ca_shown_def ca_fits_def read_defs)

lemma overview_wire [simp]:
  "times_ok w \<Longrightarrow> overview_seen w (overview_json w r) = overview_shown r"
  "times_ok w \<Longrightarrow> overview_fits w (overview_json w r)"
  by (simp_all add: overview_json_def overview_seen_def overview_shown_def overview_fits_def read_defs)

lemma certificate_wire [simp]:
  "times_ok w \<Longrightarrow> certificate_seen w (certificate_json w r) = certificate_shown r"
  "times_ok w \<Longrightarrow> certificate_fits w (certificate_json w r)"
  by (simp_all add: certificate_json_def certificate_seen_def certificate_shown_def certificate_fits_def read_defs)

lemma enrollment_wire [simp]:
  "times_ok w \<Longrightarrow> enrollment_seen w (enrollment_json w r) = enrollment_shown r"
  "times_ok w \<Longrightarrow> enrollment_fits w (enrollment_json w r)"
  by (simp_all add: enrollment_json_def enrollment_seen_def enrollment_shown_def enrollment_fits_def read_defs)

lemma token_wire [simp]:
  "times_ok w \<Longrightarrow> token_seen w (token_json w r) = token_shown r"
  "times_ok w \<Longrightarrow> token_fits w (token_json w r)"
  by (simp_all add: token_json_def token_seen_def token_shown_def token_fits_def read_defs)

lemma audit_event_wire [simp]:
  "times_ok w \<Longrightarrow> audit_event_seen w (audit_event_json w r) = audit_event_shown r"
  "times_ok w \<Longrightarrow> audit_event_fits w (audit_event_json w r)"
  by (simp_all add: audit_event_json_def audit_event_seen_def audit_event_shown_def audit_event_fits_def read_defs)

lemma role_wire [simp]:
  "role_seen (role_json r) = role_shown r"
  "role_fits (role_json r)"
  by (simp_all add: role_json_def role_seen_def role_shown_def role_fits_def read_defs)

lemma policy_wire [simp]:
  "times_ok w \<Longrightarrow> policy_seen w (policy_json w r) = policy_shown r"
  "times_ok w \<Longrightarrow> policy_fits w (policy_json w r)"
  by (simp_all add: policy_json_def policy_seen_def policy_shown_def policy_fits_def read_defs)

lemma intermediate_wire [simp]:
  "times_ok w \<Longrightarrow> intermediate_seen w (intermediate_json w r) = intermediate_shown r"
  "times_ok w \<Longrightarrow> intermediate_fits w (intermediate_json w r)"
  by (simp_all add: intermediate_json_def intermediate_seen_def intermediate_shown_def intermediate_fits_def read_defs)

lemma root_wire [simp]:
  "times_ok w \<Longrightarrow> root_seen w (root_json w r) = root_shown r"
  "times_ok w \<Longrightarrow> root_fits w (root_json w r)"
  by (simp_all add: root_json_def root_seen_def root_shown_def root_fits_def read_defs)

lemma hierarchy_summary_wire [simp]:
  "hierarchy_summary_seen (hierarchy_summary_json r) = hierarchy_summary_shown r"
  "hierarchy_summary_fits (hierarchy_summary_json r)"
  by (simp_all add: hierarchy_summary_json_def hierarchy_summary_seen_def hierarchy_summary_shown_def hierarchy_summary_fits_def read_defs)

lemma hierarchy_wire [simp]:
  "times_ok w \<Longrightarrow> hierarchy_seen w (hierarchy_json w r) = hierarchy_shown r"
  "times_ok w \<Longrightarrow> hierarchy_fits w (hierarchy_json w r)"
  by (simp_all add: hierarchy_json_def hierarchy_seen_def hierarchy_shown_def hierarchy_fits_def read_defs)

end
