(* ===== verification/Irtop_Properties.thy ===== *)
theory Irtop_Properties
  imports Irtop_Model "HOL-Library.Multiset"
begin

text \<open>
  What the running monitor guarantees: the state on the screen fits the data, data and tokens
  stay with their profile, one tick is always pending, and on a fair run with a reachable server
  the data is shown at last.
\<close>

section \<open>Pieces\<close>

lemma go_mod_nonneg: "0 \<le> a \<Longrightarrow> 0 < b \<Longrightarrow> go_mod a b = a mod b"
  by (cases "a = 0") (simp_all add: go_mod_def quot_def minus_div_mult_eq_mod)

lemma go_mod_range: "0 \<le> a \<Longrightarrow> 0 < b \<Longrightarrow> 0 \<le> go_mod a b \<and> go_mod a b < b"
  by (simp add: go_mod_nonneg)

definition made_for :: "monitor_lib \<Rightarrow> top_config \<Rightarrow> top_client \<Rightarrow> bool" where
  "made_for lib cfg c \<longleftrightarrow> (\<exists>d. new_client_checked lib d cfg = Inr c)"

lemma made_for_fields: "made_for lib cfg c \<Longrightarrow> cl_base_url c = trim_slashes (tc_server cfg) \<and> cl_token c = tc_token cfg"
  by (auto simp: made_for_def new_client_checked_def Let_def bindE_def split: option.splits sum.splits)

lemma checked_client_made: "checked_client (new_client_checked lib d cfg) = Some c \<Longrightarrow> made_for lib cfg c"
  by (auto simp: checked_client_def made_for_def split: sum.splits)

lemma checked_None: "checked_fault r = None \<longleftrightarrow> checked_client r \<noteq> None"
  by (simp add: checked_fault_def checked_client_def split: sum.split)

fun is_tick :: "tea_command \<Rightarrow> bool" where
  "is_tick (TickAfter t) = True"
| "is_tick c = False"

definition ticks :: "session \<Rightarrow> nat" where
  "ticks s = length (filter is_tick (se_pending s))"

text \<open>The state of the screen fits the data.\<close>

definition screen_ok :: "model \<Rightarrow> bool" where
  "screen_ok m =
     (case mo_state m of
        StateLoading \<Rightarrow> mo_snapshot m = zero_snapshot \<and> mo_err m = None \<and> mo_client m \<noteq> None
      | StateLoaded \<Rightarrow> \<not> is_zero (sn_updated_at (mo_snapshot m)) \<and> \<not> snapshot_empty (mo_snapshot m)
      | StateEmpty \<Rightarrow> \<not> is_zero (sn_updated_at (mo_snapshot m)) \<and> snapshot_empty (mo_snapshot m)
      | StateError \<Rightarrow> mo_snapshot m = zero_snapshot \<and> mo_err m \<noteq> None)"

lemma screen_ok_fields [simp]:
  "screen_ok (m\<lparr>mo_selecting := b\<rparr>) = screen_ok m" "screen_ok (m\<lparr>mo_view := v\<rparr>) = screen_ok m"
  "screen_ok (m\<lparr>mo_width := w, mo_height := h\<rparr>) = screen_ok m" "screen_ok (m\<lparr>mo_cursor := j\<rparr>) = screen_ok m"
  "screen_ok (m\<lparr>mo_cursor := j, mo_selecting := b\<rparr>) = screen_ok m"
  "screen_ok (m\<lparr>mo_selecting := b, mo_cursor := j\<rparr>) = screen_ok m"
  by (simp_all add: screen_ok_def split: load_state.split)

definition command_ok :: "monitor_lib \<Rightarrow> profile list \<Rightarrow> tea_command \<Rightarrow> bool" where
  "command_ok lib P cmd =
     (case cmd of Refresh (Some c) i v n \<Rightarrow> 0 \<le> i \<and> i < int (length P) \<and> made_for lib (pf_config (P ! nat i)) c | _ \<Rightarrow> True)"

definition model_ok ::
  "monitor_lib \<Rightarrow> (top_client \<Rightarrow> snapshot \<Rightarrow> client_fault option \<Rightarrow> bool) \<Rightarrow> profile list \<Rightarrow> model \<Rightarrow> bool" where
  "model_ok lib answers P m \<longleftrightarrow>
     mo_profiles m = P \<and> in_profiles m (mo_active m) \<and> in_profiles m (mo_cursor m) \<and>
     (\<forall>c. mo_client m = Some c \<longrightarrow> made_for lib (pf_config (P ! nat (mo_active m))) c) \<and>
     (mo_snapshot m = zero_snapshot \<or>
       (\<exists>c. made_for lib (pf_config (P ! nat (mo_active m))) c \<and> answers c (mo_snapshot m) None)) \<and>
     screen_ok m"

definition session_ok ::
  "monitor_lib \<Rightarrow> (top_client \<Rightarrow> snapshot \<Rightarrow> client_fault option \<Rightarrow> bool) \<Rightarrow> profile list \<Rightarrow> session \<Rightarrow> bool" where
  "session_ok lib answers P s \<longleftrightarrow>
     model_ok lib answers P (se_model s) \<and> (\<forall>cmd \<in> set (se_pending s). command_ok lib P cmd) \<and> ticks s = 1"

lemma zero_updated [simp]: "is_zero (sn_updated_at zero_snapshot)"
  by (simp add: is_zero_def zero_snapshot_def)

text \<open>The commands an update returns: those that may follow from the model it returns.\<close>

definition follows :: "model \<Rightarrow> tea_command \<Rightarrow> bool" where
  "follows m cmd \<longleftrightarrow> cmd = Quit \<or> cmd = refresh_now m"

lemma follows_simps [simp]: "follows m Quit" "follows m (refresh_now m)" "\<not> is_tick (refresh_now m)"
  by (simp_all add: follows_def refresh_now_def)

lemma refresh_now_ok: "model_ok lib answers P m \<Longrightarrow> command_ok lib P (refresh_now m)"
  by (auto simp: refresh_now_def command_ok_def model_ok_def in_profiles_def split: option.splits)

lemma follows_ok: "model_ok lib answers P m \<Longrightarrow> follows m cmd \<Longrightarrow> command_ok lib P cmd \<and> \<not> is_tick cmd"
  by (auto simp: follows_def refresh_now_ok) (simp add: command_ok_def)

text \<open>Whether data has been read, and what executes a pending command.\<close>

definition shown :: "session \<Rightarrow> bool" where
  "shown s \<longleftrightarrow> mo_state (se_model s) \<in> {StateLoaded, StateEmpty}"

fun executes :: "tea_command \<Rightarrow> event \<Rightarrow> bool" where
  "executes (TickAfter t) ev = (ev = Ticked t)"
| "executes (Refresh c i v n) ev = (\<exists>s e. ev = Answered c i v n s e)"
| "executes Quit ev = (ev = Stopped)"

text \<open>An infinite run in which every command that is pending is executed at some time.\<close>

definition fair_run ::
  "monitor_lib \<Rightarrow> (top_client \<Rightarrow> snapshot \<Rightarrow> client_fault option \<Rightarrow> bool) \<Rightarrow> (nat \<Rightarrow> session) \<Rightarrow> (nat \<Rightarrow> event) \<Rightarrow> bool" where
  "fair_run lib answers \<sigma> ev \<longleftrightarrow>
     (\<forall>n. monitor_step lib answers (\<sigma> n) (ev n) (\<sigma> (Suc n))) \<and>
     (\<forall>n cmd. cmd \<in> set (se_pending (\<sigma> n)) \<longrightarrow> (\<exists>k \<ge> n. executes cmd (ev k)))"

text \<open>A monitor whose only profile has no client.\<close>

definition useless :: "profile \<Rightarrow> tea_command \<Rightarrow> bool" where
  "useless p cmd = (case cmd of Refresh c i v n \<Rightarrow> c = None \<and> i = 0 \<and> n = pf_name p | _ \<Rightarrow> True)"

lemma useless_simps [simp]:
  "useless p (Refresh c i v n) = (c = None \<and> i = 0 \<and> n = pf_name p)" "useless p Quit" "useless p (TickAfter t)"
  by (simp_all add: useless_def)

definition stuck :: "profile \<Rightarrow> session \<Rightarrow> bool" where
  "stuck p s \<longleftrightarrow>
     mo_profiles (se_model s) = [p] \<and> mo_client (se_model s) = None \<and> mo_active (se_model s) = 0 \<and>
     mo_selecting (se_model s) = False \<and> mo_snapshot (se_model s) = zero_snapshot \<and> mo_state (se_model s) = StateError \<and>
     (\<forall>cmd \<in> set (se_pending s). useless p cmd)"

section \<open>A source of status data\<close>

text \<open>
  What the model needs of the client: a successful answer carries the time of the refresh.
\<close>

locale status_source =
  fixes answers :: "top_client \<Rightarrow> snapshot \<Rightarrow> client_fault option \<Rightarrow> bool"
  assumes stamped: "answers c s None \<Longrightarrow> \<not> is_zero (sn_updated_at s)"
begin

lemma activate_ok:
  assumes "model_ok lib answers P m" and "activate_profile lib d i m = (m', cs)"
  shows "model_ok lib answers P m' \<and> (\<forall>cmd \<in> set cs. follows m' cmd)"
proof (cases "\<not> in_profiles m i \<or> i = mo_active m")
  case True
  with assms show ?thesis by (simp add: activate_profile_def)
next
  case False
  let ?r = "new_client_checked lib d (pf_config (mo_profiles m ! nat i))"
  from assms(1) have p: "mo_profiles m = P" by (simp add: model_ok_def)
  show ?thesis
    using False assms checked_client_made [of lib d "pf_config (P ! nat i)"]
    by (auto simp: activate_profile_def Let_def model_ok_def in_profiles_def screen_ok_def checked_None p
        split: if_splits)
qed

lemma snapshot_ok:
  assumes "model_ok lib answers P m" and "refresh_answer answers c n sn e" and "command_ok lib P (Refresh c i v n)"
  shows "model_ok lib answers P (update_snapshot i sn e m)"
proof (cases "i = mo_active m")
  case True
  show ?thesis
  proof (cases e)
    case None
    with assms(2) obtain cl where cl: "c = Some cl" "answers cl sn None"
      by (auto simp: refresh_answer_def split: option.splits)
    with assms(3) have "made_for lib (pf_config (P ! nat i)) cl" by (simp add: command_ok_def)
    with cl stamped [OF cl(2)] None True assms(1) show ?thesis
      by (auto simp: update_snapshot_def Let_def model_ok_def in_profiles_def screen_ok_def)
  next
    case (Some f)
    with True assms(1) show ?thesis
      by (cases "mo_state m") (auto simp: update_snapshot_def Let_def model_ok_def in_profiles_def screen_ok_def)
  qed
next
  case False
  with assms(1) show ?thesis by (simp add: update_snapshot_def)
qed

lemma fields_ok:
  assumes "model_ok lib answers P m"
  shows "model_ok lib answers P (m\<lparr>mo_selecting := b\<rparr>)" "model_ok lib answers P (m\<lparr>mo_view := v\<rparr>)"
    "model_ok lib answers P (m\<lparr>mo_width := w, mo_height := h\<rparr>)"
    "in_profiles m j \<Longrightarrow> model_ok lib answers P (m\<lparr>mo_cursor := j\<rparr>)"
    "in_profiles m j \<Longrightarrow> model_ok lib answers P (m\<lparr>mo_selecting := b, mo_cursor := j\<rparr>)"
  using assms by (auto simp: model_ok_def in_profiles_def)

lemma cursor_moves:
  assumes "model_ok lib answers P m" and "n = int (length (mo_profiles m))"
  shows "in_profiles m (go_mod (mo_cursor m - 1 + n) n)" "in_profiles m (go_mod (mo_cursor m + 1) n)"
proof -
  have c: "0 \<le> mo_cursor m" "mo_cursor m < n" using assms by (auto simp: model_ok_def in_profiles_def)
  show "in_profiles m (go_mod (mo_cursor m - 1 + n) n)" "in_profiles m (go_mod (mo_cursor m + 1) n)"
    unfolding in_profiles_def assms(2) [symmetric] using c by (auto intro!: go_mod_range [THEN conjunct1] go_mod_range [THEN conjunct2])
qed

definition good :: "monitor_lib \<Rightarrow> profile list \<Rightarrow> model \<times> tea_command list \<Rightarrow> bool" where
  "good lib P r \<longleftrightarrow> model_ok lib answers P (fst r) \<and> (\<forall>cmd \<in> set (snd r). follows (fst r) cmd)"

lemma good_intros:
  "model_ok lib answers P m \<Longrightarrow> good lib P (m, [])"
  "model_ok lib answers P m \<Longrightarrow> good lib P (m, [Quit])"
  "model_ok lib answers P m \<Longrightarrow> good lib P (m, [refresh_now m])"
  "(b \<Longrightarrow> good lib P x) \<Longrightarrow> (\<not> b \<Longrightarrow> good lib P y) \<Longrightarrow> good lib P (if b then x else y)"
  "(b \<Longrightarrow> model_ok lib answers P m) \<Longrightarrow> (\<not> b \<Longrightarrow> model_ok lib answers P m') \<Longrightarrow>
     model_ok lib answers P (if b then m else m')"
  "model_ok lib answers P m \<Longrightarrow> good lib P (activate_profile lib d i m)"
  using activate_ok [of lib P m d i "fst (activate_profile lib d i m)" "snd (activate_profile lib d i m)"]
  by (simp_all add: good_def)

lemma selector_ok:
  assumes "model_ok lib answers P m"
  shows "good lib P (update_selector lib d k m)"
  unfolding update_selector_def Let_def by (intro good_intros fields_ok assms cursor_moves [OF assms refl])

lemma key_ok:
  assumes "model_ok lib answers P m"
  shows "good lib P (update_key lib d k m)"
proof -
  have "in_profiles m (mo_active m)" using assms by (simp add: model_ok_def)
  moreover have "model_ok lib answers P (case view_for_key k of Some v \<Rightarrow> m\<lparr>mo_view := v\<rparr> | None \<Rightarrow> m)"
    using assms fields_ok(2) by (simp split: option.split)
  ultimately show ?thesis
    unfolding update_key_def Let_def by (intro good_intros selector_ok fields_ok assms) 
qed

lemma deliver_fields [simp]:
  "se_running (deliver lib d msg s) = se_running s"
  "se_model (deliver lib d msg s) = fst (update lib d msg (se_model s))"
  "se_pending (deliver lib d msg s) = se_pending s @ snd (update lib d msg (se_model s))"
  by (simp_all add: deliver_def split: prod.split)

lemma ticks_append [simp]: "ticks (s\<lparr>se_pending := xs @ ys\<rparr>) = length (filter is_tick xs) + length (filter is_tick ys)"
  by (simp add: ticks_def)

lemma ticks_complete [simp]:
  "TickAfter t \<in> set (se_pending s) \<Longrightarrow> ticks s = Suc (ticks (complete (TickAfter t) s))"
  "ticks (complete (Refresh c i v n) s) = ticks s"
proof -
  assume t: "TickAfter t \<in> set (se_pending s)"
  then have "TickAfter t \<in> set (filter is_tick (se_pending s))" by simp
  then have "length (filter is_tick (se_pending s)) > 0" by (rule length_pos_if_in_set)
  with t show "ticks s = Suc (ticks (complete (TickAfter t) s))"
    by (simp add: ticks_def complete_def filter_remove1 length_remove1)
next
  show "ticks (complete (Refresh c i v n) s) = ticks s"
    by (simp add: ticks_def complete_def filter_remove1 remove1_idem)
qed

lemma complete_fields [simp]:
  "se_model (complete c s) = se_model s" "se_running (complete c s) = se_running s"
  "se_pending (complete c s) = remove1 c (se_pending s)"
  by (simp_all add: complete_def)

lemma ticks_deliver: "ticks (deliver lib d msg s) = ticks s + length (filter is_tick (snd (update lib d msg (se_model s))))"
  by (simp add: ticks_def)

lemma session_ok_complete:
  "session_ok lib answers P s \<Longrightarrow> cmd \<in> set (se_pending (complete c s)) \<Longrightarrow> command_ok lib P cmd"
  using set_remove1_subset [of c "se_pending s"] by (auto simp: session_ok_def)

lemma deliver_ok:
  assumes "good lib P (update lib d msg (se_model s))" and "\<forall>cmd \<in> set (se_pending s). command_ok lib P cmd" and "ticks s = 1"
  shows "session_ok lib answers P (deliver lib d msg s)"
proof -
  let ?m = "fst (update lib d msg (se_model s))" and ?cs = "snd (update lib d msg (se_model s))"
  have m: "model_ok lib answers P ?m" and cs: "\<forall>cmd \<in> set ?cs. follows ?m cmd" using assms(1) by (simp_all add: good_def)
  have f: "\<forall>cmd \<in> set ?cs. command_ok lib P cmd \<and> \<not> is_tick cmd"
    using cs follows_ok [OF m] by blast
  then have "filter is_tick ?cs = []" by (simp add: filter_empty_conv)
  with m f assms(2,3) show ?thesis by (auto simp: session_ok_def ticks_deliver)
qed

lemma step_ok:
  assumes "monitor_step lib answers s ev s'" and "session_ok lib answers P s"
  shows "session_ok lib answers P s'"
proof -
  have s: "model_ok lib answers P (se_model s)" "\<forall>cmd \<in> set (se_pending s). command_ok lib P cmd" "ticks s = 1"
    using assms(2) by (simp_all add: session_ok_def)
  from assms(1) show ?thesis
  proof cases
    case (resize w h d)
    show ?thesis unfolding resize using s by (intro deliver_ok) (auto intro: good_intros fields_ok)
  next
    case (key k d)
    show ?thesis unfolding key using s by (intro deliver_ok) (auto intro: key_ok)
  next
    case (tick t d)
    let ?s = "deliver lib d TickMsg (complete (TickAfter t) s)"
    have "ticks (complete (TickAfter t) s) = 0" using s(3) tick(4) by simp
    then have "ticks ?s = 1" by (simp add: ticks_deliver)
    moreover have "\<forall>cmd \<in> set (se_pending ?s). command_ok lib P cmd"
      using session_ok_complete [OF assms(2)] refresh_now_ok [OF s(1)] by (auto simp: command_ok_def)
    ultimately show ?thesis unfolding tick using s(1) by (simp add: session_ok_def)
  next
    case (answer c i v n sn e d)
    have "command_ok lib P (Refresh c i v n)" using s(2) answer(4) by blast
    from snapshot_ok [OF s(1) answer(5) this] show ?thesis
      unfolding answer using s(3) session_ok_complete [OF assms(2)]
      by (intro deliver_ok) (auto intro: good_intros)
  next
    case stop
    show ?thesis unfolding stop using s by (simp add: session_ok_def ticks_def)
  qed
qed

lemma start_ok:
  assumes "ps_profiles ps \<noteq> []"
  shows "session_ok lib answers (ps_profiles ps) (start_session lib d ps)"
proof -
  let ?cfg = "pf_config (ps_profiles ps ! nat (active_index ps))"
  have i: "0 \<le> active_index ps" "active_index ps < int (length (ps_profiles ps))"
    using assms by (auto simp: active_index_def)
  have m: "model_ok lib answers (ps_profiles ps) (new_profile_model lib d ps)"
    using assms i checked_client_made [of lib d ?cfg] checked_None [of "new_client_checked lib d ?cfg"]
    by (auto simp: new_profile_model_def Let_def model_ok_def in_profiles_def screen_ok_def new_model_def
        split: option.split)
  then show ?thesis
    by (auto simp: start_session_def Let_def session_ok_def init_commands_def ticks_def refresh_now_ok)
      (simp add: command_ok_def)
qed

lemma run_ok:
  "monitor_run lib answers s0 s \<Longrightarrow> session_ok lib answers P s0 \<Longrightarrow> session_ok lib answers P s"
  by (induction rule: monitor_run.induct) (simp_all add: step_ok)

text \<open>A step that does not switch the profile keeps the client, and data once shown stays.\<close>

definition kept :: "model \<Rightarrow> model \<times> tea_command list \<Rightarrow> bool" where
  "kept m r \<longleftrightarrow> (mo_active (fst r) = mo_active m \<longrightarrow> mo_client (fst r) = mo_client m \<and> mo_state (fst r) = mo_state m)"

lemma kept_intros:
  "kept m (m, cs)" "kept m (m\<lparr>mo_selecting := b\<rparr>, cs)" "kept m (m\<lparr>mo_view := v\<rparr>, cs)"
  "kept m (if b then m\<lparr>mo_cursor := j\<rparr> else m, cs)" "kept m (if b then m\<lparr>mo_selecting := c, mo_cursor := j\<rparr> else m, cs)"
  "kept m (case u of Some v \<Rightarrow> m\<lparr>mo_view := v\<rparr> | None \<Rightarrow> m, cs)"
  "kept m (activate_profile lib d i m)" "kept m (activate_profile lib d i (m\<lparr>mo_selecting := b\<rparr>))"
  "kept m x \<Longrightarrow> kept m y \<Longrightarrow> kept m (if q then x else y)"
  by (simp_all add: kept_def activate_profile_def Let_def split: option.split)

lemma selector_keeps_client: "kept m (update_selector lib d k m)"
  unfolding update_selector_def Let_def by (intro kept_intros)

lemma key_keeps_client: "kept m (update_key lib d k m)"
  unfolding update_key_def Let_def by (intro kept_intros selector_keeps_client)

lemma step_keeps:
  assumes "monitor_step lib answers s ev s'" and "session_ok lib answers P s"
    and "mo_active (se_model s') = mo_active (se_model s)"
  shows "mo_client (se_model s') = mo_client (se_model s)" and "shown s \<Longrightarrow> shown s'"
proof -
  have "mo_client (se_model s') = mo_client (se_model s) \<and> (shown s \<longrightarrow> shown s')"
    using assms(1)
  proof cases
    case (key k d)
    with assms(3) key_keeps_client [of "se_model s" lib d k] show ?thesis by (simp add: kept_def shown_def)
  next
    case (answer c i v n sn e d)
    have "screen_ok (se_model s)" using assms(2) by (simp add: session_ok_def model_ok_def)
    with answer show ?thesis by (auto simp: shown_def update_snapshot_def Let_def screen_ok_def)
  qed (simp_all add: shown_def)
  then show "mo_client (se_model s') = mo_client (se_model s)" and "shown s \<Longrightarrow> shown s'" by simp_all
qed

lemma fair_run_ok:
  assumes "fair_run lib answers \<sigma> ev" and "session_ok lib answers P (\<sigma> 0)"
  shows "session_ok lib answers P (\<sigma> n)"
  using assms by (induction n) (auto simp: fair_run_def intro: step_ok)

lemma fair_run_shows:
  assumes run: "fair_run lib answers \<sigma> ev" and ok: "session_ok lib answers P (\<sigma> 0)"
    and stays: "\<And>n. mo_active (se_model (\<sigma> n)) = mo_active (se_model (\<sigma> 0))"
    and c: "mo_client (se_model (\<sigma> 0)) = Some c" and up: "\<And>s e. answers c s e \<Longrightarrow> e = None"
  shows "\<exists>N. \<forall>n \<ge> N. shown (\<sigma> n)"
proof -
  have step: "monitor_step lib answers (\<sigma> n) (ev n) (\<sigma> (Suc n))" for n using run by (simp add: fair_run_def)
  have fair: "cmd \<in> set (se_pending (\<sigma> n)) \<Longrightarrow> \<exists>k \<ge> n. executes cmd (ev k)" for n cmd using run by (simp add: fair_run_def)
  have ok: "session_ok lib answers P (\<sigma> n)" for n using run ok by (rule fair_run_ok)
  have same: "mo_active (se_model (\<sigma> (Suc n))) = mo_active (se_model (\<sigma> n))" for n
    using stays [of "Suc n"] stays [of n] by simp
  have client: "mo_client (se_model (\<sigma> n)) = Some c" for n
    by (induction n) (simp_all add: c step_keeps(1) [OF step ok same])
  have "filter is_tick (se_pending (\<sigma> 0)) \<noteq> []" using ok [of 0] by (auto simp: session_ok_def ticks_def)
  then obtain t where "TickAfter t \<in> set (se_pending (\<sigma> 0))"
    by (auto simp: filter_empty_conv elim: is_tick.elims)
  then obtain k where "ev k = Ticked t" using fair by fastforce
  with step [of k] have "\<exists>d. \<sigma> (Suc k) = deliver lib d TickMsg (complete (TickAfter t) (\<sigma> k))"
    by (auto elim: monitor_stepE)
  then have "refresh_now (se_model (\<sigma> k)) \<in> set (se_pending (\<sigma> (Suc k)))" by auto
  then obtain j where j: "executes (refresh_now (se_model (\<sigma> k))) (ev j)" using fair by blast
  then obtain v n sn e where ev: "ev j = Answered (Some c) (mo_active (se_model (\<sigma> k))) v n sn e"
    by (auto simp: refresh_now_def client)
  obtain d where s: "\<sigma> (Suc j) = deliver lib d (SnapshotMsg (mo_active (se_model (\<sigma> k))) sn e)
      (complete (Refresh (Some c) (mo_active (se_model (\<sigma> k))) v n) (\<sigma> j))" and a: "answers c sn e"
    using step [of j] unfolding ev by (auto simp: refresh_answer_def elim: monitor_stepE)
  have "mo_active (se_model (\<sigma> k)) = mo_active (se_model (\<sigma> j))" using stays [of k] stays [of j] by simp
  with s up [OF a] have first: "shown (\<sigma> (Suc j))" by (simp add: shown_def update_snapshot_def Let_def)
  have "shown (\<sigma> n)" if "Suc j \<le> n" for n
    using that by (induction rule: dec_induct) (simp_all add: first step_keeps(2) [OF step ok same])
  then show ?thesis by blast
qed

text \<open>A monitor whose only profile has no client: the error stays, whatever happens to the disk.\<close>

definition quiet :: "model \<Rightarrow> model \<times> tea_command list \<Rightarrow> bool" where
  "quiet m r \<longleftrightarrow> (\<exists>v. fst r = m\<lparr>mo_view := v\<rparr>) \<and> set (snd r) \<subseteq> {Quit, refresh_now m}"

lemma quiet_intros:
  "quiet m (m, [])" "quiet m (m, [Quit])" "quiet m (m, [refresh_now m])" "quiet m (m\<lparr>mo_view := v\<rparr>, [])"
  "quiet m (case u of Some v \<Rightarrow> m\<lparr>mo_view := v\<rparr> | None \<Rightarrow> m, [])"
  "quiet m x \<Longrightarrow> quiet m y \<Longrightarrow> quiet m (if q then x else y)"
  by (auto simp: quiet_def split: option.split intro: exI [of _ "mo_view m"])

lemma key_quiet:
  assumes "mo_profiles m = [p]" and "\<not> mo_selecting m"
  shows "quiet m (update_key lib d k m)"
proof -
  have "\<not> int (length (mo_profiles m)) > 1" using assms(1) by simp
  then show ?thesis
    unfolding update_key_def Let_def by (simp only: assms(2) if_False) (intro quiet_intros)
qed

lemma stuck_refresh: "mo_profiles m = [p] \<Longrightarrow> mo_client m = None \<Longrightarrow> mo_active m = 0 \<Longrightarrow> useless p (refresh_now m)"
  by (simp add: refresh_now_def active_profile_name_def in_profiles_def)

lemma stuck_step:
  assumes "stuck p s" and "monitor_step lib answers s ev s'"
  shows "stuck p s' \<and> (mo_err (se_model s') = mo_err (se_model s) \<or> mo_err (se_model s') = Some (ProfileUnusable (pf_name p)))"
proof -
  have s: "mo_profiles (se_model s) = [p]" "mo_client (se_model s) = None" "mo_active (se_model s) = 0"
    "\<not> mo_selecting (se_model s)" "mo_snapshot (se_model s) = zero_snapshot" "mo_state (se_model s) = StateError"
    and u: "\<And>cmd. cmd \<in> set (se_pending s) \<Longrightarrow> useless p cmd"
    using assms(1) by (simp_all add: stuck_def)
  have r: "useless p (refresh_now (se_model s))" using s by (intro stuck_refresh)
  have u1: "cmd \<in> set (remove1 c (se_pending s)) \<Longrightarrow> useless p cmd" for cmd c
    using set_remove1_subset [of c "se_pending s"] u by blast
  from assms(2) show ?thesis
  proof cases
    case (resize w h d)
    with s u show ?thesis by (simp add: stuck_def)
  next
    case (key k d)
    have "quiet (se_model s) (update_key lib d k (se_model s))" using s by (intro key_quiet)
    then obtain v where v: "fst (update_key lib d k (se_model s)) = (se_model s)\<lparr>mo_view := v\<rparr>"
      and "set (snd (update_key lib d k (se_model s))) \<subseteq> {Quit, refresh_now (se_model s)}" by (auto simp: quiet_def)
    then have "\<And>cmd. cmd \<in> set (snd (update_key lib d k (se_model s))) \<Longrightarrow> useless p cmd" using r by auto
    with key s u v show ?thesis by (simp add: stuck_def ball_Un)
  next
    case (tick t d)
    with s u1 r show ?thesis by (simp add: stuck_def ball_Un)
  next
    case (answer c i v n sn e d)
    from u [OF answer(4)] have "c = None" "i = 0" "n = pf_name p" by simp_all
    with answer s u1 show ?thesis by (simp add: stuck_def refresh_answer_def update_snapshot_def Let_def)
  next
    case stop
    with s u show ?thesis by (simp add: stuck_def)
  qed
qed

lemma stuck_run:
  "monitor_run lib answers s0 s \<Longrightarrow> stuck p s0 \<Longrightarrow>
     stuck p s \<and> (mo_err (se_model s) = mo_err (se_model s0) \<or> mo_err (se_model s) = Some (ProfileUnusable (pf_name p)))"
proof (induction rule: monitor_run.induct)
  case (step s ev s')
  with stuck_step [of p s lib ev s'] show ?case by metis
qed simp

lemma start_stuck:
  assumes "ps_profiles ps = [p]" and "new_client_checked lib d (pf_config p) = Inl e"
  shows "stuck p (start_session lib d ps)" and "mo_err (se_model (start_session lib d ps)) = Some e"
proof -
  have "active_index ps = 0" using assms(1) by (simp add: active_index_def)
  with assms show "stuck p (start_session lib d ps)" and "mo_err (se_model (start_session lib d ps)) = Some e"
    by (auto simp: start_session_def new_profile_model_def Let_def stuck_def init_commands_def refresh_now_def
        checked_fault_def checked_client_def new_model_def active_profile_name_def in_profiles_def)
qed

end

section \<open>The network as the source\<close>

lemma client_snapshot_stamped:
  "client_snapshot lib net c sched now w = (w', s, None) \<Longrightarrow> sn_updated_at s = now"
  by (auto simp: client_snapshot_def split: prod.splits option.splits)

interpretation net: status_source "network_answers lib net" for lib and net :: "'w top_network"
  by unfold_locales (auto simp: network_answers_def dest: client_snapshot_stamped)

section \<open>Properties of the monitor\<close>

text \<open>
  C28. In every state the monitor can reach, the active profile and the cursor are among the
  profiles, exactly one tick is pending, and the screen state fits the data: loading means no
  data, no error and a client; an error screen means no data and an error; the two data screens
  mean data of a refresh, empty or not.
\<close>

theorem monitor_state_consistent:
  assumes "ps_profiles ps \<noteq> []" and "monitor_run lib (network_answers lib net) (start_session lib d ps) s"
  shows "mo_profiles (se_model s) = ps_profiles ps \<and> in_profiles (se_model s) (mo_active (se_model s)) \<and>
    in_profiles (se_model s) (mo_cursor (se_model s)) \<and> ticks s = 1 \<and> screen_ok (se_model s)"
  using net.run_ok [OF assms(2) net.start_ok [OF assms(1)]] by (simp_all add: session_ok_def model_ok_def)

text \<open>
  C9. Profiles are isolated: the data on the screen was read by a client with the server and the
  token of the active profile, and a pending refresh uses the server and the token of the
  profile its answer will be shown for, whatever was switched in between.
\<close>

theorem profile_isolation:
  assumes "ps_profiles ps \<noteq> []" and "monitor_run lib (network_answers lib net) (start_session lib d ps) s"
  shows "(mo_snapshot (se_model s) = zero_snapshot \<or>
      (\<exists>c. cl_base_url c = trim_slashes (tc_server (model_config (se_model s))) \<and>
           cl_token c = tc_token (model_config (se_model s)) \<and> network_answers lib net c (mo_snapshot (se_model s)) None)) \<and>
    (\<forall>c i v n. Refresh (Some c) i v n \<in> set (se_pending s) \<longrightarrow>
      cl_base_url c = trim_slashes (tc_server (pf_config (ps_profiles ps ! nat i))) \<and>
      cl_token c = tc_token (pf_config (ps_profiles ps ! nat i)))"
proof -
  have ok: "session_ok lib (network_answers lib net) (ps_profiles ps) s"
    by (rule net.run_ok [OF assms(2) net.start_ok [OF assms(1)]])
  then have "model_config (se_model s) = pf_config (ps_profiles ps ! nat (mo_active (se_model s)))"
    by (simp add: session_ok_def model_ok_def model_config_def)
  with ok have "mo_snapshot (se_model s) = zero_snapshot \<or>
      (\<exists>c. cl_base_url c = trim_slashes (tc_server (model_config (se_model s))) \<and>
           cl_token c = tc_token (model_config (se_model s)) \<and> network_answers lib net c (mo_snapshot (se_model s)) None)"
    by (auto simp: session_ok_def model_ok_def dest: made_for_fields)
  moreover have "made_for lib (pf_config (ps_profiles ps ! nat i)) c" if "Refresh (Some c) i v n \<in> set (se_pending s)" for c i v n
  proof -
    from ok that have "command_ok lib (ps_profiles ps) (Refresh (Some c) i v n)" unfolding session_ok_def by blast
    then show ?thesis by (simp add: command_ok_def)
  qed
  ultimately show ?thesis by (blast dest: made_for_fields)
qed

text \<open>
  C10. On a fair run that does not switch the profile, with a client whose requests succeed, the
  monitor at last shows data and goes on showing it.
\<close>

theorem fair_monitor_shows_data:
  assumes "ps_profiles ps \<noteq> []" and "monitor_run lib (network_answers lib net) (start_session lib d ps) (\<sigma> 0)"
    and "fair_run lib (network_answers lib net) \<sigma> ev"
    and "\<And>n. mo_active (se_model (\<sigma> n)) = mo_active (se_model (\<sigma> 0))"
    and "mo_client (se_model (\<sigma> 0)) = Some c" and "\<And>s e. network_answers lib net c s e \<Longrightarrow> e = None"
  shows "\<exists>N. \<forall>n \<ge> N. mo_state (se_model (\<sigma> n)) = StateLoaded \<or> mo_state (se_model (\<sigma> n)) = StateEmpty"
proof -
  have "session_ok lib (network_answers lib net) (ps_profiles ps) (\<sigma> 0)"
    by (rule net.run_ok [OF assms(2) net.start_ok [OF assms(1)]])
  from net.fair_run_shows [OF assms(3) this assms(4-6)] show ?thesis by (simp add: shown_def)
qed

text \<open>
  C33. A monitor with one profile whose client could not be made at the start (a certificate file
  that is not there yet, say) shows an error for ever: no key, tick or change of the disk makes
  it try again, although its screen offers \<open>r\<close> for that. And the first answer replaces the
  reason by the message that the profile is not usable.
\<close>

theorem unusable_profile_stuck:
  assumes "ps_profiles ps = [p]" and "new_client_checked lib d (pf_config p) = Inl e"
    and "monitor_run lib (network_answers lib net) (start_session lib d ps) s"
  shows "mo_client (se_model s) = None \<and> mo_state (se_model s) = StateError \<and>
      mo_err (se_model s) \<in> {Some e, Some (ProfileUnusable (pf_name p))} \<and>
      (\<forall>c i v n sn f s'. monitor_step lib (network_answers lib net) s (Answered c i v n sn f) s' \<longrightarrow>
        mo_err (se_model s') = Some (ProfileUnusable (pf_name p)))"
proof -
  have st: "stuck p s" "mo_err (se_model s) = Some e \<or> mo_err (se_model s) = Some (ProfileUnusable (pf_name p))"
    using net.stuck_run [OF assms(3) net.start_stuck(1) [OF assms(1,2)]] net.start_stuck(2) [OF assms(1,2)] by simp_all
  have "mo_err (se_model s') = Some (ProfileUnusable (pf_name p))"
    if "monitor_step lib (network_answers lib net) s (Answered c i v n sn f) s'" for c i v n sn f s'
  proof -
    from that obtain d where "Refresh c i v n \<in> set (se_pending s)" "refresh_answer (network_answers lib net) c n sn f"
      "s' = deliver lib d (SnapshotMsg i sn f) (complete (Refresh c i v n) s)" by (auto elim: monitor_stepE)
    moreover from this(1) st(1) have "useless p (Refresh c i v n)" unfolding stuck_def by blast
    ultimately show ?thesis using st(1) by (simp add: stuck_def refresh_answer_def update_snapshot_def Let_def)
  qed
  with st show ?thesis by (auto simp: stuck_def)
qed

section \<open>Properties of the client\<close>

text \<open>A network that keeps no state answers a request the same way at any time.\<close>

definition stateless :: "(tls_choice \<Rightarrow> top_request \<Rightarrow> string + wire_response) \<Rightarrow> unit top_network" where
  "stateless ans tls w r = ((), ans tls r)"

definition answered_value ::
  "monitor_lib \<Rightarrow> (tls_choice \<Rightarrow> top_request \<Rightarrow> string + wire_response) \<Rightarrow> top_client \<Rightarrow> string \<Rightarrow> 'a decoder \<Rightarrow> 'a \<Rightarrow> 'a" where
  "answered_value lib ans c path decode out = fst (snd (top_get lib (stateless ans) c path decode out ()))"

definition put_detail ::
  "monitor_lib \<Rightarrow> (tls_choice \<Rightarrow> top_request \<Rightarrow> string + wire_response) \<Rightarrow> top_client \<Rightarrow> detail \<Rightarrow> string \<Rightarrow> snapshot \<Rightarrow> snapshot" where
  "put_detail lib ans c k p s =
     (case k of
        DServer \<Rightarrow> s\<lparr>sn_server := answered_value lib ans c p (ml_server lib) (sn_server s)\<rparr>
      | DCa \<Rightarrow> s\<lparr>sn_ca := answered_value lib ans c p (ml_ca lib) (sn_ca s)\<rparr>
      | DCertificates \<Rightarrow> s\<lparr>sn_certificates := answered_value lib ans c p (ml_certificates lib) (sn_certificates s)\<rparr>
      | DEnrollments \<Rightarrow> s\<lparr>sn_enrollments := answered_value lib ans c p (ml_enrollments lib) (sn_enrollments s)\<rparr>
      | DTokens \<Rightarrow> s\<lparr>sn_tokens := answered_value lib ans c p (ml_tokens lib) (sn_tokens s)\<rparr>
      | DSecurity \<Rightarrow> s\<lparr>sn_security := answered_value lib ans c p (ml_security lib) (sn_security s)\<rparr>
      | DTelemetry \<Rightarrow> s\<lparr>sn_telemetry := answered_value lib ans c p (ml_telemetry lib) (sn_telemetry s)\<rparr>
      | DHierarchy \<Rightarrow> s\<lparr>sn_hierarchy := answered_value lib ans c p (ml_hierarchy lib) (sn_hierarchy s)\<rparr>
      | DAudit \<Rightarrow> s\<lparr>sn_audit := answered_value lib ans c p (ml_audit lib) (sn_audit s)\<rparr>)"

lemma top_get_stateless:
  "(case top_get lib (stateless ans) c path decode out w of (w', v, e) \<Rightarrow> (w', f v)) =
     ((), f (answered_value lib ans c path decode out))"
  by (simp add: answered_value_def split: prod.split)

lemma fetch_put: "fetch_detail lib (stateless ans) c (k, p) x = ((), put_detail lib ans c k p (snd x))"
proof (cases x)
  case (Pair w s)
  show ?thesis unfolding Pair by (cases k) (simp_all only: fetch_detail.simps detail.case top_get_stateless put_detail_def snd_conv)
qed

lemma put_commute:
  "k \<noteq> k' \<Longrightarrow> put_detail lib ans c k' p' (put_detail lib ans c k p s) = put_detail lib ans c k p (put_detail lib ans c k' p' s)"
  by (cases k; cases k') (simp_all add: put_detail_def)

lemma fetch_commute:
  "k \<noteq> k' \<Longrightarrow> fetch_detail lib (stateless ans) c (k', p') (fetch_detail lib (stateless ans) c (k, p) x) =
     fetch_detail lib (stateless ans) c (k, p) (fetch_detail lib (stateless ans) c (k', p') x)"
  by (simp only: fetch_put snd_conv) (simp add: put_commute del: fetch_detail.simps)

lemma fetch_schedule:
  assumes "mset sched = mset detail_requests"
  shows "snapshot_details lib (stateless ans) c sched = snapshot_details lib (stateless ans) c detail_requests"
proof -
  have s: "set sched = set detail_requests" using assms by (rule mset_eq_setD)
  have "distinct (map fst detail_requests)" by (simp add: detail_requests_def)
  then have inj: "inj_on fst (set detail_requests)" by (simp only: distinct_map)
  have "fetch_detail lib (stateless ans) c x \<circ> fetch_detail lib (stateless ans) c y =
      fetch_detail lib (stateless ans) c y \<circ> fetch_detail lib (stateless ans) c x"
    if "x \<in> set sched" "y \<in> set sched" for x y
  proof (cases "x = y")
    case False
    then have "fst y \<noteq> fst x" using that inj unfolding s inj_on_def by metis
    from fetch_commute [OF this, of lib ans c "snd x" "snd y"] show ?thesis
      by (simp only: fun_eq_iff o_apply prod.collapse) simp
  qed simp
  with assms show ?thesis unfolding snapshot_details_def by (intro fold_multiset_equiv)
qed

text \<open>
  The nine concurrent requests do not depend on the order in which they are answered: against a
  server whose answers do not change meanwhile, every schedule gives the snapshot of the
  sequential one.
\<close>

theorem detail_order_irrelevant:
  assumes "mset sched = mset detail_requests"
  shows "client_snapshot lib (stateless ans) c sched now w = client_snapshot lib (stateless ans) c detail_requests now w"
  by (simp only: client_snapshot_def fetch_schedule [OF assms])

text \<open>A network that records what it is sent.\<close>

definition recording :: "'w top_network \<Rightarrow> ('w \<times> (tls_choice \<times> top_request) list) top_network" where
  "recording net tls wl r =
     (case wl of (w, sent) \<Rightarrow> (case net tls w r of (w', x) \<Rightarrow> ((w', sent @ [(tls, r)]), x)))"

text \<open>The paths of the status API that the monitor reads.\<close>

definition monitor_paths :: "string list" where
  "monitor_paths =
     [''/v1/status/overview'', ''/v1/status/server'', ''/v1/status/ca'', ''/v1/status/certificates'', ''/v1/status/enrollments'',
      ''/v1/status/tokens'', ''/v1/status/security'', ''/v1/status/telemetry'', ''/v1/status/ca-hierarchy'', ''/v1/audit/recent'']"

definition own_request :: "top_client \<Rightarrow> tls_choice \<times> top_request \<Rightarrow> bool" where
  "own_request c x \<longleftrightarrow> (\<exists>path. path \<in> set monitor_paths \<and> x = (cl_tls c, request_for c path))"

lemma top_get_recorded:
  assumes "top_get lib (recording net) c path decode out wl = (wl', v, e)" and "path \<in> set monitor_paths"
    and "list_all (own_request c) (snd wl)"
  shows "list_all (own_request c) (snd wl')"
proof -
  have "own_request c (cl_tls c, request_for c path)" using assms(2) unfolding own_request_def by blast
  with assms(1,3) show ?thesis
    by (auto simp: top_get_def recording_def split: option.splits prod.splits sum.splits if_splits)
qed

lemma detail_paths: "kp \<in> set detail_requests \<Longrightarrow> snd kp \<in> set monitor_paths"
proof -
  have "list_all (\<lambda>kp. snd kp \<in> set monitor_paths) detail_requests" by code_simp
  then show "kp \<in> set detail_requests \<Longrightarrow> snd kp \<in> set monitor_paths" by (simp only: list_all_iff)
qed

lemma fetch_recorded:
  assumes "kp \<in> set detail_requests" and "list_all (own_request c) (snd (fst x))"
  shows "list_all (own_request c) (snd (fst (fetch_detail lib (recording net) c kp x)))"
proof -
  obtain k p where kp: "kp = (k, p)" by (cases kp)
  obtain w s where x: "x = (w, s)" by (cases x)
  have p: "p \<in> set monitor_paths" using detail_paths [OF assms(1)] kp by simp
  show ?thesis
    using assms(2) unfolding kp x by (cases k) (simp_all split: prod.split add: top_get_recorded [OF _ p])
qed

lemma details_recorded:
  "set sched \<subseteq> set detail_requests \<Longrightarrow> list_all (own_request c) (snd (fst x)) \<Longrightarrow>
     list_all (own_request c) (snd (fst (snapshot_details lib (recording net) c sched x)))"
  unfolding snapshot_details_def by (induction sched arbitrary: x) (simp_all add: fetch_recorded)

lemma snapshot_recorded:
  assumes "client_snapshot lib (recording net) c sched now (w, []) = ((w', sent), s, e)"
    and "set sched \<subseteq> set detail_requests"
  shows "list_all (own_request c) sent"
proof -
  obtain x v f where g: "top_get lib (recording net) c ''/v1/status/overview'' (ml_overview lib) zero_overview (w, []) = (x, v, f)"
    by (rule prod_cases3)
  have "''/v1/status/overview'' \<in> set monitor_paths" by (simp add: monitor_paths_def)
  with top_get_recorded [OF g] have x: "list_all (own_request c) (snd x)" by simp
  with assms(1) g details_recorded [OF assms(2), of c "(x, zero_snapshot\<lparr>sn_overview := v\<rparr>)" lib net] show ?thesis
    by (auto simp: client_snapshot_def split: option.splits prod.splits)
qed

text \<open>
  The part of a URL that says where it leads (RFC 3986, 3.2): what stands between the first
  \<open>://\<close> and the next slash, question mark or number sign.
\<close>

fun after_scheme :: "string \<Rightarrow> string" where
  "after_scheme [] = []"
| "after_scheme (c # s) = (if has_prefix (c # s) ''://'' then drop 3 (c # s) else after_scheme s)"

definition ends_authority :: "char \<Rightarrow> bool" where
  "ends_authority c \<longleftrightarrow> c = CHR ''/'' \<or> c = CHR ''?'' \<or> c = CHR ''#''"

definition url_authority :: "string \<Rightarrow> string" where
  "url_authority s = takeWhile (\<lambda>c. \<not> ends_authority c) (after_scheme s)"

lemma after_scheme_plain: "CHR '':'' \<notin> set s \<Longrightarrow> after_scheme s = []"
  by (induction s) auto

lemma takeWhile_slash [simp]:
  "takeWhile (\<lambda>c. \<not> ends_authority c) (r @ CHR ''/'' # q) = takeWhile (\<lambda>c. \<not> ends_authority c) r"
  by (induction r) (simp_all add: ends_authority_def)

lemma scheme_before_path:
  assumes "s = [] \<or> List.last s \<noteq> CHR ''/''" and "q = [] \<or> hd q \<noteq> CHR ''/''"
  shows "has_prefix (c # s @ CHR ''/'' # q) ''://'' = has_prefix (c # s) ''://''"
  using assms by (cases s; cases "tl s"; cases q) auto

text \<open>A path appended to a base without trailing slash does not change where the URL leads.\<close>

lemma authority_append:
  assumes "s = [] \<or> List.last s \<noteq> CHR ''/''" and "q = [] \<or> hd q \<noteq> CHR ''/''" and "CHR '':'' \<notin> set q"
  shows "url_authority (s @ CHR ''/'' # q) = url_authority s"
  using assms(1)
proof (induction s)
  case Nil
  then show ?case using assms(3) by (simp add: url_authority_def after_scheme_plain)
next
  case (Cons c s)
  have l: "s = [] \<or> List.last s \<noteq> CHR ''/''" using Cons.prems by (auto split: if_splits)
  have p: "has_prefix (c # s @ CHR ''/'' # q) ''://'' = has_prefix (c # s) ''://''" by (rule scheme_before_path [OF l assms(2)])
  show ?case
  proof (cases "has_prefix (c # s) ''://''")
    case True
    then obtain r where r: "c # s = ''://'' @ r" unfolding has_prefix_append by blast
    then have "after_scheme ((c # s) @ CHR ''/'' # q) = r @ CHR ''/'' # q" "after_scheme (c # s) = r" by simp_all
    then show ?thesis unfolding url_authority_def by (simp del: after_scheme.simps)
  next
    case False
    then show ?thesis using Cons.IH [OF l] p by (simp add: url_authority_def del: has_prefix.simps)
  qed
qed

lemma authority_trim: "url_authority (trim_slashes s) = url_authority s"
proof -
  have one: "url_authority (s @ [CHR ''/'']) = url_authority s" for s
  proof (induction s)
    case Nil
    show ?case by (simp add: url_authority_def)
  next
    case (Cons c s)
    show ?case
    proof (cases "has_prefix (c # s) ''://''")
      case True
      then obtain r where "c # s = ''://'' @ r" unfolding has_prefix_append by blast
      then have "after_scheme ((c # s) @ [CHR ''/'']) = r @ [CHR ''/'']" "after_scheme (c # s) = r" by simp_all
      then show ?thesis unfolding url_authority_def by (simp del: after_scheme.simps)
    next
      case False
      show ?thesis
      proof (cases "has_prefix (c # s @ [CHR ''/'']) ''://''")
        case True
        with False have "c # s = '':/''" by (cases s; cases "tl s") auto
        then show ?thesis by (simp add: url_authority_def)
      next
        case no: False
        from Cons.IH False no show ?thesis by (simp add: url_authority_def del: has_prefix.simps)
      qed
    qed
  qed
  have "\<forall>c \<in> set w. c = CHR ''/'' \<Longrightarrow> url_authority (t @ w) = url_authority t" for t w
    by (induction w rule: rev_induct) (simp_all add: one append_assoc [symmetric] del: append_assoc)
  moreover have "s = trim_slashes s @ rev (takeWhile (\<lambda>c. c = CHR ''/'') (rev s))"
    unfolding trim_slashes_def rev_append [symmetric] takeWhile_dropWhile_id by simp
  moreover have "\<forall>c \<in> set (rev (takeWhile (\<lambda>c. c = CHR ''/'') (rev s))). c = CHR ''/''" by (auto dest: set_takeWhileD)
  ultimately show ?thesis by metis
qed

lemma trimmed_end: "trim_slashes s = [] \<or> List.last (trim_slashes s) \<noteq> CHR ''/''"
proof -
  have "dropWhile (\<lambda>c. c = CHR ''/'') xs = [] \<or> hd (dropWhile (\<lambda>c. c = CHR ''/'') xs) \<noteq> CHR ''/''" for xs
    by (induction xs) auto
  from this [of "rev s"] show ?thesis unfolding trim_slashes_def last_rev rev_is_Nil_conv .
qed

lemma monitor_path_shape:
  assumes "path \<in> set monitor_paths"
  shows "\<exists>q. path = CHR ''/'' # q \<and> hd q \<noteq> CHR ''/'' \<and> CHR '':'' \<notin> set q"
proof -
  have "list_all (\<lambda>p. p \<noteq> [] \<and> hd p = CHR ''/'' \<and> hd (tl p) \<noteq> CHR ''/'' \<and> list_all (\<lambda>c. c \<noteq> CHR '':'') (tl p)) monitor_paths"
    by code_simp
  with assms have "path \<noteq> [] \<and> hd path = CHR ''/'' \<and> hd (tl path) \<noteq> CHR ''/'' \<and> (\<forall>c \<in> set (tl path). c \<noteq> CHR '':'')"
    unfolding list_all_iff by blast
  then show ?thesis by (cases path) auto
qed

text \<open>
  C29. Every request the monitor hands to its HTTP client is for one of the ten status paths, directly
  behind the configured server's URL, and leads to the host of that URL: the path cannot change
  the authority, whatever the configured address looks like. It carries the TLS setting and the
  token of the configuration, and verification of certificates is off only when the configuration
  says so. (Where the HTTP client then goes is not part of the statement: it follows redirects and
  the proxy settings of the environment, as \<open>http.Client\<close> does by default.)
\<close>

theorem requests_stay_with_server:
  assumes "new_client_checked lib d cfg = Inr c" and "set sched \<subseteq> set detail_requests"
    and "client_snapshot lib (recording net) c sched now (w, []) = ((w', sent), s, e)" and "(tls, r) \<in> set sent"
  shows "(\<exists>path \<in> set monitor_paths. rq_url r = trim_slashes (tc_server cfg) @ path) \<and>
    url_authority (rq_url r) = url_authority (tc_server cfg) \<and>
    rq_authorization r = (if tc_token cfg = [] then None else Some (''Bearer '' @ tc_token cfg)) \<and>
    tls = cl_tls c \<and> (tls = SkipVerify \<longleftrightarrow> tc_insecure cfg)"
proof -
  have "own_request c (tls, r)" using snapshot_recorded [OF assms(3,2)] assms(4) by (simp add: list_all_iff)
  then obtain path where path: "path \<in> set monitor_paths" "tls = cl_tls c" "r = request_for c path"
    by (auto simp: own_request_def)
  obtain q where q: "path = CHR ''/'' # q" "hd q \<noteq> CHR ''/''" "CHR '':'' \<notin> set q"
    using monitor_path_shape [OF path(1)] by blast
  have c: "cl_base_url c = trim_slashes (tc_server cfg)" "cl_token c = tc_token cfg" "cl_tls c = SkipVerify \<longleftrightarrow> tc_insecure cfg"
    using assms(1) by (auto simp: new_client_checked_def Let_def bindE_def client_tls_config_def split: option.splits sum.splits if_splits)
  have "url_authority (trim_slashes (tc_server cfg) @ path) = url_authority (tc_server cfg)"
    unfolding q(1) authority_append [OF trimmed_end disjI2 [OF q(2)] q(3)] by (rule authority_trim)
  with path c show ?thesis by (auto simp: request_for_def)
qed

section \<open>Properties of the profile file\<close>

definition profile_ok :: "profile \<Rightarrow> bool" where
  "profile_ok p \<longleftrightarrow>
     trim_space (pf_name p) \<noteq> [] \<and> tc_server (pf_config p) \<noteq> [] \<and> tc_endpoint (pf_config p) = [] \<and>
     tc_refresh (pf_config p) > 0 \<and> valid_view_name (tc_default_view (pf_config p)) \<and>
     tc_output (pf_config p) \<in> {''tui'', ''text''}"

lemma normalized_ok:
  assumes "validate_config w cfg = None" and "trim_space name \<noteq> []"
  shows "profile_ok \<lparr>pf_name = name, pf_config = (normalize_top_config cfg)\<lparr>tc_ca_file := f\<rparr>\<rparr>"
proof -
  have t: "trim_space ''tui'' = ''tui''" "trim_space ''text'' = ''text''" by code_simp+
  show ?thesis
    using assms t by (auto simp: validate_config_def normalize_top_config_def profile_ok_def Let_def valid_view_name_def
        normalize_view_name_def split: if_splits)
qed

lemma build_profiles_ok:
  "build_profiles home path def i st raw = Inr (ps, a, f) \<Longrightarrow> 0 \<le> i \<Longrightarrow>
     length ps = length raw \<and> list_all profile_ok ps \<and> map pf_name ps = map fst raw \<and> (a = fst st \<or> i \<le> a \<and> a < i + int (length raw))"
proof (induction raw arbitrary: i st ps a f)
  case (Cons x raw)
  obtain name cfg where x: "x = (name, cfg)" by (cases x)
  let ?st = "if def = name then (i, True) else st"
  let ?p = "\<lparr>pf_name = name, pf_config = (normalize_top_config cfg)\<lparr>tc_ca_file := expand_path home (tc_ca_file (normalize_top_config cfg))\<rparr>\<rparr>"
  from Cons.prems(1) have v: "trim_space name \<noteq> []" "validate_config (path, name) cfg = None"
    by (auto simp: x split: if_splits option.splits)
  with Cons.prems(1) obtain qs where qs: "build_profiles home path def (i + 1) ?st raw = Inr (qs, a, f)" "ps = ?p # qs"
    by (auto simp: x Let_def bindE_def simp del: build_profiles.simps(1) split: sum.splits prod.splits)
  have "profile_ok ?p" using v(2,1) by (rule normalized_ok)
  with Cons.IH [OF qs(1)] Cons.prems(2) show ?case by (auto simp: x qs(2))
qed simp

lemma case_sum_InrE: "(case r of Inl e \<Rightarrow> Inl (f e) | Inr x \<Rightarrow> g x) = Inr y \<Longrightarrow> (\<And>x. r = Inr x \<Longrightarrow> g x = Inr y \<Longrightarrow> P) \<Longrightarrow> P"
  by (cases r) simp_all

lemma if_InrE: "(if b then Inl e else x) = Inr y \<Longrightarrow> (\<not> b \<Longrightarrow> x = Inr y \<Longrightarrow> P) \<Longrightarrow> P"
  by (cases b) simp_all

text \<open>
  A profile file that is read gives at least one profile, the active one among them, in the
  order of their names; each has a server, a positive refresh interval, a known view
  and a known output.
\<close>

theorem loaded_profiles_valid:
  assumes "load_profiles lib d path = Inr ps"
  shows "ps_profiles ps \<noteq> [] \<and> 0 \<le> ps_active ps \<and> ps_active ps < int (length (ps_profiles ps)) \<and>
    sorted (map pf_name (ps_profiles ps)) \<and> list_all profile_ok (ps_profiles ps)"
proof -
  obtain p data where "parse_profiles lib p data = Inr ps"
    using assms unfolding load_profiles_def bindE_def Let_def by (elim case_sum_InrE if_InrE) simp_all
  then obtain raw where "build_profile_set lib p raw = Inr ps" and ne: "cfl_profiles raw \<noteq> []"
    unfolding parse_profiles_def by (simp split: sum.splits option.splits if_splits)
  then obtain f where b: "build_profiles (yl_home lib) p (cfl_default raw) 0 (0, cfl_default raw = [])
      (sort_key fst (cfl_profiles raw)) = Inr (ps_profiles ps, ps_active ps, f)"
    by (auto simp: build_profile_set_def bindE_def split: sum.splits if_splits)
  note ok = build_profiles_ok [OF b order_refl]
  have "length (ps_profiles ps) = length (cfl_profiles raw)" using ok by simp
  moreover have "sorted (map pf_name (ps_profiles ps))" using ok by simp
  ultimately show ?thesis using ok ne by (cases "cfl_profiles raw") auto
qed

section \<open>A concrete monitor\<close>

text \<open>One profile whose server answers every request, and a second configuration without a server.\<close>

definition demo_top_config :: top_config where "demo_top_config = default_top_config\<lparr>tc_server := ''http://h''\<rparr>"

definition demo_monitor :: monitor_lib where
  "demo_monitor =
     \<lparr>ml_config = \<lparr>yl_home = Inr ''/home'', yl_nodes = \<lambda>s. Inr [],
        yl_decode = \<lambda>s. Inr \<lparr>cfl_default = ''local'', cfl_profiles = [(''local'', demo_top_config)]\<rparr>,
        yl_fields = \<lambda>s. Inr [(''local'', [''server'', ''refresh'', ''default_view'', ''output''])]\<rparr>,
      ml_parse_url = \<lambda>u. Inr (''http'', ''h''), ml_append_certs = \<lambda>p. True, ml_reject_url = \<lambda>u. None, ml_quote = id,
      ml_overview = \<lambda>b. (zero_overview\<lparr>tov_server := zero_server\<lparr>tsv_status := ''healthy''\<rparr>\<rparr>, None),
      ml_server = \<lambda>b. (zero_server, None), ml_ca = \<lambda>b. (zero_ca, None), ml_certificates = \<lambda>b. ([], None),
      ml_enrollments = \<lambda>b. ([], None), ml_tokens = \<lambda>b. ([], None), ml_security = \<lambda>b. (zero_security, None),
      ml_telemetry = \<lambda>b. (zero_telemetry, None), ml_hierarchy = \<lambda>b. (zero_hierarchy, None), ml_audit = \<lambda>b. ([], None)\<rparr>"

definition demo_answers :: "tls_choice \<Rightarrow> top_request \<Rightarrow> string + wire_response" where
  "demo_answers tls r = Inr \<lparr>ws_code = 200, ws_status = ''200 OK'', ws_body = Inr ''{}''\<rparr>"

definition demo_profiles :: profile_set where
  "demo_profiles = \<lparr>ps_profiles = [\<lparr>pf_name = ''local'', pf_config = demo_top_config\<rparr>], ps_active = 0\<rparr>"

definition demo_top_client :: top_client where
  "demo_top_client = \<lparr>cl_base_url = ''http://h'', cl_token = [], cl_tls = DefaultTls\<rparr>"

definition demo_shot :: snapshot where
  "demo_shot = zero_snapshot\<lparr>sn_overview := zero_overview\<lparr>tov_server := zero_server\<lparr>tsv_status := ''healthy''\<rparr>\<rparr>, sn_updated_at := 1\<rparr>"

abbreviation demo_net :: "unit top_network" where "demo_net \<equiv> stateless demo_answers"

lemma demo_trim: "trim_space ''http://h'' = ''http://h''" "trim_slashes ''http://h'' = ''http://h''"
  by code_simp+

lemma demo_checked: "new_client_checked demo_monitor d demo_top_config = Inr demo_top_client"
  using demo_trim by (simp add: new_client_checked_def demo_top_config_def default_top_config_def validate_top_config_def
      client_tls_config_def demo_monitor_def expand_path_def bindE_def demo_top_client_def)

lemma demo_get: "top_get demo_monitor demo_net c path decode out w = ((), fst (decode (Inr ''{}'')), map_option NotDecoded (snd (decode (Inr ''{}''))))"
  by (simp add: top_get_def demo_monitor_def stateless_def demo_answers_def split: prod.split)

lemma demo_decoders:
  "ml_overview demo_monitor = (\<lambda>b. (zero_overview\<lparr>tov_server := zero_server\<lparr>tsv_status := ''healthy''\<rparr>\<rparr>, None))"
  "ml_server demo_monitor = (\<lambda>b. (zero_server, None))" "ml_ca demo_monitor = (\<lambda>b. (zero_ca, None))"
  "ml_certificates demo_monitor = (\<lambda>b. ([], None))" "ml_enrollments demo_monitor = (\<lambda>b. ([], None))"
  "ml_tokens demo_monitor = (\<lambda>b. ([], None))" "ml_security demo_monitor = (\<lambda>b. (zero_security, None))"
  "ml_telemetry demo_monitor = (\<lambda>b. (zero_telemetry, None))" "ml_hierarchy demo_monitor = (\<lambda>b. (zero_hierarchy, None))"
  "ml_audit demo_monitor = (\<lambda>b. ([], None))"
  by (simp_all add: demo_monitor_def)

lemma demo_details:
  "snapshot_details demo_monitor demo_net c detail_requests (w, zero_snapshot\<lparr>sn_overview := o'\<rparr>) =
     ((), zero_snapshot\<lparr>sn_overview := o'\<rparr>)"
  by (simp add: snapshot_details_def detail_requests_def demo_get demo_decoders zero_snapshot_def)

lemma demo_snapshot:
  "client_snapshot demo_monitor demo_net c sched now w = ((), s, e) \<Longrightarrow> e = None"
  "client_snapshot demo_monitor demo_net c detail_requests 1 w = ((), demo_shot, None)"
proof -
  show "client_snapshot demo_monitor demo_net c sched now w = ((), s, e) \<Longrightarrow> e = None"
    by (auto simp: client_snapshot_def demo_get demo_decoders split: prod.splits)
  show "client_snapshot demo_monitor demo_net c detail_requests 1 w = ((), demo_shot, None)"
    by (simp add: client_snapshot_def demo_get demo_decoders demo_details demo_shot_def)
qed

lemma demo_network:
  "network_answers demo_monitor demo_net c s e \<Longrightarrow> e = None"
  "network_answers demo_monitor demo_net c demo_shot None"
proof -
  show "network_answers demo_monitor demo_net c s e \<Longrightarrow> e = None" by (auto simp: network_answers_def dest: demo_snapshot(1))
  have "distinct detail_requests" by (simp add: detail_requests_def)
  then show "network_answers demo_monitor demo_net c demo_shot None"
    unfolding network_answers_def using demo_snapshot(2) [of c "()"]
    by (intro exI [of _ detail_requests] exI [of _ 1] exI [of _ "()"]) (simp add: is_zero_def zero_time_def)
qed

definition demo_model :: model where
  "demo_model =
     (new_model (Some demo_top_client) default_refresh ViewOverview)\<lparr>mo_profiles := ps_profiles demo_profiles\<rparr>"

definition demo_refresh :: tea_command where
  "demo_refresh = Refresh (Some demo_top_client) 0 ViewOverview ''local''"

definition demo_shown :: session where
  "demo_shown = \<lparr>se_model = demo_model\<lparr>mo_snapshot := demo_shot, mo_state := StateLoaded\<rparr>,
     se_pending = [TickAfter default_refresh], se_running = True\<rparr>"

definition demo_waiting :: session where
  "demo_waiting = demo_shown\<lparr>se_pending := [demo_refresh, TickAfter default_refresh]\<rparr>"

text \<open>The monitor starts, shows the answer, and then ticks and refreshes for ever.\<close>

fun demo_run :: "nat \<Rightarrow> session" where
  "demo_run 0 = \<lparr>se_model = demo_model, se_pending = [demo_refresh, TickAfter default_refresh], se_running = True\<rparr>"
| "demo_run (Suc n) = (if even n then demo_shown else demo_waiting)"

definition demo_events :: "nat \<Rightarrow> event" where
  "demo_events n =
     (if even n then Answered (Some demo_top_client) 0 ViewOverview ''local'' demo_shot None else Ticked default_refresh)"

lemma demo_view: "parse_view ''overview'' = ViewOverview"
  by code_simp

lemma demo_refresh_positive: "default_refresh > 0"
  by (simp add: default_refresh_def second_def)

lemma demo_model_fields [simp]:
  "mo_client demo_model = Some demo_top_client" "mo_active demo_model = 0" "mo_view demo_model = ViewOverview"
  "mo_profiles demo_model = ps_profiles demo_profiles" "mo_refresh demo_model = default_refresh" "mo_err demo_model = None"
  "ps_profiles demo_profiles = [\<lparr>pf_name = ''local'', pf_config = demo_top_config\<rparr>]"
  using demo_refresh_positive by (simp_all add: demo_model_def new_model_def demo_profiles_def)

lemma demo_starts: "start_session demo_monitor d demo_profiles = demo_run 0"
proof -
  have "tc_refresh demo_top_config = default_refresh" "tc_default_view demo_top_config = ''overview''"
    by (simp_all add: demo_top_config_def default_top_config_def)
  then have m: "new_profile_model demo_monitor d demo_profiles = demo_model"
    by (simp add: new_profile_model_def Let_def active_index_def demo_checked checked_fault_def checked_client_def demo_view
        demo_model_def new_model_def demo_profiles_def)
  show ?thesis
    by (simp add: start_session_def m init_commands_def refresh_now_def active_profile_name_def in_profiles_def demo_refresh_def)
qed

lemma demo_shot_full: "\<not> snapshot_empty demo_shot"
  by (simp add: snapshot_empty_def demo_shot_def)

lemma demo_even:
  assumes "even n"
  obtains sn st where "demo_run n = \<lparr>se_model = demo_model\<lparr>mo_snapshot := sn, mo_state := st\<rparr>,
    se_pending = [demo_refresh, TickAfter default_refresh], se_running = True\<rparr>"
proof (cases n)
  case 0
  show ?thesis by (rule that [of "mo_state demo_model" "mo_snapshot demo_model"]) (simp add: 0)
next
  case (Suc k)
  with assms have "demo_run n = demo_waiting" by simp
  then show ?thesis using that by (simp add: demo_waiting_def demo_shown_def)
qed

lemma demo_answer_step:
  "deliver demo_monitor Map.empty (SnapshotMsg 0 demo_shot None) (complete demo_refresh
     \<lparr>se_model = demo_model\<lparr>mo_snapshot := sn, mo_state := st\<rparr>, se_pending = [demo_refresh, TickAfter default_refresh],
      se_running = True\<rparr>) = demo_shown"
proof -
  have "update_snapshot 0 demo_shot None (demo_model\<lparr>mo_snapshot := sn, mo_state := st\<rparr>) =
      demo_model\<lparr>mo_err := None, mo_snapshot := demo_shot, mo_state := StateLoaded\<rparr>"
    by (simp add: update_snapshot_def Let_def demo_shot_full)
  also have "\<dots> = demo_model\<lparr>mo_snapshot := demo_shot, mo_state := StateLoaded\<rparr>"
    by (simp add: demo_model_def new_model_def)
  finally show ?thesis by (simp add: deliver_def complete_def demo_shown_def)
qed

lemma demo_steps:
  "monitor_step demo_monitor (network_answers demo_monitor demo_net) (demo_run n) (demo_events n) (demo_run (Suc n))"
proof (cases "even n")
  case True
  then obtain sn st where r: "demo_run n = \<lparr>se_model = demo_model\<lparr>mo_snapshot := sn, mo_state := st\<rparr>,
    se_pending = [demo_refresh, TickAfter default_refresh], se_running = True\<rparr>" by (rule demo_even)
  have "Refresh (Some demo_top_client) 0 ViewOverview ''local'' \<in> set (se_pending (demo_run n))" "se_running (demo_run n)"
    unfolding r by (simp_all add: demo_refresh_def)
  moreover have "refresh_answer (network_answers demo_monitor demo_net) (Some demo_top_client) ''local'' demo_shot None"
    by (simp add: refresh_answer_def demo_network(2))
  ultimately have "monitor_step demo_monitor (network_answers demo_monitor demo_net) (demo_run n) (demo_events n)
      (deliver demo_monitor Map.empty (SnapshotMsg 0 demo_shot None) (complete demo_refresh (demo_run n)))"
    unfolding demo_events_def demo_refresh_def using True by (simp add: monitor_step.answer)
  then show ?thesis using True unfolding r demo_answer_step by simp
next
  case False
  then obtain k where n: "n = Suc k" "even k" by (cases n) auto
  have "deliver demo_monitor Map.empty TickMsg (complete (TickAfter default_refresh) demo_shown) = demo_waiting"
    by (simp add: deliver_def complete_def demo_shown_def demo_waiting_def refresh_now_def demo_refresh_def active_profile_name_def
        in_profiles_def)
  with monitor_step.tick [of demo_shown default_refresh demo_monitor "network_answers demo_monitor demo_net" Map.empty] n
  show ?thesis by (simp add: demo_events_def demo_shown_def)
qed

lemma demo_reaches: "monitor_run demo_monitor (network_answers demo_monitor demo_net) (start_session demo_monitor d demo_profiles) (demo_run n)"
  by (induction n) (auto simp: demo_starts simp del: demo_run.simps intro: monitor_run.intros demo_steps)

lemma demo_fair: "fair_run demo_monitor (network_answers demo_monitor demo_net) demo_run demo_events"
proof -
  have "\<exists>k \<ge> n. executes cmd (demo_events k)" if "cmd \<in> set (se_pending (demo_run n))" for n cmd
  proof -
    have "cmd = demo_refresh \<or> cmd = TickAfter default_refresh"
      using that by (cases n) (auto simp: demo_waiting_def demo_shown_def split: if_splits)
    moreover have "executes demo_refresh (demo_events (2 * n))" "executes (TickAfter default_refresh) (demo_events (Suc (2 * n)))"
      by (simp_all add: demo_events_def demo_refresh_def)
    moreover have "2 * n \<ge> n" "Suc (2 * n) \<ge> n" by simp_all
    ultimately show ?thesis by blast
  qed
  with demo_steps show ?thesis unfolding fair_run_def by blast
qed

theorem monitor_state_consistent_witness:
  "ticks (demo_run 1) = 1 \<and> screen_ok (se_model (demo_run 1)) \<and> mo_state (se_model (demo_run 1)) = StateLoaded"
  using monitor_state_consistent [OF _ demo_reaches [of "\<lambda>p. None" 1]] by (simp add: demo_shown_def)

theorem profile_isolation_witness:
  "mo_snapshot (se_model (demo_run 1)) = demo_shot \<and>
   (\<exists>c. cl_base_url c = ''http://h'' \<and> network_answers demo_monitor demo_net c demo_shot None)"
proof -
  have m: "model_config (se_model (demo_run 1)) = demo_top_config" "mo_snapshot (se_model (demo_run 1)) = demo_shot"
    by (simp_all add: demo_shown_def model_config_def in_profiles_def)
  have "demo_shot \<noteq> zero_snapshot" by (simp add: demo_shot_def zero_snapshot_def zero_time_def)
  moreover have "trim_slashes (tc_server demo_top_config) = ''http://h''" by (simp add: demo_trim demo_top_config_def)
  moreover have "ps_profiles demo_profiles \<noteq> []" by simp
  note profile_isolation [OF this demo_reaches [of "\<lambda>p. None" 1], unfolded m]
  ultimately show ?thesis using m(2) by metis
qed

theorem fair_monitor_shows_data_witness:
  "\<exists>N. \<forall>n \<ge> N. mo_state (se_model (demo_run n)) = StateLoaded \<or> mo_state (se_model (demo_run n)) = StateEmpty"
proof (rule fair_monitor_shows_data [OF _ demo_reaches demo_fair])
  show "mo_active (se_model (demo_run n)) = mo_active (se_model (demo_run 0))" for n
    by (cases n) (simp_all add: demo_shown_def demo_waiting_def)
  show "network_answers demo_monitor demo_net demo_top_client s e \<Longrightarrow> e = None" for s e by (rule demo_network(1))
qed simp_all

definition demo_no_server :: profile_set where
  "demo_no_server = \<lparr>ps_profiles = [\<lparr>pf_name = ''new'', pf_config = default_top_config\<rparr>], ps_active = 0\<rparr>"

theorem unusable_profile_stuck_witness:
  "mo_err (se_model (start_session demo_monitor Map.empty demo_no_server)) \<in> {Some ServerMissing, Some (ProfileUnusable ''new'')}"
proof -
  have "new_client_checked demo_monitor Map.empty default_top_config = Inl ServerMissing"
    by (simp add: new_client_checked_def validate_top_config_def default_top_config_def)
  then show ?thesis
    using unusable_profile_stuck [of demo_no_server _ demo_monitor Map.empty ServerMissing demo_net, OF _ _ monitor_run.start]
    by (simp add: demo_no_server_def)
qed

theorem detail_order_irrelevant_witness:
  "client_snapshot demo_monitor demo_net demo_top_client (rev detail_requests) 1 () = ((), demo_shot, None)"
  using detail_order_irrelevant [of "rev detail_requests" demo_monitor demo_answers demo_top_client 1 "()"] demo_snapshot(2) by simp

lemma demo_recorded_get:
  "top_get demo_monitor (recording demo_net) c path decode out ((), sent) =
     (((), sent @ [(cl_tls c, request_for c path)]), fst (decode (Inr ''{}'')), map_option NotDecoded (snd (decode (Inr ''{}''))))"
  by (simp add: top_get_def demo_monitor_def recording_def stateless_def demo_answers_def split: prod.split)

theorem requests_stay_with_server_witness:
  "\<exists>sent s. client_snapshot demo_monitor (recording demo_net) demo_top_client detail_requests 1 ((), []) = (((), sent), s, None) \<and>
     map (rq_url \<circ> snd) sent = map (\<lambda>p. ''http://h'' @ p) monitor_paths \<and>
     (\<forall>(tls, r) \<in> set sent. url_authority (rq_url r) = ''h'')"
proof -
  let ?sent = "map (\<lambda>p. (DefaultTls, request_for demo_top_client p)) monitor_paths"
  have tls: "cl_tls demo_top_client = DefaultTls" by (simp add: demo_top_client_def)
  obtain s where run: "client_snapshot demo_monitor (recording demo_net) demo_top_client detail_requests 1 ((), []) = (((), ?sent), s, None)"
    by (simp add: client_snapshot_def snapshot_details_def detail_requests_def demo_recorded_get demo_decoders tls monitor_paths_def)
  have h: "url_authority ''http://h'' = ''h''" by code_simp
  have "url_authority (rq_url r) = ''h''" if "(tls, r) \<in> set ?sent" for tls r
    using requests_stay_with_server [OF demo_checked [of "\<lambda>p. None"] subset_refl run that] h by (simp add: demo_top_config_def)
  moreover have "map (rq_url \<circ> snd) ?sent = map (\<lambda>p. ''http://h'' @ p) monitor_paths"
    by (simp add: request_for_def demo_top_client_def)
  ultimately show ?thesis using run by blast
qed

theorem loaded_profiles_valid_witness:
  "\<exists>ps. load_profiles (ml_config demo_monitor) (\<lambda>p. Some (File [] 384)) ''config'' = Inr ps \<and> list_all profile_ok (ps_profiles ps)"
proof -
  have v: "validate_config (p, ''local'') demo_top_config = None" for p
  proof -
    have "valid_view_name ''overview''" by code_simp
    then show ?thesis
      using demo_refresh_positive by (simp add: validate_config_def Let_def demo_top_config_def default_top_config_def demo_trim)
  qed
  have n: "trim_space ''local'' \<noteq> []" by code_simp
  obtain ps where "load_profiles (ml_config demo_monitor) (\<lambda>p. Some (File [] 384)) ''config'' = Inr ps"
    by (simp add: load_profiles_def parse_profiles_def bindE_def Let_def expand_path_def exists_path_def read_file_def
        validate_profile_yaml_def require_profile_fields_def missing_field_def build_profile_set_def demo_monitor_def v n)
  then show ?thesis using loaded_profiles_valid by blast
qed

end
