(* ===== verification/Monitoring.thy ===== *)
theory Monitoring
  imports Wire Irtop_Properties Admin_Token_Properties
begin

text \<open>
  The monitor against the status endpoints: the handlers of \<open>internal/api/status.go\<close> that answer
  its ten requests, over the JSON of theory \<open>Wire\<close>, and what a snapshot of the monitor says about
  the server's store.
\<close>

section \<open>The status handlers\<close>

text \<open>
  What the handlers read: the configuration and the authority of the router, the runtime, the
  clock when a path is answered, the texts of errors, request ids and status lines.
\<close>

record status_site =
  si_config :: config
  si_authority :: "authority option"
  si_sha :: "string \<Rightarrow> char list"
  si_parse_pem :: "string \<Rightarrow> certificate list"
  si_go :: string
  si_goroutines :: int
  si_clock :: "string \<Rightarrow> gotime"
  si_scan :: "gotime \<Rightarrow> gotime option"
  si_error :: "db_error \<Rightarrow> string"
  si_uuid :: string
  si_line :: "int \<Rightarrow> string"

definition site_overview :: "status_site \<Rightarrow> store \<Rightarrow> overview" where
  "site_overview w s =
     status_overview (si_sha w) (si_parse_pem w) (si_go w) (si_goroutines w) (si_clock w ''/v1/status/overview'')
       (si_config w) (si_authority w) s"

definition site_server :: "status_site \<Rightarrow> server_status" where
  "site_server w = server_status_of (si_go w) (si_goroutines w) (si_config w)"

definition site_ca :: "status_site \<Rightarrow> ca_status" where
  "site_ca w = ca_status_of (si_sha w) (si_parse_pem w) (si_clock w ''/v1/status/ca'') (si_authority w)"

definition error_json :: "status_site \<Rightarrow> db_error \<Rightarrow> json" where
  "error_json w e = JObject [(''error'', JText (si_error w e)), (''request_id'', JText (si_uuid w))]"

text \<open>A handler that lists rows: 500 with the error of the store, or the items.\<close>

definition listing :: "status_site \<Rightarrow> ('a \<Rightarrow> json) \<Rightarrow> db_error + 'a list \<Rightarrow> int \<times> json" where
  "listing w f r = (case r of Inl e \<Rightarrow> (500, error_json w e) | Inr xs \<Rightarrow> (200, JList (map f xs)))"

definition status_reply :: "wire \<Rightarrow> status_site \<Rightarrow> store \<Rightarrow> string \<Rightarrow> (int \<times> json) option" where
  "status_reply v w s path =
     (if path = ''/v1/status/overview'' then Some (200, overview_json v (site_overview w s))
      else if path = ''/v1/status/server'' then Some (200, server_json (site_server w))
      else if path = ''/v1/status/ca'' then Some (200, ca_json v (site_ca w))
      else if path = ''/v1/status/certificates'' then
        Some (listing w (certificate_json v) (status_certificates (si_clock w path) (pki_renew_before (cf_pki (si_config w))) s))
      else if path = ''/v1/status/enrollments'' then Some (listing w (enrollment_json v) (status_enrollments s))
      else if path = ''/v1/status/tokens'' then
        Some (listing w (token_json v) (status_tokens (si_scan w) (si_clock w path) s))
      else if path = ''/v1/status/security'' then Some (200, security_json (status_security s))
      else if path = ''/v1/status/telemetry'' then Some (200, telemetry_json (telemetry_status_of (si_config w)))
      else if path = ''/v1/status/ca-hierarchy'' then
        Some (case ca_hierarchy (si_clock w path) s of Inl e \<Rightarrow> (500, error_json w e) | Inr h \<Rightarrow> (200, hierarchy_json v h))
      else if path = ''/v1/audit/recent'' then Some (listing w (audit_event_json v) (audit_recent s))
      else None)"

text \<open>The server at \<open>base\<close> as the monitor's network; a path without a handler is answered with 404.\<close>

definition status_answers ::
  "wire \<Rightarrow> status_site \<Rightarrow> string \<Rightarrow> store \<Rightarrow> tls_choice \<Rightarrow> top_request \<Rightarrow> string + wire_response" where
  "status_answers v w base s tls req =
     (if \<not> has_prefix (rq_url req) base then Inl ''no such host''
      else case status_reply v w s (drop (length base) (rq_url req)) of
        None \<Rightarrow> Inr \<lparr>ws_code = 404, ws_status = si_line w 404, ws_body = Inr ''404 page not found''\<rparr>
      | Some (n, j) \<Rightarrow> Inr \<lparr>ws_code = n, ws_status = si_line w n, ws_body = Inr (wi_text v j)\<rparr>)"

text \<open>The monitor with the decoders that its struct tags give.\<close>

definition wired :: "wire \<Rightarrow> monitor_lib \<Rightarrow> monitor_lib" where
  "wired v lib = lib\<lparr>
     ml_overview := wire_decoder v (overview_fits v) (overview_seen v),
     ml_server := wire_decoder v server_fits server_seen,
     ml_ca := wire_decoder v (ca_fits v) (ca_seen v),
     ml_certificates := wire_decoder v (is_list (certificate_fits v)) (list_of (certificate_seen v)),
     ml_enrollments := wire_decoder v (is_list (enrollment_fits v)) (list_of (enrollment_seen v)),
     ml_tokens := wire_decoder v (is_list (token_fits v)) (list_of (token_seen v)),
     ml_security := wire_decoder v security_fits security_seen,
     ml_telemetry := wire_decoder v telemetry_fits telemetry_seen,
     ml_hierarchy := wire_decoder v (hierarchy_fits v) (hierarchy_seen v),
     ml_audit := wire_decoder v (is_list (audit_event_fits v)) (list_of (audit_event_seen v))\<rparr>"


section \<open>Lemmas\<close>

lemma wired_simps [simp]:
  "ml_reject_url (wired v lib) = ml_reject_url lib"
  "ml_overview (wired v lib) = wire_decoder v (overview_fits v) (overview_seen v)"
  "ml_server (wired v lib) = wire_decoder v server_fits server_seen"
  "ml_ca (wired v lib) = wire_decoder v (ca_fits v) (ca_seen v)"
  "ml_certificates (wired v lib) = wire_decoder v (is_list (certificate_fits v)) (list_of (certificate_seen v))"
  "ml_enrollments (wired v lib) = wire_decoder v (is_list (enrollment_fits v)) (list_of (enrollment_seen v))"
  "ml_tokens (wired v lib) = wire_decoder v (is_list (token_fits v)) (list_of (token_seen v))"
  "ml_security (wired v lib) = wire_decoder v security_fits security_seen"
  "ml_telemetry (wired v lib) = wire_decoder v telemetry_fits telemetry_seen"
  "ml_hierarchy (wired v lib) = wire_decoder v (hierarchy_fits v) (hierarchy_seen v)"
  "ml_audit (wired v lib) = wire_decoder v (is_list (audit_event_fits v)) (list_of (audit_event_seen v))"
  by (simp_all add: wired_def)

text \<open>One request that the server answers with a value the monitor's struct fits.\<close>

lemma get_answered:
  assumes "status_reply v w s path = Some (200, j)" and "wi_parse v (wi_text v j) = Inr j" and "fits j"
    and "ml_reject_url lib (cl_base_url c @ path) = None"
  shows "top_get (wired v lib) (stateless (status_answers v w (cl_base_url c) s)) c path (wire_decoder v fits seen) out u =
    ((), seen j, None)"
  using assms
  by (simp add: top_get_def stateless_def status_answers_def request_for_def has_prefix_append wire_decoder_def)

lemma list_shown [simp]:
  "list_of f (JList (map g xs)) = map (\<lambda>x. f (g x)) xs" "list_all p (map g xs) = (\<forall>x\<in>set xs. p (g x))"
  by (simp_all add: list_of_def list_all_iff)

text \<open>With its tables the store answers every listing.\<close>

lemma listings_succeed:
  assumes "set schema_tables \<subseteq> set (st_tables s)"
  shows "\<exists>xs. status_certificates now life s = Inr xs" and "\<exists>xs. status_enrollments s = Inr xs"
    and "\<exists>xs. status_tokens scan now s = Inr xs" and "\<exists>h. ca_hierarchy now s = Inr h" and "\<exists>xs. audit_recent s = Inr xs"
proof -
  have t: "x \<in> set schema_tables \<Longrightarrow> x \<in> set (st_tables s)" for x using assms by blast
  note tabs = t [unfolded schema_tables_def, simplified]
  show "\<exists>xs. status_certificates now life s = Inr xs"
    by (simp add: status_certificates_def list_issued_certificates_def need_def tabs bindE_def)
  show "\<exists>xs. status_enrollments s = Inr xs"
    by (simp add: status_enrollments_def list_enrollments_def need_def tabs bindE_def split: prod.split)
  show "\<exists>xs. status_tokens scan now s = Inr xs"
    by (simp add: status_tokens_def list_bootstrap_tokens_def need_def tabs bindE_def)
  show "\<exists>h. ca_hierarchy now s = Inr h"
    by (simp add: ca_hierarchy_def list_root_cas_def list_intermediate_cas_def list_ca_roles_def list_ca_token_policies_def
        need_def tabs bindE_def Let_def)
  show "\<exists>xs. audit_recent s = Inr xs"
    by (simp add: audit_recent_def list_audit_logs_def need_def tabs bindE_def)
qed


section \<open>Properties\<close>

text \<open>
  C39. What the monitor shows is what the server knows: a snapshot taken from a server whose store has
  its tables is complete, without an error, and has in every field what the status functions of
  the server compute from its store, configuration and authority, in whatever order the detail
  requests are answered. So the two packages agree on paths, on the tags of every field and on
  their types. The hypotheses on the wire are those of \<open>encoding/json\<close>: a value and a time are
  read back as they were written (a time of the years 0 to 9999, as the clock and the
  configured lifetimes give them).
\<close>

theorem monitor_shows_store:
  assumes "times_ok v" and "\<forall>path n j. status_reply v w s path = Some (n, j) \<longrightarrow> wi_parse v (wi_text v j) = Inr j"
    and "\<forall>path. ml_reject_url lib (cl_base_url c @ path) = None"
    and "set schema_tables \<subseteq> set (st_tables s)" and "mset sched = mset detail_requests"
  shows "\<exists>certs ens toks h logs.
    status_certificates (si_clock w ''/v1/status/certificates'') (pki_renew_before (cf_pki (si_config w))) s = Inr certs \<and>
    status_enrollments s = Inr ens \<and> status_tokens (si_scan w) (si_clock w ''/v1/status/tokens'') s = Inr toks \<and>
    ca_hierarchy (si_clock w ''/v1/status/ca-hierarchy'') s = Inr h \<and> audit_recent s = Inr logs \<and>
    client_snapshot (wired v lib) (stateless (status_answers v w (cl_base_url c) s)) c sched now () =
      ((), \<lparr>sn_overview = overview_shown (site_overview w s), sn_server = server_shown (site_server w),
            sn_ca = ca_shown (site_ca w), sn_certificates = map certificate_shown certs,
            sn_enrollments = map enrollment_shown ens, sn_tokens = map token_shown toks,
            sn_security = security_shown (status_security s),
            sn_telemetry = telemetry_shown (telemetry_status_of (si_config w)), sn_hierarchy = hierarchy_shown h,
            sn_audit = map audit_event_shown logs, sn_updated_at = now\<rparr>, None)"
proof -
  obtain certs ens toks h logs where
    some: "status_certificates (si_clock w ''/v1/status/certificates'') (pki_renew_before (cf_pki (si_config w))) s = Inr certs"
      "status_enrollments s = Inr ens" "status_tokens (si_scan w) (si_clock w ''/v1/status/tokens'') s = Inr toks"
      "ca_hierarchy (si_clock w ''/v1/status/ca-hierarchy'') s = Inr h" "audit_recent s = Inr logs"
    using listings_succeed [OF assms(4)] by metis
  have replies: "status_reply v w s ''/v1/status/overview'' = Some (200, overview_json v (site_overview w s))"
    "status_reply v w s ''/v1/status/server'' = Some (200, server_json (site_server w))"
    "status_reply v w s ''/v1/status/ca'' = Some (200, ca_json v (site_ca w))"
    "status_reply v w s ''/v1/status/certificates'' = Some (200, JList (map (certificate_json v) certs))"
    "status_reply v w s ''/v1/status/enrollments'' = Some (200, JList (map (enrollment_json v) ens))"
    "status_reply v w s ''/v1/status/tokens'' = Some (200, JList (map (token_json v) toks))"
    "status_reply v w s ''/v1/status/security'' = Some (200, security_json (status_security s))"
    "status_reply v w s ''/v1/status/telemetry'' = Some (200, telemetry_json (telemetry_status_of (si_config w)))"
    "status_reply v w s ''/v1/status/ca-hierarchy'' = Some (200, hierarchy_json v h)"
    "status_reply v w s ''/v1/audit/recent'' = Some (200, JList (map (audit_event_json v) logs))"
    using some by (simp_all add: status_reply_def listing_def)
  have details: "snapshot_details (wired v lib) net c sched = fold (fetch_detail (wired v lib) net c) detail_requests"
    if "net = stateless (status_answers v w (cl_base_url c) s)" for net
    unfolding that fetch_schedule [OF assms(5)] by (simp only: snapshot_details_def)
  show ?thesis
    using some assms(1)
    by (simp add: client_snapshot_def details detail_requests_def
        zero_snapshot_def
        replies [THEN get_answered] replies [THEN assms(2) [rule_format]] assms(3))
qed

text \<open>
  A wire for the witness: a value is written as its position in a list of values, a time as a run
  of one sign.
\<close>

definition demo_wire :: "json list \<Rightarrow> wire" where
  "demo_wire js =
     \<lparr>wi_text = (\<lambda>j. replicate (length (takeWhile (\<lambda>x. x \<noteq> j) js)) CHR ''.''),
      wi_parse = (\<lambda>s. if length s < length js then Inr (js ! length s) else Inl ''unexpected end of JSON input''),
      wi_time = (\<lambda>t. if t < 0 then replicate (nat (- t)) CHR ''-'' else replicate (nat t) CHR ''+''),
      wi_read_time = (\<lambda>s. Some (if s \<noteq> [] \<and> hd s = CHR ''-'' then - int (length s) else int (length s)))\<rparr>"

definition demo_site :: status_site where
  "demo_site =
     \<lparr>si_config = default_config, si_authority = None, si_sha = (\<lambda>s. []), si_parse_pem = (\<lambda>s. []), si_go = ''go1.25'',
      si_goroutines = 9, si_clock = (\<lambda>path. 1000), si_scan = Some, si_error = (\<lambda>e. ''database error''),
      si_uuid = ''r1'', si_line = (\<lambda>n. ''200 OK'')\<rparr>"

definition demo_sent :: "wire \<Rightarrow> json list" where
  "demo_sent v =
     map (\<lambda>path. case status_reply v demo_site (migrate (empty_store True)) path of None \<Rightarrow> JNull | Some (n, j) \<Rightarrow> j)
       (''/v1/status/overview'' # map snd detail_requests)"

lemma demo_wire_times: "times_ok (demo_wire js)"
  by (auto simp: times_ok_def demo_wire_def)

lemma demo_wire_reads: "j \<in> set js \<Longrightarrow> wi_parse (demo_wire js) (wi_text (demo_wire js) j) = Inr j"
proof -
  assume "j \<in> set js"
  then have "length (takeWhile (\<lambda>x. x \<noteq> j) js) < length js" by (induction js) auto
  then show ?thesis using nth_length_takeWhile [of "\<lambda>x. x \<noteq> j" js] by (simp add: demo_wire_def)
qed

text \<open>What is sent depends on the wire only by its texts of times.\<close>

lemma time_json_only: "time_json (demo_wire js) = time_json (demo_wire [])"
  by (rule ext) (simp add: time_json_def demo_wire_def)

lemma demo_reply_only: "status_reply (demo_wire js) w s = status_reply (demo_wire []) w s"
  using time_json_only [of js]
  by (intro ext) (simp add: status_reply_def listing_def overview_json_def ca_json_def certificate_json_def [abs_def]
      enrollment_json_def [abs_def] token_json_def [abs_def] audit_event_json_def [abs_def] hierarchy_json_def roots_json_def
      root_json_def [abs_def] intermediate_json_def [abs_def] policy_json_def [abs_def] cong: if_cong split: sum.split)

lemma demo_reply_sent:
  assumes "status_reply v demo_site (migrate (empty_store True)) path = Some (n, j)"
  shows "j \<in> set (demo_sent v)"
proof -
  have "path \<in> set (''/v1/status/overview'' # map snd detail_requests)"
    using assms by (simp add: status_reply_def detail_requests_def split: if_split_asm)
  then show ?thesis unfolding demo_sent_def set_map using assms by (intro image_eqI [of _ _ path]) simp_all
qed

lemma monitor_shows_store_witness:
  "\<exists>sn. client_snapshot (wired (demo_wire (demo_sent (demo_wire []))) demo_monitor)
       (stateless (status_answers (demo_wire (demo_sent (demo_wire []))) demo_site ''http://h'' (migrate (empty_store True))))
       demo_top_client detail_requests 1 () = ((), sn, None) \<and>
     sn_server sn = server_shown (site_server demo_site) \<and>
     sn_security sn = security_shown (status_security (migrate (empty_store True)))"
proof -
  define v where "v = demo_wire (demo_sent (demo_wire []))"
  have "\<forall>path n j. status_reply v demo_site (migrate (empty_store True)) path = Some (n, j) \<longrightarrow> wi_parse v (wi_text v j) = Inr j"
    using demo_wire_reads [OF demo_reply_sent] unfolding v_def demo_reply_only [of "demo_sent (demo_wire [])"] by blast
  moreover have "\<forall>path. ml_reject_url demo_monitor (cl_base_url demo_top_client @ path) = None" by (simp add: demo_monitor_def)
  ultimately show ?thesis
    using monitor_shows_store [of v demo_site "migrate (empty_store True)" demo_monitor demo_top_client detail_requests 1]
      schema_migrate demo_wire_times [of "demo_sent (demo_wire [])", folded v_def]
    unfolding v_def [symmetric] by (auto simp: demo_top_client_def)
qed

end
