(* ===== verification/Dev_Init.thy ===== *)
theory Dev_Init
  imports Paths Client_Cli
begin

text \<open>
  The developer command \<open>ironroot-dev dev-init\<close> (\<open>internal/cli/dev/devinit.go\<close>): the workspace
  directories, the generated files and the summary. The working directory, the cancellation of
  the context and the order in which the map of replacements is visited are parameters.
\<close>

section \<open>Options and results\<close>

record dev_options =
  dv_base_dir :: string
  dv_output :: string
  dv_force :: bool
  dv_dry_run :: bool
  dv_verbose :: bool

record dev_result =
  dr_base_dir :: string
  dr_workspace :: string
  dr_created :: "string list"
  dr_existing :: "string list"
  dr_written :: "string list"
  dr_skipped :: "string list"

text \<open>
  \<open>dl_cwd\<close> is the outcome of \<open>os.Getwd\<close>; \<open>dl_cancelled\<close> the error of the context when a directory
  is about to be made; \<open>dl_order\<close> the order of the map of replacements.
\<close>

record dev_lib =
  dl_cwd :: "string + string"
  dl_cancelled :: "string \<Rightarrow> string option"
  dl_order :: "(string \<times> string) list \<Rightarrow> (string \<times> string) list"

datatype dev_error = BaseDir string | WorkingDir string | Cancelled string | DirFailed string string | FileFailed string string

section \<open>Generated texts\<close>

definition embedded_local_config :: string where
  "embedded_local_config = text_lines
     [''server:'', ''  address: \"localhost:8443\"'', ''  tls:'', ''    cert_file: \"\"'',
      ''    key_file: \"\"'', ''database:'', ''  driver: sqlite'',
      ''  dsn: \"file:.localdev/data/ironroot.db?_foreign_keys=on\"'', ''pki:'',
      ''  root_file: \".localdev/pki/root/root-ca.crt\"'',
      ''  chain_file: \".localdev/pki/intermediate/ca-chain.crt\"'',
      ''  intermediate_cert_file: \".localdev/pki/intermediate/intermediate-ca.crt\"'',
      ''  intermediate_key_file: \".localdev/pki/intermediate/intermediate-ca.key\"'',
      ''  intermediate_key_pass: \"ironroot-local-intermediate\"'', ''  default_lifetime: 2160h'',
      ''  renew_before: 720h'', ''rbac:'', ''  enabled: true'', ''  mode: file'', ''  paths:'',
      ''    - \"config/rbac/*.yaml\"'', ''    - \"config/rbac/*.yml\"'', ''telemetry:'', ''  enabled: false'',
      ''  service_name: ironroot-local'', ''  deployment_environment: local'', ''  prometheus:'',
      ''    enabled: true'', ''    path: /metrics'', ''log:'', ''  level: info'']"

definition local_rbac_manifest :: string where
  "local_rbac_manifest = text_lines
     [''apiVersion: ironroot.io/v1alpha1'', ''kind: RootCA'', ''metadata:'', ''  name: local-root'',
      ''spec:'', ''  displayName: IronRoot Local Root CA'', ''  environment: development'',
      ''  fingerprint: sha256:local-root-placeholder'', ''  status: active'', ''  trustDomain: local.test'',
      ''---'', ''apiVersion: ironroot.io/v1alpha1'', ''kind: IntermediateCA'', ''metadata:'',
      ''  name: local-intermediate'', ''spec:'', ''  displayName: IronRoot Local Intermediate CA'',
      ''  rootRef: local-root'', ''  environment: development'', ''  owner: platform'',
      ''  namespace: local'', ''  fingerprint: sha256:local-intermediate-placeholder'', ''  status: active'',
      ''  maxTTL: 24h'', ''  allowedDNS:'', ''    - demo.local'', ''    - \"*.local.test\"'',
      ''  allowedUsages:'', ''    - server'', ''    - client'', ''  issuanceLimit: 25'',
      ''  renewalAllowed: true'', ''  requireApproval: false'', ''---'', ''apiVersion: ironroot.io/v1alpha1'',
      ''kind: Group'', ''metadata:'', ''  name: platform'', ''---'', ''apiVersion: ironroot.io/v1alpha1'',
      ''kind: CARole'', ''metadata:'', ''  name: local-platform-issuer'', ''spec:'', ''  rules:'',
      ''    - resources:'', ''        - certificates'', ''      verbs:'', ''        - request'',
      ''        - renew'', ''        - view'', ''      intermediateRef: local-intermediate'', ''---'',
      ''apiVersion: ironroot.io/v1alpha1'', ''kind: CARoleBinding'', ''metadata:'',
      ''  name: local-platform-issuer-binding'', ''spec:'', ''  roleRef:'', ''    kind: CARole'',
      ''    name: local-platform-issuer'', ''  subjects:'', ''    - kind: Group'', ''      name: platform'',
      ''---'', ''apiVersion: ironroot.io/v1alpha1'', ''kind: TokenPolicy'', ''metadata:'',
      ''  name: local-short-lived-server'', ''spec:'', ''  intermediateRef: local-intermediate'',
      ''  certificateTypes:'', ''    - server'', ''  allowedDNS:'', ''    - demo.local'',
      ''    - \"*.local.test\"'', ''  maxTTL: 1h'', ''  issuanceLimit: 10'', ''  renewalAllowed: true'',
      ''  requireApproval: false'']"

definition local_readme :: string where
  "local_readme = join [CHR 0x0A]
     [''IronRoot local development workspace'', '''', ''Generated by: ironroot-dev dev-init'', '''',
      ''Directories:'', ''- config/       generated local config with absolute PKI and SQLite paths'',
      ''- config/rbac/  file-based RBAC manifests loaded on server startup'',
      ''- data/         SQLite database'',
      ''- pki/root/     local Root CA material created by ironroot-admin'',
      ''- pki/intermediate/ local Intermediate CA material created by ironroot-admin'',
      ''- certs/        requested certificates; DNS-specific directories are created later'',
      ''- logs/         optional local logs'', ''- tmp/          temporary local development files'', '''',
      ''This directory is ignored by Git. Do not commit generated keys, certs, tokens, or databases.'', '''']"

definition local_gitignore :: string where
  "local_gitignore = text_lines [''*'', ''!.gitignore'', ''!README.txt'']"

text \<open>\<open>strings.ReplaceAll\<close> for a non-empty pattern: from the left, not within a replacement.\<close>

function replace_all :: "string \<Rightarrow> string \<Rightarrow> string \<Rightarrow> string" where
  "replace_all old new s =
     (if old = [] \<or> s = [] then s
      else if has_prefix s old then new @ replace_all old new (drop (length old) s)
      else hd s # replace_all old new (tl s))"
  by pat_completeness auto

termination by (relation "measure (\<lambda>(old, new, s). length s)") auto

declare replace_all.simps [simp del]

definition quote_yaml_path :: "string \<Rightarrow> string" where
  "quote_yaml_path p = [CHR 0x22] @ replace_all [CHR 0x22] [CHR 0x5C, CHR 0x22] p @ [CHR 0x22]"

definition yaml_quoted :: "string \<Rightarrow> string" where
  "yaml_quoted s = [CHR 0x22] @ s @ [CHR 0x22]"

definition config_replacements :: "string \<Rightarrow> (string \<times> string) list" where
  "config_replacements ws =
     [(''file:.localdev/data/ironroot.db'', ''file:'' @ join_path [ws, ''data'', ''ironroot.db'']),
      (yaml_quoted ''.localdev/pki/root/root-ca.crt'', quote_yaml_path (join_path [ws, ''pki'', ''root'', ''root-ca.crt''])),
      (yaml_quoted ''.localdev/pki/intermediate/ca-chain.crt'', quote_yaml_path (join_path [ws, ''pki'', ''intermediate'', ''ca-chain.crt''])),
      (yaml_quoted ''.localdev/pki/intermediate/intermediate-ca.crt'',
       quote_yaml_path (join_path [ws, ''pki'', ''intermediate'', ''intermediate-ca.crt''])),
      (yaml_quoted ''.localdev/pki/intermediate/intermediate-ca.key'',
       quote_yaml_path (join_path [ws, ''pki'', ''intermediate'', ''intermediate-ca.key''])),
      (yaml_quoted ''config/rbac/*.yaml'', quote_yaml_path (join_path [ws, ''config'', ''rbac'', ''*.yaml''])),
      (yaml_quoted ''config/rbac/*.yml'', quote_yaml_path (join_path [ws, ''config'', ''rbac'', ''*.yml'']))]"

definition render_local_config :: "dev_lib \<Rightarrow> string \<Rightarrow> string" where
  "render_local_config lib ws = fold (\<lambda>(old, new) c. replace_all old new c) (dl_order lib (config_replacements ws)) embedded_local_config"

section \<open>Directories and files\<close>

definition resolve_base_dir :: "dev_lib \<Rightarrow> string \<Rightarrow> dev_error + string" where
  "resolve_base_dir lib base =
     (if trim_space base \<noteq> [] then
        (if is_abs base then Inr (clean_path base)
         else case dl_cwd lib of Inl e \<Rightarrow> Inl (BaseDir e) | Inr wd \<Rightarrow> Inr (join_path [wd, base]))
      else case dl_cwd lib of Inl e \<Rightarrow> Inl (WorkingDir e) | Inr wd \<Rightarrow> Inr wd)"

definition resolve_workspace :: "string \<Rightarrow> string \<Rightarrow> string" where
  "resolve_workspace repo out = (if is_abs out then clean_path out else join_path [repo, out])"

text \<open>Looking up a path below a file is an error, not the absence of the path.\<close>

definition below_file :: "disk \<Rightarrow> string \<Rightarrow> bool" where
  "below_file d p \<longleftrightarrow> list_ex (\<lambda>a. case d a of Some (File c m) \<Rightarrow> True | _ \<Rightarrow> False) (butlast (ancestors p))"

definition ensure_dir :: "fault \<Rightarrow> bool \<Rightarrow> string \<Rightarrow> (string, bool) io" where
  "ensure_dir fault dry p d =
     (case d p of
        Some Dir \<Rightarrow> (d, Inr False)
      | Some (File c m) \<Rightarrow> (d, Inl ''path exists but is not a directory'')
      | None \<Rightarrow>
          if below_file d p then (d, Inl ''not a directory'')
          else if dry then (d, Inr True)
          else (case mkdir_all fault d p of Inl e \<Rightarrow> (d, Inl e) | Inr d' \<Rightarrow> (d', Inr True)))"

fun ensure_dirs :: "dev_lib \<Rightarrow> fault \<Rightarrow> bool \<Rightarrow> string \<Rightarrow> string list \<Rightarrow> dev_result \<Rightarrow> (dev_error, dev_result) io" where
  "ensure_dirs lib fault dry ws [] r d = (d, Inr r)"
| "ensure_dirs lib fault dry ws (rel # rels) r d =
     (case dl_cancelled lib rel of
        Some e \<Rightarrow> (d, Inl (Cancelled e))
      | None \<Rightarrow>
          let p = join_path [ws, rel]
          in (case ensure_dir fault dry p d of
                (d', Inl e) \<Rightarrow> (d', Inl (DirFailed p e))
              | (d', Inr created) \<Rightarrow>
                  ensure_dirs lib fault dry ws rels
                    (if created then r\<lparr>dr_created := dr_created r @ [p]\<rparr> else r\<lparr>dr_existing := dr_existing r @ [p]\<rparr>) d'))"

text \<open>Mode 420 is \<open>0o644\<close>.\<close>

definition write_generated :: "fault \<Rightarrow> bool \<Rightarrow> bool \<Rightarrow> string \<Rightarrow> string \<Rightarrow> dev_result \<Rightarrow> (dev_error, dev_result) io" where
  "write_generated fault force dry p content r d =
     (if exists_path d p \<and> \<not> force then (d, Inr (r\<lparr>dr_skipped := dr_skipped r @ [p]\<rparr>))
      else if dry then (d, Inr (r\<lparr>dr_written := dr_written r @ [p]\<rparr>))
      else case write_file fault d p content 420 of
        Inl e \<Rightarrow> (d, Inl (FileFailed p e))
      | Inr d' \<Rightarrow> (d', Inr (r\<lparr>dr_written := dr_written r @ [p]\<rparr>)))"

fun write_all_generated ::
  "fault \<Rightarrow> bool \<Rightarrow> bool \<Rightarrow> (string \<times> string) list \<Rightarrow> dev_result \<Rightarrow> (dev_error, dev_result) io" where
  "write_all_generated fault force dry [] r = io_return r"
| "write_all_generated fault force dry ((p, c) # fs) r =
     io_bind (write_generated fault force dry p c r) (write_all_generated fault force dry fs)"

definition workspace_dirs :: "string list" where
  "workspace_dirs =
     [''config'', join_path [''config'', ''rbac''], ''data'', ''pki'', join_path [''pki'', ''root''],
      join_path [''pki'', ''intermediate''], ''certs'', ''logs'', ''tmp'']"

definition generated_files :: "dev_lib \<Rightarrow> string \<Rightarrow> (string \<times> string) list" where
  "generated_files lib ws =
     [(join_path [ws, ''config'', ''config.yaml''], render_local_config lib ws),
      (join_path [ws, ''config'', ''rbac'', ''local-rbac.yaml''], local_rbac_manifest),
      (join_path [ws, ''.gitignore''], local_gitignore), (join_path [ws, ''README.txt''], local_readme)]"

section \<open>The command\<close>

definition path_block :: "string \<Rightarrow> string list \<Rightarrow> string \<Rightarrow> string" where
  "path_block label ps tail_text =
     (if ps = [] then [] else text_lines (label # map (\<lambda>p. ''- '' @ p) ps) @ tail_text @ text_lines [[]])"

definition dev_summary :: "dev_options \<Rightarrow> dev_result \<Rightarrow> string" where
  "dev_summary opts r =
     text_lines [''IronRoot local development workspace initialized.'', [], ''Base directory:'', dr_base_dir r, [], ''Workspace:'',
       dr_workspace r, []] @
     path_block (if dv_dry_run opts then ''Would create:'' else ''Created:'') (dr_created r) [] @
     path_block (if dv_dry_run opts then ''Would write:'' else ''Written:'') (dr_written r) [] @
     (if dv_verbose opts then path_block ''Already exists:'' (dr_existing r) [] else []) @
     path_block ''Skipped existing files:'' (dr_skipped r) (text_lines [''Use --force to regenerate these files.'']) @
     text_lines [''Next steps:'', ''1. Generate a local Root CA'', ''2. Generate a local Intermediate CA'',
       ''3. Start ironroot-server'', ''4. Run local tests'']"

definition dev_workspace :: "dev_lib \<Rightarrow> fault \<Rightarrow> dev_options \<Rightarrow> string \<Rightarrow> string \<Rightarrow> (dev_error, dev_result) io" where
  "dev_workspace lib fault opts base ws =
     io_bind (ensure_dirs lib fault (dv_dry_run opts) ws workspace_dirs
       \<lparr>dr_base_dir = base, dr_workspace = ws, dr_created = [], dr_existing = [], dr_written = [], dr_skipped = []\<rparr>)
       (write_all_generated fault (dv_force opts) (dv_dry_run opts) (generated_files lib ws))"

text \<open>The disk, the standard output and the error, with the result for the lists of paths.\<close>

definition run_dev_init ::
  "dev_lib \<Rightarrow> fault \<Rightarrow> dev_options \<Rightarrow> disk \<Rightarrow> disk \<times> string \<times> (dev_error + dev_result)" where
  "run_dev_init lib fault opts d =
     (let opts = (if trim_space (dv_output opts) = [] then opts\<lparr>dv_output := ''.localdev''\<rparr> else opts)
      in case resolve_base_dir lib (dv_base_dir opts) of
        Inl e \<Rightarrow> (d, [], Inl e)
      | Inr base \<Rightarrow>
          let notice = (if dv_dry_run opts then text_lines [''DRY RUN: no files will be created or modified.''] else [])
          in (case dev_workspace lib fault opts base (resolve_workspace base (dv_output opts)) d of
                (d', Inl e) \<Rightarrow> (d', notice, Inl e)
              | (d', Inr r) \<Rightarrow> (d', notice @ dev_summary opts r, Inr r)))"

end
