(* ===== verification/Dev_Properties.thy ===== *)
theory Dev_Properties
  imports Dev_Init
begin

text \<open>
  What \<open>dev-init\<close> guarantees: a dry run changes nothing and predicts the real run, existing files
  are kept unless they are to be regenerated, and a second run finds everything in place.
\<close>

section \<open>Paths of the workspace\<close>

definition path_before :: "string \<Rightarrow> string" where
  "path_before dir = (if dir = [] then [] else dir @ ''/'')"

lemma join_path_before: "x \<noteq> [] \<Longrightarrow> join_path [dir, x] = clean_path (path_before dir @ x)"
  by (simp add: join_path_def path_before_def)

lemma path_parts_snoc: "plain_name n \<Longrightarrow> y \<noteq> [] \<Longrightarrow> path_parts (y @ CHR ''/'' # n) = path_parts y @ [n]"
  using is_abs_append [of y "CHR ''/'' # n"] split_on_snoc [of "CHR ''/''" n y]
  by (simp add: path_parts_def clean_parts_snoc plain_name_def)

lemma path_parts_plain: "plain_name n \<Longrightarrow> path_parts (path_before dir @ n) \<noteq> []"
proof (cases "dir = []")
  case True
  assume n: "plain_name n"
  then have "split_on (CHR ''/'') n = [n]" by (intro split_on_no_sep) (simp add: plain_name_def)
  with n True show ?thesis by (simp add: path_before_def path_parts_def plain_name_def)
next
  case False
  assume "plain_name n"
  then show ?thesis using False path_parts_snoc [of n dir] by (simp add: path_before_def)
qed

lemma join_path_step:
  assumes "plain_name n" and "x \<noteq> []" and "path_parts (path_before dir @ x) \<noteq> []"
  shows "join_path [dir, x @ CHR ''/'' # n] = join_path [dir, x] @ CHR ''/'' # n"
    and "path_parts (path_before dir @ x @ CHR ''/'' # n) \<noteq> []"
proof -
  let ?y = "path_before dir @ x"
  have "join_path [dir, x @ CHR ''/'' # n] = clean_path (?y @ CHR ''/'' # n)" by (simp add: join_path_before)
  also have "\<dots> = join_path [?y, n]" using assms(1,2) by (simp add: join_path_def plain_name_def)
  also have "\<dots> = dir_prefix ?y @ n" using assms(1) by (rule join_path_plain)
  also have "\<dots> = clean_path ?y @ ''/'' @ n" using assms(2,3) by (simp add: dir_prefix_clean)
  finally show "join_path [dir, x @ CHR ''/'' # n] = join_path [dir, x] @ CHR ''/'' # n"
    using assms(2) by (simp add: join_path_before)
  show "path_parts (path_before dir @ x @ CHR ''/'' # n) \<noteq> []"
    using path_parts_snoc [OF assms(1), of ?y] assms(2) by simp
qed

lemma plain_names:
  "list_all plain_name [''config'', ''rbac'', ''data'', ''pki'', ''root'', ''intermediate'', ''certs'', ''logs'', ''tmp'',
     ''config.yaml'', ''local-rbac.yaml'', ''.gitignore'', ''README.txt'']"
  by code_simp

lemma two_names:
  assumes "plain_name m" and "plain_name n"
  shows "join_path [dir, m @ CHR ''/'' # n] = dir_prefix dir @ m @ CHR ''/'' # n"
  using join_path_step(1) [OF assms(2) _ path_parts_plain [OF assms(1)], of dir] assms(1) join_path_plain [OF assms(1)]
  by (simp add: plain_name_def)

lemma three_names:
  assumes "plain_name l" and "plain_name m" and "plain_name n"
  shows "join_path [dir, l @ CHR ''/'' # m @ CHR ''/'' # n] = dir_prefix dir @ l @ CHR ''/'' # m @ CHR ''/'' # n"
proof -
  have "l \<noteq> []" using assms(1) by (simp add: plain_name_def)
  from join_path_step [OF assms(2) this path_parts_plain [OF assms(1)], of dir]
    join_path_step(1) [OF assms(3), of "l @ CHR ''/'' # m" dir] two_names [OF assms(1,2), of dir]
  show ?thesis by simp
qed

definition workspace_names :: "string list" where
  "workspace_names =
     [''config'', ''config/rbac'', ''data'', ''pki'', ''pki/root'', ''pki/intermediate'', ''certs'', ''logs'', ''tmp'']"

definition file_names :: "string list" where
  "file_names = [''config/config.yaml'', ''config/rbac/local-rbac.yaml'', ''.gitignore'', ''README.txt'']"

lemma workspace_dirs_names: "workspace_dirs = workspace_names"
  by code_simp

lemma workspace_paths: "map (\<lambda>rel. join_path [ws, rel]) workspace_dirs = map (\<lambda>n. dir_prefix ws @ n) workspace_names"
  unfolding workspace_dirs_names workspace_names_def
  using plain_names two_names [of "''config''" "''rbac''" ws] two_names [of "''pki''" "''root''" ws]
    two_names [of "''pki''" "''intermediate''" ws]
  by (simp add: join_path_plain)

lemma file_paths: "map fst (generated_files lib ws) = map (\<lambda>n. dir_prefix ws @ n) file_names"
proof -
  have "join_path [ws, ''config'', ''config.yaml''] = join_path [ws, ''config/config.yaml'']"
    "join_path [ws, ''config'', ''rbac'', ''local-rbac.yaml''] = join_path [ws, ''config/rbac/local-rbac.yaml'']"
    by (simp_all add: join_path_def)
  then show ?thesis
    using plain_names two_names [of "''config''" "''config.yaml''" ws] three_names [of "''config''" "''rbac''" "''local-rbac.yaml''" ws]
    by (simp add: generated_files_def file_names_def join_path_plain)
qed

text \<open>No path is an ancestor of one that is handled before it.\<close>

fun later_apart :: "string list \<Rightarrow> bool" where
  "later_apart [] = True"
| "later_apart (x # xs) = (list_all (\<lambda>y. \<not> has_prefix x y) xs \<and> later_apart xs)"

lemma names_apart: "later_apart (workspace_names @ file_names)"
  by code_simp

lemma later_apart_prefix: "later_apart xs \<Longrightarrow> later_apart (map (\<lambda>n. p @ n) xs)"
  by (induction xs) (auto simp: list_all_iff has_prefix_append)

lemma later_apart_distinct: "later_apart xs \<Longrightarrow> distinct xs"
  by (induction xs) (auto simp: list_all_iff has_prefix_append)

lemma paths_apart: "later_apart (map (\<lambda>rel. join_path [ws, rel]) workspace_dirs @ map fst (generated_files lib ws))"
  unfolding workspace_paths file_paths map_append [symmetric] by (rule later_apart_prefix [OF names_apart])

lemma join_take: "\<exists>t. join sep xs = join sep (take n xs) @ t"
proof (induction sep xs arbitrary: n rule: join.induct)
  case (3 sep s t ts)
  show ?case
  proof (cases n)
    case (Suc k)
    obtain u where "join sep (t # ts) = join sep (take k (t # ts)) @ u" using "3.IH" [of k] by blast
    with Suc show ?thesis by (cases k) auto
  qed simp
qed (auto simp: take_Cons')

lemma ancestor_prefix: "a \<in> set (ancestors p) \<Longrightarrow> has_prefix p a"
  using join_take [of "''/''" "split_on (CHR ''/'') p"] by (auto simp: ancestors_def Let_def has_prefix_append join_split_on)

section \<open>Making directories\<close>

lemma mkdir_all_result:
  assumes "mkdir_all fault d p = Inr d'"
  shows "d' q = (if q \<in> set (ancestors p) \<and> q \<noteq> [] \<and> \<not> is_dir d p then Some Dir else d q)"
    and "(\<exists>c m. d' q = Some (File c m)) \<Longrightarrow> d' q = d q"
    and "d q = Some (File c m) \<Longrightarrow> d' q = Some (File c m)"
  using assms by (auto simp: mkdir_all_def Let_def fold_mkdir list_ex_iff split: if_splits option.splits node.splits)

lemma path_in_ancestors: "p \<in> set (ancestors p)"
proof -
  let ?ps = "split_on (CHR ''/'') p"
  have "?ps \<noteq> []" by (cases p) (auto split: list.splits)
  then have "length ?ps \<in> set [1..<Suc (length ?ps)]" by (cases ?ps) auto
  moreover have "join ''/'' (take (length ?ps) ?ps) = p" by (simp add: join_split_on)
  ultimately show ?thesis unfolding ancestors_def Let_def set_map by (metis image_eqI)
qed

text \<open>A disk on which a run has gone on, seen from the disk it started on.\<close>

definition ahead :: "string set \<Rightarrow> disk \<Rightarrow> disk \<Rightarrow> bool" where
  "ahead S d d' \<longleftrightarrow> (\<forall>q c m. d' q = Some (File c m) \<longleftrightarrow> d q = Some (File c m)) \<and> (\<forall>q \<in> S. d' q = d q)"

lemma ahead_refl: "ahead S d d"
  by (simp add: ahead_def)

lemma ahead_below: "ahead S d d' \<Longrightarrow> below_file d' p = below_file d p"
proof -
  assume a: "ahead S d d'"
  have c: "(case x of Some (File c m) \<Rightarrow> True | _ \<Rightarrow> False) \<longleftrightarrow> (\<exists>c m. x = Some (File c m))" for x :: "node option"
    by (auto split: option.splits node.splits)
  from a have "(\<exists>c m. d' q = Some (File c m)) = (\<exists>c m. d q = Some (File c m))" for q by (simp add: ahead_def)
  then show ?thesis unfolding below_file_def c by simp
qed

lemma ahead_mkdir:
  assumes "ahead S d d'" and "mkdir_all fault d' p = Inr d2" and "\<And>q. q \<in> T \<Longrightarrow> q \<in> S \<and> \<not> has_prefix p q"
  shows "ahead T d d2"
  unfolding ahead_def
proof (intro conjI allI ballI)
  fix q c m
  show "(d2 q = Some (File c m)) = (d q = Some (File c m))"
    using mkdir_all_result(2) [OF assms(2), of q] mkdir_all_result(3) [OF assms(2), of q] assms(1)
    unfolding ahead_def by metis
next
  fix q
  assume "q \<in> T"
  with assms(3) have "q \<in> S" "q \<notin> set (ancestors p)" using ancestor_prefix by blast+
  with mkdir_all_result(1) [OF assms(2), of q] assms(1) show "d2 q = d q" by (simp add: ahead_def)
qed

lemma dirs_predicted:
  assumes "ensure_dirs lib fault False ws rels r d1 = (d2, Inr r2)"
    and "ahead (set (map (\<lambda>rel. join_path [ws, rel]) rels) \<union> F) d d1"
    and "later_apart (map (\<lambda>rel. join_path [ws, rel]) rels @ fs)" and "F = set fs"
  shows "ensure_dirs lib fault' True ws rels r d = (d, Inr r2) \<and> ahead F d d2"
  using assms
proof (induction rels arbitrary: r d1)
  case (Cons rel rels)
  let ?p = "join_path [ws, rel]" and ?S = "set (map (\<lambda>rel. join_path [ws, rel]) rels) \<union> F"
  from Cons.prems(1) have nc: "dl_cancelled lib rel = None" by (auto split: option.splits)
  have same: "d1 ?p = d ?p" using Cons.prems(2) by (simp add: ahead_def)
  have less: "ahead ?S d d1" using Cons.prems(2) by (simp add: ahead_def)
  have apart: "later_apart (map (\<lambda>rel. join_path [ws, rel]) rels @ fs)" "q \<in> ?S \<Longrightarrow> \<not> has_prefix ?p q" for q
    using Cons.prems(3,4) by (auto simp: list_all_iff)
  show ?case
  proof (cases "d ?p")
    case None
    with nc same Cons.prems(1) obtain d3 where nb: "\<not> below_file d1 ?p" and mk: "mkdir_all fault d1 ?p = Inr d3"
      and run: "ensure_dirs lib fault False ws rels (r\<lparr>dr_created := dr_created r @ [?p]\<rparr>) d3 = (d2, Inr r2)"
      by (auto simp: ensure_dir_def Let_def split: if_splits sum.splits)
    have "ahead ?S d d3" by (rule ahead_mkdir [OF less mk]) (use apart(2) in blast)
    from Cons.IH [OF run this apart(1) Cons.prems(4)] show ?thesis
      using None nc nb ahead_below [OF less] by (simp add: ensure_dir_def)
  next
    case (Some nd)
    with nc same Cons.prems(1) have "nd = Dir"
      and run: "ensure_dirs lib fault False ws rels (r\<lparr>dr_existing := dr_existing r @ [?p]\<rparr>) d1 = (d2, Inr r2)"
      by (auto simp: ensure_dir_def Let_def split: node.splits)
    from Cons.IH [OF run less apart(1) Cons.prems(4)] show ?thesis
      using Some \<open>nd = Dir\<close> nc by (simp add: ensure_dir_def)
  qed
qed simp

lemma files_predicted:
  assumes "write_all_generated fault force False fs r d1 = (d2, Inr r2)"
    and "\<And>q. q \<in> fst ` set fs \<Longrightarrow> d1 q = d q" and "distinct (map fst fs)"
  shows "write_all_generated fault' force True fs r d = (d, Inr r2)"
  using assms
proof (induction fs arbitrary: r d1)
  case (Cons f fs)
  obtain p c where f: "f = (p, c)" by (cases f)
  have same: "exists_path d1 p = exists_path d p" using Cons.prems(2) by (simp add: f exists_path_def)
  from Cons.prems(1) obtain d3 r3 where w: "write_generated fault force False p c r d1 = (d3, Inr r3)"
    and run: "write_all_generated fault force False fs r3 d3 = (d2, Inr r2)"
    by (auto simp: f io_bind_Inr)
  have "d3 q = d q" if "q \<in> fst ` set fs" for q
  proof -
    have "q \<noteq> p" using that Cons.prems(3) by (auto simp: f)
    then have "d3 q = d1 q" using w by (auto simp: write_generated_def split: if_splits sum.splits dest: write_other)
    with that Cons.prems(2) show ?thesis by simp
  qed
  from Cons.IH [OF run this] Cons.prems(3) have "write_all_generated fault' force True fs r3 d = (d, Inr r2)" by simp
  moreover have "write_generated fault' force True p c r d = (d, Inr r3)"
    using w same by (auto simp: write_generated_def split: if_splits sum.splits)
  ultimately show ?case by (simp add: f io_bind_step)
qed simp

lemma workspace_predicted:
  assumes "dev_workspace lib fault (opts\<lparr>dv_dry_run := False\<rparr>) base ws d = (d', Inr r)"
  shows "dev_workspace lib fault' (opts\<lparr>dv_dry_run := True\<rparr>) base ws d = (d, Inr r)"
proof -
  let ?r = "\<lparr>dr_base_dir = base, dr_workspace = ws, dr_created = [], dr_existing = [], dr_written = [], dr_skipped = []\<rparr>"
  let ?fs = "generated_files lib ws"
  from assms obtain d1 r1 where dirs: "ensure_dirs lib fault False ws workspace_dirs ?r d = (d1, Inr r1)"
    and files: "write_all_generated fault (dv_force opts) False ?fs r1 d1 = (d', Inr r)"
    by (auto simp: dev_workspace_def io_bind_Inr)
  from dirs_predicted [OF dirs ahead_refl paths_apart refl, of fault']
  have 1: "ensure_dirs lib fault' True ws workspace_dirs ?r d = (d, Inr r1)" and "ahead (set (map fst ?fs)) d d1" by simp_all
  then have "\<And>q. q \<in> fst ` set ?fs \<Longrightarrow> d1 q = d q" by (auto simp: ahead_def)
  moreover have "distinct (map fst ?fs)" using later_apart_distinct [OF paths_apart [of ws lib]] by (simp only: distinct_append)
  ultimately have "write_all_generated fault' (dv_force opts) True ?fs r1 d = (d, Inr r)" by (rule files_predicted [OF files])
  with 1 show ?thesis by (simp add: dev_workspace_def io_bind_step)
qed

lemma dry_dirs: "fst (ensure_dirs lib fault True ws rels r d) = d"
  by (induction rels arbitrary: r) (auto simp: ensure_dir_def Let_def split: option.split node.split)

lemma dry_files: "fst (write_all_generated fault force True fs r d) = d"
proof (induction fs arbitrary: r)
  case (Cons f fs)
  have "\<exists>r'. write_generated fault force True (fst f) (snd f) r d = (d, Inr r')" by (simp add: write_generated_def)
  then show ?case using Cons by (cases f) (auto simp: io_bind_step)
qed simp

lemma dry_workspace: "fst (dev_workspace lib fault (opts\<lparr>dv_dry_run := True\<rparr>) base ws d) = d"
  using dry_dirs [of lib fault ws workspace_dirs _ d] dry_files
  by (simp add: dev_workspace_def io_bind_def split: prod.split sum.split) (metis fst_conv)

text \<open>The run as the work on the workspace and what is printed of it.\<close>

definition output_of :: "dev_options \<Rightarrow> string" where
  "output_of opts = (if trim_space (dv_output opts) = [] then ''.localdev'' else dv_output opts)"

definition printed :: "dev_options \<Rightarrow> dev_error + dev_result \<Rightarrow> string" where
  "printed opts res =
     (if dv_dry_run opts then text_lines [''DRY RUN: no files will be created or modified.''] else []) @
     (case res of Inl e \<Rightarrow> [] | Inr r \<Rightarrow> dev_summary opts r)"

lemma dev_output_unused [simp]:
  "dev_workspace lib fault (opts\<lparr>dv_output := x\<rparr>) = dev_workspace lib fault opts" "dev_summary (opts\<lparr>dv_output := x\<rparr>) = dev_summary opts"
  by (simp_all add: dev_workspace_def dev_summary_def fun_eq_iff)

lemma run_dev_init_eq:
  "run_dev_init lib fault opts d =
     (case resolve_base_dir lib (dv_base_dir opts) of
        Inl e \<Rightarrow> (d, [], Inl e)
      | Inr base \<Rightarrow>
          (case dev_workspace lib fault opts base (resolve_workspace base (output_of opts)) d of
             (d', res) \<Rightarrow> (d', printed opts res, res)))"
  by (simp add: run_dev_init_def output_of_def printed_def Let_def split: sum.split prod.split)

lemma run_dev_init_proj:
  "fst (run_dev_init lib fault opts d) =
     (case resolve_base_dir lib (dv_base_dir opts) of
        Inl e \<Rightarrow> d | Inr base \<Rightarrow> fst (dev_workspace lib fault opts base (resolve_workspace base (output_of opts)) d))"
  "snd (snd (run_dev_init lib fault opts d)) =
     (case resolve_base_dir lib (dv_base_dir opts) of
        Inl e \<Rightarrow> Inl e | Inr base \<Rightarrow> snd (dev_workspace lib fault opts base (resolve_workspace base (output_of opts)) d))"
  by (simp_all add: run_dev_init_eq split: sum.split prod.split)

lemma output_of_dry [simp]: "output_of (opts\<lparr>dv_dry_run := b\<rparr>) = output_of opts"
  by (simp add: output_of_def)

text \<open>
  C30. A dry run never changes the disk, and when the real run succeeds, the dry run has reported the
  same directories and files as created, existing, written and skipped.
\<close>

theorem dry_run_predicts:
  "fst (run_dev_init lib fault' (opts\<lparr>dv_dry_run := True\<rparr>) d) = d \<and>
   (\<forall>d' out r. run_dev_init lib fault (opts\<lparr>dv_dry_run := False\<rparr>) d = (d', out, Inr r) \<longrightarrow>
     snd (snd (run_dev_init lib fault' (opts\<lparr>dv_dry_run := True\<rparr>) d)) = Inr r)"
proof (cases "resolve_base_dir lib (dv_base_dir opts)")
  case (Inr base)
  let ?ws = "resolve_workspace base (output_of opts)"
  have "fst (run_dev_init lib fault' (opts\<lparr>dv_dry_run := True\<rparr>) d) = d"
    using dry_workspace [of lib fault' opts base ?ws d] Inr by (simp add: run_dev_init_proj)
  moreover have "snd (snd (run_dev_init lib fault' (opts\<lparr>dv_dry_run := True\<rparr>) d)) = Inr r"
    if "run_dev_init lib fault (opts\<lparr>dv_dry_run := False\<rparr>) d = (d', out, Inr r)" for d' out r
  proof -
    from that Inr have "dev_workspace lib fault (opts\<lparr>dv_dry_run := False\<rparr>) base ?ws d = (d', Inr r)"
      by (simp add: run_dev_init_eq split: prod.splits)
    from workspace_predicted [OF this, of fault'] Inr show ?thesis by (simp add: run_dev_init_eq)
  qed
  ultimately show ?thesis by blast
qed (simp add: run_dev_init_eq)

section \<open>Keeping files\<close>

lemma ensure_dirs_keeps_files:
  "d p = Some (File c m) \<Longrightarrow> fst (ensure_dirs lib fault dry ws rels r d) p = Some (File c m)"
proof (induction rels arbitrary: r d)
  case (Cons rel rels)
  obtain d1 res where e: "ensure_dir fault dry (join_path [ws, rel]) d = (d1, res)" by fastforce
  have d1: "d1 p = Some (File c m)"
    using Cons.prems e by (auto simp: ensure_dir_def split: option.splits node.splits sum.splits if_splits dest: mkdir_all_result(3))
  then have "fst (ensure_dirs lib fault dry ws rels r' d1) p = Some (File c m)" for r' by (rule Cons.IH)
  then show ?case using Cons.prems d1 by (simp add: Let_def e split: option.split sum.split)
qed simp

lemma write_generated_keeps_files:
  "d p = Some (File c m) \<Longrightarrow> fst (write_generated fault False dry q x r d) p = Some (File c m)"
  by (auto simp: write_generated_def exists_path_def write_other split: sum.split) (metis option.discI write_other)

lemma write_all_generated_keeps_files: "keeps_files (write_all_generated fault False dry fs r)"
proof (induction fs arbitrary: r)
  case (Cons f fs)
  have "keeps_files (write_generated fault False dry q x r)" for q x
    unfolding keeps_files_def by (simp add: write_generated_keeps_files)
  then show ?case using Cons by (cases f) (auto intro: keeps)
qed (auto intro: keeps)

text \<open>Without \<open>--force\<close> the command leaves every file as it is, whether it succeeds or fails.\<close>

theorem dev_init_keeps_files:
  assumes "\<not> dv_force opts" and "d p = Some (File c m)"
  shows "fst (run_dev_init lib fault opts d) p = Some (File c m)"
proof -
  have "keeps_files (dev_workspace lib fault opts base ws)" for base ws
    unfolding dev_workspace_def using assms(1)
    by (intro keeps_files_bind) (simp_all add: write_all_generated_keeps_files, simp add: keeps_files_def ensure_dirs_keeps_files)
  with assms(2) show ?thesis by (simp add: run_dev_init_proj keeps_files_def split: sum.split)
qed

section \<open>Running twice\<close>

text \<open>Directories stay directories and paths stay, whatever the run does.\<close>

definition grows :: "disk \<Rightarrow> disk \<Rightarrow> bool" where
  "grows d d' \<longleftrightarrow> (\<forall>q. (d q = Some Dir \<longrightarrow> d' q = Some Dir) \<and> (d q \<noteq> None \<longrightarrow> d' q \<noteq> None))"

lemma grows_refl: "grows d d" and grows_trans: "grows d d1 \<Longrightarrow> grows d1 d2 \<Longrightarrow> grows d d2"
  by (simp_all add: grows_def)

lemma grows_mkdir: "mkdir_all fault d p = Inr d' \<Longrightarrow> grows d d' \<and> (p \<noteq> [] \<longrightarrow> d' p = Some Dir)"
  using mkdir_all_result(1) [of fault d p d'] path_in_ancestors [of p] by (auto simp: grows_def is_dir_def)

lemma grows_write: "write_file fault d p x m = Inr d' \<Longrightarrow> grows d d' \<and> exists_path d' p"
  by (auto simp: write_file_def grows_def exists_path_def split: option.splits node.splits if_splits)

lemma joined_path_nonempty: "x \<noteq> [] \<Longrightarrow> join_path [ws, x] \<noteq> []"
  using clean_path_nonempty by (simp add: join_path_before)

lemma dirs_made:
  assumes "ensure_dirs lib fault False ws rels r d = (d', Inr r')" and "[] \<notin> set rels"
  shows "grows d d' \<and> (\<forall>rel \<in> set rels. d' (join_path [ws, rel]) = Some Dir \<and> dl_cancelled lib rel = None)"
  using assms
proof (induction rels arbitrary: r d)
  case (Cons rel rels)
  let ?p = "join_path [ws, rel]"
  obtain d1 b where nc: "dl_cancelled lib rel = None" and e: "ensure_dir fault False ?p d = (d1, Inr b)"
    and run: "\<exists>r1. ensure_dirs lib fault False ws rels r1 d1 = (d', Inr r')"
    using Cons.prems(1) by (auto simp: Let_def split: option.splits prod.splits sum.splits)
  have "grows d d1 \<and> d1 ?p = Some Dir"
    using e Cons.prems(2) joined_path_nonempty [of rel ws] grows_mkdir [of fault d ?p d1]
    by (auto simp: ensure_dir_def grows_refl split: option.splits node.splits sum.splits if_splits)
  moreover from run Cons.IH Cons.prems(2) have "grows d1 d' \<and> (\<forall>rel \<in> set rels. d' (join_path [ws, rel]) = Some Dir \<and> dl_cancelled lib rel = None)"
    by auto
  ultimately show ?case using nc grows_trans by (auto simp: grows_def)
qed (simp add: grows_refl)

lemma files_made:
  "write_all_generated fault force False fs r d = (d', Inr r') \<Longrightarrow>
     grows d d' \<and> (\<forall>p \<in> fst ` set fs. exists_path d' p)"
proof (induction fs arbitrary: r d)
  case (Cons f fs)
  obtain p c where f: "f = (p, c)" by (cases f)
  with Cons.prems obtain d1 r1 where w: "write_generated fault force False p c r d = (d1, Inr r1)"
    and run: "write_all_generated fault force False fs r1 d1 = (d', Inr r')" by (auto simp: io_bind_Inr)
  have "grows d d1 \<and> exists_path d1 p"
    using w grows_write [of fault d p c 420 d1] by (auto simp: write_generated_def grows_refl split: if_splits sum.splits)
  with Cons.IH [OF run] show ?case unfolding f by (auto simp: grows_def exists_path_def)
qed (simp add: grows_refl)

lemma dirs_again:
  "(\<And>rel. rel \<in> set rels \<Longrightarrow> d (join_path [ws, rel]) = Some Dir \<and> dl_cancelled lib rel = None) \<Longrightarrow>
     ensure_dirs lib fault dry ws rels r d = (d, Inr (r\<lparr>dr_existing := dr_existing r @ map (\<lambda>rel. join_path [ws, rel]) rels\<rparr>))"
  by (induction rels arbitrary: r) (simp_all add: ensure_dir_def Let_def)

lemma files_again:
  "(\<And>p. p \<in> fst ` set fs \<Longrightarrow> exists_path d p) \<Longrightarrow>
     write_all_generated fault False dry fs r d = (d, Inr (r\<lparr>dr_skipped := dr_skipped r @ map fst fs\<rparr>))"
proof (induction fs arbitrary: r)
  case (Cons f fs)
  then show ?case by (cases f) (simp add: write_generated_def io_bind_def)
qed simp

text \<open>
  After a successful run, a run without \<open>--force\<close> changes nothing: every directory exists, every
  generated file is skipped, and nothing is created or written.
\<close>

theorem dev_init_idempotent:
  assumes "run_dev_init lib fault (opts\<lparr>dv_dry_run := False\<rparr>) d = (d', out, Inr r)"
  shows "\<exists>out' r'. run_dev_init lib fault' (opts\<lparr>dv_dry_run := False, dv_force := False\<rparr>) d' = (d', out', Inr r') \<and>
    dr_created r' = [] \<and> dr_written r' = [] \<and> length (dr_existing r') = 9 \<and> length (dr_skipped r') = 4"
proof -
  from assms obtain base where base: "resolve_base_dir lib (dv_base_dir opts) = Inr base"
    by (simp add: run_dev_init_eq split: sum.splits)
  let ?ws = "resolve_workspace base (output_of opts)"
  let ?r = "\<lparr>dr_base_dir = base, dr_workspace = ?ws, dr_created = [], dr_existing = [], dr_written = [], dr_skipped = []\<rparr>"
  from assms base obtain d1 r1 where dirs: "ensure_dirs lib fault False ?ws workspace_dirs ?r d = (d1, Inr r1)"
    and files: "write_all_generated fault (dv_force opts) False (generated_files lib ?ws) r1 d1 = (d', Inr r)"
    by (auto simp: run_dev_init_eq dev_workspace_def io_bind_Inr split: prod.splits)
  have "[] \<notin> set workspace_dirs" by (simp add: workspace_dirs_names workspace_names_def)
  with dirs_made [OF dirs] files_made [OF files]
  have "d' (join_path [?ws, rel]) = Some Dir \<and> dl_cancelled lib rel = None" if "rel \<in> set workspace_dirs" for rel
    using that by (auto simp: grows_def)
  from dirs_again [of workspace_dirs d' ?ws lib fault' False ?r, OF this]
  have 1: "ensure_dirs lib fault' False ?ws workspace_dirs ?r d' =
      (d', Inr (?r\<lparr>dr_existing := map (\<lambda>rel. join_path [?ws, rel]) workspace_dirs\<rparr>))" by simp
  have "exists_path d' p" if "p \<in> fst ` set (generated_files lib ?ws)" for p
    using files_made [OF files] that by blast
  from files_again [of "generated_files lib ?ws" d', OF this]
  have 2: "write_all_generated fault' False False (generated_files lib ?ws) r2 d' =
      (d', Inr (r2\<lparr>dr_skipped := dr_skipped r2 @ map fst (generated_files lib ?ws)\<rparr>))" for r2 by simp
  have o: "output_of (opts\<lparr>dv_dry_run := False, dv_force := False\<rparr>) = output_of opts" by (simp add: output_of_def)
  have "dev_workspace lib fault' (opts\<lparr>dv_dry_run := False, dv_force := False\<rparr>) base ?ws d' =
      (d', Inr (?r\<lparr>dr_existing := map (\<lambda>rel. join_path [?ws, rel]) workspace_dirs,
        dr_skipped := map fst (generated_files lib ?ws)\<rparr>))"
    by (simp add: dev_workspace_def io_bind_def 1 2)
  then show ?thesis
    using base by (simp add: run_dev_init_eq o workspace_dirs_names workspace_names_def generated_files_def)
qed

section \<open>A concrete workspace\<close>

lemma dirs_succeed:
  assumes "\<And>q c m. d q \<noteq> Some (File c m)" and "\<And>rel. dl_cancelled lib rel = None"
  shows "\<exists>d' r'. ensure_dirs lib (\<lambda>p. None) False ws rels r d = (d', Inr r')"
  using assms(1)
proof (induction rels arbitrary: r d)
  case (Cons rel rels)
  let ?p = "join_path [ws, rel]"
  have nb: "\<not> below_file d ?p" "\<not> list_ex (\<lambda>a. case d a of Some (File c m) \<Rightarrow> True | _ \<Rightarrow> False) as" for as
    using Cons.prems by (auto simp: below_file_def list_ex_iff split: option.splits node.splits)
  then obtain d1 b where e: "ensure_dir (\<lambda>p. None) False ?p d = (d1, Inr b)" and nf: "\<And>q c m. d1 q \<noteq> Some (File c m)"
  proof (cases "d ?p")
    case None
    have "\<exists>d1. mkdir_all (\<lambda>p. None) d ?p = Inr d1" using nb(2) by (simp add: mkdir_all_def Let_def)
    then obtain d1 where "mkdir_all (\<lambda>p. None) d ?p = Inr d1" by blast
    with None nb(1) Cons.prems mkdir_all_result(2) [OF this] that show ?thesis by (simp add: ensure_dir_def) metis
  next
    case (Some nd)
    with Cons.prems [of ?p] have "nd = Dir" by (cases nd) auto
    with Some Cons.prems show ?thesis by (intro that [of d False]) (simp_all add: ensure_dir_def)
  qed
  from Cons.IH [OF nf] show ?case by (simp add: assms(2) Let_def e)
qed simp

lemma files_succeed:
  assumes "\<forall>p \<in> fst ` set fs. d p = None \<and> is_dir d (parent_path p)" and "distinct (map fst fs)"
  shows "\<exists>d' r'. write_all_generated (\<lambda>p. None) force False fs r d = (d', Inr r')"
  using assms
proof (induction fs arbitrary: d r)
  case (Cons f fs)
  obtain p c where f: "f = (p, c)" by (cases f)
  have p: "d p = None" "is_dir d (parent_path p)" using Cons.prems(1) by (simp_all add: f)
  let ?d = "d(p \<mapsto> File c 420)"
  have free: "\<forall>q \<in> fst ` set fs. ?d q = None \<and> is_dir ?d (parent_path q)"
  proof
    fix q assume "q \<in> fst ` set fs"
    then have "d q = None" "is_dir d (parent_path q)" "q \<noteq> p" using Cons.prems by (auto simp: f)
    then show "?d q = None \<and> is_dir ?d (parent_path q)" using p(1) by (auto simp: is_dir_def)
  qed
  have dist: "distinct (map fst fs)" using Cons.prems(2) by simp
  have "\<exists>d' r'. write_all_generated (\<lambda>p. None) force False fs r1 ?d = (d', Inr r')" for r1
    by (rule Cons.IH [OF free dist])
  moreover have "write_generated (\<lambda>p. None) force False p c r d = (?d, Inr (r\<lparr>dr_written := dr_written r @ [p]\<rparr>))"
    using p by (simp add: write_generated_def write_file_def exists_path_def)
  ultimately show ?case by (simp add: f io_bind_def)
qed simp

definition demo_dev :: dev_lib where
  "demo_dev = \<lparr>dl_cwd = Inr ''/w'', dl_cancelled = \<lambda>rel. None, dl_order = id\<rparr>"

definition demo_dev_options :: dev_options where
  "demo_dev_options = \<lparr>dv_base_dir = [], dv_output = ''.localdev'', dv_force = False, dv_dry_run = False, dv_verbose = True\<rparr>"

definition demo_dev_disk :: disk where
  "demo_dev_disk = [''/w'' \<mapsto> Dir, ''/w/.localdev'' \<mapsto> Dir]"

lemma demo_workspace:
  "resolve_workspace ''/w'' ''.localdev'' = ''/w/.localdev''" "output_of demo_dev_options = ''.localdev''"
  "resolve_base_dir demo_dev (dv_base_dir demo_dev_options) = Inr ''/w''" "dir_prefix ''/w/.localdev'' = ''/w/.localdev/''"
  by code_simp+

lemma demo_parents:
  "map (\<lambda>n. parent_path (''/w/.localdev/'' @ n)) file_names =
     [''/w/.localdev/config'', ''/w/.localdev/config/rbac'', ''/w/.localdev'', ''/w/.localdev'']"
  by code_simp

lemma demo_dev_run:
  "\<exists>d' out r. run_dev_init demo_dev (\<lambda>p. None) (demo_dev_options\<lparr>dv_dry_run := False\<rparr>) demo_dev_disk = (d', out, Inr r)"
proof -
  let ?ws = "''/w/.localdev''" and ?fs = "generated_files demo_dev ''/w/.localdev''"
  let ?r = "\<lparr>dr_base_dir = ''/w'', dr_workspace = ?ws, dr_created = [], dr_existing = [], dr_written = [], dr_skipped = []\<rparr>"
  have "\<exists>d1 r1. ensure_dirs demo_dev (\<lambda>p. None) False ?ws workspace_dirs ?r demo_dev_disk = (d1, Inr r1)"
    by (rule dirs_succeed) (simp_all add: demo_dev_disk_def demo_dev_def)
  then obtain d1 r1 where dirs: "ensure_dirs demo_dev (\<lambda>p. None) False ?ws workspace_dirs ?r demo_dev_disk = (d1, Inr r1)" by blast
  have names: "map fst ?fs = map (\<lambda>n. ''/w/.localdev/'' @ n) file_names" by (simp only: file_paths demo_workspace)
  have ne: "[] \<notin> set workspace_dirs" by (simp add: workspace_dirs_names workspace_names_def)
  have made: "d1 (join_path [?ws, rel]) = Some Dir" if "rel \<in> set workspace_dirs" for rel
    using dirs_made [OF dirs ne] that by blast
  have "d1 (''/w/.localdev/'' @ n) = Some Dir" if "n \<in> set workspace_names" for n
  proof -
    have "''/w/.localdev/'' @ n \<in> set (map (\<lambda>rel. join_path [?ws, rel]) workspace_dirs)"
      unfolding workspace_paths demo_workspace using that by simp
    then show ?thesis using made by auto
  qed
  from this [of "''config''"] this [of "''config/rbac''"]
  have "d1 ''/w/.localdev/config'' = Some Dir" "d1 ''/w/.localdev/config/rbac'' = Some Dir"
    by (simp_all add: workspace_names_def)
  moreover have "d1 ''/w/.localdev'' = Some Dir"
    using dirs_made [OF dirs ne] by (simp add: grows_def demo_dev_disk_def)
  ultimately have parents: "list_all (\<lambda>n. is_dir d1 (parent_path (''/w/.localdev/'' @ n))) file_names"
    using demo_parents by (simp add: file_names_def is_dir_def)
  have "ahead (set (map fst ?fs)) demo_dev_disk d1"
    using dirs_predicted [OF dirs ahead_refl paths_apart refl, of "\<lambda>p. None"] by simp
  then have "d1 (''/w/.localdev/'' @ n) = demo_dev_disk (''/w/.localdev/'' @ n)" if "n \<in> set file_names" for n
    using that unfolding names by (simp add: ahead_def)
  moreover have "list_all (\<lambda>n. demo_dev_disk (''/w/.localdev/'' @ n) = None) file_names"
    by (simp add: file_names_def demo_dev_disk_def)
  ultimately have "d1 (''/w/.localdev/'' @ n) = None \<and> is_dir d1 (parent_path (''/w/.localdev/'' @ n))" if "n \<in> set file_names" for n
    using that parents by (simp add: list_all_iff)
  then have "\<forall>p \<in> fst ` set ?fs. d1 p = None \<and> is_dir d1 (parent_path p)"
    unfolding set_map [symmetric] names by auto
  moreover have "distinct (map fst ?fs)" using later_apart_distinct [OF paths_apart [of ?ws demo_dev]] by (simp only: distinct_append)
  ultimately have "\<exists>d' r'. write_all_generated (\<lambda>p. None) (dv_force demo_dev_options) False ?fs r1 d1 = (d', Inr r')" by (rule files_succeed)
  then have "\<exists>d' r. dev_workspace demo_dev (\<lambda>p. None) (demo_dev_options\<lparr>dv_dry_run := False\<rparr>) ''/w'' ?ws demo_dev_disk = (d', Inr r)"
    by (simp add: dev_workspace_def io_bind_def dirs)
  then show ?thesis by (auto simp: run_dev_init_eq demo_workspace)
qed

theorem dry_run_predicts_witness:
  "\<exists>d' out r. run_dev_init demo_dev (\<lambda>p. None) (demo_dev_options\<lparr>dv_dry_run := False\<rparr>) demo_dev_disk = (d', out, Inr r) \<and>
     snd (snd (run_dev_init demo_dev (\<lambda>p. None) (demo_dev_options\<lparr>dv_dry_run := True\<rparr>) demo_dev_disk)) = Inr r"
  using demo_dev_run dry_run_predicts [of demo_dev "\<lambda>p. None" demo_dev_options demo_dev_disk "\<lambda>p. None"] by blast

theorem dev_init_keeps_files_witness:
  "fst (run_dev_init demo_dev (\<lambda>p. None) demo_dev_options (demo_dev_disk(''/w/.localdev/README.txt'' \<mapsto> File ''mine'' 384)))
     ''/w/.localdev/README.txt'' = Some (File ''mine'' 384)"
  by (rule dev_init_keeps_files) (simp_all add: demo_dev_options_def)

theorem dev_init_idempotent_witness:
  "\<exists>d' out' r'. run_dev_init demo_dev (\<lambda>p. None) (demo_dev_options\<lparr>dv_dry_run := False, dv_force := False\<rparr>) d' = (d', out', Inr r') \<and>
     dr_written r' = [] \<and> length (dr_skipped r') = 4"
  using demo_dev_run dev_init_idempotent [of demo_dev "\<lambda>p. None" demo_dev_options demo_dev_disk] by blast

end
