(* ===== verification/Spec2Isabelle.thy ===== *)
theory Spec2Isabelle
  imports Programs Metrics Api_Properties Status_Properties Rbac_Properties Admin_Ca_Properties Client_Properties Irtop_View Monitoring
    Dev_Properties
begin

text \<open>
  IronRoot is a small PKI: an HTTP server with an SQL database issues, renews and revokes TLS
  certificates of hosts that enrolled with a bootstrap token, under an intermediate CA whose root
  is kept offline. The development models its Go code (paths below are relative to the repository)
  and proves what each part promises and what they promise together.

  The parts and how they interact. \<open>cmd/server\<close> loads the configuration, opens and migrates
  the store, applies RBAC manifests, loads the signing authority and serves the HTTP interface. The
  handlers call the store (\<open>internal/db\<close>), enrollment, the authority
  (\<open>internal/ca\<close>) and the audit ledger (\<open>internal/audit\<close>).
  \<open>ironroot-admin\<close> works on the same store and on CA files, \<open>ironroot-client\<close>
  calls the HTTP interface and writes key and certificate files, \<open>irtop\<close> polls the status
  endpoints and shows them in a terminal, \<open>ironroot-dev\<close> prepares a workspace. The security
  self-check reads the configuration, the machine and the ledger.

  How the code is modelled. Structs are records, enumerations and error values are datatypes, a Go
  function that can fail returns a sum (\<open>Inl\<close> the error), a handler takes the server and
  returns it with the answer. Strings are lists of bytes (\<open>char list\<close>), with Go's own byte
  and rune functions written out in \<open>Prelude\<close> where the program calls them. Times are
  integers in nanoseconds and durations are int64 values whose overflow is written out
  (\<open>Prelude\<close>, \<open>Clock\<close>); key usage bits are words. What the program reads from
  its surroundings (the clock, random bytes, new UUIDs) is an environment \<open>env\<close>, one value
  per reading. A command that works on files is an \<open>io\<close>: it takes the \<open>disk\<close>
  (a map from paths to files) and returns it with the result; a \<open>fault\<close> decides which file
  operations fail, so every partial failure is a run of the model.

  Theories, in order.
  * \<open>Prelude\<close> (proof collections, time, Go's package strings, numbers as text), \<open>Files\<close> (os and
    path/filepath on a disk, the \<open>io\<close> operations and their laws), \<open>Paths\<close> (filepath.Clean and
    Join), \<open>Clock\<close> (the parts of package time: dates, layouts, ParseDuration).
  * \<open>Tables\<close> (tables with a primary key; the locales \<open>keyed_table\<close> and \<open>unique_table\<close>), \<open>Store\<close>
    (\<open>internal/db\<close>: rows, schema, every repository method; the interpretations of the table
    locales), \<open>Store_Invariant\<close> (what the constraints promise, kept by every method; the token
    table refines a map from hashes).
  * \<open>Config\<close> (\<open>internal/config\<close>, \<open>internal/telemetry\<close>), \<open>Meter\<close> (the instruments of
    \<open>internal/telemetry/metrics.go\<close> and their series), \<open>Crypto\<close> (\<open>internal/crypto\<close>), \<open>Ledger\<close>
    (\<open>internal/audit\<close> and the verification loop of \<open>internal/securitycheck/checks.go\<close>, over the
    locale \<open>hash_chain\<close>), \<open>Enrollment\<close> (\<open>internal/enrollment\<close>), \<open>Authority\<close>
    (\<open>internal/ca/authority.go\<close>; the locale \<open>signing_authority\<close>, interpreted on the file authority
    and on the disabled one).
  * \<open>Api\<close> (\<open>internal/api/handlers.go\<close>, \<open>router.go\<close>; handlers and middleware add to the meter where
    the code calls \<open>Add\<close>), \<open>Api_Contract\<close> and \<open>Api_Properties\<close> (every
    request is a sequence of store methods; what each answer says about the store).
  * \<open>Server\<close> (\<open>cmd/server/main.go\<close>: the start sequence with the panic a damaged key file causes, the
    listener, the exit status), \<open>Deployment\<close>
    (a database, server processes that come and go, and the token commands, as the step relation
    \<open>deployment_step\<close>; the properties that hold across restarts).
  * \<open>Programs\<close> (the exit statuses of the other programs, and the self-check as a gate before a
    start), \<open>Metrics\<close> (what a run of the server leaves in the series of its meter; what commands,
    queries and checks add, \<open>internal/telemetry/helpers.go\<close>).
  * \<open>Status\<close>, \<open>Hierarchy\<close> (\<open>internal/api/status.go\<close>), \<open>Status_Properties\<close>.
  * \<open>Rbac\<close>, \<open>Rbac_Properties\<close> (\<open>internal/rbac/loader.go\<close>).
  * \<open>Ca_Local\<close>, \<open>Ca_Local_Properties\<close> (\<open>internal/ca/localpki.go\<close>).
  * \<open>Security_Model\<close>, \<open>Security_Bootstrap\<close>, \<open>Security_Checks\<close>, \<open>Security_Properties\<close>
    (\<open>internal/securitycheck\<close>; the locale \<open>self_check\<close>).
  * \<open>Admin_Tokens\<close>, \<open>Admin_Token_Properties\<close>, \<open>Admin_Ca\<close>, \<open>Admin_Ca_Properties\<close>
    (\<open>internal/cli/admin/admin.go\<close>).
  * \<open>Api_Client\<close> (\<open>pkg/client/client.go\<close>, and the modelled server as the network it talks to),
    \<open>Client_Cli\<close>, \<open>Client_Properties\<close> (\<open>internal/cli/client/client.go\<close>).
  * \<open>Irtop_Config\<close>, \<open>Irtop_Client\<close>, \<open>Irtop_Model\<close>, \<open>Irtop_View\<close>, \<open>Irtop_Properties\<close>
    (\<open>internal/irtop\<close>, \<open>cmd/irtop\<close>; the monitor as a step relation \<open>monitor_step\<close> over sessions of
    pending commands, the locale \<open>status_source\<close> for what answers its requests).
  * \<open>Wire\<close> (the JSON of the status endpoints by the struct tags of \<open>internal/api/status.go\<close>, and how
    the structs of \<open>internal/irtop/types.go\<close> read it), \<open>Monitoring\<close> (the status handlers as the
    network of the monitor: what it shows is what the store holds).
  * \<open>Dev_Init\<close>, \<open>Dev_Properties\<close> (\<open>internal/cli/dev/devinit.go\<close>).

  What the lemmas show. Invariants: uniqueness and reference constraints of the store in every reachable
  state of a deployment, consistency of the monitor in every reachable session. Function and error
  behaviour: exactly when a host is enrolled, a certificate is issued, renewed or refused, and what is
  then in the store, the ledger and on the client's disk. Safety: revoked certificates stay revoked
  across restarts, every certificate has an issuer that was loaded, what the authority answers is a
  certificate for the key that was asked for, no half-declared CA or role enters the tables, files are
  not overwritten (one probe file aside), tokens and data of a monitor profile stay with it and its
  requests lead to the configured host, the CA certificates are constrained as intended.
  Equivalence and refinement: the token table refines a map, summaries agree with listings, the monitor
  shows what the server computes, the dry run predicts the run. Round trips: encrypted keys and
  generated passwords are read back. Termination and liveness: the PEM loop ends, and a fairly run
  monitor with a reachable server shows its data. Some theorems state faults that the code has, such as
  \<open>honest_long_ledger_rejected\<close>, \<open>renew_bypasses_enrollment\<close>,
  \<open>active_gauge_is_split\<close>, \<open>refused_request_still_issues\<close> and
  \<open>unusable_profile_stuck\<close>.

  Bounds and fuel. Recursion is structural or has a measure (the duration parser, replacing substrings).
  Only the PEM loop of the status pages carries fuel: the length of the text plus one, since a block
  takes at least one byte; \<open>pem_loop_returns\<close> shows that the unbounded loop returns and
  that it returns the same. Lists of the database are bounded as in the code (500 ledger entries).

  Parameters. Code that is not in the repository is an argument of the definitions: SHA-256, PBKDF2 and
  AES-GCM (\<open>cipher_suite\<close>), X.509 and PEM (\<open>x509_lib\<close>,
  \<open>local_lib\<close>), YAML and environment decoding, the text form of JSON (the fields and their
  tags are modelled for the status endpoints; \<open>Wire\<close> gives keys their exact spelling and
  every time a text), URL parsing, the TLS pool, the network, the widths and colours of the terminal
  library, the random order of Go's map iteration. What a theorem needs of them is a hypothesis of it,
  such as that decryption inverts encryption; each such theorem has a witness that instantiates them.

  Simplifications of the surroundings. A write that fails leaves the old content of its file, although
  \<open>os.WriteFile\<close> truncates it first, and a disk has no symbolic links (\<open>Files\<close>). A network is the
  whole \<open>http.Client\<close>: it is handed a request and gives the last answer, so that redirects, which
  every client of the repository follows to any host, and the proxy of the environment are inside it
  (\<open>Irtop_Client\<close>, \<open>Api_Client\<close>). Trimming and case folding are ASCII where Go's are Unicode; the
  days that remain are computed exactly where Go uses floating point.

  Not modelled. Cobra's flag handling and viper's merging, signals, sockets and timeouts, the SQL
  engine's connections and locking (a method is one atomic step), the OpenTelemetry exporters, spans and
  durations, the helpers of the Go tests (\<open>internal/testutil\<close>), and the text of help
  messages. \<close>

end
